(* ===== verification/Prelude.thy ===== *)
theory Prelude
  imports Main "HOL-Library.Word" "HOL-Library.Multiset"
begin

text \<open>
  Shared vocabulary of the development: Go's \<open>error\<close> values, results with early
  returns and panics, stateful actions in the order the code runs them, the \<open>uuid\<close>
  type, 64-bit integers, and the contract of the transaction manager that the inventory and the
  order service both receive as the interface \<open>TxManager\<close>.

  Error texts are not modelled beyond the format string: \<open>fmt.Errorf("ctx: %w", e)\<close> is
  \<open>Wrap ''ctx'' e\<close>, with the arguments of the other verbs left out.
\<close>

named_theorems act_simps \<open>unfolding of the action combinators\<close>
named_theorems model_defs \<open>definitions of operations to be unfolded together\<close>

subsection \<open>Identifiers and integers\<close>

text \<open>A \<open>uuid.UUID\<close> is an array of 16 bytes; \<open>uuid.Nil\<close> is the zero array.\<close>

type_synonym uuid = "128 word"

abbreviation uuid_Nil :: uuid where
  "uuid_Nil \<equiv> 0"

text \<open>
  The package \<open>github.com/google/uuid\<close> is not part of the repository: its printer and its
  parser are parameters. The documented law the services rely on is that a printed identifier
  parses back to itself and is not the empty string.
\<close>

record uuid_lib =
  uuid_String :: "uuid \<Rightarrow> string"
  uuid_Parse :: "string \<Rightarrow> uuid option"

definition uuid_lib_ok :: "uuid_lib \<Rightarrow> bool" where
  "uuid_lib_ok U \<longleftrightarrow>
     (\<forall>u. uuid_Parse U (uuid_String U u) = Some u) \<and> uuid_Parse U [] = None"

lemma uuid_lib_parse: "uuid_lib_ok U \<Longrightarrow> uuid_Parse U (uuid_String U u) = Some u"
  by (simp add: uuid_lib_ok_def)

lemma uuid_lib_nonempty: "uuid_lib_ok U \<Longrightarrow> uuid_String U u \<noteq> []"
  by (metis option.distinct(1) uuid_lib_ok_def)

text \<open>A concrete instance, for the witnesses: unary notation after a leading character.\<close>

definition unary_uuid_lib :: uuid_lib where
  "unary_uuid_lib =
     \<lparr>uuid_String = (\<lambda>u. CHR ''u'' # replicate (unat u) CHR ''x''),
      uuid_Parse = (\<lambda>s. case s of [] \<Rightarrow> None | c # cs \<Rightarrow> Some (of_nat (length cs)))\<rparr>"

lemma unary_uuid_lib_ok: "uuid_lib_ok unary_uuid_lib"
  by (simp add: uuid_lib_ok_def unary_uuid_lib_def)

text \<open>
  A \<open>[]byte\<close>, and Go's conversions between strings and byte slices: a Go string is a sequence of
  bytes, and the characters here are bytes too.
\<close>

type_synonym bytes = "8 word list"

definition bytes_of :: "string \<Rightarrow> bytes" where
  "bytes_of s = map (\<lambda>c. of_nat (of_char c)) s"

definition string_of :: "bytes \<Rightarrow> string" where
  "string_of bs = map (\<lambda>b. char_of (unat b)) bs"

lemma string_of_bytes_of [simp]: "string_of (bytes_of s) = s"
proof -
  have "char_of (unat (of_nat (of_char c) :: 8 word)) = c" for c
  proof -
    have "of_char c < (2::nat) ^ LENGTH(8)" using nat_of_char_less_256 [of c] by simp
    then have "unat (of_nat (of_char c) :: 8 word) = of_char c" by (simp add: unat_of_nat take_bit_nat_eq_self)
    then show ?thesis by simp
  qed
  then show ?thesis by (simp add: string_of_def bytes_of_def comp_def map_idI)
qed

lemma bytes_of_eq_Nil [simp]: "bytes_of s = [] \<longleftrightarrow> s = []"
  by (simp add: bytes_of_def)

text \<open>Instants of \<open>time.Time\<close> and lengths of \<open>time.Duration\<close>, in nanoseconds.\<close>

type_synonym time = int
type_synonym duration = int

text \<open>Go's \<open>int\<close> and \<open>int64\<close>: two's complement on 64 bits, wrap-around written out.\<close>

definition wrap64 :: "int \<Rightarrow> int" where
  "wrap64 x = (x + 2 ^ 63) mod 2 ^ 64 - 2 ^ 63"

definition in64 :: "int \<Rightarrow> bool" where
  "in64 x \<longleftrightarrow> - (2 ^ 63) \<le> x \<and> x < 2 ^ 63"

lemma wrap64_id [simp]: "in64 x \<Longrightarrow> wrap64 x = x"
  by (simp add: wrap64_def in64_def)

lemma wrap64_in64 [simp]: "in64 (wrap64 x)"
proof -
  have "0 \<le> (x + 2 ^ 63) mod 2 ^ 64" "(x + 2 ^ 63) mod 2 ^ 64 < (2::int) ^ 64"
    by simp_all
  then show ?thesis
    unfolding wrap64_def in64_def by simp
qed

lemma wrap64_add_left [simp]: "wrap64 (wrap64 x + y) = wrap64 (x + y)"
  unfolding wrap64_def
  by (simp add: algebra_simps mod_simps)

lemma wrap64_add_right [simp]: "wrap64 (x + wrap64 y) = wrap64 (x + y)"
  using wrap64_add_left [of y x] by (simp add: add.commute)

subsection \<open>Errors\<close>

text \<open>
  Errors made outside the repository (driver, broker, cache, standard library). The first group
  are the sentinels the sources compare with; every other one is \<open>Foreign\<close>.
\<close>

datatype ext_error =
    ErrNoRows | RedisNil | ContextCanceled | ContextDeadlineExceeded
  | ErrClosedConsumerGroup | ErrServerClosed | UniqueViolation | DecodeParamsError | DecodeRequestError
  | Foreign string

datatype grpc_code =
    OK | Canceled | Unknown | InvalidArgument | DeadlineExceeded | NotFound | AlreadyExists
  | PermissionDenied | ResourceExhausted | FailedPrecondition | Aborted | OutOfRange
  | Unimplemented | Internal | Unavailable | DataLoss | Unauthenticated

text \<open>
  A Go error: a sentinel of the service's \<open>errs\<close> package, a wrapped error
  (\<open>fmt.Errorf\<close> with \<open>%w\<close>), a gRPC status, or a foreign error.
\<close>

datatype 'e err = Sent 'e | Wrap string "'e err" | Status grpc_code | Ext ext_error

primrec errors_Is :: "'e err \<Rightarrow> 'e \<Rightarrow> bool" where
  "errors_Is (Sent s) t = (s = t)"
| "errors_Is (Wrap m e) t = errors_Is e t"
| "errors_Is (Status c) t = False"
| "errors_Is (Ext x) t = False"

primrec errors_Is_ext :: "'e err \<Rightarrow> ext_error \<Rightarrow> bool" where
  "errors_Is_ext (Sent s) x = False"
| "errors_Is_ext (Wrap m e) x = errors_Is_ext e x"
| "errors_Is_ext (Status c) x = False"
| "errors_Is_ext (Ext y) x = (y = x)"

text \<open>The innermost error of a chain: \<open>errors_Is\<close> only looks at it.\<close>

primrec cause :: "'e err \<Rightarrow> 'e err" where
  "cause (Sent s) = Sent s"
| "cause (Wrap m e) = cause e"
| "cause (Status c) = Status c"
| "cause (Ext x) = Ext x"

lemma errors_Is_cause: "errors_Is e s \<longleftrightarrow> cause e = Sent s"
  by (induction e) auto

lemma errors_Is_ext_cause: "errors_Is_ext e x \<longleftrightarrow> cause e = Ext x"
  by (induction e) auto

lemma cause_not_Wrap [simp]: "cause e \<noteq> Wrap m e'"
  by (induction e) auto

lemma errors_Is_unique: "errors_Is e s \<Longrightarrow> errors_Is e t \<Longrightarrow> s = t"
  by (simp add: errors_Is_cause)

subsection \<open>Results and loops with early return\<close>

datatype ('a, 'e) res = Ret 'a | Err "'e err" | Panic string

primrec bindR :: "('a, 'e) res \<Rightarrow> ('a \<Rightarrow> ('b, 'e) res) \<Rightarrow> ('b, 'e) res" where
  "bindR (Ret x) k = k x"
| "bindR (Err e) k = Err e"
| "bindR (Panic p) k = Panic p"

primrec wrapR :: "string \<Rightarrow> ('a, 'e) res \<Rightarrow> ('a, 'e) res" where
  "wrapR m (Ret x) = Ret x"
| "wrapR m (Err e) = Err (Wrap m e)"
| "wrapR m (Panic p) = Panic p"

lemma wrapR_Ret_iff [simp]: "wrapR m r = Ret x \<longleftrightarrow> r = Ret x"
  by (cases r) auto

lemma bindR_Ret_iff: "bindR r k = Ret y \<longleftrightarrow> (\<exists>x. r = Ret x \<and> k x = Ret y)"
  by (cases r) auto

text \<open>A \<open>for\<close> loop that converts each element and returns at the first error.\<close>

fun mapR :: "('a \<Rightarrow> ('b, 'e) res) \<Rightarrow> 'a list \<Rightarrow> ('b list, 'e) res" where
  "mapR f [] = Ret []"
| "mapR f (x # xs) = bindR (f x) (\<lambda>y. bindR (mapR f xs) (\<lambda>ys. Ret (y # ys)))"

lemma mapR_Ret_iff: "mapR f xs = Ret ys \<longleftrightarrow> list_all2 (\<lambda>x y. f x = Ret y) xs ys"
  by (induction xs arbitrary: ys) (auto simp: bindR_Ret_iff list_all2_Cons1)

lemma mapR_Ret_map:
  assumes "\<And>x. x \<in> set xs \<Longrightarrow> f x = Ret (g x)"
  shows "mapR f xs = Ret (map g xs)"
  using assms by (induction xs) auto

lemma mapR_wrap: "mapR (\<lambda>x. wrapR m (f x)) xs = wrapR m (mapR f xs)"
proof (induction xs)
  case (Cons x xs)
  then show ?case by (cases "f x"; cases "mapR f xs") auto
qed simp

lemma mapR_Err_cases:
  assumes "mapR f xs = Err e"
  shows "\<exists>ys x zs. xs = ys @ x # zs \<and> f x = Err e \<and> (\<exists>vs. mapR f ys = Ret vs)"
  using assms
proof (induction xs)
  case (Cons x xs)
  show ?case
  proof (cases "f x")
    case (Ret y)
    with Cons.prems have "mapR f xs = Err e" by (cases "mapR f xs") auto
    with Cons.IH obtain ys x' zs vs
      where "xs = ys @ x' # zs" "f x' = Err e" "mapR f ys = Ret vs" by blast
    with Ret have "x # xs = (x # ys) @ x' # zs \<and> f x' = Err e \<and> mapR f (x # ys) = Ret (y # vs)"
      by simp
    then show ?thesis by blast
  next
    case (Err e')
    with Cons.prems have "x # xs = [] @ x # xs \<and> f x = Err e \<and> mapR f [] = Ret []" by simp
    then show ?thesis by blast
  next
    case (Panic p)
    with Cons.prems show ?thesis by simp
  qed
qed simp

subsection \<open>Actions on a state\<close>

text \<open>
  An operation of the code takes the state of the world, may change it, and ends with a value, an
  error or a panic. \<open>bindA\<close> is the code's \<open>x, err := m(); if err != nil { return err }\<close>;
  what an action did before it failed stays done.
\<close>

type_synonym ('w, 'a, 'e) act = "'w \<Rightarrow> ('a, 'e) res \<times> 'w"

definition ret :: "'a \<Rightarrow> ('w, 'a, 'e) act" where
  "ret x = (\<lambda>w. (Ret x, w))"

definition fail :: "'e err \<Rightarrow> ('w, 'a, 'e) act" where
  "fail e = (\<lambda>w. (Err e, w))"

definition liftR :: "('a, 'e) res \<Rightarrow> ('w, 'a, 'e) act" where
  "liftR r = (\<lambda>w. (r, w))"

definition bindA :: "('w, 'a, 'e) act \<Rightarrow> ('a \<Rightarrow> ('w, 'b, 'e) act) \<Rightarrow> ('w, 'b, 'e) act" where
  "bindA m k = (\<lambda>w. case m w of
       (Ret x, w') \<Rightarrow> k x w'
     | (Err e, w') \<Rightarrow> (Err e, w')
     | (Panic p, w') \<Rightarrow> (Panic p, w'))"

definition wrapA :: "string \<Rightarrow> ('w, 'a, 'e) act \<Rightarrow> ('w, 'a, 'e) act" where
  "wrapA m a = (\<lambda>w. case a w of (r, w') \<Rightarrow> (wrapR m r, w'))"

lemma ret_app [simp, act_simps]: "ret x w = (Ret x, w)"
  by (simp add: ret_def)

lemma fail_app [simp, act_simps]: "fail e w = (Err e, w)"
  by (simp add: fail_def)

lemma liftR_app [simp, act_simps]: "liftR r w = (r, w)"
  by (simp add: liftR_def)

lemma bindA_app [act_simps]:
  "bindA m k w = (case m w of
       (Ret x, w') \<Rightarrow> k x w' | (Err e, w') \<Rightarrow> (Err e, w') | (Panic p, w') \<Rightarrow> (Panic p, w'))"
  by (simp add: bindA_def)

lemma wrapA_app [act_simps]: "wrapA m a w = (wrapR m (fst (a w)), snd (a w))"
  by (simp add: wrapA_def split: prod.splits)

lemma bindA_Ret_iff:
  "bindA m k w = (Ret y, w'') \<longleftrightarrow> (\<exists>x w'. m w = (Ret x, w') \<and> k x w' = (Ret y, w''))"
  by (auto simp: bindA_def split: prod.splits res.splits)

lemma wrapA_Ret_iff: "wrapA m a w = (Ret y, w') \<longleftrightarrow> a w = (Ret y, w')"
  by (auto simp: wrapA_app prod_eq_iff)

text \<open>The translation of errors at a border: only the error of the result changes.\<close>

primrec mapErr :: "('e err \<Rightarrow> 'f err) \<Rightarrow> ('a, 'e) res \<Rightarrow> ('a, 'f) res" where
  "mapErr f (Ret x) = Ret x"
| "mapErr f (Err e) = Err (f e)"
| "mapErr f (Panic p) = Panic p"

definition mapErrA :: "('e err \<Rightarrow> 'f err) \<Rightarrow> ('w, 'a, 'e) act \<Rightarrow> ('w, 'a, 'f) act" where
  "mapErrA f a = (\<lambda>w. case a w of (r, w') \<Rightarrow> (mapErr f r, w'))"

lemma mapErrA_app [act_simps]: "mapErrA f a w = (mapErr f (fst (a w)), snd (a w))"
  by (simp add: mapErrA_def split: prod.splits)

lemma mapErr_Ret_iff [simp]: "mapErr f r = Ret x \<longleftrightarrow> r = Ret x"
  by (cases r) auto

subsection \<open>The transaction manager\<close>

text \<open>
  \<open>TxManager.Do(ctx, fn)\<close> of the package \<open>go-transaction-manager\<close> is an interface of
  the services (\<open>deps.go\<close>). Its documented behaviour: it runs \<open>fn\<close> inside a
  database transaction; when \<open>fn\<close> returns an error the transaction is rolled back and that
  error is returned; otherwise it commits, and a commit that fails leaves the database as it was and
  returns the failure. A rollback restores the database only: \<open>rollback w w'\<close> is the world
  \<open>w'\<close> with the database of \<open>w\<close>, so calls to other services made by \<open>fn\<close> stay done.
  The variables the closure assigns are the value \<open>fn\<close> returns here.
\<close>

locale tx_manager =
  fixes Do :: "('w, 'a, 'e) act \<Rightarrow> ('w, 'a, 'e) act"
    and rollback :: "'w \<Rightarrow> 'w \<Rightarrow> 'w"
  assumes Do_Err: "f w = (Err e, w') \<Longrightarrow> Do f w = (Err e, rollback w w')"
    and Do_Ret: "f w = (Ret x, w') \<Longrightarrow>
      Do f w = (Ret x, w') \<or> (\<exists>e. Do f w = (Err e, rollback w w'))"
    and Do_Panic: "f w = (Panic p, w') \<Longrightarrow> Do f w = (Panic p, rollback w w')"
begin

lemma Do_cases:
  obtains (committed) x w' where "f w = (Ret x, w')" "Do f w = (Ret x, w')"
  | (rolled_back) r where "Do f w = (r, rollback w (snd (f w)))" "\<And>x. r \<noteq> Ret x"
proof -
  obtain r w' where fw: "f w = (r, w')" by (cases "f w")
  show ?thesis
  proof (cases r)
    case (Ret x)
    with Do_Ret [of f w x w'] fw that show ?thesis by fastforce
  next
    case (Err e)
    with Do_Err [of f w e w'] fw that(2) [of "Err e"] show ?thesis by simp
  next
    case (Panic p)
    with Do_Panic [of f w p w'] fw that(2) [of "Panic p"] show ?thesis by simp
  qed
qed

lemma Do_RetD: "Do f w = (Ret x, w'') \<Longrightarrow> f w = (Ret x, w'')"
  by (rule Do_cases [of f w]) auto

lemma Do_not_Ret:
  "(\<And>x. fst (Do f w) \<noteq> Ret x) \<Longrightarrow> snd (Do f w) = rollback w (snd (f w))"
  by (rule Do_cases [of f w]) auto

end

text \<open>
  The instance the assembled system uses: the driver reports the outcome of the commit.
\<close>

definition pg_Do :: "('w \<Rightarrow> 'w \<Rightarrow> 'w) \<Rightarrow> ext_error option \<Rightarrow> ('w, 'a, 'e) act \<Rightarrow> ('w, 'a, 'e) act" where
  "pg_Do rollback commit_outcome f = (\<lambda>w. case f w of
       (Ret x, w') \<Rightarrow> (case commit_outcome of
           None \<Rightarrow> (Ret x, w')
         | Some x \<Rightarrow> (Err (Ext x), rollback w w'))
     | (Err e, w') \<Rightarrow> (Err e, rollback w w')
     | (Panic p, w') \<Rightarrow> (Panic p, rollback w w'))"

interpretation pg: tx_manager "pg_Do rollback commit_outcome" rollback
  for rollback :: "'w \<Rightarrow> 'w \<Rightarrow> 'w" and commit_outcome
  by unfold_locales (auto simp: pg_Do_def split: option.splits)

text \<open>A manager whose commits go through.\<close>

definition commits :: "(('w, 'a, 'e) act \<Rightarrow> ('w, 'a, 'e) act) \<Rightarrow> bool" where
  "commits Do \<longleftrightarrow> (\<forall>f w x w'. f w = (Ret x, w') \<longrightarrow> Do f w = (Ret x, w'))"

lemma commits_app: "commits Do \<Longrightarrow> f w = (Ret x, w') \<Longrightarrow> Do f w = (Ret x, w')"
  by (simp add: commits_def)

lemma commits_pg: "commits (pg_Do rb None)"
  by (simp add: commits_def pg_Do_def)

end
