(* ===== verification/Inventory_Domain.thy ===== *)
theory Inventory_Domain
  imports Prelude
begin

text \<open>
  The domain layer of the inventory service: the error sentinels
  (\<open>inventory/internal/errors\<close>), the value objects
  (\<open>inventory/internal/model/valueobject\<close>), the entity \<open>Part\<close> with its
  reservation counters (\<open>inventory/internal/model/entity\<close>), and the domain service that
  checks the compatibility of a ship (\<open>inventory/internal/service/domain\<close>).
  Go's string enumerations stay strings; a nil pointer is \<open>None\<close>, and dereferencing it is a
  panic.
\<close>

datatype inv_error =
    ErrPartNotFound | ErrInvalidUUID | ErrOutOfStock | ErrNothingToRelease | ErrNothingToCommit
  | ErrNoPartWereUpdated | ErrIncompatibleParts | ErrPartTypeMismatch | ErrInvalidProperties
  | ErrInternalError | ErrUnauthenticated

type_synonym 'a inv_res = "('a, inv_error) res"

subsection \<open>Value objects\<close>

type_synonym PartType = string

abbreviation PartTypeEngine :: PartType where "PartTypeEngine \<equiv> ''ENGINE''"
abbreviation PartTypeHull :: PartType where "PartTypeHull \<equiv> ''HULL''"
abbreviation PartTypeShield :: PartType where "PartTypeShield \<equiv> ''SHIELD''"
abbreviation PartTypeWeapon :: PartType where "PartTypeWeapon \<equiv> ''WEAPON''"
abbreviation PartTypeUnspecified :: PartType where "PartTypeUnspecified \<equiv> ''UNSPECIFIED''"

definition NewPartType :: "string \<Rightarrow> PartType inv_res" where
  "NewPartType s =
     (if s = PartTypeHull \<or> s = PartTypeEngine \<or> s = PartTypeShield \<or> s = PartTypeWeapon
      then Ret s
      else Err (Wrap ''unknown part type %q'' (Sent ErrInvalidProperties)))"

record HullProperties =
  hull_strength :: int

type_synonym EngineClass = string

abbreviation EngineClassA :: EngineClass where "EngineClassA \<equiv> ''A''"
abbreviation EngineClassB :: EngineClass where "EngineClassB \<equiv> ''B''"
abbreviation EngineClassC :: EngineClass where "EngineClassC \<equiv> ''C''"

definition EngineClass_IsValid :: "EngineClass \<Rightarrow> bool" where
  "EngineClass_IsValid c \<longleftrightarrow> c = EngineClassA \<or> c = EngineClassB \<or> c = EngineClassC"

record EngineProperties =
  engine_class :: EngineClass
  engine_requiredStrength :: int

type_synonym ShieldType = string

abbreviation EnergyShield :: ShieldType where "EnergyShield \<equiv> ''energy''"
abbreviation PlasmaShield :: ShieldType where "PlasmaShield \<equiv> ''plasma''"

definition ShieldType_IsValid :: "ShieldType \<Rightarrow> bool" where
  "ShieldType_IsValid s \<longleftrightarrow> s = EnergyShield \<or> s = PlasmaShield"

record ShieldProperties =
  shield_type :: ShieldType

type_synonym WeaponType = string

abbreviation LaserWeapon :: WeaponType where "LaserWeapon \<equiv> ''laser''"
abbreviation MissileWeapon :: WeaponType where "MissileWeapon \<equiv> ''missile''"

definition WeaponType_IsValid :: "WeaponType \<Rightarrow> bool" where
  "WeaponType_IsValid w \<longleftrightarrow> w = LaserWeapon \<or> w = MissileWeapon"

record WeaponProperties =
  weapon_type :: WeaponType

text \<open>\<open>PartProperties\<close> is a struct of four pointers.\<close>

record PartProperties =
  props_hull :: "HullProperties option"
  props_engine :: "EngineProperties option"
  props_shield :: "ShieldProperties option"
  props_weapon :: "WeaponProperties option"

definition no_properties :: PartProperties where
  "no_properties = \<lparr>props_hull = None, props_engine = None, props_shield = None, props_weapon = None\<rparr>"

definition NewHullProperties :: "int \<Rightarrow> PartProperties inv_res" where
  "NewHullProperties strength =
     (if strength < 30 \<or> strength > 200
      then Err (Wrap ''hull strength must be between 30 and 200, got %d'' (Sent ErrInvalidProperties))
      else Ret (no_properties\<lparr>props_hull := Some \<lparr>hull_strength = strength\<rparr>\<rparr>))"

definition NewEngineProperties :: "EngineClass \<Rightarrow> int \<Rightarrow> PartProperties inv_res" where
  "NewEngineProperties cls requiredStrength =
     (if \<not> EngineClass_IsValid cls
      then Err (Wrap ''invalid engine class, got %s'' (Sent ErrInvalidProperties))
      else Ret (no_properties\<lparr>props_engine :=
             Some \<lparr>engine_class = cls, engine_requiredStrength = requiredStrength\<rparr>\<rparr>))"

definition NewShieldProperties :: "ShieldType \<Rightarrow> PartProperties inv_res" where
  "NewShieldProperties shieldType =
     (if \<not> ShieldType_IsValid shieldType
      then Err (Wrap ''invalid shield type, got %s'' (Sent ErrInvalidProperties))
      else Ret (no_properties\<lparr>props_shield := Some \<lparr>shield_type = shieldType\<rparr>\<rparr>))"

definition NewWeaponProperties :: "WeaponType \<Rightarrow> PartProperties inv_res" where
  "NewWeaponProperties weaponType =
     (if \<not> WeaponType_IsValid weaponType
      then Err (Wrap ''invalid weapon type, got %s'' (Sent ErrInvalidProperties))
      else Ret (no_properties\<lparr>props_weapon := Some \<lparr>weapon_type = weaponType\<rparr>\<rparr>))"

text \<open>The methods on \<open>*HullProperties\<close> and \<open>*ShieldProperties\<close>, on non-nil receivers.\<close>

definition CanSupport :: "HullProperties \<Rightarrow> EngineProperties \<Rightarrow> bool" where
  "CanSupport h e \<longleftrightarrow> hull_strength h \<ge> engine_requiredStrength e"

definition ConflictsWith :: "ShieldProperties \<Rightarrow> WeaponProperties \<Rightarrow> bool" where
  "ConflictsWith s w \<longleftrightarrow> shield_type s = PlasmaShield \<and> weapon_type w = LaserWeapon"

record ShipSlots =
  slot_HullUUID :: uuid
  slot_EngineUUID :: uuid
  slot_ShieldUUID :: uuid
  slot_WeaponUUID :: uuid

subsection \<open>The part entity\<close>

record Part =
  p_uuid :: uuid
  p_name :: string
  p_description :: string
  p_partType :: PartType
  p_price :: int
  p_stockQuantity :: int
  p_reserved :: int
  p_properties :: PartProperties
  p_createdAt :: time

text \<open>
  The counters are Go \<open>int\<close>s: the subtraction of \<open>Reserve\<close> and the increments wrap
  around at 64 bits.
\<close>

definition Part_Reserve :: "Part \<Rightarrow> Part inv_res" where
  "Part_Reserve p =
     (if wrap64 (p_stockQuantity p - p_reserved p) \<le> 0
      then Err (Wrap ''cannot reserve part with id: %s'' (Sent ErrOutOfStock))
      else Ret (p\<lparr>p_reserved := wrap64 (p_reserved p + 1)\<rparr>))"

definition Part_Release :: "Part \<Rightarrow> Part inv_res" where
  "Part_Release p =
     (if p_reserved p \<le> 0
      then Err (Wrap ''cannot release part with id: %s'' (Sent ErrNothingToRelease))
      else Ret (p\<lparr>p_reserved := wrap64 (p_reserved p - 1)\<rparr>))"

definition Part_Commit :: "Part \<Rightarrow> Part inv_res" where
  "Part_Commit p =
     (if p_reserved p \<le> 0
      then Err (Wrap ''cannot commit part with id: %s, it is not reserved'' (Sent ErrNothingToCommit))
      else if p_stockQuantity p \<le> 0
      then Err (Wrap ''cannot commit part with id: %s, it is out of stock'' (Sent ErrNothingToCommit))
      else Ret (p\<lparr>p_reserved := wrap64 (p_reserved p - 1),
                  p_stockQuantity := wrap64 (p_stockQuantity p - 1)\<rparr>))"

definition RestorePart :: "uuid \<Rightarrow> string \<Rightarrow> string \<Rightarrow> PartType \<Rightarrow> int \<Rightarrow> int \<Rightarrow> int
    \<Rightarrow> PartProperties \<Rightarrow> time \<Rightarrow> Part" where
  "RestorePart partUUID name description partType price stockQuantity reserved properties createdAt =
     \<lparr>p_uuid = partUUID, p_name = name, p_description = description, p_partType = partType,
      p_price = price, p_stockQuantity = stockQuantity, p_reserved = reserved,
      p_properties = properties, p_createdAt = createdAt\<rparr>"

subsection \<open>The compatibility checker\<close>

record ResolvedShipSlots =
  rs_Hull :: "Part option"
  rs_Engine :: "Part option"
  rs_Shield :: "Part option"
  rs_Weapon :: "Part option"

text \<open>
  \<open>ResolvedShipSlots.Hull\<close> and \<open>.Engine\<close> are values in the code: an unset one is
  the zero \<open>Part\<close>, whose property pointers are all nil. That is \<open>None\<close> here, and its
  properties are \<open>no_properties\<close>.
\<close>

definition slot_properties :: "Part option \<Rightarrow> PartProperties" where
  "slot_properties po = (case po of None \<Rightarrow> no_properties | Some p \<Rightarrow> p_properties p)"

text \<open>
  \<open>CanSupport\<close> reads both its receiver and its argument, so a nil hull or a nil engine panics.
\<close>

definition CompatibilityChecker_Check :: "ResolvedShipSlots \<Rightarrow> unit inv_res" where
  "CompatibilityChecker_Check parts =
     (case (props_hull (slot_properties (rs_Hull parts)),
            props_engine (slot_properties (rs_Engine parts))) of
        (Some h, Some e) \<Rightarrow>
          (if \<not> CanSupport h e
           then Err (Wrap ''hull is incompatible with the engine'' (Sent ErrIncompatibleParts))
           else
             (let shieldProperties =
                    (case rs_Shield parts of None \<Rightarrow> None | Some p \<Rightarrow> props_shield (p_properties p));
                  weaponProperties =
                    (case rs_Weapon parts of None \<Rightarrow> None | Some p \<Rightarrow> props_weapon (p_properties p))
              in case (shieldProperties, weaponProperties) of
                   (Some s, Some w) \<Rightarrow>
                     (if ConflictsWith s w
                      then Err (Wrap ''shield is incompatible with the weapon'' (Sent ErrIncompatibleParts))
                      else Ret ())
                 | _ \<Rightarrow> Ret ()))
      | _ \<Rightarrow> Panic ''nil pointer dereference'')"

subsection \<open>The counters stay within bounds\<close>

text \<open>
  The class invariant the entity keeps: never a negative number reserved, never more reserved than
  in stock, and the stock within the 32-bit column \<open>stock_quantity INT\<close>.
\<close>

definition counters_ok :: "int \<Rightarrow> int \<Rightarrow> bool" where
  "counters_ok stock reserved \<longleftrightarrow> 0 \<le> reserved \<and> reserved \<le> stock \<and> stock < 2 ^ 31"

definition part_ok :: "Part \<Rightarrow> bool" where
  "part_ok p \<longleftrightarrow> counters_ok (p_stockQuantity p) (p_reserved p)"

lemma counters_in64:
  "counters_ok s r \<Longrightarrow> in64 s \<and> in64 r \<and> in64 (s - r) \<and> in64 (r + 1) \<and> in64 (r - 1) \<and> in64 (s - 1)"
  by (auto simp: counters_ok_def in64_def)

lemmas part_op_defs = Part_Reserve_def Part_Release_def Part_Commit_def

lemma Part_Reserve_ok:
  "part_ok p \<Longrightarrow> Part_Reserve p =
     (if p_reserved p = p_stockQuantity p
      then Err (Wrap ''cannot reserve part with id: %s'' (Sent ErrOutOfStock))
      else Ret (p\<lparr>p_reserved := p_reserved p + 1\<rparr>))"
  using counters_in64 [of "p_stockQuantity p" "p_reserved p"]
  by (auto simp: part_ok_def Part_Reserve_def counters_ok_def)

lemma Part_Release_ok:
  "part_ok p \<Longrightarrow> Part_Release p =
     (if p_reserved p = 0
      then Err (Wrap ''cannot release part with id: %s'' (Sent ErrNothingToRelease))
      else Ret (p\<lparr>p_reserved := p_reserved p - 1\<rparr>))"
  using counters_in64 [of "p_stockQuantity p" "p_reserved p"]
  by (auto simp: part_ok_def Part_Release_def counters_ok_def)

lemma Part_Commit_ok:
  "part_ok p \<Longrightarrow> Part_Commit p =
     (if p_reserved p = 0
      then Err (Wrap ''cannot commit part with id: %s, it is not reserved'' (Sent ErrNothingToCommit))
      else Ret (p\<lparr>p_reserved := p_reserved p - 1, p_stockQuantity := p_stockQuantity p - 1\<rparr>))"
  using counters_in64 [of "p_stockQuantity p" "p_reserved p"]
  by (auto simp: part_ok_def Part_Commit_def counters_ok_def)

lemmas part_ops_ok = Part_Reserve_ok Part_Release_ok Part_Commit_ok

text \<open>Release undoes Reserve on a part within bounds.\<close>

lemma Part_Release_Reserve:
  assumes "part_ok p" "Part_Reserve p = Ret p'"
  shows "Part_Release p' = Ret p"
proof -
  from assms have p': "p' = p\<lparr>p_reserved := p_reserved p + 1\<rparr>" "p_reserved p < p_stockQuantity p"
    by (auto simp: Part_Reserve_ok part_ok_def counters_ok_def split: if_splits)
  with assms(1) have "part_ok p'" by (simp add: part_ok_def counters_ok_def)
  with p' assms(1) show ?thesis
    by (simp add: Part_Release_ok part_ok_def counters_ok_def)
qed

text \<open>
  The three operations share one contract: on success the invariant holds again and nothing but the
  two counters moves. The repository and the bulk services only need this contract.
\<close>

definition same_identity :: "Part \<Rightarrow> Part \<Rightarrow> bool" where
  "same_identity p q \<longleftrightarrow>
     q\<lparr>p_stockQuantity := p_stockQuantity p, p_reserved := p_reserved p\<rparr> = p"

lemma same_identity_uuid: "same_identity p q \<Longrightarrow> p_uuid q = p_uuid p"
  by (metis Part.select_convs(1) Part.surjective Part.update_convs(6) Part.update_convs(7) same_identity_def)

lemma same_identity_uuids: "list_all2 same_identity ps qs \<Longrightarrow> map p_uuid qs = map p_uuid ps"
  by (induction rule: list_all2_induct) (auto simp: same_identity_uuid)

locale part_operation =
  fixes op :: "Part \<Rightarrow> Part inv_res"
  assumes op_identity: "op p = Ret q \<Longrightarrow> same_identity p q"
    and op_ok: "op p = Ret q \<Longrightarrow> part_ok p \<Longrightarrow> part_ok q"
    and op_no_panic: "op p \<noteq> Panic s"
begin

lemma op_uuid: "op p = Ret q \<Longrightarrow> p_uuid q = p_uuid p"
  by (rule same_identity_uuid) (rule op_identity)

lemma mapR_uuids: "mapR op ps = Ret qs \<Longrightarrow> map p_uuid qs = map p_uuid ps"
  by (induction ps arbitrary: qs) (auto simp: bindR_Ret_iff op_uuid)

lemma mapR_ok: "mapR op ps = Ret qs \<Longrightarrow> list_all part_ok ps \<Longrightarrow> list_all part_ok qs"
  by (induction ps arbitrary: qs) (auto simp: bindR_Ret_iff op_ok)

lemma mapR_op_no_panic: "mapR op ps \<noteq> Panic s"
proof (induction ps)
  case (Cons p ps)
  then show ?case
    using op_no_panic by (cases "op p"; cases "mapR op ps") auto
qed simp

end

lemma Part_Reserve_keeps_ok: "Part_Reserve p = Ret q \<Longrightarrow> part_ok p \<Longrightarrow> part_ok q"
  by (simp add: Part_Reserve_ok split: if_splits) (auto simp: part_ok_def counters_ok_def)

lemma Part_Release_keeps_ok: "Part_Release p = Ret q \<Longrightarrow> part_ok p \<Longrightarrow> part_ok q"
  by (simp add: Part_Release_ok split: if_splits) (auto simp: part_ok_def counters_ok_def)

lemma Part_Commit_keeps_ok: "Part_Commit p = Ret q \<Longrightarrow> part_ok p \<Longrightarrow> part_ok q"
  by (simp add: Part_Commit_ok split: if_splits) (auto simp: part_ok_def counters_ok_def)

interpretation reserve: part_operation Part_Reserve
proof
  show "Part_Reserve p = Ret q \<Longrightarrow> same_identity p q" for p q
    by (auto simp: Part_Reserve_def same_identity_def split: if_splits)
qed (auto simp: Part_Reserve_def intro: Part_Reserve_keeps_ok)

interpretation release: part_operation Part_Release
proof
  show "Part_Release p = Ret q \<Longrightarrow> same_identity p q" for p q
    by (auto simp: Part_Release_def same_identity_def split: if_splits)
qed (auto simp: Part_Release_def intro: Part_Release_keeps_ok)

interpretation commit: part_operation Part_Commit
proof
  show "Part_Commit p = Ret q \<Longrightarrow> same_identity p q" for p q
    by (auto simp: Part_Commit_def same_identity_def split: if_splits)
qed (auto simp: Part_Commit_def intro: Part_Commit_keeps_ok)

end
