(* ===== verification/Json.thy ===== *)
theory Json
  imports Main
begin

text \<open>
  JSON values, shared by the inventory service, which stores part properties as JSON, and by the HTTP
  interface of the order service. A number literal is an integer or any other literal, kept as text.
  Objects keep the order and the repetitions of their keys.
\<close>

datatype json =
    JNull | JBool bool | JInt int | JFloat string | JStr string
  | JArr "json list" | JObj "(string \<times> json) list"

end
