(* ===== verification/Inventory_Repository.thy ===== *)
theory Inventory_Repository
  imports Inventory_Domain Json
begin

text \<open>
  The storage layer of the inventory service (\<open>inventory/internal/repository\<close>). The database
  is the table \<open>parts\<close> as a list of rows; the SQL of the repository is read as the meaning
  of its statements on that table. What the driver adds is a parameter (\<open>pg_env\<close>): whether a
  statement fails, and the collation behind \<open>ORDER BY name\<close>.
\<close>

subsection \<open>Rows and their conversion\<close>

text \<open>
  The column \<open>properties JSONB\<close> holds a JSON value. \<open>json.Unmarshal\<close> of the standard
  library is modelled on JSON values for the one target type the code decodes into: keys match
  field names up to (ASCII) letter case, unknown keys are ignored, \<open>null\<close> leaves a non-pointer
  field alone and clears a pointer, an entry that occurs again decodes on top of the value already
  there, and a value of the wrong shape is an error.
\<close>

definition ascii_lower :: "char \<Rightarrow> char" where
  "ascii_lower c = (if 65 \<le> (of_char c :: nat) \<and> (of_char c :: nat) \<le> 90
     then char_of ((of_char c :: nat) + 32) else c)"

definition key_match :: "string \<Rightarrow> string \<Rightarrow> bool" where
  "key_match k field \<longleftrightarrow> map ascii_lower k = map ascii_lower field"

record HullPropertiesRecord =
  hr_Strength :: int

record EnginePropertiesRecord =
  er_Class :: string
  er_RequiredStrength :: int

record ShieldPropertiesRecord =
  sr_ShieldType :: string

record WeaponPropertiesRecord =
  wr_WeaponType :: string

record PartPropertiesRecord =
  pr_Hull :: "HullPropertiesRecord option"
  pr_Engine :: "EnginePropertiesRecord option"
  pr_Shield :: "ShieldPropertiesRecord option"
  pr_Weapon :: "WeaponPropertiesRecord option"

definition decode_int :: "json \<Rightarrow> int \<Rightarrow> int option" where
  "decode_int j old = (case j of
       JInt n \<Rightarrow> if in64 n then Some n else None
     | JNull \<Rightarrow> Some old
     | _ \<Rightarrow> None)"

definition decode_string :: "json \<Rightarrow> string \<Rightarrow> string option" where
  "decode_string j old = (case j of JStr s \<Rightarrow> Some s | JNull \<Rightarrow> Some old | _ \<Rightarrow> None)"

text \<open>Decoding an object entry by entry into a struct, one update function per target type.\<close>

fun decode_fields :: "(string \<Rightarrow> json \<Rightarrow> 'r \<Rightarrow> 'r option) \<Rightarrow> (string \<times> json) list \<Rightarrow> 'r \<Rightarrow> 'r option" where
  "decode_fields upd [] r = Some r"
| "decode_fields upd ((k, v) # kvs) r = Option.bind (upd k v r) (decode_fields upd kvs)"

definition decode_ptr :: "(string \<Rightarrow> json \<Rightarrow> 'r \<Rightarrow> 'r option) \<Rightarrow> 'r \<Rightarrow> json \<Rightarrow> 'r option \<Rightarrow> 'r option option" where
  "decode_ptr upd zero j old = (case j of
       JNull \<Rightarrow> Some None
     | JObj kvs \<Rightarrow> map_option Some
         (decode_fields upd kvs (case old of None \<Rightarrow> zero | Some r \<Rightarrow> r))
     | _ \<Rightarrow> None)"

definition hull_field :: "string \<Rightarrow> json \<Rightarrow> HullPropertiesRecord \<Rightarrow> HullPropertiesRecord option" where
  "hull_field k v r = (if key_match k ''strength''
     then map_option (\<lambda>n. r\<lparr>hr_Strength := n\<rparr>) (decode_int v (hr_Strength r)) else Some r)"

definition engine_field :: "string \<Rightarrow> json \<Rightarrow> EnginePropertiesRecord \<Rightarrow> EnginePropertiesRecord option" where
  "engine_field k v r =
     (if key_match k ''class''
      then map_option (\<lambda>s. r\<lparr>er_Class := s\<rparr>) (decode_string v (er_Class r))
      else if key_match k ''required_strength''
      then map_option (\<lambda>n. r\<lparr>er_RequiredStrength := n\<rparr>) (decode_int v (er_RequiredStrength r))
      else Some r)"

definition shield_field :: "string \<Rightarrow> json \<Rightarrow> ShieldPropertiesRecord \<Rightarrow> ShieldPropertiesRecord option" where
  "shield_field k v r = (if key_match k ''shield_type''
     then map_option (\<lambda>s. r\<lparr>sr_ShieldType := s\<rparr>) (decode_string v (sr_ShieldType r)) else Some r)"

definition weapon_field :: "string \<Rightarrow> json \<Rightarrow> WeaponPropertiesRecord \<Rightarrow> WeaponPropertiesRecord option" where
  "weapon_field k v r = (if key_match k ''weapon_type''
     then map_option (\<lambda>s. r\<lparr>wr_WeaponType := s\<rparr>) (decode_string v (wr_WeaponType r)) else Some r)"

definition props_field :: "string \<Rightarrow> json \<Rightarrow> PartPropertiesRecord \<Rightarrow> PartPropertiesRecord option" where
  "props_field k v r =
     (if key_match k ''hull''
      then map_option (\<lambda>x. r\<lparr>pr_Hull := x\<rparr>) (decode_ptr hull_field \<lparr>hr_Strength = 0\<rparr> v (pr_Hull r))
      else if key_match k ''engine''
      then map_option (\<lambda>x. r\<lparr>pr_Engine := x\<rparr>)
             (decode_ptr engine_field \<lparr>er_Class = [], er_RequiredStrength = 0\<rparr> v (pr_Engine r))
      else if key_match k ''shield''
      then map_option (\<lambda>x. r\<lparr>pr_Shield := x\<rparr>) (decode_ptr shield_field \<lparr>sr_ShieldType = []\<rparr> v (pr_Shield r))
      else if key_match k ''weapon''
      then map_option (\<lambda>x. r\<lparr>pr_Weapon := x\<rparr>) (decode_ptr weapon_field \<lparr>wr_WeaponType = []\<rparr> v (pr_Weapon r))
      else Some r)"

definition no_props_record :: PartPropertiesRecord where
  "no_props_record = \<lparr>pr_Hull = None, pr_Engine = None, pr_Shield = None, pr_Weapon = None\<rparr>"

definition json_Unmarshal_props :: "json \<Rightarrow> PartPropertiesRecord option" where
  "json_Unmarshal_props j = (case j of
       JObj kvs \<Rightarrow> decode_fields props_field kvs no_props_record
     | JNull \<Rightarrow> Some no_props_record
     | _ \<Rightarrow> None)"

record PartRecord =
  rec_UUID :: uuid
  rec_Name :: string
  rec_Description :: string
  rec_PartType :: string
  rec_Price :: int
  rec_StockQuantity :: int
  rec_Reserved :: int
  rec_Properties :: json
  rec_CreatedAt :: time

definition partPropertiesFromRecord :: "PartPropertiesRecord \<Rightarrow> PartProperties inv_res" where
  "partPropertiesFromRecord r =
     (case pr_Hull r of Some h \<Rightarrow> NewHullProperties (hr_Strength h)
      | None \<Rightarrow> (case pr_Engine r of Some e \<Rightarrow> NewEngineProperties (er_Class e) (er_RequiredStrength e)
      | None \<Rightarrow> (case pr_Shield r of Some s \<Rightarrow> NewShieldProperties (sr_ShieldType s)
      | None \<Rightarrow> (case pr_Weapon r of Some w \<Rightarrow> NewWeaponProperties (wr_WeaponType w)
      | None \<Rightarrow> Ret no_properties))))"

definition PartRecordToModel :: "PartRecord \<Rightarrow> Part inv_res" where
  "PartRecordToModel r =
     (case json_Unmarshal_props (rec_Properties r) of
        None \<Rightarrow> Err (Wrap ''unmarshal properties'' (Ext (Foreign ''json'')))
      | Some propsRec \<Rightarrow>
          bindR (wrapR ''convert properties'' (partPropertiesFromRecord propsRec)) (\<lambda>props.
          bindR (wrapR ''convert part type'' (NewPartType (rec_PartType r))) (\<lambda>partType.
          Ret (RestorePart (rec_UUID r) (rec_Name r) (rec_Description r) partType (rec_Price r)
                 (rec_StockQuantity r) (rec_Reserved r) props (rec_CreatedAt r)))))"

subsection \<open>The table and its statements\<close>

record inv_db =
  parts :: "PartRecord list"

text \<open>
  What the driver and the server add to a call: an error for a statement (\<open>None\<close>: it runs),
  and the collation of the column \<open>name\<close>, as weights of the (finitely many) names of the table.
\<close>

record pg_env =
  pg_build :: "ext_error option"
  pg_query :: "ext_error option"
  pg_scan :: "ext_error option"
  pg_exec :: "ext_error option"
  pg_collate :: "string \<Rightarrow> int"

abbreviation pg_up :: "pg_env \<Rightarrow> bool" where
  "pg_up E \<equiv> pg_build E = None \<and> pg_query E = None \<and> pg_scan E = None \<and> pg_exec E = None"

definition stmt :: "ext_error option \<Rightarrow> ('w, unit, 'e) act" where
  "stmt outcome = (case outcome of None \<Rightarrow> ret () | Some x \<Rightarrow> fail (Ext x))"

lemma stmt_app [act_simps]:
  "stmt oc w = (case oc of None \<Rightarrow> Ret () | Some x \<Rightarrow> Err (Ext x), w)"
  by (simp add: stmt_def split: option.splits)

record PartFilter =
  pf_UUIDs :: "uuid list"
  pf_PartType :: PartType

text \<open>The query that \<open>buildListQuery\<close> assembles with Squirrel, as a value.\<close>

datatype where_clause = WhereUUIDIn "uuid list" | WherePartTypeEq string | WhereTrue
datatype order_clause = OrderByUUID | OrderByName

record select_query =
  sel_where :: where_clause
  sel_order :: order_clause
  sel_forUpdate :: bool

definition buildListQuery :: "PartFilter \<Rightarrow> bool \<Rightarrow> select_query" where
  "buildListQuery partFilter forUpdate =
     (if pf_UUIDs partFilter \<noteq> []
      then \<lparr>sel_where = WhereUUIDIn (pf_UUIDs partFilter), sel_order = OrderByUUID,
            sel_forUpdate = forUpdate\<rparr>
      else if pf_PartType partFilter \<noteq> PartTypeUnspecified
      then \<lparr>sel_where = WherePartTypeEq (pf_PartType partFilter), sel_order = OrderByName,
            sel_forUpdate = forUpdate\<rparr>
      else \<lparr>sel_where = WhereTrue, sel_order = OrderByName, sel_forUpdate = forUpdate\<rparr>)"

definition row_selected :: "where_clause \<Rightarrow> PartRecord \<Rightarrow> bool" where
  "row_selected c r = (case c of
       WhereUUIDIn us \<Rightarrow> rec_UUID r \<in> set us
     | WherePartTypeEq t \<Rightarrow> rec_PartType r = t
     | WhereTrue \<Rightarrow> True)"

definition run_select :: "pg_env \<Rightarrow> select_query \<Rightarrow> inv_db \<Rightarrow> PartRecord list" where
  "run_select E q db =
     (let rows = filter (row_selected (sel_where q)) (parts db)
      in case sel_order q of
           OrderByUUID \<Rightarrow> sort_key rec_UUID rows
         | OrderByName \<Rightarrow> sort_key (\<lambda>r. pg_collate E (rec_Name r)) rows)"

text \<open>
  \<open>recordByUUID\<close> is a Go map filled row by row; its length is the number of distinct keys.
\<close>

definition recordByUUID :: "PartRecord list \<Rightarrow> uuid \<Rightarrow> PartRecord option" where
  "recordByUUID records = foldl (\<lambda>m r. m(rec_UUID r \<mapsto> r)) Map.empty records"

definition mapAndOrder :: "PartRecord list \<Rightarrow> PartFilter \<Rightarrow> Part list inv_res" where
  "mapAndOrder records partFilter =
     (if pf_UUIDs partFilter = [] then mapR PartRecordToModel records
      else if length (remdups (map rec_UUID records)) \<noteq> length (pf_UUIDs partFilter)
      then Err (Wrap ''find parts'' (Sent ErrPartNotFound))
      else mapR (\<lambda>id. case recordByUUID records id of
                     None \<Rightarrow> Err (Wrap ''find parts'' (Sent ErrPartNotFound))
                   | Some r \<Rightarrow> PartRecordToModel r)
             (pf_UUIDs partFilter))"

definition PartRepo_list :: "pg_env \<Rightarrow> PartFilter \<Rightarrow> bool \<Rightarrow> (inv_db, Part list, inv_error) act" where
  "PartRepo_list E partFilter forUpdate =
     bindA (wrapA ''failed to build the query'' (stmt (pg_build E))) (\<lambda>_.
     bindA (wrapA ''fetch part list'' (stmt (pg_query E))) (\<lambda>_.
     bindA (wrapA ''scan rows'' (stmt (pg_scan E))) (\<lambda>_.
     (\<lambda>db. (mapAndOrder (run_select E (buildListQuery partFilter forUpdate) db) partFilter, db)))))"

definition PartRepo_List :: "pg_env \<Rightarrow> PartFilter \<Rightarrow> (inv_db, Part list, inv_error) act" where
  "PartRepo_List E partFilter = PartRepo_list E partFilter False"

definition PartRepo_ListForUpdate :: "pg_env \<Rightarrow> PartFilter \<Rightarrow> (inv_db, Part list, inv_error) act" where
  "PartRepo_ListForUpdate E partFilter = PartRepo_list E partFilter True"

text \<open>\<open>QueryRow\<close> reports a missing row as \<open>pgx.ErrNoRows\<close> when it is scanned.\<close>

definition PartRepo_Get :: "pg_env \<Rightarrow> uuid \<Rightarrow> (inv_db, Part, inv_error) act" where
  "PartRepo_Get E u = (\<lambda>db.
     let scanned = (case pg_query E of
           Some x \<Rightarrow> Inl x
         | None \<Rightarrow> (case find (\<lambda>r. rec_UUID r = u) (parts db) of
               None \<Rightarrow> Inl ErrNoRows
             | Some r \<Rightarrow> (case pg_scan E of None \<Rightarrow> Inr r | Some x \<Rightarrow> Inl x)))
     in (case scanned of
           Inl x \<Rightarrow> (if x = ErrNoRows
                      then Err (Wrap ''part not found in the repository'' (Sent ErrPartNotFound))
                      else Err (Ext x))
         | Inr r \<Rightarrow> PartRecordToModel r, db))"

text \<open>
  \<open>UPDATE parts ... FROM unnest(uuids, reserved, stock) AS batch WHERE p.uuid = batch.uuid\<close>:
  every row whose identifier occurs in the batch takes the two counters of the batch entry.
\<close>

definition batch_entry :: "Part list \<Rightarrow> uuid \<Rightarrow> (int \<times> int) option" where
  "batch_entry ps = map_of (map (\<lambda>p. (p_uuid p, (p_reserved p, p_stockQuantity p))) ps)"

definition update_row :: "Part list \<Rightarrow> PartRecord \<Rightarrow> PartRecord" where
  "update_row ps r = (case batch_entry ps (rec_UUID r) of
       None \<Rightarrow> r
     | Some (res, stock) \<Rightarrow> r\<lparr>rec_Reserved := res, rec_StockQuantity := stock\<rparr>)"

definition rows_affected :: "Part list \<Rightarrow> inv_db \<Rightarrow> nat" where
  "rows_affected ps db = length (filter (\<lambda>r. batch_entry ps (rec_UUID r) \<noteq> None) (parts db))"

definition PartRepo_UpdateReservedBatch :: "pg_env \<Rightarrow> Part list \<Rightarrow> (inv_db, unit, inv_error) act" where
  "PartRepo_UpdateReservedBatch E ps =
     bindA (stmt (pg_exec E)) (\<lambda>_ db.
       if rows_affected ps db = 0
       then (Err (Sent ErrNoPartWereUpdated), db\<lparr>parts := map (update_row ps) (parts db)\<rparr>)
       else (Ret (), db\<lparr>parts := map (update_row ps) (parts db)\<rparr>))"

subsection \<open>Laws of the repository\<close>

text \<open>
  The primary key: no identifier occurs twice in the table. The view of the table is the part that
  the row of an identifier converts to.
\<close>

definition db_keys_ok :: "inv_db \<Rightarrow> bool" where
  "db_keys_ok db \<longleftrightarrow> distinct (map rec_UUID (parts db))"

definition row_of :: "inv_db \<Rightarrow> uuid \<Rightarrow> PartRecord option" where
  "row_of db u = find (\<lambda>r. rec_UUID r = u) (parts db)"

definition part_of :: "inv_db \<Rightarrow> uuid \<Rightarrow> Part option" where
  "part_of db u = (case row_of db u of
       None \<Rightarrow> None
     | Some r \<Rightarrow> (case PartRecordToModel r of Ret p \<Rightarrow> Some p | _ \<Rightarrow> None))"

lemma PartRecordToModel_uuid: "PartRecordToModel r = Ret p \<Longrightarrow> p_uuid p = rec_UUID r"
  by (auto simp: PartRecordToModel_def bindR_Ret_iff RestorePart_def split: option.splits)

lemma PartRecordToModel_counters_of:
  "PartRecordToModel r = Ret p \<Longrightarrow> p_reserved p = rec_Reserved r \<and> p_stockQuantity p = rec_StockQuantity r"
  by (auto simp: PartRecordToModel_def bindR_Ret_iff RestorePart_def split: option.splits)

lemma recordByUUID_snoc:
  "recordByUUID (rs @ [r]) = (recordByUUID rs)(rec_UUID r \<mapsto> r)"
  by (simp add: recordByUUID_def)

lemma recordByUUID_Some_in: "recordByUUID rs u = Some r \<Longrightarrow> r \<in> set rs \<and> rec_UUID r = u"
  by (induction rs rule: rev_induct) (auto simp: recordByUUID_snoc recordByUUID_def split: if_splits)

lemma recordByUUID_None: "recordByUUID rs u = None \<longleftrightarrow> u \<notin> rec_UUID ` set rs"
  by (induction rs rule: rev_induct) (auto simp: recordByUUID_snoc recordByUUID_def)

lemma recordByUUID_distinct:
  assumes "distinct (map rec_UUID rs)"
  shows "recordByUUID rs u = Some r \<longleftrightarrow> r \<in> set rs \<and> rec_UUID r = u"
proof
  assume r: "r \<in> set rs \<and> rec_UUID r = u"
  then obtain r' where r': "recordByUUID rs u = Some r'"
    using recordByUUID_None [of rs u] by (cases "recordByUUID rs u") auto
  with r recordByUUID_Some_in [OF r'] assms have "r' = r"
    by (auto simp: distinct_map inj_on_def)
  with r' show "recordByUUID rs u = Some r" by simp
qed (rule recordByUUID_Some_in)

lemma row_of_Some_iff:
  assumes "db_keys_ok db"
  shows "row_of db u = Some r \<longleftrightarrow> r \<in> set (parts db) \<and> rec_UUID r = u"
proof -
  have "find (\<lambda>r. rec_UUID r = u) rs = Some r \<longleftrightarrow> r \<in> set rs \<and> rec_UUID r = u"
    if "distinct (map rec_UUID rs)" for rs
    using that by (induction rs) (auto simp: image_iff)
  with assms show ?thesis by (simp add: row_of_def db_keys_ok_def)
qed

lemma row_of_None_iff: "row_of db u = None \<longleftrightarrow> u \<notin> rec_UUID ` set (parts db)"
  by (auto simp: row_of_def find_None_iff)

text \<open>The rows of a query by identifiers, whatever order they come in, are looked up by key.\<close>

lemma select_by_uuids:
  "set (run_select E (buildListQuery f b) db) = {r \<in> set (parts db). rec_UUID r \<in> set (pf_UUIDs f)}"
  if "pf_UUIDs f \<noteq> []"
  using that by (auto simp: run_select_def buildListQuery_def row_selected_def Let_def)

lemma select_by_uuids_distinct:
  assumes "db_keys_ok db" "pf_UUIDs f \<noteq> []"
  shows "distinct (map rec_UUID (run_select E (buildListQuery f b) db))"
proof -
  let ?rows = "filter (row_selected (WhereUUIDIn (pf_UUIDs f))) (parts db)"
  have "distinct (map rec_UUID ?rows)"
    using assms(1) by (simp add: db_keys_ok_def distinct_map_filter)
  moreover have "mset (map rec_UUID (sort_key rec_UUID ?rows)) = mset (map rec_UUID ?rows)"
    by simp
  ultimately have "distinct (map rec_UUID (sort_key rec_UUID ?rows))"
    using mset_eq_imp_distinct_iff by blast
  with assms(2) show ?thesis
    by (simp add: run_select_def buildListQuery_def)
qed

lemma recordByUUID_select:
  assumes "db_keys_ok db" "pf_UUIDs f \<noteq> []" "u \<in> set (pf_UUIDs f)"
  shows "recordByUUID (run_select E (buildListQuery f b) db) u = row_of db u"
proof (cases "row_of db u")
  case None
  then have "u \<notin> rec_UUID ` set (run_select E (buildListQuery f b) db)"
    using assms(2) by (auto simp: select_by_uuids row_of_None_iff)
  with None show ?thesis by (simp add: recordByUUID_None)
next
  case (Some r)
  then have "r \<in> set (run_select E (buildListQuery f b) db) \<and> rec_UUID r = u"
    using assms by (auto simp: select_by_uuids row_of_Some_iff)
  with Some assms show ?thesis
    by (simp add: recordByUUID_distinct [OF select_by_uuids_distinct])
qed

text \<open>
  When the number of rows found equals the number of identifiers asked for, the identifiers are
  distinct and all present; a duplicate in the request is reported as a missing part.
\<close>

lemma select_count:
  assumes "db_keys_ok db" "pf_UUIDs f \<noteq> []"
  shows "length (remdups (map rec_UUID (run_select E (buildListQuery f b) db))) = length (pf_UUIDs f)
    \<longleftrightarrow> distinct (pf_UUIDs f) \<and> (\<forall>u \<in> set (pf_UUIDs f). row_of db u \<noteq> None)"
    (is "?n = ?m \<longleftrightarrow> ?R")
proof -
  let ?S = "rec_UUID ` set (parts db) \<inter> set (pf_UUIDs f)"
  have "rec_UUID ` set (run_select E (buildListQuery f b) db) = ?S"
    using assms(2) by (auto simp: select_by_uuids)
  then have n: "?n = card ?S"
    by (simp add: length_remdups_card_conv)
  have le: "card ?S \<le> card (set (pf_UUIDs f))" "card (set (pf_UUIDs f)) \<le> ?m"
    by (auto intro: card_mono card_length)
  show ?thesis
  proof
    assume "?n = ?m"
    with n le have c: "card ?S = card (set (pf_UUIDs f))" "card (set (pf_UUIDs f)) = ?m" by auto
    from c(1) have "?S = set (pf_UUIDs f)" by (intro card_subset_eq) auto
    moreover from c(2) have "distinct (pf_UUIDs f)" by (rule card_distinct)
    ultimately show ?R by (auto simp: row_of_None_iff)
  next
    assume R: ?R
    then have "?S = set (pf_UUIDs f)" by (auto simp: row_of_None_iff)
    with n R show "?n = ?m" by (simp add: distinct_card)
  qed
qed

text \<open>The outcome of \<open>list\<close> on a request by identifiers.\<close>

definition convert_row :: "inv_db \<Rightarrow> uuid \<Rightarrow> Part inv_res" where
  "convert_row db u = (case row_of db u of
       None \<Rightarrow> Err (Wrap ''find parts'' (Sent ErrPartNotFound))
     | Some r \<Rightarrow> PartRecordToModel r)"

lemma mapAndOrder_by_uuids:
  assumes "db_keys_ok db" "pf_UUIDs f \<noteq> []"
  shows "mapAndOrder (run_select E (buildListQuery f b) db) f =
    (if distinct (pf_UUIDs f) \<and> (\<forall>u \<in> set (pf_UUIDs f). row_of db u \<noteq> None)
     then mapR (convert_row db) (pf_UUIDs f)
     else Err (Wrap ''find parts'' (Sent ErrPartNotFound)))"
proof -
  have "mapR (\<lambda>id. case recordByUUID (run_select E (buildListQuery f b) db) id of
            None \<Rightarrow> Err (Wrap ''find parts'' (Sent ErrPartNotFound)) | Some r \<Rightarrow> PartRecordToModel r) us
      = mapR (convert_row db) us" if "set us \<subseteq> set (pf_UUIDs f)" for us
    using that assms by (induction us) (auto simp: recordByUUID_select convert_row_def)
  with assms show ?thesis
    by (auto simp: mapAndOrder_def select_count)
qed

lemma PartRepo_list_app:
  "PartRepo_list E f b db =
     (case pg_build E of Some x \<Rightarrow> Err (Wrap ''failed to build the query'' (Ext x)) | None \<Rightarrow>
      case pg_query E of Some x \<Rightarrow> Err (Wrap ''fetch part list'' (Ext x)) | None \<Rightarrow>
      case pg_scan E of Some x \<Rightarrow> Err (Wrap ''scan rows'' (Ext x)) | None \<Rightarrow>
      mapAndOrder (run_select E (buildListQuery f b) db) f, db)"
  by (simp add: PartRepo_list_def act_simps split: option.splits)

lemmas PartRepo_lists = PartRepo_List_def PartRepo_ListForUpdate_def PartRepo_list_app

lemma convert_rows_Ret:
  "mapR (convert_row db) us = Ret ps \<longleftrightarrow> map (part_of db) us = map Some ps"
proof -
  have "convert_row db u = Ret p \<longleftrightarrow> part_of db u = Some p" for u p
    by (auto simp: convert_row_def part_of_def split: option.splits res.splits)
  then show ?thesis
    by (simp add: mapR_Ret_iff list_all2_conv_all_nth list_eq_iff_nth_eq)
       (metis length_map nth_map)
qed

lemma part_of_uuid: "db_keys_ok db \<Longrightarrow> part_of db u = Some p \<Longrightarrow> p_uuid p = u"
  by (auto simp: part_of_def row_of_Some_iff dest: PartRecordToModel_uuid
           split: option.splits res.splits)

lemma map_part_of_uuid:
  "db_keys_ok db \<Longrightarrow> map (part_of db) us = map Some ps \<Longrightarrow> map p_uuid ps = us"
  by (auto simp: list_eq_iff_nth_eq) (metis nth_map part_of_uuid)

text \<open>A request without identifiers and without a type returns every row, once.\<close>

lemma select_all_mset:
  "pf_UUIDs f = [] \<Longrightarrow> pf_PartType f = PartTypeUnspecified \<Longrightarrow>
     mset (run_select E (buildListQuery f b) db) = mset (parts db)"
  by (simp add: run_select_def buildListQuery_def row_selected_def)

lemma select_subset: "set (run_select E q db) \<subseteq> set (parts db)"
  by (auto simp: run_select_def Let_def split: order_clause.splits)

lemma select_keys_distinct: "db_keys_ok db \<Longrightarrow> distinct (map rec_UUID (run_select E q db))"
proof -
  assume "db_keys_ok db"
  then have "distinct (map rec_UUID (filter (row_selected (sel_where q)) (parts db)))"
    by (simp add: db_keys_ok_def distinct_map_filter)
  moreover have "mset (map rec_UUID (run_select E q db))
      = mset (map rec_UUID (filter (row_selected (sel_where q)) (parts db)))"
    by (simp add: run_select_def Let_def split: order_clause.splits)
  ultimately show ?thesis using mset_eq_imp_distinct_iff by blast
qed

lemma convert_listed_rows:
  assumes "db_keys_ok db" "set rs \<subseteq> set (parts db)" "mapR PartRecordToModel rs = Ret ps"
  shows "map (part_of db) (map rec_UUID rs) = map Some ps"
  using assms(2,3)
proof (induction rs arbitrary: ps)
  case (Cons r rs)
  then have "row_of db (rec_UUID r) = Some r"
    using assms(1) by (simp add: row_of_Some_iff)
  with Cons show ?case by (auto simp: bindR_Ret_iff part_of_def)
qed simp

text \<open>What a successful \<open>list\<close> returns: the parts of distinct rows, for a request by
  identifiers exactly those of the request and in its order.\<close>

lemma PartRepo_list_Ret:
  assumes "db_keys_ok db" "fst (PartRepo_list E f b db) = Ret ps"
  shows "\<exists>us. distinct us \<and> map (part_of db) us = map Some ps \<and>
    (if pf_UUIDs f \<noteq> [] then us = pf_UUIDs f
     else pf_PartType f = PartTypeUnspecified \<longrightarrow> set us = rec_UUID ` set (parts db))"
proof -
  let ?rows = "run_select E (buildListQuery f b) db"
  from assms(2) have ps: "mapAndOrder ?rows f = Ret ps"
    by (auto simp: PartRepo_list_app split: option.splits)
  show ?thesis
  proof (cases "pf_UUIDs f = []")
    case True
    with ps have "mapR PartRecordToModel ?rows = Ret ps" by (simp add: mapAndOrder_def)
    with assms(1) have "map (part_of db) (map rec_UUID ?rows) = map Some ps"
      by (intro convert_listed_rows select_subset)
    moreover have "pf_PartType f = PartTypeUnspecified \<longrightarrow>
        set (map rec_UUID ?rows) = rec_UUID ` set (parts db)"
      using select_all_mset [OF True, of E b db] by (metis mset_eq_setD set_map)
    ultimately show ?thesis
      using True select_keys_distinct [OF assms(1)] by metis
  next
    case False
    with ps assms(1) show ?thesis
      by (auto simp: mapAndOrder_by_uuids convert_rows_Ret split: if_splits)
  qed
qed

subsection \<open>The batch update\<close>

lemma batch_entry_zip:
  "batch_entry qs u = map_option (\<lambda>q. (p_reserved q, p_stockQuantity q)) (map_of (zip (map p_uuid qs) qs) u)"
  by (induction qs) (auto simp: batch_entry_def)

lemma update_row_uuid [simp]: "rec_UUID (update_row qs r) = rec_UUID r"
  by (simp add: update_row_def split: option.splits)

lemma update_keys_ok [simp]:
  "db_keys_ok (db\<lparr>parts := map (update_row qs) (parts db)\<rparr>) = db_keys_ok db"
  by (simp add: db_keys_ok_def comp_def)

lemma update_row_of:
  "row_of (db\<lparr>parts := map (update_row qs) (parts db)\<rparr>) u = map_option (update_row qs) (row_of db u)"
proof -
  have "find (\<lambda>r. rec_UUID r = u) (map (update_row qs) rs)
      = map_option (update_row qs) (find (\<lambda>r. rec_UUID r = u) rs)" for rs
    by (induction rs) auto
  then show ?thesis by (simp add: row_of_def)
qed

lemma PartRecordToModel_counters:
  "PartRecordToModel (r\<lparr>rec_Reserved := a, rec_StockQuantity := b\<rparr>) =
     (case PartRecordToModel r of
        Ret p \<Rightarrow> Ret (p\<lparr>p_reserved := a, p_stockQuantity := b\<rparr>) | Err e \<Rightarrow> Err e | Panic m \<Rightarrow> Panic m)"
  by (cases "json_Unmarshal_props (rec_Properties r)";
      cases "partPropertiesFromRecord (the (json_Unmarshal_props (rec_Properties r)))";
      cases "NewPartType (rec_PartType r)")
     (simp_all add: PartRecordToModel_def RestorePart_def)

lemma same_identity_counters:
  "same_identity p q \<Longrightarrow> p\<lparr>p_reserved := p_reserved q, p_stockQuantity := p_stockQuantity q\<rparr> = q"
  by (cases p; cases q) (auto simp: same_identity_def)

lemma part_of_update:
  assumes keys: "db_keys_ok db" and us: "distinct us" "map (part_of db) us = map Some ps"
    and qs: "list_all2 same_identity ps qs"
  shows "part_of (db\<lparr>parts := map (update_row qs) (parts db)\<rparr>) = part_of db ++ map_of (zip us qs)"
proof
  fix u
  let ?db' = "db\<lparr>parts := map (update_row qs) (parts db)\<rparr>"
  have uuids: "map p_uuid qs = us"
    using keys us same_identity_uuids [OF qs] by (simp add: map_part_of_uuid)
  show "part_of ?db' u = (part_of db ++ map_of (zip us qs)) u"
  proof (cases "map_of (zip us qs) u")
    case None
    then have "batch_entry qs u = None" by (simp add: batch_entry_zip uuids)
    moreover have "rec_UUID r = u" if "row_of db u = Some r" for r
      using keys that by (simp add: row_of_Some_iff)
    ultimately have "map_option (update_row qs) (row_of db u) = row_of db u"
      by (cases "row_of db u") (simp_all add: update_row_def)
    then have "part_of ?db' u = part_of db u"
      by (simp add: part_of_def update_row_of)
    with None show ?thesis by (simp add: map_add_def)
  next
    case (Some q)
    then obtain i where i: "i < length us" "i < length qs" "us ! i = u" "qs ! i = q"
      by (auto dest!: map_of_SomeD simp: in_set_zip)
    with us(2) qs have p: "part_of db u = Some (ps ! i)" and id: "same_identity (ps ! i) q"
      by (auto simp: list_eq_iff_nth_eq list_all2_conv_all_nth)
    then obtain r where r: "row_of db u = Some r" "PartRecordToModel r = Ret (ps ! i)"
      by (auto simp: part_of_def split: option.splits res.splits)
    then have "update_row qs r = r\<lparr>rec_Reserved := p_reserved q, rec_StockQuantity := p_stockQuantity q\<rparr>"
      using keys Some by (simp add: update_row_def batch_entry_zip uuids row_of_Some_iff)
    with r id have "part_of ?db' u = Some q"
      by (simp add: part_of_def update_row_of PartRecordToModel_counters same_identity_counters)
    with Some show ?thesis by (simp add: map_add_def)
  qed
qed

lemma rows_affected_0:
  "rows_affected qs db = 0 \<longleftrightarrow> (\<forall>r \<in> set (parts db). batch_entry qs (rec_UUID r) = None)"
  by (simp add: rows_affected_def filter_empty_conv) (metis option.exhaust option.distinct(1) surj_pair)

lemma part_of_counters:
  assumes "part_of db u = Some p"
  shows "\<exists>r \<in> set (parts db). p_reserved p = rec_Reserved r \<and> p_stockQuantity p = rec_StockQuantity r"
proof -
  from assms obtain r where "row_of db u = Some r" "PartRecordToModel r = Ret p"
    by (auto simp: part_of_def split: option.splits res.splits)
  then show ?thesis
    by (metis PartRecordToModel_counters_of find_Some_iff nth_mem row_of_def)
qed

end
