(* ===== verification/Inventory_Service.thy ===== *)
theory Inventory_Service
  imports Inventory_Repository
begin

text \<open>
  The application service of the inventory (\<open>inventory/internal/service/application/part\<close>).
  The struct \<open>service\<close> with its three interfaces (\<open>deps.go\<close>) is a record of functions;
  \<open>part_store\<close> is the contract the service relies on, \<open>bulk_operation\<close> proves the three
  bulk operations once, and both are interpreted on the repository of \<open>Inventory_Repository\<close>.
\<close>

subsection \<open>The service and its operations\<close>

record 'w part_service =
  ps_txDo :: "('w, unit, inv_error) act \<Rightarrow> ('w, unit, inv_error) act"
  ps_Get :: "uuid \<Rightarrow> ('w, Part, inv_error) act"
  ps_List :: "PartFilter \<Rightarrow> ('w, Part list, inv_error) act"
  ps_ListForUpdate :: "PartFilter \<Rightarrow> ('w, Part list, inv_error) act"
  ps_UpdateReservedBatch :: "Part list \<Rightarrow> ('w, unit, inv_error) act"
  ps_Check :: "ResolvedShipSlots \<Rightarrow> unit inv_res"

definition PartService_Reserve :: "'w part_service \<Rightarrow> uuid list \<Rightarrow> ('w, unit, inv_error) act" where
  "PartService_Reserve s uuids =
     ps_txDo s
       (bindA (wrapA ''failed to fetch parts''
                (ps_ListForUpdate s \<lparr>pf_UUIDs = uuids, pf_PartType = PartTypeUnspecified\<rparr>)) (\<lambda>parts.
        bindA (liftR (mapR (\<lambda>p. wrapR ''failed to reserve parts'' (Part_Reserve p)) parts)) (\<lambda>parts.
        ps_UpdateReservedBatch s parts)))"

definition PartService_Release :: "'w part_service \<Rightarrow> uuid list \<Rightarrow> ('w, unit, inv_error) act" where
  "PartService_Release s uuids =
     ps_txDo s
       (bindA (wrapA ''failed to fetch parts''
                (ps_ListForUpdate s \<lparr>pf_UUIDs = uuids, pf_PartType = PartTypeUnspecified\<rparr>)) (\<lambda>parts.
        bindA (liftR (mapR (\<lambda>p. wrapR ''failed to release parts'' (Part_Release p)) parts)) (\<lambda>parts.
        ps_UpdateReservedBatch s parts)))"

definition PartService_Commit :: "'w part_service \<Rightarrow> uuid list \<Rightarrow> ('w, unit, inv_error) act" where
  "PartService_Commit s uuids =
     ps_txDo s
       (bindA (wrapA ''failed to fetch parts''
                (ps_ListForUpdate s \<lparr>pf_UUIDs = uuids, pf_PartType = PartTypeUnspecified\<rparr>)) (\<lambda>parts.
        bindA (liftR (mapR (\<lambda>p. wrapR ''failed to commit parts'' (Part_Commit p)) parts)) (\<lambda>parts.
        ps_UpdateReservedBatch s parts)))"

definition PartService_Get :: "'w part_service \<Rightarrow> uuid \<Rightarrow> ('w, Part, inv_error) act" where
  "PartService_Get s u = wrapA ''failed to fetch part'' (ps_Get s u)"

definition PartService_List :: "'w part_service \<Rightarrow> uuid list \<Rightarrow> PartType \<Rightarrow> ('w, Part list, inv_error) act" where
  "PartService_List s uuids partType =
     wrapA ''failed to fetch parts'' (ps_List s \<lparr>pf_UUIDs = uuids, pf_PartType = partType\<rparr>)"

subsection \<open>Ship slots\<close>

record slotRequest =
  sr_name :: string
  sr_uuid :: uuid
  sr_partType :: PartType
  sr_required :: bool

definition slot_requests :: "ShipSlots \<Rightarrow> slotRequest list" where
  "slot_requests slots =
     [\<lparr>sr_name = ''hull'', sr_uuid = slot_HullUUID slots, sr_partType = PartTypeHull, sr_required = True\<rparr>,
      \<lparr>sr_name = ''engine'', sr_uuid = slot_EngineUUID slots, sr_partType = PartTypeEngine, sr_required = True\<rparr>,
      \<lparr>sr_name = ''shield'', sr_uuid = slot_ShieldUUID slots, sr_partType = PartTypeShield, sr_required = False\<rparr>,
      \<lparr>sr_name = ''weapon'', sr_uuid = slot_WeaponUUID slots, sr_partType = PartTypeWeapon, sr_required = False\<rparr>]"

fun collect_uuids :: "slotRequest list \<Rightarrow> uuid list inv_res" where
  "collect_uuids [] = Ret []"
| "collect_uuids (request # requests) =
     (if sr_uuid request = uuid_Nil
      then if sr_required request
        then Err (Wrap ''%s_uuid is required'' (Sent ErrInvalidUUID))
        else collect_uuids requests
      else bindR (collect_uuids requests) (\<lambda>uuids. Ret (sr_uuid request # uuids)))"

fun validateDuplicateUUIDs_from :: "(uuid \<Rightarrow> string option) \<Rightarrow> slotRequest list \<Rightarrow> unit inv_res" where
  "validateDuplicateUUIDs_from seen [] = Ret ()"
| "validateDuplicateUUIDs_from seen (r # rs) =
     (if sr_uuid r = uuid_Nil then validateDuplicateUUIDs_from seen rs
      else if seen (sr_uuid r) \<noteq> None
      then Err (Wrap ''uuid %s is duplicated in slots %s and %s'' (Sent ErrInvalidUUID))
      else validateDuplicateUUIDs_from (seen(sr_uuid r \<mapsto> sr_name r)) rs)"

definition validateDuplicateUUIDs :: "slotRequest list \<Rightarrow> unit inv_res" where
  "validateDuplicateUUIDs = validateDuplicateUUIDs_from Map.empty"

definition byUUID :: "Part list \<Rightarrow> uuid \<Rightarrow> Part option" where
  "byUUID ps = foldl (\<lambda>m p. m(p_uuid p \<mapsto> p)) Map.empty ps"

definition fill_slot :: "PartType \<Rightarrow> Part \<Rightarrow> ResolvedShipSlots \<Rightarrow> ResolvedShipSlots" where
  "fill_slot t part resolved =
     (if t = PartTypeHull then resolved\<lparr>rs_Hull := Some part\<rparr>
      else if t = PartTypeEngine then resolved\<lparr>rs_Engine := Some part\<rparr>
      else if t = PartTypeShield then resolved\<lparr>rs_Shield := Some part\<rparr>
      else if t = PartTypeWeapon then resolved\<lparr>rs_Weapon := Some part\<rparr>
      else resolved)"

fun fill_slots :: "(uuid \<Rightarrow> Part option) \<Rightarrow> slotRequest list \<Rightarrow> ResolvedShipSlots \<Rightarrow> ResolvedShipSlots inv_res" where
  "fill_slots m [] resolved = Ret resolved"
| "fill_slots m (request # requests) resolved =
     (if sr_uuid request = uuid_Nil then fill_slots m requests resolved
      else case m (sr_uuid request) of
          None \<Rightarrow> Err (Wrap ''part %q for slot %s'' (Sent ErrPartNotFound))
        | Some part \<Rightarrow>
            (if p_partType part \<noteq> sr_partType request
             then Err (Wrap ''slot %s received a part of type %s, expected %s'' (Sent ErrPartTypeMismatch))
             else fill_slots m requests (fill_slot (sr_partType request) part resolved)))"

definition no_slots :: ResolvedShipSlots where
  "no_slots = \<lparr>rs_Hull = None, rs_Engine = None, rs_Shield = None, rs_Weapon = None\<rparr>"

text \<open>The filter of this call leaves \<open>PartType\<close> at its zero value, the empty string.\<close>

definition resolveShipSlots :: "'w part_service \<Rightarrow> ShipSlots \<Rightarrow> ('w, ResolvedShipSlots, inv_error) act" where
  "resolveShipSlots s slots =
     bindA (liftR (collect_uuids (slot_requests slots))) (\<lambda>uuids.
     bindA (liftR (validateDuplicateUUIDs (slot_requests slots))) (\<lambda>_.
     bindA (wrapA ''fetch parts'' (ps_List s \<lparr>pf_UUIDs = uuids, pf_PartType = ''''\<rparr>)) (\<lambda>parts.
     liftR (fill_slots (byUUID parts) (slot_requests slots) no_slots))))"

definition PartService_ValidateCompatibility :: "'w part_service \<Rightarrow> ShipSlots \<Rightarrow> ('w, unit, inv_error) act" where
  "PartService_ValidateCompatibility s slots =
     bindA (resolveShipSlots s slots) (\<lambda>resolved. liftR (ps_Check s resolved))"

subsection \<open>The contract of the store and the bulk operations\<close>

text \<open>
  What the bulk operations need of the transaction manager and the repository: the list leaves the
  world alone and returns the parts of the view, the batch update overrides the view at the parts it
  is given, and a transaction that does not commit leaves nothing behind.
\<close>

locale part_store =
  fixes s :: "'w part_service"
    and view :: "'w \<Rightarrow> uuid \<Rightarrow> Part option"
    and wf :: "'w \<Rightarrow> bool"
    and keys :: "'w \<Rightarrow> uuid set"
  assumes tx: "tx_manager (ps_txDo s) (\<lambda>w w'. w)"
    and list_frame: "snd (ps_ListForUpdate s f w) = w"
    and list_Ret: "wf w \<Longrightarrow>
      fst (ps_ListForUpdate s \<lparr>pf_UUIDs = us, pf_PartType = PartTypeUnspecified\<rparr> w) = Ret ps \<Longrightarrow>
      \<exists>us'. distinct us' \<and> set us' \<subseteq> keys w \<and> map (view w) us' = map Some ps \<and>
        (if us \<noteq> [] then us' = us else set us' = keys w)"
    and update_Ret: "wf w \<Longrightarrow> distinct us' \<Longrightarrow> map (view w) us' = map Some ps \<Longrightarrow>
      list_all2 same_identity ps qs \<Longrightarrow> ps_UpdateReservedBatch s qs w = (Ret (), w') \<Longrightarrow>
      view w' = view w ++ map_of (zip us' qs) \<and> wf w' \<and> keys w' = keys w"

locale bulk_operation = part_store s view wf keys + part_operation op
  for s :: "'w part_service" and view wf keys op +
  fixes run :: "uuid list \<Rightarrow> ('w, unit, inv_error) act" and msg :: string
  assumes run_def: "run uuids =
     ps_txDo s
       (bindA (wrapA ''failed to fetch parts''
                (ps_ListForUpdate s \<lparr>pf_UUIDs = uuids, pf_PartType = PartTypeUnspecified\<rparr>)) (\<lambda>parts.
        bindA (liftR (mapR (\<lambda>p. wrapR msg (op p)) parts)) (\<lambda>parts.
        ps_UpdateReservedBatch s parts)))"
begin

lemma run_not_Ret: "fst (run us w) \<noteq> Ret () \<Longrightarrow> snd (run us w) = w"
  unfolding run_def by (rule tx_manager.Do_not_Ret [OF tx]) (metis (full_types) old.unit.exhaust)

lemma run_Ret:
  assumes "wf w" and run: "run us w = (Ret (), w')"
  shows "\<exists>us' ps qs. distinct us' \<and> set us' \<subseteq> keys w \<and> map (view w) us' = map Some ps \<and>
    (if us \<noteq> [] then us' = us else set us' = keys w) \<and> mapR op ps = Ret qs \<and>
    view w' = view w ++ map_of (zip us' qs) \<and> wf w' \<and> keys w' = keys w"
proof -
  let ?f = "\<lparr>pf_UUIDs = us, pf_PartType = PartTypeUnspecified\<rparr>"
  from tx_manager.Do_RetD [OF tx run [unfolded run_def]]
  obtain ps qs w1 where ps: "ps_ListForUpdate s ?f w = (Ret ps, w1)" and qs: "mapR op ps = Ret qs"
    and upd: "ps_UpdateReservedBatch s qs w1 = (Ret (), w')"
    by (auto simp: bindA_Ret_iff wrapA_Ret_iff mapR_wrap)
  from ps list_frame [of ?f w] have w1: "w1 = w" by simp
  from list_Ret [OF assms(1), of us ps] ps
  obtain us' where us': "distinct us'" "set us' \<subseteq> keys w" "map (view w) us' = map Some ps"
      "if us \<noteq> [] then us' = us else set us' = keys w" by auto
  from qs have "list_all2 same_identity ps qs"
    by (auto simp: mapR_Ret_iff elim!: list_all2_mono intro: op_identity)
  with update_Ret [OF assms(1) us'(1,3)] upd us' qs w1 show ?thesis by blast
qed

text \<open>The invariant of the entity, on every part of the view, survives every outcome of a call.\<close>

lemma run_keeps_ok:
  assumes "wf w" "\<And>u p. view w u = Some p \<Longrightarrow> part_ok p"
  shows "wf (snd (run us w)) \<and> keys (snd (run us w)) = keys w \<and>
    dom (view w) \<subseteq> dom (view (snd (run us w))) \<and>
    (\<forall>u p. view (snd (run us w)) u = Some p \<longrightarrow> part_ok p)"
proof (cases "fst (run us w) = Ret ()")
  case False
  with run_not_Ret assms show ?thesis by simp
next
  case True
  then have "run us w = (Ret (), snd (run us w))" by (simp add: prod_eq_iff)
  from run_Ret [OF assms(1) this] obtain us' ps qs where
    us': "map (view w) us' = map Some ps" and qs: "mapR op ps = Ret qs"
    and w': "view (snd (run us w)) = view w ++ map_of (zip us' qs)" "wf (snd (run us w))"
      "keys (snd (run us w)) = keys w"
    by blast
  have "view w u = Some p" if "(u, p) \<in> set (zip us' ps)" for u p
    using us' that by (auto simp: in_set_zip list_eq_iff_nth_eq)
  with assms(2) us' have "list_all part_ok ps"
    by (auto simp: list_all_length list_eq_iff_nth_eq)
  with qs have "list_all part_ok qs" by (rule mapR_ok)
  with assms(2) w' show ?thesis
    by (auto simp: list_all_iff map_add_Some_iff dest!: map_of_SomeD set_zip_rightD)
qed

end

subsection \<open>The contract holds of the repository\<close>

text \<open>The service as \<open>di.go\<close> puts it together: repository, checker and transaction manager.\<close>

definition NewPartService ::
    "pg_env \<Rightarrow> ((inv_db, unit, inv_error) act \<Rightarrow> (inv_db, unit, inv_error) act) \<Rightarrow> inv_db part_service" where
  "NewPartService E Do =
     \<lparr>ps_txDo = Do, ps_Get = PartRepo_Get E, ps_List = PartRepo_List E,
      ps_ListForUpdate = PartRepo_ListForUpdate E,
      ps_UpdateReservedBatch = PartRepo_UpdateReservedBatch E, ps_Check = CompatibilityChecker_Check\<rparr>"

abbreviation db_keys :: "inv_db \<Rightarrow> uuid set" where
  "db_keys db \<equiv> rec_UUID ` set (parts db)"

abbreviation (input) db_rollback :: "'w \<Rightarrow> 'w \<Rightarrow> 'w" where
  "db_rollback \<equiv> \<lambda>w w'. w"

lemma part_of_Some_key: "part_of db u = Some p \<Longrightarrow> u \<in> db_keys db"
  using row_of_None_iff [of db u] by (auto simp: part_of_def split: option.splits)

lemma map_part_of_keys: "map (part_of db) us = map Some ps \<Longrightarrow> set us \<subseteq> db_keys db"
  by (auto simp: list_eq_iff_nth_eq in_set_conv_nth) (metis part_of_Some_key)

lemma PartRepo_part_store:
  assumes "tx_manager Do db_rollback"
  shows "part_store (NewPartService E Do) part_of db_keys_ok db_keys"
proof (rule part_store.intro)
  let ?s = "NewPartService E Do"
  show "tx_manager (ps_txDo ?s) db_rollback"
    using assms by (simp add: NewPartService_def)
  show "snd (ps_ListForUpdate ?s f w) = w" for f w
    by (simp add: NewPartService_def PartRepo_lists)
  show "\<exists>us'. distinct us' \<and> set us' \<subseteq> db_keys w \<and> map (part_of w) us' = map Some ps \<and>
      (if us \<noteq> [] then us' = us else set us' = db_keys w)"
    if "db_keys_ok w"
      "fst (ps_ListForUpdate ?s \<lparr>pf_UUIDs = us, pf_PartType = PartTypeUnspecified\<rparr> w) = Ret ps"
    for w us ps
  proof -
    from that(2) have "fst (PartRepo_list E \<lparr>pf_UUIDs = us, pf_PartType = PartTypeUnspecified\<rparr> True w) = Ret ps"
      by (simp add: NewPartService_def PartRepo_ListForUpdate_def)
    from PartRepo_list_Ret [OF that(1) this] obtain us' where
      us': "distinct us'" "map (part_of w) us' = map Some ps" "if us \<noteq> [] then us' = us else set us' = db_keys w"
      by auto
    with map_part_of_keys [OF us'(2)] show ?thesis by blast
  qed
  show "part_of w' = part_of w ++ map_of (zip us' qs) \<and> db_keys_ok w' \<and> db_keys w' = db_keys w"
    if "db_keys_ok w" "distinct us'" "map (part_of w) us' = map Some ps"
      "list_all2 same_identity ps qs" "ps_UpdateReservedBatch ?s qs w = (Ret (), w')"
    for w us' ps qs w'
    using that
    by (auto simp: NewPartService_def PartRepo_UpdateReservedBatch_def act_simps part_of_update
                   image_image split: option.splits if_splits)
qed

locale inventory_backend =
  fixes E :: pg_env
    and Do :: "(inv_db, unit, inv_error) act \<Rightarrow> (inv_db, unit, inv_error) act"
  assumes manager: "tx_manager Do db_rollback"

sublocale inventory_backend \<subseteq> reserving:
    bulk_operation "NewPartService E Do" part_of db_keys_ok db_keys Part_Reserve
      "PartService_Reserve (NewPartService E Do)" "''failed to reserve parts''"
  by (intro bulk_operation.intro bulk_operation_axioms.intro PartRepo_part_store manager
        reserve.part_operation_axioms) (simp add: PartService_Reserve_def)

sublocale inventory_backend \<subseteq> releasing:
    bulk_operation "NewPartService E Do" part_of db_keys_ok db_keys Part_Release
      "PartService_Release (NewPartService E Do)" "''failed to release parts''"
  by (intro bulk_operation.intro bulk_operation_axioms.intro PartRepo_part_store manager
        release.part_operation_axioms) (simp add: PartService_Release_def)

sublocale inventory_backend \<subseteq> committing:
    bulk_operation "NewPartService E Do" part_of db_keys_ok db_keys Part_Commit
      "PartService_Commit (NewPartService E Do)" "''failed to commit parts''"
  by (intro bulk_operation.intro bulk_operation_axioms.intro PartRepo_part_store manager
        commit.part_operation_axioms) (simp add: PartService_Commit_def)

context inventory_backend
begin

lemmas reserve_keeps = reserving.run_keeps_ok
lemmas release_keeps = releasing.run_keeps_ok
lemmas commit_keeps = committing.run_keeps_ok
lemmas reserve_not_Ret = reserving.run_not_Ret
lemmas release_not_Ret = releasing.run_not_Ret
lemmas commit_not_Ret = committing.run_not_Ret
lemmas reserve_Ret = reserving.run_Ret

end

interpretation pg_inventory: inventory_backend E "pg_Do db_rollback commit_outcome"
  for E commit_outcome
  by unfold_locales (auto simp: pg_Do_def split: option.splits)

end
