(* ===== verification/Inventory_Stock.thy ===== *)
theory Inventory_Stock
  imports Inventory_Service
begin

text \<open>
  What the bulk operations of the inventory promise: an abstract specification on the view
  \<open>uuid \<rightharpoonup> Part\<close>, the refinement of it by \<open>Reserve\<close>, \<open>Release\<close> and
  \<open>Commit\<close>, and the accounting of the two counters over any sequence of calls, whatever the
  driver and the transaction manager do in between.
\<close>

subsection \<open>Abstract specification\<close>

text \<open>How a call ends, for a caller that only looks at the sentinel behind the error.\<close>

datatype 'e outcome = Success | Sentinel 'e | Failure

fun outcome_of :: "('a, 'e) res \<Rightarrow> 'e outcome" where
  "outcome_of (Ret x) = Success"
| "outcome_of (Err e) = (case cause e of Sent s \<Rightarrow> Sentinel s | _ \<Rightarrow> Failure)"
| "outcome_of (Panic p) = Failure"

definition bulk_spec ::
    "(Part \<Rightarrow> bool) \<Rightarrow> (Part \<Rightarrow> Part) \<Rightarrow> inv_error \<Rightarrow> uuid list \<Rightarrow> (uuid \<Rightarrow> Part option)
      \<Rightarrow> inv_error outcome \<times> (uuid \<Rightarrow> Part option)" where
  "bulk_spec enabled upd sentinel us v =
     (if \<not> distinct us \<or> (\<exists>u \<in> set us. v u = None) then (Sentinel ErrPartNotFound, v)
      else if \<exists>u \<in> set us. \<not> enabled (the (v u)) then (Sentinel sentinel, v)
      else (Success, \<lambda>u. if u \<in> set us then map_option upd (v u) else v u))"

definition available :: "Part \<Rightarrow> bool" where
  "available p \<longleftrightarrow> p_reserved p < p_stockQuantity p"

definition has_reserved :: "Part \<Rightarrow> bool" where
  "has_reserved p \<longleftrightarrow> 0 < p_reserved p"

definition add_reserved :: "Part \<Rightarrow> Part" where
  "add_reserved p = p\<lparr>p_reserved := p_reserved p + 1\<rparr>"

definition drop_reserved :: "Part \<Rightarrow> Part" where
  "drop_reserved p = p\<lparr>p_reserved := p_reserved p - 1\<rparr>"

definition take_out :: "Part \<Rightarrow> Part" where
  "take_out p = p\<lparr>p_reserved := p_reserved p - 1, p_stockQuantity := p_stockQuantity p - 1\<rparr>"

text \<open>A table is sound when keys are unique and every row converts to a part within bounds.\<close>

definition row_ok :: "PartRecord \<Rightarrow> bool" where
  "row_ok r = (case PartRecordToModel r of Ret p \<Rightarrow> part_ok p | _ \<Rightarrow> False)"

definition db_ok :: "inv_db \<Rightarrow> bool" where
  "db_ok db \<longleftrightarrow> db_keys_ok db \<and> list_all row_ok (parts db)"

lemma db_ok_part:
  assumes "db_ok db" "row_of db u = Some r"
  obtains p where "PartRecordToModel r = Ret p" "part_of db u = Some p" "part_ok p"
proof -
  from assms have "row_ok r" by (auto simp: db_ok_def row_of_Some_iff list_all_iff)
  with assms(2) that show ?thesis
    by (auto simp: row_ok_def part_of_def split: res.splits)
qed

lemma db_ok_iff:
  "db_ok db \<longleftrightarrow> db_keys_ok db \<and>
     (\<forall>u \<in> db_keys db. \<exists>p. part_of db u = Some p \<and> part_ok p)"
proof (cases "db_keys_ok db")
  case True
  then have "row_of db (rec_UUID r) = Some r" if "r \<in> set (parts db)" for r
    using that by (simp add: row_of_Some_iff)
  with True show ?thesis
    by (auto simp: db_ok_def list_all_iff row_ok_def part_of_def split: res.splits)
qed (simp add: db_ok_def)

lemma db_ok_present:
  assumes "db_ok db"
  shows "part_of db u = None \<longleftrightarrow> row_of db u = None"
proof (cases "row_of db u")
  case (Some r)
  with assms show ?thesis by (auto elim: db_ok_part)
qed (simp add: part_of_def)

lemma convert_rows_ok:
  assumes "db_ok db" "\<forall>u \<in> set us. part_of db u \<noteq> None"
  shows "mapR (convert_row db) us = Ret (map (the \<circ> part_of db) us)"
  using assms(2)
proof (induction us)
  case (Cons u us)
  then obtain r where "row_of db u = Some r"
    using db_ok_present [OF assms(1)] by auto
  with Cons assms(1) show ?case
    by (auto simp: convert_row_def elim!: db_ok_part)
qed simp

lemma list_for_update_ok:
  assumes "db_ok db" "pg_up E" "us \<noteq> []"
  shows "PartRepo_ListForUpdate E \<lparr>pf_UUIDs = us, pf_PartType = t\<rparr> db =
    (if distinct us \<and> (\<forall>u \<in> set us. part_of db u \<noteq> None)
     then Ret (map (the \<circ> part_of db) us)
     else Err (Wrap ''find parts'' (Sent ErrPartNotFound)), db)"
  using assms db_ok_present [OF assms(1)]
  by (auto simp: PartRepo_lists mapAndOrder_by_uuids db_ok_def convert_rows_ok)

subsection \<open>Refinement of the specification\<close>

text \<open>
  An operation of the entity given by a guard, an update and the sentinel of a failed guard; and a
  bulk operation made of it, run on a server that answers.
\<close>

locale guarded_operation = part_operation op
  for op :: "Part \<Rightarrow> Part inv_res" +
  fixes enabled :: "Part \<Rightarrow> bool" and upd :: "Part \<Rightarrow> Part" and sentinel :: inv_error
  assumes op_enabled: "part_ok p \<Longrightarrow> enabled p \<Longrightarrow> op p = Ret (upd p)"
    and op_disabled: "part_ok p \<Longrightarrow> \<not> enabled p \<Longrightarrow> \<exists>m. op p = Err (Wrap m (Sent sentinel))"
begin

lemma mapR_enabled:
  "list_all part_ok ps \<Longrightarrow> list_all enabled ps \<Longrightarrow> mapR op ps = Ret (map upd ps)"
  by (rule mapR_Ret_map) (auto simp: list_all_iff op_enabled)

lemma mapR_disabled:
  "list_all part_ok ps \<Longrightarrow> \<not> list_all enabled ps \<Longrightarrow> \<exists>m. mapR op ps = Err (Wrap m (Sent sentinel))"
proof (induction ps)
  case (Cons p ps)
  show ?case
  proof (cases "enabled p")
    case True
    with Cons show ?thesis by (auto simp: op_enabled)
  next
    case False
    with Cons.prems op_disabled [of p] show ?thesis by auto
  qed
qed simp

end

lemma part_of_ok: "db_ok db \<Longrightarrow> part_of db u = Some p \<Longrightarrow> part_ok p"
  using db_ok_iff part_of_Some_key by fastforce

lemma batch_update_ok:
  assumes "db_ok db" "pg_up E" "us \<noteq> []" "distinct us" "\<forall>u \<in> set us. part_of db u \<noteq> None"
    and "\<forall>u \<in> set us. same_identity (the (part_of db u)) (g (the (part_of db u)))"
  shows "\<exists>db'. PartRepo_UpdateReservedBatch E (map (g \<circ> (the \<circ> part_of db)) us) db = (Ret (), db')
    \<and> part_of db' = (\<lambda>u. if u \<in> set us then map_option g (part_of db u) else part_of db u)"
proof -
  let ?ps = "map (the \<circ> part_of db) us" and ?qs = "map (g \<circ> (the \<circ> part_of db)) us"
  let ?db' = "db\<lparr>parts := map (update_row ?qs) (parts db)\<rparr>"
  have us: "map (part_of db) us = map Some ?ps"
    using assms(5) by auto
  have ids: "list_all2 same_identity ?ps ?qs"
    using assms(6) by (simp add: list_all2_conv_all_nth)
  from assms(1) have keys: "db_keys_ok db" by (simp add: db_ok_def)
  have "part_of ?db' = part_of db ++ map_of (zip us ?qs)"
    by (rule part_of_update [OF keys assms(4) us ids])
  also have "\<dots> = (\<lambda>u. if u \<in> set us then map_option g (part_of db u) else part_of db u)"
    using assms(5) by (auto simp: fun_eq_iff map_add_def map_of_zip_map split: option.splits)
  finally have view: "part_of ?db' = \<dots>" .
  have "rows_affected ?qs db \<noteq> 0"
  proof -
    obtain u r where u: "u \<in> set us" "r \<in> set (parts db)" "rec_UUID r = u"
      using assms(3,5) db_ok_present [OF assms(1)] keys row_of_Some_iff
      by (metis (no_types, lifting) list.set_intros(1) neq_Nil_conv option.exhaust)
    moreover have "map p_uuid ?qs = us"
      using map_part_of_uuid [OF keys us] same_identity_uuids [OF ids] by simp
    ultimately show ?thesis
      by (auto simp: rows_affected_0 batch_entry_zip)
  qed
  with view assms(2) show ?thesis
    by (simp add: PartRepo_UpdateReservedBatch_def act_simps)
qed

text \<open>The closure that the three operations give to the transaction manager.\<close>

definition bulk_body :: "pg_env \<Rightarrow> (Part \<Rightarrow> Part inv_res) \<Rightarrow> string \<Rightarrow> uuid list \<Rightarrow> (inv_db, unit, inv_error) act" where
  "bulk_body E op msg us =
     bindA (wrapA ''failed to fetch parts''
       (PartRepo_ListForUpdate E \<lparr>pf_UUIDs = us, pf_PartType = PartTypeUnspecified\<rparr>)) (\<lambda>parts.
     bindA (liftR (mapR (\<lambda>p. wrapR msg (op p)) parts)) (PartRepo_UpdateReservedBatch E))"

lemma PartService_bulk:
  "PartService_Reserve (NewPartService E Do) us = Do (bulk_body E Part_Reserve ''failed to reserve parts'' us)"
  "PartService_Release (NewPartService E Do) us = Do (bulk_body E Part_Release ''failed to release parts'' us)"
  "PartService_Commit (NewPartService E Do) us = Do (bulk_body E Part_Commit ''failed to commit parts'' us)"
  by (simp_all add: PartService_Reserve_def PartService_Release_def PartService_Commit_def
        NewPartService_def bulk_body_def)

text \<open>A bulk operation over a guarded operation, on a server that answers and commits.\<close>

locale guarded_bulk = guarded_operation op enabled upd sentinel
  for op enabled upd sentinel +
  fixes E :: pg_env
    and Do :: "(inv_db, unit, inv_error) act \<Rightarrow> (inv_db, unit, inv_error) act"
    and msg :: string
  assumes up: "pg_up E" and manager: "tx_manager Do db_rollback" and commit: "commits Do"
begin

abbreviation body :: "uuid list \<Rightarrow> (inv_db, unit, inv_error) act" where
  "body \<equiv> bulk_body E op msg"

lemma Do_body_Err: "body us db = (Err e, db) \<Longrightarrow> Do (body us) db = (Err e, db)"
  by (rule tx_manager.Do_Err [OF manager])

lemma upd_identity: "part_ok p \<Longrightarrow> enabled p \<Longrightarrow> same_identity p (upd p)"
  using op_enabled op_identity by blast

lemma run_refines:
  assumes db: "db_ok db" and us: "us \<noteq> []"
  shows "(outcome_of (fst (Do (body us) db)), part_of (snd (Do (body us) db)))
    = bulk_spec enabled upd sentinel us (part_of db)"
proof (cases "distinct us \<and> (\<forall>u \<in> set us. part_of db u \<noteq> None)")
  case False
  then have "body us db = (Err (Wrap ''failed to fetch parts''
      (Wrap ''find parts'' (Sent ErrPartNotFound))), db)"
    using list_for_update_ok [OF db up us] by (auto simp: bulk_body_def act_simps)
  from Do_body_Err [OF this] False show ?thesis by (auto simp: bulk_spec_def)
next
  case True
  let ?ps = "map (the \<circ> part_of db) us"
  have ok: "list_all part_ok ?ps"
    using True part_of_ok [OF db] by (fastforce simp: list_all_iff)
  have listed: "body us db = bindA (liftR (wrapR msg (mapR op ?ps))) (PartRepo_UpdateReservedBatch E) db"
    using True list_for_update_ok [OF db up us] by (simp add: bulk_body_def act_simps mapR_wrap)
  show ?thesis
  proof (cases "list_all enabled ?ps")
    case False
    from mapR_disabled [OF ok this] obtain m where "mapR op ?ps = Err (Wrap m (Sent sentinel))" ..
    with listed have "body us db = (Err (Wrap msg (Wrap m (Sent sentinel))), db)"
      by (simp add: act_simps)
    from Do_body_Err [OF this] False True show ?thesis
      by (auto simp: bulk_spec_def list_all_iff)
  next
    case en: True
    have "\<forall>u \<in> set us. same_identity (the (part_of db u)) (upd (the (part_of db u)))"
      using ok en upd_identity by (auto simp: list_all_iff)
    from batch_update_ok [OF db up us _ _ this] True obtain db' where
      upd: "PartRepo_UpdateReservedBatch E (map (upd \<circ> (the \<circ> part_of db)) us) db = (Ret (), db')"
      and "part_of db' = (\<lambda>u. if u \<in> set us then map_option upd (part_of db u) else part_of db u)"
      by blast
    moreover from listed upd mapR_enabled [OF ok en] have "body us db = (Ret (), db')"
      by (simp add: act_simps map_map [symmetric] del: map_map)
    ultimately show ?thesis
      using True en commits_app [OF commit, of "body us"]
      by (auto simp: bulk_spec_def list_all_iff)
  qed
qed

end

interpretation reserve: guarded_operation Part_Reserve available add_reserved ErrOutOfStock
proof
  show "part_ok p \<Longrightarrow> available p \<Longrightarrow> Part_Reserve p = Ret (add_reserved p)" for p
    by (auto simp: Part_Reserve_ok available_def add_reserved_def)
  show "part_ok p \<Longrightarrow> \<not> available p \<Longrightarrow> \<exists>m. Part_Reserve p = Err (Wrap m (Sent ErrOutOfStock))" for p
    by (auto simp: Part_Reserve_ok available_def) (auto simp: part_ok_def counters_ok_def)
qed

interpretation release: guarded_operation Part_Release has_reserved drop_reserved ErrNothingToRelease
proof
  show "part_ok p \<Longrightarrow> has_reserved p \<Longrightarrow> Part_Release p = Ret (drop_reserved p)" for p
    by (auto simp: Part_Release_ok has_reserved_def drop_reserved_def)
  show "part_ok p \<Longrightarrow> \<not> has_reserved p \<Longrightarrow> \<exists>m. Part_Release p = Err (Wrap m (Sent ErrNothingToRelease))" for p
    by (auto simp: Part_Release_ok has_reserved_def) (auto simp: part_ok_def counters_ok_def)
qed

interpretation commit: guarded_operation Part_Commit has_reserved take_out ErrNothingToCommit
proof
  show "part_ok p \<Longrightarrow> has_reserved p \<Longrightarrow> Part_Commit p = Ret (take_out p)" for p
    by (auto simp: Part_Commit_ok has_reserved_def take_out_def)
  show "part_ok p \<Longrightarrow> \<not> has_reserved p \<Longrightarrow> \<exists>m. Part_Commit p = Err (Wrap m (Sent ErrNothingToCommit))" for p
    by (auto simp: Part_Commit_ok has_reserved_def) (auto simp: part_ok_def counters_ok_def)
qed

text \<open>A server that answers, for the interpretations and the witnesses.\<close>

definition healthy :: "(string \<Rightarrow> int) \<Rightarrow> pg_env" where
  "healthy coll = \<lparr>pg_build = None, pg_query = None, pg_scan = None, pg_exec = None, pg_collate = coll\<rparr>"

abbreviation pg_commit :: "(inv_db, unit, inv_error) act \<Rightarrow> (inv_db, unit, inv_error) act" where
  "pg_commit \<equiv> pg_Do db_rollback None"

lemma healthy_up [simp]: "pg_up (healthy coll)"
  by (simp add: healthy_def)

lemma pg_commit_tx [simp]: "tx_manager pg_commit db_rollback"
  by (rule pg.tx_manager_axioms)

interpretation reserve_online:
    guarded_bulk Part_Reserve available add_reserved ErrOutOfStock "healthy coll" pg_commit
      "''failed to reserve parts''" for coll
  by unfold_locales (simp_all add: healthy_def commits_pg tx_manager.Do_Err [OF pg_commit_tx]
        tx_manager.Do_Ret [OF pg_commit_tx] tx_manager.Do_Panic [OF pg_commit_tx])

lemma guarded_bulk_online:
  assumes "tx_manager Do db_rollback" "commits Do" "pg_up E" "guarded_operation op enabled upd sentinel"
  shows "guarded_bulk op enabled upd sentinel E Do"
  using assms by (simp add: guarded_bulk_def guarded_bulk_axioms_def)

lemmas reserve_spec = guarded_bulk.run_refines [OF guarded_bulk_online [OF _ _ _ reserve.guarded_operation_axioms]]
lemmas release_spec = guarded_bulk.run_refines [OF guarded_bulk_online [OF _ _ _ release.guarded_operation_axioms]]
lemmas commit_spec = guarded_bulk.run_refines [OF guarded_bulk_online [OF _ _ _ commit.guarded_operation_axioms]]

subsection \<open>A small table for the witnesses\<close>

definition hull_row :: "uuid \<Rightarrow> int \<Rightarrow> int \<Rightarrow> PartRecord" where
  "hull_row u stock reserved =
     \<lparr>rec_UUID = u, rec_Name = ''Hull'', rec_Description = [], rec_PartType = PartTypeHull,
      rec_Price = 1000, rec_StockQuantity = stock, rec_Reserved = reserved,
      rec_Properties = JObj [(''hull'', JObj [(''strength'', JInt 100)])], rec_CreatedAt = 0\<rparr>"

definition hull_part :: "uuid \<Rightarrow> int \<Rightarrow> int \<Rightarrow> Part" where
  "hull_part u stock reserved =
     RestorePart u ''Hull'' [] PartTypeHull 1000 stock reserved
       (no_properties\<lparr>props_hull := Some \<lparr>hull_strength = 100\<rparr>\<rparr>) 0"

definition two_hulls :: inv_db where
  "two_hulls = \<lparr>parts = [hull_row 7 2 1, hull_row 3 5 0]\<rparr>"

lemma hull_row_part: "PartRecordToModel (hull_row u stock reserved) = Ret (hull_part u stock reserved)"
proof -
  have "json_Unmarshal_props (JObj [(''hull'', JObj [(''strength'', JInt 100)])])
      = Some (no_props_record\<lparr>pr_Hull := Some \<lparr>hr_Strength = 100\<rparr>\<rparr>)"
    by code_simp
  then show ?thesis
    by (simp add: PartRecordToModel_def hull_row_def hull_part_def partPropertiesFromRecord_def
          no_props_record_def NewHullProperties_def NewPartType_def)
qed

lemma two_hulls_ok: "db_ok two_hulls"
  by (simp add: two_hulls_def db_ok_def db_keys_ok_def row_ok_def hull_row_part)
     (simp add: hull_row_def hull_part_def RestorePart_def part_ok_def counters_ok_def)

lemma part_of_two_hulls:
  "part_of two_hulls u = (if u = 7 then Some (hull_part 7 2 1) else if u = 3 then Some (hull_part 3 5 0) else None)"
proof -
  have "rec_UUID (hull_row u s r) = u" for u s r by (simp add: hull_row_def)
  then show ?thesis by (simp add: part_of_def row_of_def two_hulls_def hull_row_part)
qed

subsection \<open>Sequences of calls\<close>

text \<open>
  Any sequence of calls of the three operations; each call meets its own environment \<open>E\<close>, so
  it may fail at any statement, and the transaction manager may fail to commit it. The history is
  the list of the calls that reported success.
\<close>

datatype inv_call = CallReserve "uuid list" | CallRelease "uuid list" | CallCommit "uuid list"

primrec call_uuids :: "inv_call \<Rightarrow> uuid list" where
  "call_uuids (CallReserve us) = us"
| "call_uuids (CallRelease us) = us"
| "call_uuids (CallCommit us) = us"

primrec exec_call :: "inv_call \<Rightarrow> inv_db part_service \<Rightarrow> (inv_db, unit, inv_error) act" where
  "exec_call (CallReserve us) s = PartService_Reserve s us"
| "exec_call (CallRelease us) s = PartService_Release s us"
| "exec_call (CallCommit us) s = PartService_Commit s us"

fun exec_calls :: "((inv_db, unit, inv_error) act \<Rightarrow> (inv_db, unit, inv_error) act)
    \<Rightarrow> (pg_env \<times> inv_call) list \<Rightarrow> inv_db \<Rightarrow> inv_call list \<times> inv_db" where
  "exec_calls Do [] db = ([], db)"
| "exec_calls Do ((E, c) # cs) db =
     (case exec_call c (NewPartService E Do) db of (r, db1) \<Rightarrow>
      case exec_calls Do cs db1 of (h, db2) \<Rightarrow> (if r = Ret () then c # h else h, db2))"

primrec reserved_delta :: "uuid \<Rightarrow> inv_call \<Rightarrow> int" where
  "reserved_delta u (CallReserve us) = (if u \<in> set us then 1 else 0)"
| "reserved_delta u (CallRelease us) = (if u \<in> set us then - 1 else 0)"
| "reserved_delta u (CallCommit us) = (if u \<in> set us then - 1 else 0)"

primrec stock_delta :: "uuid \<Rightarrow> inv_call \<Rightarrow> int" where
  "stock_delta u (CallReserve us) = 0"
| "stock_delta u (CallRelease us) = 0"
| "stock_delta u (CallCommit us) = (if u \<in> set us then - 1 else 0)"

lemma exec_call_keeps_ok:
  assumes tx: "tx_manager Do db_rollback" and db: "db_ok db"
  shows "db_ok (snd (exec_call c (NewPartService E Do) db))"
proof -
  have iv: "inventory_backend Do" using tx by (rule inventory_backend.intro)
  have ok: "db_keys_ok db" "\<And>u p. part_of db u = Some p \<Longrightarrow> part_ok p"
    using db part_of_ok by (auto simp: db_ok_def)
  have keep: "db_ok db'" if "db_keys_ok db' \<and> db_keys db' = db_keys db \<and> dom (part_of db) \<subseteq> dom (part_of db')
    \<and> (\<forall>u p. part_of db' u = Some p \<longrightarrow> part_ok p)" (is ?K) for db'
  proof -
    have "\<exists>p. part_of db' u = Some p \<and> part_ok p" if "u \<in> db_keys db" for u
    proof -
      from db that have "u \<in> dom (part_of db)" by (auto simp: db_ok_iff)
      with \<open>?K\<close> show ?thesis by blast
    qed
    with that show ?thesis by (simp add: db_ok_iff)
  qed
  show ?thesis
  proof (cases c)
    case (CallReserve us)
    then show ?thesis using keep [OF inventory_backend.reserve_keeps [OF iv ok]] by simp
  next
    case (CallRelease us)
    then show ?thesis using keep [OF inventory_backend.release_keeps [OF iv ok]] by simp
  next
    case (CallCommit us)
    then show ?thesis using keep [OF inventory_backend.commit_keeps [OF iv ok]] by simp
  qed
qed

text \<open>A call that reports success met a server that answered, so the refinement applies to it.\<close>

lemma bulk_success:
  assumes tx: "tx_manager Do db_rollback" and G: "guarded_operation op enabled upd sentinel"
    and db: "db_ok db" and us: "us \<noteq> []"
    and run: "Do (bulk_body E op msg us) db = (Ret (), db')"
  shows "bulk_spec enabled upd sentinel us (part_of db) = (Success, part_of db')"
proof -
  have body: "bulk_body E op msg us db = (Ret (), db')"
    using run by (rule tx_manager.Do_RetD [OF tx])
  then have "pg_up E"
    by (auto simp: bulk_body_def bindA_Ret_iff wrapA_Ret_iff PartRepo_lists
          PartRepo_UpdateReservedBatch_def stmt_app split: option.splits)
  moreover have "pg_commit (bulk_body E op msg us) db = (Ret (), db')"
    using body by (rule commits_app [OF commits_pg])
  ultimately show ?thesis
    using guarded_bulk.run_refines [OF guarded_bulk_online [OF pg_commit_tx commits_pg _ G] db us, of E msg]
    by simp
qed

lemma bulk_spec_Success:
  assumes "bulk_spec enabled upd sentinel us v = (Success, v')"
  shows "distinct us" "v' u = (if u \<in> set us then map_option upd (v u) else v u)"
    "u \<in> set us \<Longrightarrow> \<exists>p. v u = Some p \<and> enabled p"
  using assms by (auto simp: bulk_spec_def split: if_splits) force

lemmas call_success =
  bulk_success [OF _ reserve.guarded_operation_axioms]
  bulk_success [OF _ release.guarded_operation_axioms]
  bulk_success [OF _ commit.guarded_operation_axioms]

lemma exec_call_counters:
  assumes tx: "tx_manager Do db_rollback" and db: "db_ok db" and us: "call_uuids c \<noteq> []"
    and run: "exec_call c (NewPartService E Do) db = (Ret (), db')" and p: "part_of db u = Some p"
  shows "\<exists>p'. part_of db' u = Some p' \<and> p_reserved p' = p_reserved p + reserved_delta u c
    \<and> p_stockQuantity p' = p_stockQuantity p + stock_delta u c"
proof (cases c)
  case (CallReserve vs)
  with run us call_success(1) [OF tx db, of vs E "''failed to reserve parts''" db']
  show ?thesis
    using p bulk_spec_Success(2) [of available add_reserved ErrOutOfStock vs "part_of db" "part_of db'" u]
    by (simp add: PartService_bulk add_reserved_def)
next
  case (CallRelease vs)
  with run us call_success(2) [OF tx db, of vs E "''failed to release parts''" db']
  show ?thesis
    using p bulk_spec_Success(2) [of has_reserved drop_reserved ErrNothingToRelease vs "part_of db" "part_of db'" u]
    by (simp add: PartService_bulk drop_reserved_def)
next
  case (CallCommit vs)
  with run us call_success(3) [OF tx db, of vs E "''failed to commit parts''" db']
  show ?thesis
    using p bulk_spec_Success(2) [of has_reserved take_out ErrNothingToCommit vs "part_of db" "part_of db'" u]
    by (simp add: PartService_bulk take_out_def)
qed

lemma exec_call_failed:
  assumes "tx_manager Do db_rollback" "fst (exec_call c (NewPartService E Do) db) \<noteq> Ret ()"
  shows "snd (exec_call c (NewPartService E Do) db) = db"
  using assms(2) inventory_backend.reserve_not_Ret [OF inventory_backend.intro [OF assms(1)]]
    inventory_backend.release_not_Ret [OF inventory_backend.intro [OF assms(1)]]
    inventory_backend.commit_not_Ret [OF inventory_backend.intro [OF assms(1)]]
  by (cases c) auto

lemma exec_calls_accounting:
  assumes tx: "tx_manager Do db_rollback" and "db_ok db"
    and "\<forall>(E, c) \<in> set cs. call_uuids c \<noteq> []" and "part_of db u = Some p"
    and "exec_calls Do cs db = (h, db')"
  shows "db_ok db' \<and> (\<exists>p'. part_of db' u = Some p'
    \<and> p_reserved p' = p_reserved p + sum_list (map (reserved_delta u) h)
    \<and> p_stockQuantity p' = p_stockQuantity p + sum_list (map (stock_delta u) h))"
  using assms(2-)
proof (induction cs arbitrary: db p h)
  case (Cons ec cs)
  obtain E c where ec: "ec = (E, c)" by (cases ec)
  obtain r db1 where run: "exec_call c (NewPartService E Do) db = (r, db1)" by fastforce
  obtain h1 db2 where rest: "exec_calls Do cs db1 = (h1, db2)" by fastforce
  from Cons.prems(4) ec run rest have h: "db' = db2" "h = (if r = Ret () then c # h1 else h1)"
    by simp_all
  from exec_call_keeps_ok [OF tx Cons.prems(1), of c E] run have ok: "db_ok db1" by simp
  have us: "call_uuids c \<noteq> []" "\<forall>(E, c) \<in> set cs. call_uuids c \<noteq> []"
    using Cons.prems(2) ec by auto
  show ?case
  proof (cases "r = Ret ()")
    case True
    with run have "exec_call c (NewPartService E Do) db = (Ret (), db1)" by simp
    from exec_call_counters [OF tx Cons.prems(1) us(1) this Cons.prems(3)]
    obtain p1 where "part_of db1 u = Some p1" "p_reserved p1 = p_reserved p + reserved_delta u c"
      "p_stockQuantity p1 = p_stockQuantity p + stock_delta u c" by blast
    with Cons.IH [OF ok us(2) this(1)] rest h True show ?thesis by (simp add: ac_simps)
  next
    case False
    with exec_call_failed [OF tx, of c E db] run have "db1 = db" by simp
    with Cons.IH [OF ok us(2), of p h1] Cons.prems(3) rest h False show ?thesis by simp
  qed
qed auto

subsection \<open>Properties\<close>



text \<open>
  C5. Over any sequence of calls with non-empty requests, with any pattern of driver failures and
  failed commits, the counters of a part are accounted for by the calls that reported success:
  \<open>reserved\<close> is the initial value plus the reservations minus the releases and the commits,
  the stock falls by the commits alone, and \<open>0 <= reserved <= stock\<close> throughout, so a unit is
  never promised twice.
\<close>

theorem stock_accounting:
  assumes "tx_manager Do db_rollback" "db_ok db" "\<forall>(E, c) \<in> set cs. call_uuids c \<noteq> []"
    and "part_of db u = Some p" "exec_calls Do cs db = (h, db')"
  shows "\<exists>p'. part_of db' u = Some p'
    \<and> p_reserved p' = p_reserved p + sum_list (map (reserved_delta u) h)
    \<and> p_stockQuantity p' = p_stockQuantity p + sum_list (map (stock_delta u) h)
    \<and> 0 \<le> p_reserved p' \<and> p_reserved p' \<le> p_stockQuantity p'"
proof -
  from exec_calls_accounting [OF assms] obtain p' where
    p': "db_ok db'" "part_of db' u = Some p'"
      "p_reserved p' = p_reserved p + sum_list (map (reserved_delta u) h)"
      "p_stockQuantity p' = p_stockQuantity p + sum_list (map (stock_delta u) h)" by blast
  with part_of_ok [OF p'(1,2)] show ?thesis by (auto simp: part_ok_def counters_ok_def)
qed

theorem stock_accounting_witness:
  "\<exists>p'. part_of (snd (exec_calls pg_commit
        [(healthy (\<lambda>_. 0), CallReserve [7]), (healthy (\<lambda>_. 0), CallReserve [7, 3]),
         (healthy (\<lambda>_. 0), CallCommit [7])] two_hulls)) 7 = Some p'
    \<and> 0 \<le> p_reserved p' \<and> p_reserved p' \<le> p_stockQuantity p'"
  using stock_accounting [OF pg_commit_tx two_hulls_ok, of
      "[(healthy (\<lambda>_. 0), CallReserve [7]), (healthy (\<lambda>_. 0), CallReserve [7, 3]),
        (healthy (\<lambda>_. 0), CallCommit [7])]" 7 "hull_part 7 2 1", OF _ _ prod.collapse [symmetric]]
  by (fastforce simp: part_of_two_hulls)

text \<open>
  The bulk calls are atomic: a call that does not report success, whether the driver, the guard
  of some part, or the commit failed, leaves the table as it found it.
\<close>

lemma bulk_calls_atomic:
  assumes "tx_manager Do db_rollback" "fst (exec_call c (NewPartService E Do) db) \<noteq> Ret ()"
  shows "snd (exec_call c (NewPartService E Do) db) = db"
  using assms by (rule exec_call_failed)



text \<open>
  \<open>Release\<close> undoes \<open>Reserve\<close>: after a successful reservation, releasing the same parts
  succeeds on a server that answers, and every part of the catalogue is back to what it was.
\<close>

lemma release_undoes_reserve:
  assumes tx: "tx_manager Do db_rollback" "commits Do" "pg_up E'" and db: "db_ok db" "us \<noteq> []"
    and run: "PartService_Reserve (NewPartService E Do) us db = (Ret (), db1)"
  shows "outcome_of (fst (PartService_Release (NewPartService E' Do) us db1)) = Success \<and>
    part_of (snd (PartService_Release (NewPartService E' Do) us db1)) = part_of db"
proof -
  have "exec_call (CallReserve us) (NewPartService E Do) db = (Ret (), db1)" using run by simp
  then have ok: "db_ok db1"
    using exec_call_keeps_ok [OF tx(1) db(1), of "CallReserve us" E] by simp
  note spec = call_success(1) [OF tx(1) db run [unfolded PartService_bulk]]
  have en: "has_reserved (add_reserved p)" "drop_reserved (add_reserved p) = p"
    if "part_of db u = Some p" for u p
    using part_of_ok [OF db(1) that]
    by (auto simp: has_reserved_def add_reserved_def drop_reserved_def part_ok_def counters_ok_def)
  have "bulk_spec has_reserved drop_reserved ErrNothingToRelease us (part_of db1) = (Success, part_of db)"
    using bulk_spec_Success [OF spec] en by (fastforce simp: bulk_spec_def fun_eq_iff)
  then show ?thesis
    using release_spec [OF tx ok db(2)] unfolding PartService_bulk by simp
qed

text \<open>
  C40. A request with an empty list is not rejected and does not mean no part: when it succeeds,
  \<open>Reserve\<close> has added a reservation to every part of the catalogue.
\<close>

theorem reserve_empty_reserves_all:
  assumes tx: "tx_manager Do db_rollback" and db: "db_ok db"
    and run: "PartService_Reserve (NewPartService E Do) [] db = (Ret (), db')"
  shows "part_of db' u = map_option add_reserved (part_of db u)"
proof -
  have keys: "db_keys_ok db" using db by (simp add: db_ok_def)
  from inventory_backend.reserve_Ret [OF inventory_backend.intro [OF tx] keys run]
  obtain us ps qs where us: "distinct us" "map (part_of db) us = map Some ps" "set us = db_keys db"
    and qs: "mapR Part_Reserve ps = Ret qs" and view: "part_of db' = part_of db ++ map_of (zip us qs)"
    by auto
  have ps: "ps = map (the \<circ> part_of db) us"
    using arg_cong [OF us(2), of "map the"] by (simp add: comp_def)
  have reserved: "q = add_reserved p" if "part_ok p" "Part_Reserve p = Ret q" for p q
    using that by (auto simp: Part_Reserve_ok add_reserved_def split: if_splits)
  have "list_all part_ok ps"
    using us part_of_ok [OF db] by (fastforce simp: ps list_all_iff db [unfolded db_ok_iff])
  with qs have "qs = map add_reserved ps"
    by (auto simp: mapR_Ret_iff list_all_length list_all2_conv_all_nth intro!: nth_equalityI reserved)
  then have "part_of db' u = (if u \<in> set us then Some (add_reserved (the (part_of db u))) else part_of db u)"
    by (simp add: view ps map_add_def map_of_zip_map)
  moreover have "\<exists>p. part_of db u = Some p" if "u \<in> set us"
    using that us(3) db by (auto simp: db_ok_iff)
  moreover have "part_of db u = None" if "u \<notin> set us"
    using that us(3) part_of_Some_key [of db u] by (cases "part_of db u") auto
  ultimately show ?thesis by (cases "u \<in> set us") auto
qed

theorem reserve_empty_reserves_all_witness:
  "part_of (snd (PartService_Reserve (NewPartService (healthy (\<lambda>_. 0)) pg_commit) [] two_hulls)) 3
   = Some (hull_part 3 5 1)"
proof -
  have "fst (PartService_Reserve (NewPartService (healthy (\<lambda>_. 0)) pg_commit) [] two_hulls) = Ret ()"
    by code_simp
  then have "PartService_Reserve (NewPartService (healthy (\<lambda>_. 0)) pg_commit) [] two_hulls
    = (Ret (), snd (PartService_Reserve (NewPartService (healthy (\<lambda>_. 0)) pg_commit) [] two_hulls))"
    by (simp add: prod_eq_iff)
  from reserve_empty_reserves_all [OF pg_commit_tx two_hulls_ok this, of 3]
  show ?thesis by (simp add: part_of_two_hulls hull_part_def RestorePart_def add_reserved_def)
qed

end
