(* ===== verification/Inventory_Locks.thy ===== *)
theory Inventory_Locks
  imports Inventory_Stock
begin

text \<open>
  The row locks of \<open>SELECT ... FOR UPDATE\<close>. A transaction locks the rows of its query one by
  one, in the order of the query, and gives all of them back when it ends. The comment in
  \<open>buildListQuery\<close> claims that \<open>ORDER BY uuid\<close> excludes deadlocks: this theory models the
  interleavings of any number of transactions as a step relation and proves it, together with the
  fact that every execution ends.
\<close>

subsection \<open>Interleaved lock acquisition\<close>

record 'k lock_tx =
  held :: "'k set"
  todo :: "'k list"

definition tx_done :: "'k lock_tx \<Rightarrow> bool" where
  "tx_done t \<longleftrightarrow> held t = {} \<and> todo t = []"

definition lock_free :: "'k lock_tx list \<Rightarrow> nat \<Rightarrow> 'k \<Rightarrow> bool" where
  "lock_free ts i u \<longleftrightarrow> (\<forall>j < length ts. j \<noteq> i \<longrightarrow> u \<notin> held (ts ! j))"

inductive lock_step :: "'k lock_tx list \<Rightarrow> 'k lock_tx list \<Rightarrow> bool" where
  acquire: "i < length ts \<Longrightarrow> todo (ts ! i) = u # us \<Longrightarrow> lock_free ts i u \<Longrightarrow>
    lock_step ts (ts[i := \<lparr>held = insert u (held (ts ! i)), todo = us\<rparr>])"
| finish: "i < length ts \<Longrightarrow> todo (ts ! i) = [] \<Longrightarrow> held (ts ! i) \<noteq> {} \<Longrightarrow>
    lock_step ts (ts[i := \<lparr>held = {}, todo = []\<rparr>])"

inductive_cases lock_stepE: "lock_step ts ts'"

text \<open>Locks are taken upwards: what is held lies below what is still wanted.\<close>

definition upwards :: "'k::linorder lock_tx \<Rightarrow> bool" where
  "upwards t \<longleftrightarrow> sorted_wrt (<) (todo t) \<and> (\<forall>h \<in> held t. \<forall>u \<in> set (todo t). h < u)"

lemma upwards_step:
  assumes "lock_step ts ts'" "list_all upwards ts"
  shows "list_all upwards ts'"
  using assms
proof cases
  case (acquire i u us)
  have "upwards (ts ! i)" using assms(2) acquire(2) by (simp add: list_all_length)
  with acquire(3) have "upwards \<lparr>held = insert u (held (ts ! i)), todo = us\<rparr>"
    by (auto simp: upwards_def)
  with assms(2) acquire show ?thesis
    by (simp add: list_all_length nth_list_update)
next
  case (finish i)
  then show ?thesis
    using assms(2) by (simp add: list_all_length nth_list_update upwards_def)
qed

lemma upwards_reachable:
  assumes "lock_step\<^sup>*\<^sup>* ts ts'" "list_all upwards ts"
  shows "list_all upwards ts'"
  using assms by (induction rule: rtranclp_induct) (auto intro: upwards_step)

text \<open>The transaction that wants the greatest row can go on.\<close>

lemma upwards_progress:
  assumes up: "list_all upwards ts" and t: "t \<in> set ts" "\<not> tx_done t"
  shows "\<exists>ts'. lock_step ts ts'"
proof (cases "\<exists>i < length ts. todo (ts ! i) = [] \<and> held (ts ! i) \<noteq> {}")
  case True
  then show ?thesis using lock_step.finish by blast
next
  case False
  let ?W = "{i. i < length ts \<and> todo (ts ! i) \<noteq> []}" and ?hd = "\<lambda>i. hd (todo (ts ! i))"
  from t False have "?W \<noteq> {}"
    by (auto simp: in_set_conv_nth tx_done_def)
  then have "Max (?hd ` ?W) \<in> ?hd ` ?W" by (intro Max_in) auto
  then obtain i where i: "i < length ts" "todo (ts ! i) \<noteq> []" "?hd i = Max (?hd ` ?W)" by auto
  have "lock_free ts i (?hd i)"
    unfolding lock_free_def
  proof (intro allI impI notI)
    fix j assume j: "j < length ts" "j \<noteq> i" "?hd i \<in> held (ts ! j)"
    with False have w: "todo (ts ! j) \<noteq> []" by auto
    then have "?hd i < ?hd j"
      using up j by (auto simp: list_all_length upwards_def)
    moreover have "?hd j \<le> ?hd i"
      unfolding i(3) using w j by (intro Max_ge) auto
    ultimately show False by simp
  qed
  moreover obtain u us where "todo (ts ! i) = u # us" using i(2) by (cases "todo (ts ! i)") auto
  ultimately show ?thesis using i(1) lock_step.acquire by fastforce
qed

text \<open>Every step takes a lock that was wanted or ends a transaction, so executions are finite.\<close>

definition lock_work :: "'k lock_tx list \<Rightarrow> nat" where
  "lock_work ts = sum_list (map (\<lambda>t. 2 * length (todo t) + (if held t = {} then 0 else 1)) ts)"

lemma lock_step_work: "lock_step ts ts' \<Longrightarrow> lock_work ts' < lock_work ts"
proof (erule lock_stepE)
  let ?f = "\<lambda>t. 2 * length (todo t) + (if held t = {} then 0 else 1 :: nat)"
  have upd: "lock_work (ts[i := t']) + ?f (ts ! i) = lock_work ts + ?f t'" if "i < length ts" for i t'
    using that member_le_sum_list [of "?f (ts ! i)" "map ?f ts"]
    by (simp add: lock_work_def map_update sum_list_update)
  { fix i u us
    assume "ts' = ts[i := \<lparr>held = insert u (held (ts ! i)), todo = us\<rparr>]" "i < length ts"
      "todo (ts ! i) = u # us"
    then show "lock_work ts' < lock_work ts" 
      using upd [of i "\<lparr>held = insert u (held (ts ! i)), todo = us\<rparr>"] by (simp split: if_splits) }
  { fix i
    assume "ts' = ts[i := \<lparr>held = {}, todo = []\<rparr>]" "i < length ts" "todo (ts ! i) = []" "held (ts ! i) \<noteq> {}"
    then show "lock_work ts' < lock_work ts" 
      using upd [of i "\<lparr>held = {}, todo = []\<rparr>"] by simp }
qed

lemma lock_steps_end:
  assumes "list_all upwards ts"
  shows "\<exists>ts'. lock_step\<^sup>*\<^sup>* ts ts' \<and> list_all tx_done ts'"
  using assms
proof (induction "lock_work ts" arbitrary: ts rule: less_induct)
  case less
  show ?case
  proof (cases "list_all tx_done ts")
    case False
    then obtain ts1 where "lock_step ts ts1"
      using upwards_progress [OF less.prems] by (auto simp: list_all_iff)
    with less show ?thesis
      by (meson converse_rtranclp_into_rtranclp lock_step_work upwards_step)
  qed auto
qed

subsection \<open>The locks of the repository\<close>

definition lock_order :: "pg_env \<Rightarrow> PartFilter \<Rightarrow> inv_db \<Rightarrow> uuid list" where
  "lock_order E f db = map rec_UUID (run_select E (buildListQuery f True) db)"

definition lock_request :: "pg_env \<Rightarrow> inv_db \<Rightarrow> uuid list \<Rightarrow> uuid lock_tx" where
  "lock_request E db us =
     \<lparr>held = {}, todo = lock_order E \<lparr>pf_UUIDs = us, pf_PartType = PartTypeUnspecified\<rparr> db\<rparr>"

lemma lock_request_upwards:
  assumes "db_keys_ok db" "us \<noteq> []"
  shows "upwards (lock_request E db us)"
proof -
  let ?f = "\<lparr>pf_UUIDs = us, pf_PartType = PartTypeUnspecified\<rparr>"
  have "sorted (lock_order E ?f db)"
    using assms(2) by (simp add: lock_order_def run_select_def buildListQuery_def)
  moreover have "distinct (lock_order E ?f db)"
    using assms by (simp add: lock_order_def select_keys_distinct)
  ultimately show ?thesis
    by (simp add: upwards_def lock_request_def strict_sorted_iff)
qed

subsection \<open>Properties\<close>

text \<open>
  C13. Concurrent bulk calls cannot deadlock on the rows of \<open>parts\<close>: from any number of
  transactions with non-empty identifier lists, however their lock acquisitions are interleaved, as
  long as some transaction is not finished one of them can take its next lock or end; no execution
  goes on for ever, and from every state the whole batch can finish.
\<close>

theorem bulk_locks_deadlock_free:
  assumes "db_keys_ok db" "\<forall>us \<in> set requests. us \<noteq> []"
    and "lock_step\<^sup>*\<^sup>* (map (lock_request E db) requests) ts" "t \<in> set ts" "\<not> tx_done t"
  shows "(\<exists>ts'. lock_step ts ts') \<and> (\<forall>ts'. lock_step ts ts' \<longrightarrow> lock_work ts' < lock_work ts)
    \<and> (\<exists>ts'. lock_step\<^sup>*\<^sup>* ts ts' \<and> list_all tx_done ts')"
proof -
  have "list_all upwards (map (lock_request E db) requests)"
    using assms(1,2) by (auto simp: list_all_iff lock_request_upwards)
  with assms(3) have "list_all upwards ts" by (rule upwards_reachable)
  then show ?thesis using upwards_progress [OF _ assms(4,5)] lock_steps_end lock_step_work by blast
qed

lemma two_hulls_requests: "lock_request (healthy (\<lambda>_. 0)) two_hulls [7, 3] = \<lparr>held = {}, todo = [3, 7]\<rparr>"
  by (simp add: lock_request_def lock_order_def run_select_def buildListQuery_def row_selected_def
        two_hulls_def hull_row_def)

theorem bulk_locks_deadlock_free_witness:
  "\<exists>ts'. lock_step (map (lock_request (healthy (\<lambda>_. 0)) two_hulls) [[3, 7], [7, 3]]) ts'"
  using bulk_locks_deadlock_free [of two_hulls "[[3, 7], [7, 3]]" "healthy (\<lambda>_. 0)"
      "map (lock_request (healthy (\<lambda>_. 0)) two_hulls) [[3, 7], [7, 3]]" "\<lparr>held = {}, todo = [3, 7]\<rparr>"]
    two_hulls_ok
  by (auto simp: db_ok_def two_hulls_requests tx_done_def)

text \<open>
  The guarantee does not extend to the branch without identifiers, which locks in the order of
  the names: with a collation that puts the greater identifier first, a call for two parts and a call
  with an empty list reach a state where both wait for each other.
\<close>

lemma name_order_can_deadlock:
  defines "db \<equiv> \<lparr>parts = [(hull_row 3 5 0)\<lparr>rec_Name := ''b''\<rparr>, (hull_row 7 5 0)\<lparr>rec_Name := ''a''\<rparr>]\<rparr>"
    and "E \<equiv> healthy (\<lambda>n. if n = ''a'' then 0 else 1)"
  shows "\<exists>ts. lock_step\<^sup>*\<^sup>* (map (lock_request E db) [[3, 7], []]) ts
    \<and> \<not> list_all tx_done ts \<and> (\<nexists>ts'. lock_step ts ts')"
proof -
  have init: "map (lock_request E db) [[3, 7], []] = [\<lparr>held = {}, todo = [3, 7]\<rparr>, \<lparr>held = {}, todo = [7, 3]\<rparr>]"
    by (simp add: db_def E_def lock_request_def lock_order_def run_select_def buildListQuery_def
          row_selected_def hull_row_def healthy_def)
  let ?t1 = "[\<lparr>held = {3}, todo = [7]\<rparr>, \<lparr>held = {}, todo = [7, 3]\<rparr>] :: uuid lock_tx list"
  let ?t2 = "[\<lparr>held = {3}, todo = [7]\<rparr>, \<lparr>held = {7}, todo = [3]\<rparr>] :: uuid lock_tx list"
  have "lock_step (map (lock_request E db) [[3, 7], []]) ?t1"
    unfolding init using lock_step.acquire [of 0 "[\<lparr>held = {}, todo = [3, 7]\<rparr>, \<lparr>held = {}, todo = [7, 3]\<rparr>]" 3 "[7]"]
    by (simp add: lock_free_def less_Suc_eq)
  moreover have "lock_step ?t1 ?t2"
    using lock_step.acquire [of 1 ?t1 7 "[3]"] by (simp add: lock_free_def less_Suc_eq)
  moreover have "\<not> lock_step ?t2 ts'" for ts'
    by (auto elim!: lock_stepE simp: lock_free_def less_Suc_eq)
  moreover have "\<not> list_all tx_done ?t2" by (simp add: tx_done_def)
  ultimately show ?thesis
    by (meson converse_rtranclp_into_rtranclp r_into_rtranclp)
qed

end
