(* ===== verification/Inventory_Compatibility.thy ===== *)
theory Inventory_Compatibility
  imports Inventory_Stock
begin

text \<open>
  The compatibility check of a ship: \<open>ValidateCompatibility\<close> resolves the four slots against
  the catalogue and hands them to the domain checker. The specification \<open>ship_spec\<close> says which
  error a request meets, in the order the code looks.
\<close>

subsection \<open>Specification\<close>

definition slot_list :: "ShipSlots \<Rightarrow> (PartType \<times> uuid) list" where
  "slot_list slots = filter (\<lambda>(t, u). u \<noteq> uuid_Nil)
     [(PartTypeHull, slot_HullUUID slots), (PartTypeEngine, slot_EngineUUID slots),
      (PartTypeShield, slot_ShieldUUID slots), (PartTypeWeapon, slot_WeaponUUID slots)]"

definition resolved_spec :: "(uuid \<Rightarrow> Part option) \<Rightarrow> ShipSlots \<Rightarrow> ResolvedShipSlots" where
  "resolved_spec v slots =
     (let at = (\<lambda>u. if u = uuid_Nil then None else v u)
      in \<lparr>rs_Hull = at (slot_HullUUID slots), rs_Engine = at (slot_EngineUUID slots),
          rs_Shield = at (slot_ShieldUUID slots), rs_Weapon = at (slot_WeaponUUID slots)\<rparr>)"

definition ship_spec :: "(uuid \<Rightarrow> Part option) \<Rightarrow> ShipSlots \<Rightarrow> inv_error outcome" where
  "ship_spec v slots =
     (if slot_HullUUID slots = uuid_Nil \<or> slot_EngineUUID slots = uuid_Nil
         \<or> \<not> distinct (map snd (slot_list slots)) then Sentinel ErrInvalidUUID
      else if \<exists>(t, u) \<in> set (slot_list slots). v u = None then Sentinel ErrPartNotFound
      else if \<exists>(t, u) \<in> set (slot_list slots). p_partType (the (v u)) \<noteq> t then Sentinel ErrPartTypeMismatch
      else outcome_of (CompatibilityChecker_Check (resolved_spec v slots)))"

subsection \<open>The steps of the resolution\<close>

lemma collect_uuids_slots:
  "collect_uuids (slot_requests slots) =
     (if slot_HullUUID slots = uuid_Nil \<or> slot_EngineUUID slots = uuid_Nil
      then Err (Wrap ''%s_uuid is required'' (Sent ErrInvalidUUID))
      else Ret (map snd (slot_list slots)))"
  by (simp add: slot_requests_def slot_list_def)

lemma validateDuplicateUUIDs_from_iff:
  "validateDuplicateUUIDs_from seen rs =
     (let us = filter (\<lambda>u. u \<noteq> uuid_Nil) (map sr_uuid rs)
      in if distinct us \<and> (\<forall>u \<in> set us. seen u = None) then Ret ()
         else Err (Wrap ''uuid %s is duplicated in slots %s and %s'' (Sent ErrInvalidUUID)))"
proof (induction rs arbitrary: seen)
  case (Cons r rs)
  let ?us = "filter (\<lambda>u. u \<noteq> uuid_Nil) (map sr_uuid rs)" and ?x = "sr_uuid r"
  let ?seen = "seen(?x \<mapsto> sr_name r)"
  consider "?x = uuid_Nil" | "?x \<noteq> uuid_Nil" "seen ?x \<noteq> None" | "?x \<noteq> uuid_Nil" "seen ?x = None"
    by blast
  then show ?case
  proof cases
    case 1
    with Cons.IH [of seen] show ?thesis by (simp add: Let_def)
  next
    case 2
    then show ?thesis by (simp add: Let_def)
  next
    case 3
    then have "(distinct ?us \<and> (\<forall>u \<in> set ?us. ?seen u = None))
        = (distinct (?x # ?us) \<and> (\<forall>u \<in> set (?x # ?us). seen u = None))"
      by auto
    moreover have "filter (\<lambda>u. u \<noteq> uuid_Nil) (map sr_uuid (r # rs)) = ?x # ?us"
      using 3 by simp
    moreover have "validateDuplicateUUIDs_from seen (r # rs) = validateDuplicateUUIDs_from ?seen rs"
      using 3 by (simp del: fun_upd_apply)
    ultimately show ?thesis using Cons.IH [of ?seen] by (simp only: Let_def)
  qed
qed simp

lemma validateDuplicateUUIDs_slots:
  "validateDuplicateUUIDs (slot_requests slots) =
     (if distinct (map snd (slot_list slots)) then Ret ()
      else Err (Wrap ''uuid %s is duplicated in slots %s and %s'' (Sent ErrInvalidUUID)))"
proof -
  have "filter (\<lambda>u. u \<noteq> uuid_Nil) (map sr_uuid (slot_requests slots)) = map snd (slot_list slots)"
    by (simp add: slot_requests_def slot_list_def)
  then show ?thesis
    by (simp add: validateDuplicateUUIDs_def validateDuplicateUUIDs_from_iff)
qed

lemma byUUID_snoc: "byUUID (ps @ [p]) = (byUUID ps)(p_uuid p \<mapsto> p)"
  by (simp add: byUUID_def)

lemma byUUID_parts:
  assumes "db_ok db" "\<forall>u \<in> set us. part_of db u \<noteq> None"
  shows "byUUID (map (the \<circ> part_of db) us) u = (if u \<in> set us then part_of db u else None)"
  using assms(2)
proof (induction us rule: rev_induct)
  case (snoc x us)
  then obtain p where p: "part_of db x = Some p" by auto
  with assms(1) have "p_uuid p = x" by (auto simp: db_ok_def intro: part_of_uuid)
  with snoc p show ?case by (simp add: byUUID_snoc)
qed (simp add: byUUID_def)

lemma fill_slots_slots:
  assumes "\<forall>(t, u) \<in> set (slot_list slots). m u \<noteq> None"
    and req: "slot_HullUUID slots \<noteq> uuid_Nil" "slot_EngineUUID slots \<noteq> uuid_Nil"
  shows "fill_slots m (slot_requests slots) no_slots =
    (if \<exists>(t, u) \<in> set (slot_list slots). p_partType (the (m u)) \<noteq> t
     then Err (Wrap ''slot %s received a part of type %s, expected %s'' (Sent ErrPartTypeMismatch))
     else Ret (resolved_spec m slots))"
  using assms
  by (cases "slot_ShieldUUID slots = uuid_Nil"; cases "slot_WeaponUUID slots = uuid_Nil")
     (auto simp: slot_requests_def slot_list_def no_slots_def fill_slot_def resolved_spec_def)

lemma list_ok:
  assumes "db_ok db" "pg_up E" "us \<noteq> []"
  shows "PartRepo_List E \<lparr>pf_UUIDs = us, pf_PartType = t\<rparr> db =
    (if distinct us \<and> (\<forall>u \<in> set us. part_of db u \<noteq> None)
     then Ret (map (the \<circ> part_of db) us)
     else Err (Wrap ''find parts'' (Sent ErrPartNotFound)), db)"
  using assms db_ok_present [OF assms(1)]
  by (auto simp: PartRepo_lists mapAndOrder_by_uuids db_ok_def convert_rows_ok)

lemma resolved_spec_cong:
  "(\<And>t u. (t, u) \<in> set (slot_list slots) \<Longrightarrow> m u = v u) \<Longrightarrow> resolved_spec m slots = resolved_spec v slots"
proof -
  assume eq: "\<And>t u. (t, u) \<in> set (slot_list slots) \<Longrightarrow> m u = v u"
  have "slot_HullUUID slots = uuid_Nil \<or> m (slot_HullUUID slots) = v (slot_HullUUID slots)"
    using eq [of PartTypeHull "slot_HullUUID slots"]
    by (cases "slot_HullUUID slots = uuid_Nil") (simp_all add: slot_list_def)
  moreover have "slot_EngineUUID slots = uuid_Nil \<or> m (slot_EngineUUID slots) = v (slot_EngineUUID slots)"
    using eq [of PartTypeEngine "slot_EngineUUID slots"]
    by (cases "slot_EngineUUID slots = uuid_Nil") (simp_all add: slot_list_def)
  moreover have "slot_ShieldUUID slots = uuid_Nil \<or> m (slot_ShieldUUID slots) = v (slot_ShieldUUID slots)"
    using eq [of PartTypeShield "slot_ShieldUUID slots"]
    by (cases "slot_ShieldUUID slots = uuid_Nil") (simp_all add: slot_list_def)
  moreover have "slot_WeaponUUID slots = uuid_Nil \<or> m (slot_WeaponUUID slots) = v (slot_WeaponUUID slots)"
    using eq [of PartTypeWeapon "slot_WeaponUUID slots"]
    by (cases "slot_WeaponUUID slots = uuid_Nil") (simp_all add: slot_list_def)
  ultimately show ?thesis by (auto simp: resolved_spec_def)
qed

lemma validate_outcome:
  assumes db: "db_ok db" and up: "pg_up E"
  shows "outcome_of (fst (PartService_ValidateCompatibility (NewPartService E Do) slots db))
      = ship_spec (part_of db) slots"
    and "snd (PartService_ValidateCompatibility (NewPartService E Do) slots db) = db"
proof -
  let ?us = "map snd (slot_list slots)"
  let ?run = "PartService_ValidateCompatibility (NewPartService E Do) slots db"
  have "outcome_of (fst ?run) = ship_spec (part_of db) slots \<and> snd ?run = db"
  proof (cases "slot_HullUUID slots \<noteq> uuid_Nil \<and> slot_EngineUUID slots \<noteq> uuid_Nil \<and> distinct ?us")
    case False
    then show ?thesis
      by (auto simp: PartService_ValidateCompatibility_def resolveShipSlots_def act_simps
            collect_uuids_slots validateDuplicateUUIDs_slots ship_spec_def)
  next
    case True
    then have us: "?us \<noteq> []" by (simp add: slot_list_def)
    have run: "?run = bindA (bindA (wrapA ''fetch parts'' (PartRepo_List E \<lparr>pf_UUIDs = ?us, pf_PartType = ''''\<rparr>))
        (\<lambda>ps. liftR (fill_slots (byUUID ps) (slot_requests slots) no_slots)))
        (\<lambda>r. liftR (CompatibilityChecker_Check r)) db"
      using True by (simp add: PartService_ValidateCompatibility_def resolveShipSlots_def act_simps
            collect_uuids_slots validateDuplicateUUIDs_slots NewPartService_def)
    show ?thesis
    proof (cases "\<forall>u \<in> set ?us. part_of db u \<noteq> None")
      case False
      then have "\<exists>(t, u) \<in> set (slot_list slots). part_of db u = None" by force
      with True have "ship_spec (part_of db) slots = Sentinel ErrPartNotFound"
        by (simp add: ship_spec_def)
      moreover have "?run = (Err (Wrap ''fetch parts'' (Wrap ''find parts'' (Sent ErrPartNotFound))), db)"
        using False run list_ok [OF db up us] by (auto simp: act_simps)
      ultimately show ?thesis by simp
    next
      case found: True
      define m where "m = byUUID (map (the \<circ> part_of db) ?us)"
      have m: "m u = part_of db u" if "(t, u) \<in> set (slot_list slots)" for t u
        using that byUUID_parts [OF db found] by (force simp: m_def)
      have res: "resolved_spec m slots = resolved_spec (part_of db) slots"
        by (rule resolved_spec_cong) (rule m)
      have mis: "(\<exists>(t, u) \<in> set (slot_list slots). p_partType (the (m u)) \<noteq> t)
          = (\<exists>(t, u) \<in> set (slot_list slots). p_partType (the (part_of db u)) \<noteq> t)"
        using m by (intro bex_cong) auto
      have "PartRepo_List E \<lparr>pf_UUIDs = ?us, pf_PartType = ''''\<rparr> db = (Ret (map (the \<circ> part_of db) ?us), db)"
        using True found list_ok [OF db up us] by simp
      then have run': "?run = bindA (liftR (fill_slots m (slot_requests slots) no_slots))
          (\<lambda>r. liftR (CompatibilityChecker_Check r)) db"
        unfolding run m_def by (simp add: act_simps)
      have some: "\<forall>(t, u) \<in> set (slot_list slots). m u \<noteq> None"
        using found m by fastforce
      have "?run = (if \<exists>(t, u) \<in> set (slot_list slots). p_partType (the (part_of db u)) \<noteq> t
          then Err (Wrap ''slot %s received a part of type %s, expected %s'' (Sent ErrPartTypeMismatch))
          else CompatibilityChecker_Check (resolved_spec (part_of db) slots), db)"
        unfolding run' using True
        by (subst fill_slots_slots [OF some]) (simp_all only: mis res, auto simp: act_simps)
      moreover have "\<not> (\<exists>(t, u) \<in> set (slot_list slots). part_of db u = None)"
        using found by force
      ultimately show ?thesis
        using True by (simp add: ship_spec_def split: if_split)
    qed
  qed
  then show "outcome_of (fst ?run) = ship_spec (part_of db) slots" "snd ?run = db" by simp_all
qed

subsection \<open>Properties\<close>


definition hull_slots :: "uuid \<Rightarrow> uuid \<Rightarrow> ShipSlots" where
  "hull_slots h e = \<lparr>slot_HullUUID = h, slot_EngineUUID = e, slot_ShieldUUID = 0, slot_WeaponUUID = 0\<rparr>"


text \<open>
  The verdict of the checker when hull and engine carry the properties of their type: the ship
  is accepted exactly when the hull is strong enough for the engine and there is no plasma shield
  together with a laser weapon; a shield or a weapon that is absent, or without properties, never
  makes a ship incompatible; every rejection is \<open>ErrIncompatibleParts\<close>.
\<close>

lemma compatibility_verdict:
  assumes "rs_Hull ps = Some hp" "props_hull (p_properties hp) = Some h"
    and "rs_Engine ps = Some ep" "props_engine (p_properties ep) = Some e"
  shows "outcome_of (CompatibilityChecker_Check ps) =
    (if hull_strength h \<ge> engine_requiredStrength e \<and>
        \<not> (\<exists>sp s wp w. rs_Shield ps = Some sp \<and> props_shield (p_properties sp) = Some s \<and>
             rs_Weapon ps = Some wp \<and> props_weapon (p_properties wp) = Some w \<and>
             shield_type s = PlasmaShield \<and> weapon_type w = LaserWeapon)
     then Success else Sentinel ErrIncompatibleParts)"
  using assms
  by (auto simp: CompatibilityChecker_Check_def slot_properties_def CanSupport_def ConflictsWith_def
        split: option.splits)

definition ship_of :: "int \<Rightarrow> int \<Rightarrow> ResolvedShipSlots" where
  "ship_of strength required =
     \<lparr>rs_Hull = Some (RestorePart 1 ''H'' [] PartTypeHull 1 1 0
        (no_properties\<lparr>props_hull := Some \<lparr>hull_strength = strength\<rparr>\<rparr>) 0),
      rs_Engine = Some (RestorePart 2 ''E'' [] PartTypeEngine 1 1 0
        (no_properties\<lparr>props_engine := Some \<lparr>engine_class = EngineClassA, engine_requiredStrength = required\<rparr>\<rparr>) 0),
      rs_Shield = None, rs_Weapon = None\<rparr>"

text \<open>
  A row may carry no properties at all (the column defaults to an empty JSON object, and it
  converts without an error). A request whose hull is such a row, with the four slots otherwise in
  order, makes \<open>ValidateCompatibility\<close> dereference a nil pointer.
\<close>

lemma empty_properties_panic:
  assumes "rs_Hull ps = Some hp" "p_properties hp = no_properties"
  shows "CompatibilityChecker_Check ps = Panic ''nil pointer dereference''
    \<and> partPropertiesFromRecord no_props_record = Ret no_properties
    \<and> json_Unmarshal_props (JObj []) = Some no_props_record"
  using assms
  by (simp add: CompatibilityChecker_Check_def slot_properties_def no_properties_def
        partPropertiesFromRecord_def no_props_record_def json_Unmarshal_props_def)

end
