(* ===== verification/Platform_Auth.thy ===== *)
theory Platform_Auth
  imports Prelude
begin

text \<open>
  What the services share about a request: the values a \<open>context.Context\<close> carries
  (\<open>platform/pkg/auth/context.go\<close>) with the gRPC metadata of the call, and the status package
  of gRPC, which is a parameter.
\<close>

subsection \<open>Request contexts\<close>

text \<open>
  A context is a chain of key/value pairs; the keys of \<open>auth\<close> are two private types, so the
  context holds one slot for each. The incoming metadata is \<open>None\<close> when the call carries none;
  the outgoing metadata is the list of pairs in the order they were appended.
\<close>

record ctx =
  ctx_user :: "uuid option"
  ctx_session :: "uuid option"
  ctx_md_in :: "(string \<Rightarrow> string list) option"
  ctx_md_out :: "(string \<times> string) list"

abbreviation SessionTokenKey :: string where
  "SessionTokenKey \<equiv> ''session-uuid''"

definition WithUserUUID :: "ctx \<Rightarrow> uuid \<Rightarrow> ctx" where
  "WithUserUUID c userUUID = c\<lparr>ctx_user := Some userUUID\<rparr>"

definition UserUUIDFromContext :: "ctx \<Rightarrow> uuid \<times> bool" where
  "UserUUIDFromContext c = (case ctx_user c of Some u \<Rightarrow> (u, True) | None \<Rightarrow> (uuid_Nil, False))"

definition WithSessionUUID :: "ctx \<Rightarrow> uuid \<Rightarrow> ctx" where
  "WithSessionUUID c sessionUUID = c\<lparr>ctx_session := Some sessionUUID\<rparr>"

definition SessionUUIDFromContext :: "ctx \<Rightarrow> uuid \<times> bool" where
  "SessionUUIDFromContext c = (case ctx_session c of Some u \<Rightarrow> (u, True) | None \<Rightarrow> (uuid_Nil, False))"

text \<open>\<open>metadata.FromIncomingContext\<close> and \<open>metadata.AppendToOutgoingContext\<close>.\<close>

definition metadata_FromIncomingContext :: "ctx \<Rightarrow> (string \<Rightarrow> string list) \<times> bool" where
  "metadata_FromIncomingContext c = (case ctx_md_in c of Some md \<Rightarrow> (md, True) | None \<Rightarrow> (\<lambda>_. [], False))"

definition metadata_AppendToOutgoingContext :: "ctx \<Rightarrow> string \<Rightarrow> string \<Rightarrow> ctx" where
  "metadata_AppendToOutgoingContext c k v = c\<lparr>ctx_md_out := ctx_md_out c @ [(k, v)]\<rparr>"

definition background_ctx :: ctx where
  "background_ctx = \<lparr>ctx_user = None, ctx_session = None, ctx_md_in = None, ctx_md_out = []\<rparr>"

lemma auth_context_roundtrip [simp]:
  "UserUUIDFromContext (WithUserUUID c u) = (u, True)"
  "SessionUUIDFromContext (WithSessionUUID c s) = (s, True)"
  "UserUUIDFromContext (WithSessionUUID c s) = UserUUIDFromContext c"
  "SessionUUIDFromContext (WithUserUUID c u) = SessionUUIDFromContext c"
  by (simp_all add: UserUUIDFromContext_def WithUserUUID_def SessionUUIDFromContext_def WithSessionUUID_def)

subsection \<open>gRPC status\<close>

text \<open>
  \<open>status.FromError\<close> is a parameter \<open>S\<close>: the code of an error that is (or wraps) a status,
  \<open>None\<close> for any other error. Its documentation gives the laws used here: an error made by
  \<open>status.Error\<close> with a code other than \<open>OK\<close> is recognised, a plain error is not, and no
  error has the code \<open>OK\<close>. \<open>status.Code\<close> is \<open>Unknown\<close> for an error without a status.
\<close>

type_synonym 'e status_lib = "'e err \<Rightarrow> grpc_code option"

definition status_lib_ok :: "'e status_lib \<Rightarrow> bool" where
  "status_lib_ok S \<longleftrightarrow>
     (\<forall>c. c \<noteq> OK \<longrightarrow> S (Status c) = Some c) \<and> (\<forall>s. S (Sent s) = None) \<and>
     (\<forall>x. S (Ext x) = None) \<and> (\<forall>e. S e \<noteq> Some OK)"

definition status_Code :: "'e status_lib \<Rightarrow> 'e err \<Rightarrow> grpc_code" where
  "status_Code S e = (case S e of Some c \<Rightarrow> c | None \<Rightarrow> Unknown)"

lemma status_Code_not_OK: "status_lib_ok S \<Longrightarrow> status_Code S e \<noteq> OK"
  by (auto simp: status_lib_ok_def status_Code_def split: option.splits)

lemma status_lib_Status: "status_lib_ok S \<Longrightarrow> c \<noteq> OK \<Longrightarrow> S (Status c) = Some c"
  by (simp add: status_lib_ok_def)

lemma status_Code_Status [simp]: "status_lib_ok S \<Longrightarrow> c \<noteq> OK \<Longrightarrow> status_Code S (Status c) = c"
  by (simp add: status_lib_Status status_Code_def)

primrec chain_FromError :: "'e status_lib" where
  "chain_FromError (Sent s) = None"
| "chain_FromError (Wrap m e) = chain_FromError e"
| "chain_FromError (Status c) = (if c = OK then None else Some c)"
| "chain_FromError (Ext x) = None"

lemma chain_FromError_ok: "status_lib_ok chain_FromError"
proof -
  have "chain_FromError e \<noteq> Some OK" for e :: "'a err"
    by (induction e) auto
  then show ?thesis by (simp add: status_lib_ok_def)
qed

subsection \<open>Trace identifiers\<close>

text \<open>
  \<open>TraceIDUnaryServerInterceptor\<close> sends the trace identifier of the context (a parameter) as a
  response header; a failure to send it is logged and ignored.
\<close>

definition TraceIDUnaryServerInterceptor ::
    "(ctx \<Rightarrow> string) \<Rightarrow> (ctx \<Rightarrow> string \<Rightarrow> 'w \<Rightarrow> 'w) \<Rightarrow> (ctx \<Rightarrow> ('w, 'r, 'e) act) \<Rightarrow> ctx \<Rightarrow> ('w, 'r, 'e) act" where
  "TraceIDUnaryServerInterceptor traceID setHeader handler c = (\<lambda>w.
     if traceID c \<noteq> [] then handler c (setHeader c (traceID c) w) else handler c w)"

end
