(* ===== verification/Proto.thy ===== *)
theory Proto
  imports Prelude
begin

text \<open>
  The messages of the gRPC interfaces (generated into \<open>shared/pkg/proto\<close>) as far as the
  hand-written code reads and writes them. A protobuf enumeration is an \<open>int32\<close>; values without
  a name reach the default branches of the converters.
\<close>

type_synonym PartTypeProto = int

abbreviation (input) PART_TYPE_UNSPECIFIED :: PartTypeProto where "PART_TYPE_UNSPECIFIED \<equiv> 0"
abbreviation (input) PART_TYPE_HULL :: PartTypeProto where "PART_TYPE_HULL \<equiv> 1"
abbreviation (input) PART_TYPE_ENGINE :: PartTypeProto where "PART_TYPE_ENGINE \<equiv> 2"
abbreviation (input) PART_TYPE_SHIELD :: PartTypeProto where "PART_TYPE_SHIELD \<equiv> 3"
abbreviation (input) PART_TYPE_WEAPON :: PartTypeProto where "PART_TYPE_WEAPON \<equiv> 4"

record PartProto =
  pp_Uuid :: string
  pp_Name :: string
  pp_Description :: string
  pp_Price :: int
  pp_PartType :: PartTypeProto
  pp_StockQuantity :: int
  pp_CreatedAt :: time

record ValidateCompatibilityRequest =
  vr_HullUuid :: string
  vr_EngineUuid :: string
  vr_ShieldUuid :: string
  vr_WeaponUuid :: string

type_synonym PaymentMethodProto = int

abbreviation (input) PAYMENT_METHOD_UNSPECIFIED :: PaymentMethodProto where "PAYMENT_METHOD_UNSPECIFIED \<equiv> 0"
abbreviation (input) PAYMENT_METHOD_CARD :: PaymentMethodProto where "PAYMENT_METHOD_CARD \<equiv> 1"
abbreviation (input) PAYMENT_METHOD_SBP :: PaymentMethodProto where "PAYMENT_METHOD_SBP \<equiv> 2"
abbreviation (input) PAYMENT_METHOD_CREDIT_CARD :: PaymentMethodProto where "PAYMENT_METHOD_CREDIT_CARD \<equiv> 3"
abbreviation (input) PAYMENT_METHOD_INVESTOR_MONEY :: PaymentMethodProto where "PAYMENT_METHOD_INVESTOR_MONEY \<equiv> 4"

text \<open>
  The events of \<open>shared/proto/events/v1\<close>. A message field (the timestamp) may be absent; its getter
  then reads as the zero timestamp, the Unix epoch.
\<close>

record OrderPaidMsg =
  opm_EventUuid :: string
  opm_OrderUuid :: string
  opm_UserUuid :: string

record ShipAssembledMsg =
  sam_EventUuid :: string
  sam_OrderUuid :: string
  sam_UserUuid :: string
  sam_BuildTimeSec :: int
  sam_AssembledAt :: "time option"

definition AsTime :: "time option \<Rightarrow> time" where
  "AsTime ts = (case ts of None \<Rightarrow> 0 | Some t \<Rightarrow> t)"

end
