(* ===== verification/Inventory_Api.thy ===== *)
theory Inventory_Api
  imports Inventory_Compatibility Platform_Auth Proto
begin

text \<open>
  The gRPC surface of the inventory service: converters and handlers
  (\<open>inventory/internal/api\<close>), the interceptors (\<open>inventory/internal/interceptor\<close>) and the
  client of the IAM service that the authentication interceptor calls
  (\<open>inventory/internal/client/grpc/iam\<close>).
\<close>

subsection \<open>Converters\<close>

definition PartTypeModelToProto :: "PartType \<Rightarrow> PartTypeProto" where
  "PartTypeModelToProto pt =
     (if pt = PartTypeHull then PART_TYPE_HULL
      else if pt = PartTypeEngine then PART_TYPE_ENGINE
      else if pt = PartTypeShield then PART_TYPE_SHIELD
      else if pt = PartTypeWeapon then PART_TYPE_WEAPON
      else PART_TYPE_UNSPECIFIED)"

definition PartTypeProtoToModel :: "PartTypeProto \<Rightarrow> PartType" where
  "PartTypeProtoToModel pt =
     (if pt = PART_TYPE_HULL then PartTypeHull
      else if pt = PART_TYPE_ENGINE then PartTypeEngine
      else if pt = PART_TYPE_SHIELD then PartTypeShield
      else if pt = PART_TYPE_WEAPON then PartTypeWeapon
      else PartTypeUnspecified)"

definition PartModelToPartProto :: "uuid_lib \<Rightarrow> Part \<Rightarrow> PartProto" where
  "PartModelToPartProto U p =
     \<lparr>pp_Uuid = uuid_String U (p_uuid p), pp_Name = p_name p, pp_Description = p_description p,
      pp_Price = p_price p, pp_PartType = PartTypeModelToProto (p_partType p),
      pp_StockQuantity = p_stockQuantity p, pp_CreatedAt = p_createdAt p\<rparr>"

subsection \<open>Handlers\<close>

text \<open>The parsing loop at the head of four of the handlers, and \<open>parseUUID\<close>.\<close>

definition parse_uuid :: "uuid_lib \<Rightarrow> string \<Rightarrow> uuid inv_res" where
  "parse_uuid U s = (case uuid_Parse U s of
       None \<Rightarrow> Err (Wrap ''invalid uuid format: %s'' (Sent ErrInvalidUUID))
     | Some u \<Rightarrow> Ret u)"

definition InventoryApi_ReserveParts ::
    "uuid_lib \<Rightarrow> 'w part_service \<Rightarrow> string list \<Rightarrow> ('w, unit, inv_error) act" where
  "InventoryApi_ReserveParts U s uuids =
     bindA (liftR (mapR (parse_uuid U) uuids)) (PartService_Reserve s)"

definition InventoryApi_ReleaseParts ::
    "uuid_lib \<Rightarrow> 'w part_service \<Rightarrow> string list \<Rightarrow> ('w, unit, inv_error) act" where
  "InventoryApi_ReleaseParts U s uuids =
     bindA (liftR (mapR (parse_uuid U) uuids)) (PartService_Release s)"

definition InventoryApi_CommitParts ::
    "uuid_lib \<Rightarrow> 'w part_service \<Rightarrow> string list \<Rightarrow> ('w, unit, inv_error) act" where
  "InventoryApi_CommitParts U s uuids =
     bindA (liftR (mapR (parse_uuid U) uuids)) (PartService_Commit s)"

definition InventoryApi_GetPart ::
    "uuid_lib \<Rightarrow> 'w part_service \<Rightarrow> string \<Rightarrow> ('w, PartProto, inv_error) act" where
  "InventoryApi_GetPart U s u =
     (if u = [] then fail (Wrap ''uuid must not be empty'' (Sent ErrInvalidUUID))
      else bindA (liftR (parse_uuid U u)) (\<lambda>parsedUuid.
           bindA (PartService_Get s parsedUuid) (\<lambda>p. ret (PartModelToPartProto U p))))"

definition InventoryApi_ListParts ::
    "uuid_lib \<Rightarrow> 'w part_service \<Rightarrow> string list \<Rightarrow> PartTypeProto \<Rightarrow> ('w, PartProto list, inv_error) act" where
  "InventoryApi_ListParts U s uuids partType =
     bindA (liftR (mapR (parse_uuid U) uuids)) (\<lambda>parsedUuids.
     bindA (PartService_List s parsedUuids (PartTypeProtoToModel partType)) (\<lambda>parts.
     ret (map (PartModelToPartProto U) parts)))"

definition composeShipSlots :: "uuid_lib \<Rightarrow> ValidateCompatibilityRequest \<Rightarrow> ShipSlots inv_res" where
  "composeShipSlots U req =
     bindR (parse_uuid U (vr_HullUuid req)) (\<lambda>hullUUID.
     bindR (parse_uuid U (vr_EngineUuid req)) (\<lambda>engineUUID.
     bindR (if vr_ShieldUuid req \<noteq> [] then parse_uuid U (vr_ShieldUuid req) else Ret uuid_Nil) (\<lambda>shieldUUID.
     bindR (if vr_WeaponUuid req \<noteq> [] then parse_uuid U (vr_WeaponUuid req) else Ret uuid_Nil) (\<lambda>weaponUUID.
     Ret \<lparr>slot_HullUUID = hullUUID, slot_EngineUUID = engineUUID,
          slot_ShieldUUID = shieldUUID, slot_WeaponUUID = weaponUUID\<rparr>))))"

definition InventoryApi_ValidateCompatibility ::
    "uuid_lib \<Rightarrow> 'w part_service \<Rightarrow> ValidateCompatibilityRequest \<Rightarrow> ('w, unit, inv_error) act" where
  "InventoryApi_ValidateCompatibility U s req =
     bindA (liftR (composeShipSlots U req)) (PartService_ValidateCompatibility s)"

subsection \<open>Interceptors\<close>

definition inv_error_code :: "inv_error status_lib \<Rightarrow> inv_error err \<Rightarrow> inv_error err" where
  "inv_error_code S err =
     (if errors_Is err ErrPartNotFound then Status NotFound
      else if errors_Is err ErrInvalidUUID \<or> errors_Is err ErrPartTypeMismatch then Status InvalidArgument
      else if errors_Is err ErrIncompatibleParts \<or> errors_Is err ErrNothingToCommit
              \<or> errors_Is err ErrNothingToRelease then Status FailedPrecondition
      else if errors_Is err ErrOutOfStock then Status ResourceExhausted
      else if errors_Is err ErrInvalidProperties then Status Internal
      else if status_Code S err \<noteq> OK then err
      else Status Internal)"

definition Inventory_ErrorInterceptor ::
    "inv_error status_lib \<Rightarrow> (ctx \<Rightarrow> ('w, 'r, inv_error) act) \<Rightarrow> ctx \<Rightarrow> ('w, 'r, inv_error) act" where
  "Inventory_ErrorInterceptor S handler c = (\<lambda>w. case handler c w of
       (Ret resp, w') \<Rightarrow> (Ret resp, w')
     | (Err err, w') \<Rightarrow> (Err (inv_error_code S err), w')
     | (Panic p, w') \<Rightarrow> (Panic p, w'))"

text \<open>
  The interceptor replaces every error of \<open>Whoami\<close> by one status, so the call is matched on here
  instead of being chained.
\<close>

definition Inventory_Auth ::
    "uuid_lib \<Rightarrow> (ctx \<Rightarrow> uuid \<Rightarrow> ('w, uuid \<times> uuid, inv_error) act)
      \<Rightarrow> (ctx \<Rightarrow> ('w, 'r, inv_error) act) \<Rightarrow> ctx \<Rightarrow> ('w, 'r, inv_error) act" where
  "Inventory_Auth U whoami handler c =
     (case metadata_FromIncomingContext c of (md, ok) \<Rightarrow>
        if \<not> ok then fail (Status Unauthenticated)
        else (case md SessionTokenKey of
            [] \<Rightarrow> fail (Status Unauthenticated)
          | v # _ \<Rightarrow> (case uuid_Parse U v of
                None \<Rightarrow> fail (Status Unauthenticated)
              | Some sessionUUID \<Rightarrow> (\<lambda>w. case whoami c sessionUUID w of
                    (Ret (userUUID, sessionUUID'), w') \<Rightarrow>
                      handler (WithSessionUUID (WithUserUUID c userUUID) sessionUUID') w'
                  | (Err e, w') \<Rightarrow> (Err (Status Unauthenticated), w')
                  | (Panic p, w') \<Rightarrow> (Panic p, w')))))"

text \<open>The chain that \<open>initGRPCServer\<close> installs, outermost first.\<close>

definition inventory_chain ::
    "uuid_lib \<Rightarrow> inv_error status_lib \<Rightarrow> (ctx \<Rightarrow> string) \<Rightarrow> (ctx \<Rightarrow> string \<Rightarrow> 'w \<Rightarrow> 'w)
      \<Rightarrow> (ctx \<Rightarrow> uuid \<Rightarrow> ('w, uuid \<times> uuid, inv_error) act)
      \<Rightarrow> (ctx \<Rightarrow> ('w, 'r, inv_error) act) \<Rightarrow> ctx \<Rightarrow> ('w, 'r, inv_error) act" where
  "inventory_chain U S traceID setHeader whoami handler =
     Inventory_ErrorInterceptor S
       (TraceIDUnaryServerInterceptor traceID setHeader (Inventory_Auth U whoami handler))"

subsection \<open>The IAM client\<close>

definition inv_iam_mapErrors :: "'e status_lib \<Rightarrow> 'e err \<Rightarrow> inv_error err" where
  "inv_iam_mapErrors S err = (case S err of
       Some code \<Rightarrow> Wrap ''iam service returned an error %q''
         (Sent (if code = Unauthenticated then ErrUnauthenticated
                else if code = InvalidArgument then ErrUnauthenticated
                else ErrInternalError))
     | None \<Rightarrow> Wrap ''iam service call failed'' (Sent ErrInternalError))"

text \<open>
  The generated stub is a parameter: a request carries the printed session, a response the printed
  identifiers of user and session. \<open>uuid.MustParse\<close> panics on anything else.
\<close>

definition InvIAMClient_Whoami ::
    "uuid_lib \<Rightarrow> 'e status_lib \<Rightarrow> (ctx \<Rightarrow> string \<Rightarrow> ('w, string \<times> string, 'e) act)
      \<Rightarrow> ctx \<Rightarrow> uuid \<Rightarrow> ('w, uuid \<times> uuid, inv_error) act" where
  "InvIAMClient_Whoami U S stub c sessionUUID = (\<lambda>w.
     case stub c (uuid_String U sessionUUID) w of
       (Err err, w') \<Rightarrow> (Err (inv_iam_mapErrors S err), w')
     | (Panic p, w') \<Rightarrow> (Panic p, w')
     | (Ret (user, session), w') \<Rightarrow>
         (case (uuid_Parse U user, uuid_Parse U session) of
            (Some u, Some s) \<Rightarrow> Ret (u, s)
          | _ \<Rightarrow> Panic ''uuid: Parse'', w'))"

subsection \<open>Printed identifiers\<close>

lemma parse_printed: "uuid_lib_ok U \<Longrightarrow> mapR (parse_uuid U) (map (uuid_String U) us) = Ret us"
  by (induction us) (simp_all add: parse_uuid_def uuid_lib_parse)

lemma api_printed:
  assumes "uuid_lib_ok U"
  shows "InventoryApi_ReserveParts U s (map (uuid_String U) us) = PartService_Reserve s us"
    "InventoryApi_ReleaseParts U s (map (uuid_String U) us) = PartService_Release s us"
    "InventoryApi_CommitParts U s (map (uuid_String U) us) = PartService_Commit s us"
    "InventoryApi_ListParts U s (map (uuid_String U) us) t =
       bindA (PartService_List s us (PartTypeProtoToModel t)) (\<lambda>ps. ret (map (PartModelToPartProto U) ps))"
  using parse_printed [OF assms]
  by (simp_all add: InventoryApi_ReserveParts_def InventoryApi_ReleaseParts_def fun_eq_iff
        InventoryApi_CommitParts_def InventoryApi_ListParts_def act_simps)

subsection \<open>Properties\<close>

text \<open>
  The status a client of the inventory sees is decided by the innermost error alone, however
  often it was wrapped on the way up, and the last branch of the switch is never taken: an error
  without a sentinel of the table (a driver error, \<open>ErrNoPartWereUpdated\<close>) leaves the
  interceptor unchanged instead of as \<open>Internal\<close>.
\<close>

lemma inventory_error_table:
  assumes "status_lib_ok S"
  shows "inv_error_code S err = (case cause err of
      Sent ErrPartNotFound \<Rightarrow> Status NotFound
    | Sent ErrInvalidUUID \<Rightarrow> Status InvalidArgument
    | Sent ErrPartTypeMismatch \<Rightarrow> Status InvalidArgument
    | Sent ErrIncompatibleParts \<Rightarrow> Status FailedPrecondition
    | Sent ErrNothingToCommit \<Rightarrow> Status FailedPrecondition
    | Sent ErrNothingToRelease \<Rightarrow> Status FailedPrecondition
    | Sent ErrOutOfStock \<Rightarrow> Status ResourceExhausted
    | Sent ErrInvalidProperties \<Rightarrow> Status Internal
    | _ \<Rightarrow> err)"
  using status_Code_not_OK [OF assms]
  by (auto simp: inv_error_code_def errors_Is_cause split: err.splits inv_error.splits)

text \<open>The session a request presents: the first value under the key, when it parses.\<close>

definition presented_session :: "uuid_lib \<Rightarrow> ctx \<Rightarrow> uuid option" where
  "presented_session U c = (case ctx_md_in c of
       None \<Rightarrow> None
     | Some md \<Rightarrow> (case md SessionTokenKey of [] \<Rightarrow> None | v # _ \<Rightarrow> uuid_Parse U v))"

lemma Inventory_Auth_session:
  "Inventory_Auth U whoami handler c w =
     (case presented_session U c of
        None \<Rightarrow> (Err (Status Unauthenticated), w)
      | Some s \<Rightarrow> (case whoami c s w of
            (Ret (u, s'), w') \<Rightarrow> handler (WithSessionUUID (WithUserUUID c u) s') w'
          | (Err e, w') \<Rightarrow> (Err (Status Unauthenticated), w')
          | (Panic p, w') \<Rightarrow> (Panic p, w')))"
  by (simp add: Inventory_Auth_def metadata_FromIncomingContext_def presented_session_def
        split: option.splits list.splits)

text \<open>
  C24. No handler of the inventory runs for a caller without a valid session: a request that presents
  no session or one that the IAM service does not confirm is answered \<open>Unauthenticated\<close> through
  the whole chain of interceptors, whatever the handler is; and a handler that runs sees the user and
  the session the IAM service confirmed.
\<close>

theorem inventory_requires_session:
  assumes "status_lib_ok S"
  shows "inventory_chain U S traceID setHeader whoami handler c w =
    (let w1 = (if traceID c \<noteq> [] then setHeader c (traceID c) w else w)
     in case presented_session U c of
          None \<Rightarrow> (Err (Status Unauthenticated), w1)
        | Some s \<Rightarrow> (case whoami c s w1 of
              (Err e, w2) \<Rightarrow> (Err (Status Unauthenticated), w2)
            | (Panic p, w2) \<Rightarrow> (Panic p, w2)
            | (Ret (u, s'), w2) \<Rightarrow>
                Inventory_ErrorInterceptor S handler (WithSessionUUID (WithUserUUID c u) s') w2))"
proof -
  have code: "inv_error_code S (Status Unauthenticated) = Status Unauthenticated"
    using status_Code_not_OK [OF assms(1)] by (simp add: inv_error_code_def)
  define w1 where "w1 = (if traceID c \<noteq> [] then setHeader c (traceID c) w else w)"
  have "inventory_chain U S traceID setHeader whoami handler c w =
      Inventory_ErrorInterceptor S (Inventory_Auth U whoami handler) c w1"
    by (simp add: inventory_chain_def Inventory_ErrorInterceptor_def TraceIDUnaryServerInterceptor_def w1_def)
  also have "\<dots> = (case presented_session U c of
          None \<Rightarrow> (Err (Status Unauthenticated), w1)
        | Some s \<Rightarrow> (case whoami c s w1 of
              (Err e, w2) \<Rightarrow> (Err (Status Unauthenticated), w2)
            | (Panic p, w2) \<Rightarrow> (Panic p, w2)
            | (Ret (u, s'), w2) \<Rightarrow>
                Inventory_ErrorInterceptor S handler (WithSessionUUID (WithUserUUID c u) s') w2))"
    by (simp add: Inventory_ErrorInterceptor_def Inventory_Auth_session code
          split: option.split prod.split res.split)
  finally show ?thesis unfolding w1_def Let_def .
qed

theorem inventory_requires_session_witness:
  "inventory_chain unary_uuid_lib chain_FromError (\<lambda>_. []) (\<lambda>_ _ w. w) (\<lambda>_ _. ret (1, 2))
     (\<lambda>_. ret ()) background_ctx (0::nat) = (Err (Status Unauthenticated), 0)"
  by (subst inventory_requires_session [OF chain_FromError_ok])
     (simp add: presented_session_def background_ctx_def)

text \<open>
  What another service sends as printed identifiers reaches the application service unchanged:
  every bulk handler applied to printed identifiers is the service on the identifiers themselves, and
  the part types survive the trip to the protobuf enumeration and back.
\<close>

lemma inventory_api_roundtrip:
  assumes "uuid_lib_ok U"
  shows "InventoryApi_ReserveParts U s (map (uuid_String U) us) = PartService_Reserve s us
    \<and> InventoryApi_ReleaseParts U s (map (uuid_String U) us) = PartService_Release s us
    \<and> InventoryApi_CommitParts U s (map (uuid_String U) us) = PartService_Commit s us
    \<and> list_all (\<lambda>t. PartTypeProtoToModel (PartTypeModelToProto t) = t)
        [PartTypeHull, PartTypeEngine, PartTypeShield, PartTypeWeapon, PartTypeUnspecified]"
  by (simp add: api_printed [OF assms] PartTypeProtoToModel_def PartTypeModelToProto_def)

end
