(* ===== verification/Order_Model.thy ===== *)
theory Order_Model
  imports Platform_Auth
begin

text \<open>
  The data of the order service: error sentinels (\<open>order/internal/errors\<close>), orders, parts,
  payment methods and events (\<open>order/internal/model\<close>) and the input of \<open>Create\<close>
  (\<open>order/internal/service/input\<close>). String enumerations stay strings.
\<close>

datatype order_error =
    ErrInvalidUUID | ErrPaymentFailed | ErrInvalidPaymentMethod | ErrInvalidOrderStatus
  | ErrOrderNotFound | ErrInternalError | ErrPartNotFound | ErrOutOfStock | ErrIncompatibleParts
  | ErrPartTypeMismatch | ErrUnauthorized

type_synonym 'a ord_res = "('a, order_error) res"

type_synonym OrderStatus = string

abbreviation OrderStatusPendingPayment :: OrderStatus where "OrderStatusPendingPayment \<equiv> ''PENDING_PAYMENT''"
abbreviation OrderStatusPaid :: OrderStatus where "OrderStatusPaid \<equiv> ''PAID''"
abbreviation OrderStatusCancelled :: OrderStatus where "OrderStatusCancelled \<equiv> ''CANCELLED''"
abbreviation OrderStatusAssembled :: OrderStatus where "OrderStatusAssembled \<equiv> ''ASSEMBLED''"

type_synonym PaymentMethod = string

abbreviation PaymentMethodUnspecified :: PaymentMethod where "PaymentMethodUnspecified \<equiv> ''UNSPECIFIED''"
abbreviation PaymentMethodCard :: PaymentMethod where "PaymentMethodCard \<equiv> ''CARD''"
abbreviation PaymentMethodSBP :: PaymentMethod where "PaymentMethodSBP \<equiv> ''SBP''"
abbreviation PaymentMethodCreditCard :: PaymentMethod where "PaymentMethodCreditCard \<equiv> ''CREDIT_CARD''"
abbreviation PaymentMethodInvestorMoney :: PaymentMethod where "PaymentMethodInvestorMoney \<equiv> ''INVESTOR_MONEY''"

type_synonym OrderPartType = string

record OrderItem =
  oi_UUID :: uuid
  oi_PartType :: OrderPartType
  oi_Price :: int

record Order =
  o_UUID :: uuid
  o_UserUUID :: uuid
  o_Items :: "OrderItem list"
  o_TransactionUUID :: "uuid option"
  o_PaymentMethod :: "PaymentMethod option"
  o_Status :: OrderStatus
  o_CreatedAt :: time

text \<open>The sum is a Go \<open>int64\<close>: every addition wraps.\<close>

definition Order_TotalPrice :: "Order \<Rightarrow> int" where
  "Order_TotalPrice o' = foldl (\<lambda>total item. wrap64 (total + oi_Price item)) 0 (o_Items o')"

definition Order_ItemsUUIDs :: "Order \<Rightarrow> uuid list" where
  "Order_ItemsUUIDs o' = map oi_UUID (o_Items o')"

text \<open>The model of a part on the order side.\<close>

record OrderPart =
  op_UUID :: uuid
  op_PartType :: OrderPartType
  op_Name :: string
  op_Price :: int
  op_StockQuantity :: int

record OrderPaidEvent =
  pe_UUID :: string
  pe_OrderUUID :: string
  pe_UserUUID :: string

record ShipAssembledEvent =
  se_UUID :: string
  se_OrderUUID :: string
  se_UserUUID :: string
  se_BuildTimeSec :: int
  se_AssembledAt :: time

record OrderParts =
  in_HullUUID :: uuid
  in_EngineUUID :: uuid
  in_ShieldUUID :: "uuid option"
  in_WeaponUUID :: "uuid option"

lemma TotalPrice_wrapped_sum:
  "Order_TotalPrice o' = wrap64 (sum_list (map oi_Price (o_Items o')))"
proof -
  have "foldl (\<lambda>total item. wrap64 (total + oi_Price item)) (wrap64 t) items
      = wrap64 (t + sum_list (map oi_Price items))" for t items
    by (induction items arbitrary: t) (simp_all add: add.assoc)
  from this [of 0] show ?thesis
    by (simp add: Order_TotalPrice_def in64_def)
qed

end
