(* ===== verification/Order_Repository.thy ===== *)
theory Order_Repository
  imports Order_Model "HOL-Library.Multiset"
begin

text \<open>
  The storage layer of the order service (\<open>order/internal/repository\<close>): the tables
  \<open>orders\<close> and \<open>order_items\<close> as lists of rows, the record converters, and the repository
  operations as the meaning of their SQL. The state is an extensible record, so that the same
  operations run inside a bigger world; \<open>order_env\<close> holds what driver and server add.
\<close>

subsection \<open>Rows and converters\<close>

record OrderRecord =
  ord_UUID :: uuid
  ord_UserUUID :: uuid
  ord_Status :: OrderStatus
  ord_TransactionUUID :: "uuid option"
  ord_PaymentMethod :: "PaymentMethod option"
  ord_CreatedAt :: time

record OrderItemRecord =
  itr_OrderUUID :: uuid
  itr_PartUUID :: uuid
  itr_PartType :: OrderPartType
  itr_Price :: int

definition OrderModelToRecord :: "Order \<Rightarrow> OrderRecord" where
  "OrderModelToRecord m =
     \<lparr>ord_UUID = o_UUID m, ord_UserUUID = o_UserUUID m, ord_Status = o_Status m,
      ord_TransactionUUID = o_TransactionUUID m, ord_PaymentMethod = o_PaymentMethod m,
      ord_CreatedAt = o_CreatedAt m\<rparr>"

definition OrderRecordToModel :: "OrderRecord \<Rightarrow> Order" where
  "OrderRecordToModel r =
     \<lparr>o_UUID = ord_UUID r, o_UserUUID = ord_UserUUID r, o_Items = [],
      o_TransactionUUID = ord_TransactionUUID r, o_PaymentMethod = ord_PaymentMethod r,
      o_Status = ord_Status r, o_CreatedAt = ord_CreatedAt r\<rparr>"

definition OrderItemModelToRecord :: "uuid \<Rightarrow> OrderItem \<Rightarrow> OrderItemRecord" where
  "OrderItemModelToRecord orderUuid item =
     \<lparr>itr_OrderUUID = orderUuid, itr_PartUUID = oi_UUID item, itr_PartType = oi_PartType item,
      itr_Price = oi_Price item\<rparr>"

definition OrderItemRecordToModel :: "OrderItemRecord \<Rightarrow> OrderItem" where
  "OrderItemRecordToModel r =
     \<lparr>oi_UUID = itr_PartUUID r, oi_PartType = itr_PartType r, oi_Price = itr_Price r\<rparr>"

definition OrderItemModelsToRecords :: "uuid \<Rightarrow> OrderItem list \<Rightarrow> OrderItemRecord list" where
  "OrderItemModelsToRecords orderUuid items = map (OrderItemModelToRecord orderUuid) items"

definition OrderItemRecordsToModels :: "OrderItemRecord list \<Rightarrow> OrderItem list" where
  "OrderItemRecordsToModels rs = map OrderItemRecordToModel rs"

lemma order_items_roundtrip [simp]:
  "OrderItemRecordsToModels (OrderItemModelsToRecords u items) = items"
  by (induction items) (simp_all add: OrderItemRecordsToModels_def OrderItemModelsToRecords_def
        OrderItemRecordToModel_def OrderItemModelToRecord_def)

lemma order_record_roundtrip:
  "OrderRecordToModel (OrderModelToRecord m) = m\<lparr>o_Items := []\<rparr>"
  by (simp add: OrderRecordToModel_def OrderModelToRecord_def)

subsection \<open>The tables\<close>

record order_db =
  od_orders :: "OrderRecord list"
  od_updated_at :: "uuid \<Rightarrow> time option"
  od_items :: "OrderItemRecord list"

text \<open>
  Outcomes of the statements, the clock read by \<open>Update\<close>, the value a \<open>TIMESTAMP\<close> column
  keeps of an instant, and the order in which the rows of \<open>order_items\<close> are scanned (the query
  has no \<open>ORDER BY\<close>).
\<close>

record order_env =
  oe_query :: "ext_error option"
  oe_items_query :: "ext_error option"
  oe_items_scan :: "ext_error option"
  oe_insert :: "ext_error option"
  oe_items_build :: "ext_error option"
  oe_items_insert :: "ext_error option"
  oe_update :: "ext_error option"
  oe_now :: time
  oe_timestamp :: "time \<Rightarrow> time"
  oe_scan :: "OrderItemRecord list \<Rightarrow> OrderItemRecord list"

abbreviation order_up :: "order_env \<Rightarrow> bool" where
  "order_up E \<equiv> oe_query E = None \<and> oe_items_query E = None \<and> oe_items_scan E = None \<and>
     oe_insert E = None \<and> oe_items_build E = None \<and> oe_items_insert E = None \<and> oe_update E = None"

definition scan_ok :: "order_env \<Rightarrow> bool" where
  "scan_ok E \<longleftrightarrow> (\<forall>rs. mset (oe_scan E rs) = mset rs)"

definition sql :: "ext_error option \<Rightarrow> ('w, unit, 'e) act" where
  "sql oc = (case oc of None \<Rightarrow> ret () | Some x \<Rightarrow> fail (Ext x))"

lemma sql_app [act_simps]: "sql oc w = (case oc of None \<Rightarrow> Ret () | Some x \<Rightarrow> Err (Ext x), w)"
  by (simp add: sql_def split: option.splits)

subsection \<open>Queries\<close>

definition OrderRepo_getOrder :: "order_env \<Rightarrow> uuid \<Rightarrow> ('a order_db_scheme, Order, order_error) act" where
  "OrderRepo_getOrder E u =
     bindA (sql (oe_query E)) (\<lambda>_ w.
       (case find (\<lambda>r. ord_UUID r = u) (od_orders w) of
          None \<Rightarrow> Err (Ext ErrNoRows)
        | Some r \<Rightarrow> Ret (OrderRecordToModel r), w))"

text \<open>\<open>getOrderForUpdate\<close> is the same query with \<open>FOR UPDATE\<close>.\<close>

definition OrderRepo_getOrderForUpdate :: "order_env \<Rightarrow> uuid \<Rightarrow> ('a order_db_scheme, Order, order_error) act" where
  "OrderRepo_getOrderForUpdate E u =
     bindA (sql (oe_query E)) (\<lambda>_ w.
       (case find (\<lambda>r. ord_UUID r = u) (od_orders w) of
          None \<Rightarrow> Err (Ext ErrNoRows)
        | Some r \<Rightarrow> Ret (OrderRecordToModel r), w))"

definition OrderRepo_getOrderItems :: "order_env \<Rightarrow> uuid \<Rightarrow> ('a order_db_scheme, OrderItem list, order_error) act" where
  "OrderRepo_getOrderItems E u =
     bindA (wrapA ''fetch order items'' (sql (oe_items_query E))) (\<lambda>_.
     bindA (sql (oe_items_scan E)) (\<lambda>_ w.
       (Ret (OrderItemRecordsToModels (oe_scan E (filter (\<lambda>r. itr_OrderUUID r = u) (od_items w)))), w)))"

text \<open>The error of the row query is inspected before it is returned.\<close>

definition order_not_found :: "('w, 'a, order_error) act \<Rightarrow> ('w, 'a, order_error) act" where
  "order_not_found a = (\<lambda>w. case a w of
       (Err err, w') \<Rightarrow>
         (if errors_Is_ext err ErrNoRows then Err (Wrap ''order not found'' (Sent ErrOrderNotFound)) else Err err, w')
     | (r, w') \<Rightarrow> (r, w'))"

definition OrderRepo_Get :: "order_env \<Rightarrow> uuid \<Rightarrow> ('a order_db_scheme, Order, order_error) act" where
  "OrderRepo_Get E u =
     bindA (order_not_found (OrderRepo_getOrder E u)) (\<lambda>order.
     bindA (OrderRepo_getOrderItems E u) (\<lambda>orderItems.
     ret (order\<lparr>o_Items := orderItems\<rparr>)))"

definition OrderRepo_GetForUpdate :: "order_env \<Rightarrow> uuid \<Rightarrow> ('a order_db_scheme, Order, order_error) act" where
  "OrderRepo_GetForUpdate E u =
     bindA (order_not_found (OrderRepo_getOrderForUpdate E u)) (\<lambda>order.
     bindA (OrderRepo_getOrderItems E u) (\<lambda>orderItems.
     ret (order\<lparr>o_Items := orderItems\<rparr>)))"

subsection \<open>Inserts and updates\<close>

text \<open>The primary keys of both tables: a second row with the same key is refused.\<close>

definition OrderRepo_createOrder :: "order_env \<Rightarrow> Order \<Rightarrow> ('a order_db_scheme, unit, order_error) act" where
  "OrderRepo_createOrder E order =
     wrapA ''create order'' (bindA (sql (oe_insert E)) (\<lambda>_ w.
       if o_UUID order \<in> ord_UUID ` set (od_orders w) then (Err (Ext UniqueViolation), w)
       else (Ret (), w\<lparr>od_orders := od_orders w @
         [\<lparr>ord_UUID = o_UUID order, ord_UserUUID = o_UserUUID order, ord_Status = o_Status order,
           ord_TransactionUUID = None, ord_PaymentMethod = None,
           ord_CreatedAt = oe_timestamp E (o_CreatedAt order)\<rparr>]\<rparr>)))"

definition item_key :: "OrderItemRecord \<Rightarrow> uuid \<times> uuid" where
  "item_key r = (itr_OrderUUID r, itr_PartUUID r)"

definition OrderRepo_createOrderItems :: "order_env \<Rightarrow> Order \<Rightarrow> ('a order_db_scheme, unit, order_error) act" where
  "OrderRepo_createOrderItems E order =
     (if o_Items order = [] then ret ()
      else
        (let items = OrderItemModelsToRecords (o_UUID order) (o_Items order)
         in bindA (wrapA ''build query'' (sql (oe_items_build E))) (\<lambda>_.
            wrapA ''write order items'' (bindA (sql (oe_items_insert E)) (\<lambda>_ w.
              if distinct (map item_key (od_items w @ items))
              then (Ret (), w\<lparr>od_items := od_items w @ items\<rparr>)
              else (Err (Ext UniqueViolation), w))))))"

definition OrderRepo_Create ::
    "order_env \<Rightarrow> (('a order_db_scheme, unit, order_error) act \<Rightarrow> ('a order_db_scheme, unit, order_error) act)
      \<Rightarrow> Order \<Rightarrow> ('a order_db_scheme, unit, order_error) act" where
  "OrderRepo_Create E Do order =
     Do (bindA (OrderRepo_createOrder E order) (\<lambda>_. OrderRepo_createOrderItems E order))"

definition order_set :: "Order \<Rightarrow> OrderRecord \<Rightarrow> OrderRecord" where
  "order_set order r = (if ord_UUID r = o_UUID order
     then r\<lparr>ord_Status := o_Status order, ord_TransactionUUID := o_TransactionUUID order,
            ord_PaymentMethod := o_PaymentMethod order\<rparr>
     else r)"

definition OrderRepo_Update :: "order_env \<Rightarrow> Order \<Rightarrow> ('a order_db_scheme, unit, order_error) act" where
  "OrderRepo_Update E order =
     bindA (wrapA ''update order'' (sql (oe_update E))) (\<lambda>_ w.
       if filter (\<lambda>r. ord_UUID r = o_UUID order) (od_orders w) = []
       then (Err (Sent ErrOrderNotFound), w)
       else (Ret (), w\<lparr>od_orders := map (order_set order) (od_orders w),
                       od_updated_at := (od_updated_at w)(o_UUID order \<mapsto> oe_timestamp E (oe_now E))\<rparr>))"

subsection \<open>Laws of the repository\<close>

text \<open>
  The tables are sound when their keys are unique and every item belongs to an order. The view of the
  tables is the row of an order and the multiset of its items: the scan order is not part of it.
\<close>

definition odb_ok :: "'a order_db_scheme \<Rightarrow> bool" where
  "odb_ok w \<longleftrightarrow> distinct (map ord_UUID (od_orders w)) \<and> distinct (map item_key (od_items w))
     \<and> itr_OrderUUID ` set (od_items w) \<subseteq> ord_UUID ` set (od_orders w)"

definition order_row :: "'a order_db_scheme \<Rightarrow> uuid \<Rightarrow> OrderRecord option" where
  "order_row w u = find (\<lambda>r. ord_UUID r = u) (od_orders w)"

definition items_of :: "'a order_db_scheme \<Rightarrow> uuid \<Rightarrow> OrderItemRecord list" where
  "items_of w u = filter (\<lambda>r. itr_OrderUUID r = u) (od_items w)"

definition order_rollback :: "'a order_db_scheme \<Rightarrow> 'a order_db_scheme \<Rightarrow> 'a order_db_scheme" where
  "order_rollback w w' = w'\<lparr>od_orders := od_orders w, od_updated_at := od_updated_at w, od_items := od_items w\<rparr>"

lemma order_row_uuid: "order_row w u = Some r \<Longrightarrow> ord_UUID r = u"
  by (simp add: order_row_def find_Some_iff) blast

lemma order_row_None: "order_row w u = None \<longleftrightarrow> u \<notin> ord_UUID ` set (od_orders w)"
  by (auto simp: order_row_def find_None_iff)

lemma OrderRepo_Get_app:
  "OrderRepo_Get E u w =
     (case oe_query E of
        Some x \<Rightarrow> if x = ErrNoRows then Err (Wrap ''order not found'' (Sent ErrOrderNotFound)) else Err (Ext x)
      | None \<Rightarrow> (case order_row w u of
          None \<Rightarrow> Err (Wrap ''order not found'' (Sent ErrOrderNotFound))
        | Some r \<Rightarrow> (case oe_items_query E of
            Some x \<Rightarrow> Err (Wrap ''fetch order items'' (Ext x))
          | None \<Rightarrow> (case oe_items_scan E of
              Some x \<Rightarrow> Err (Ext x)
            | None \<Rightarrow> Ret (OrderRecordToModel r\<lparr>o_Items := OrderItemRecordsToModels (oe_scan E (items_of w u))\<rparr>)))), w)"
  by (simp add: OrderRepo_Get_def OrderRepo_getOrder_def OrderRepo_getOrderItems_def order_not_found_def
        act_simps order_row_def items_of_def split: option.splits)

lemma OrderRepo_GetForUpdate_Get: "OrderRepo_GetForUpdate = OrderRepo_Get"
  by (simp add: OrderRepo_GetForUpdate_def OrderRepo_Get_def fun_eq_iff
        OrderRepo_getOrderForUpdate_def OrderRepo_getOrder_def)

lemma order_row_update:
  "order_row (w\<lparr>od_orders := map (order_set order) (od_orders w), od_updated_at := t\<rparr>) u =
     map_option (order_set order) (order_row w u)"
proof -
  have "ord_UUID (order_set order r) = ord_UUID r" for r by (simp add: order_set_def)
  then have "find (\<lambda>r. ord_UUID r = u) (map (order_set order) rs)
      = map_option (order_set order) (find (\<lambda>r. ord_UUID r = u) rs)" for rs
    by (induction rs) auto
  then show ?thesis by (simp add: order_row_def)
qed

lemma OrderRepo_Update_app:
  "OrderRepo_Update E order w =
     (case oe_update E of
        Some x \<Rightarrow> (Err (Wrap ''update order'' (Ext x)), w)
      | None \<Rightarrow> if order_row w (o_UUID order) = None then (Err (Sent ErrOrderNotFound), w)
          else (Ret (), w\<lparr>od_orders := map (order_set order) (od_orders w),
                          od_updated_at := (od_updated_at w)(o_UUID order \<mapsto> oe_timestamp E (oe_now E))\<rparr>))"
  by (auto simp: OrderRepo_Update_def act_simps order_row_def find_None_iff filter_empty_conv
           split: option.splits)

lemma items_of_update [simp]:
  "items_of (w\<lparr>od_orders := rs, od_updated_at := t\<rparr>) u = items_of w u"
  by (simp add: items_of_def)

end
