(* ===== verification/Order_Service.thy ===== *)
theory Order_Service
  imports Order_Repository Proto
begin

text \<open>
  The order service (\<open>order/internal/service/order\<close>), its tracing decorator and the handler of
  the \<open>ShipAssembled\<close> topic (\<open>order/internal/consumer/assembly_consumer\<close>). The interfaces of
  \<open>deps.go\<close> are the fields of a record; fresh identifiers and the clock are arguments.
\<close>

subsection \<open>The service and its interfaces\<close>

text \<open>
  A transaction of the service returns what its closure assigned to the captured variables: nothing
  for \<open>Cancel\<close> and the handler, the transaction identifier and the order for \<open>Pay\<close>.
\<close>

type_synonym captured = "(uuid \<times> Order) option"

record 'w order_service =
  os_Get :: "uuid \<Rightarrow> ('w, Order, order_error) act"
  os_Create :: "Order \<Rightarrow> ('w, unit, order_error) act"
  os_Update :: "Order \<Rightarrow> ('w, unit, order_error) act"
  os_GetForUpdate :: "uuid \<Rightarrow> ('w, Order, order_error) act"
  os_ListParts :: "ctx \<Rightarrow> uuid list \<Rightarrow> ('w, OrderPart list, order_error) act"
  os_ReserveParts :: "ctx \<Rightarrow> uuid list \<Rightarrow> ('w, unit, order_error) act"
  os_ReleaseParts :: "ctx \<Rightarrow> uuid list \<Rightarrow> ('w, unit, order_error) act"
  os_CommitParts :: "ctx \<Rightarrow> uuid list \<Rightarrow> ('w, unit, order_error) act"
  os_ValidateCompatibility :: "ctx \<Rightarrow> OrderParts \<Rightarrow> ('w, unit, order_error) act"
  os_PayOrder :: "ctx \<Rightarrow> uuid \<Rightarrow> PaymentMethod \<Rightarrow> ('w, uuid, order_error) act"
  os_ProduceOrderPaid :: "ctx \<Rightarrow> OrderPaidEvent \<Rightarrow> ('w, unit, order_error) act"
  os_txDo :: "('w, captured, order_error) act \<Rightarrow> ('w, captured, order_error) act"
  os_createdTotal :: "'w \<Rightarrow> 'w"
  os_paidTotal :: "'w \<Rightarrow> 'w"
  os_revenueTotal :: "int \<Rightarrow> 'w \<Rightarrow> 'w"

subsection \<open>Create\<close>

fun validateUniqueUUIDs_from :: "uuid set \<Rightarrow> uuid list \<Rightarrow> unit ord_res" where
  "validateUniqueUUIDs_from seen [] = Ret ()"
| "validateUniqueUUIDs_from seen (u # ids) =
     (if u = uuid_Nil then validateUniqueUUIDs_from seen ids
      else if u \<in> seen then Err (Wrap ''uuid %s is duplicated in the part set'' (Sent ErrInvalidUUID))
      else validateUniqueUUIDs_from (insert u seen) ids)"

definition validateUniqueUUIDs :: "uuid list \<Rightarrow> unit ord_res" where
  "validateUniqueUUIDs = validateUniqueUUIDs_from {}"

definition parts_uuids :: "OrderParts \<Rightarrow> uuid list" where
  "parts_uuids orderParts =
     [in_HullUUID orderParts, in_EngineUUID orderParts]
     @ (case in_ShieldUUID orderParts of None \<Rightarrow> [] | Some u \<Rightarrow> [u])
     @ (case in_WeaponUUID orderParts of None \<Rightarrow> [] | Some u \<Rightarrow> [u])"

definition order_item :: "OrderPart \<Rightarrow> OrderItem ord_res" where
  "order_item p =
     (if op_StockQuantity p \<le> 0
      then Err (Wrap ''part is out of stock: %s'' (Sent ErrOutOfStock))
      else Ret \<lparr>oi_UUID = op_UUID p, oi_PartType = op_PartType p, oi_Price = op_Price p\<rparr>)"

definition OrderService_Create ::
    "'w order_service \<Rightarrow> ctx \<Rightarrow> uuid \<Rightarrow> time \<Rightarrow> OrderParts \<Rightarrow> ('w, Order, order_error) act" where
  "OrderService_Create s c newUUID now orderParts =
     (case UserUUIDFromContext c of (userUUID, ok) \<Rightarrow>
      if \<not> ok then fail (Sent ErrUnauthorized)
      else
        (let partsUuids = parts_uuids orderParts
         in bindA (liftR (validateUniqueUUIDs partsUuids)) (\<lambda>_.
            bindA (wrapA ''failed to fetch parts while creating the order'' (os_ListParts s c partsUuids)) (\<lambda>parts.
            if length parts \<noteq> length partsUuids then fail (Sent ErrPartNotFound)
            else
              bindA (liftR (mapR order_item parts)) (\<lambda>orderItems.
              bindA (os_ValidateCompatibility s c orderParts) (\<lambda>_.
              bindA (os_ReserveParts s c partsUuids) (\<lambda>_.
              (let order = \<lparr>o_UUID = newUUID, o_UserUUID = userUUID, o_Items = orderItems,
                            o_TransactionUUID = None, o_PaymentMethod = None,
                            o_Status = OrderStatusPendingPayment, o_CreatedAt = now\<rparr>
               in bindA (os_Create s order) (\<lambda>_ w. (Ret order, os_createdTotal s w))))))))))"

subsection \<open>Pay, Cancel and Get\<close>

definition pay_closure ::
    "'w order_service \<Rightarrow> uuid_lib \<Rightarrow> ctx \<Rightarrow> uuid \<Rightarrow> PaymentMethod \<Rightarrow> ('w, captured, order_error) act" where
  "pay_closure s U c orderUUID paymentMethod =
     bindA (wrapA ''fetch order'' (os_GetForUpdate s orderUUID)) (\<lambda>order.
     if o_Status order \<noteq> OrderStatusPendingPayment then fail (Sent ErrInvalidOrderStatus)
     else
       bindA (wrapA ''pay for the order'' (os_PayOrder s c orderUUID paymentMethod)) (\<lambda>transactionUUID.
       (let order = order\<lparr>o_Status := OrderStatusPaid, o_TransactionUUID := Some transactionUUID,
                          o_PaymentMethod := Some paymentMethod\<rparr>
        in bindA (wrapA ''update order'' (os_Update s order)) (\<lambda>_.
           bindA (wrapA ''send OrderPaid'' (os_ProduceOrderPaid s c
             \<lparr>pe_UUID = uuid_String U (o_UUID order), pe_OrderUUID = uuid_String U (o_UUID order),
              pe_UserUUID = uuid_String U (o_UserUUID order)\<rparr>)) (\<lambda>_.
           ret (Some (transactionUUID, order)))))))"

definition zero_order :: Order where
  "zero_order = \<lparr>o_UUID = uuid_Nil, o_UserUUID = uuid_Nil, o_Items = [], o_TransactionUUID = None,
     o_PaymentMethod = None, o_Status = [], o_CreatedAt = 0\<rparr>"

definition OrderService_Pay ::
    "'w order_service \<Rightarrow> uuid_lib \<Rightarrow> ctx \<Rightarrow> uuid \<Rightarrow> PaymentMethod \<Rightarrow> ('w, uuid, order_error) act" where
  "OrderService_Pay s U c orderUUID paymentMethod =
     (if paymentMethod = PaymentMethodUnspecified then fail (Sent ErrInvalidPaymentMethod)
      else bindA (os_txDo s (pay_closure s U c orderUUID paymentMethod)) (\<lambda>captured w.
        (case (case captured of None \<Rightarrow> (uuid_Nil, zero_order) | Some v \<Rightarrow> v) of
           (transactionUUID, order) \<Rightarrow>
             (Ret transactionUUID, os_revenueTotal s (Order_TotalPrice order) (os_paidTotal s w)))))"

definition cancel_closure :: "'w order_service \<Rightarrow> ctx \<Rightarrow> uuid \<Rightarrow> ('w, captured, order_error) act" where
  "cancel_closure s c orderUuid =
     bindA (os_GetForUpdate s orderUuid) (\<lambda>order.
     if o_Status order \<noteq> OrderStatusPendingPayment then fail (Sent ErrInvalidOrderStatus)
     else
       bindA (os_ReleaseParts s c (Order_ItemsUUIDs order)) (\<lambda>_.
       bindA (os_Update s (order\<lparr>o_Status := OrderStatusCancelled\<rparr>)) (\<lambda>_. ret None)))"

definition OrderService_Cancel :: "'w order_service \<Rightarrow> ctx \<Rightarrow> uuid \<Rightarrow> ('w, unit, order_error) act" where
  "OrderService_Cancel s c orderUuid =
     bindA (os_txDo s (cancel_closure s c orderUuid)) (\<lambda>_. ret ())"

definition OrderService_Get :: "'w order_service \<Rightarrow> uuid \<Rightarrow> ('w, Order, order_error) act" where
  "OrderService_Get s u = os_Get s u"

subsection \<open>The tracing decorator\<close>

text \<open>
  \<open>NewTracingOrderService\<close> embeds the service and overrides \<open>Create\<close> and \<open>Pay\<close>. Spans
  belong to the tracer (parameters \<open>start\<close> and \<open>finish\<close> on the world, told the outcome);
  the context with the span carries the same values.
\<close>

definition traced ::
    "('w \<Rightarrow> 'w) \<Rightarrow> (('a, order_error) res \<Rightarrow> 'w \<Rightarrow> 'w) \<Rightarrow> ('w, 'a, order_error) act \<Rightarrow> ('w, 'a, order_error) act" where
  "traced start finish a = (\<lambda>w. case a (start w) of (r, w') \<Rightarrow> (r, finish r w'))"

definition TracingOrderService_Create ::
    "('w \<Rightarrow> 'w) \<Rightarrow> ((Order, order_error) res \<Rightarrow> 'w \<Rightarrow> 'w)
      \<Rightarrow> 'w order_service \<Rightarrow> ctx \<Rightarrow> uuid \<Rightarrow> time \<Rightarrow> OrderParts \<Rightarrow> ('w, Order, order_error) act" where
  "TracingOrderService_Create start finish s c newUUID now orderParts =
     traced start finish (OrderService_Create s c newUUID now orderParts)"

definition TracingOrderService_Pay ::
    "('w \<Rightarrow> 'w) \<Rightarrow> ((uuid, order_error) res \<Rightarrow> 'w \<Rightarrow> 'w)
      \<Rightarrow> 'w order_service \<Rightarrow> uuid_lib \<Rightarrow> ctx \<Rightarrow> uuid \<Rightarrow> PaymentMethod \<Rightarrow> ('w, uuid, order_error) act" where
  "TracingOrderService_Pay start finish s U c orderUUID paymentMethod =
     traced start finish (OrderService_Pay s U c orderUUID paymentMethod)"

subsection \<open>The handler of ShipAssembled\<close>

text \<open>\<open>proto.Unmarshal\<close> is a parameter: it yields the fields of the message or an error.\<close>

definition decodeShipAssembled ::
    "(bytes \<Rightarrow> ShipAssembledMsg option) \<Rightarrow> bytes \<Rightarrow> ShipAssembledEvent ord_res" where
  "decodeShipAssembled unmarshal data = (case unmarshal data of
       None \<Rightarrow> Err (Wrap ''failed to unmarshal protobuf'' (Ext (Foreign ''proto'')))
     | Some pb \<Rightarrow> Ret \<lparr>se_UUID = sam_EventUuid pb, se_OrderUUID = sam_OrderUuid pb, se_UserUUID = sam_UserUuid pb,
         se_BuildTimeSec = sam_BuildTimeSec pb, se_AssembledAt = AsTime (sam_AssembledAt pb)\<rparr>)"

definition ship_closure :: "'w order_service \<Rightarrow> ctx \<Rightarrow> uuid \<Rightarrow> ('w, captured, order_error) act" where
  "ship_closure s c orderUUID =
     bindA (os_GetForUpdate s orderUUID) (\<lambda>order.
     if o_Status order = OrderStatusAssembled then ret None
     else
       bindA (os_CommitParts s c (Order_ItemsUUIDs order)) (\<lambda>_.
       bindA (os_Update s (order\<lparr>o_Status := OrderStatusAssembled\<rparr>)) (\<lambda>_. ret None)))"

definition ShipAssembledHandler ::
    "'w order_service \<Rightarrow> uuid_lib \<Rightarrow> (bytes \<Rightarrow> ShipAssembledMsg option) \<Rightarrow> ctx \<Rightarrow> bytes
      \<Rightarrow> ('w, unit, order_error) act" where
  "ShipAssembledHandler s U unmarshal c value =
     (case decodeShipAssembled unmarshal value of
        Ret event \<Rightarrow> (case uuid_Parse U (se_OrderUUID event) of
            None \<Rightarrow> ret ()
          | Some orderUUID \<Rightarrow> bindA (os_txDo s (ship_closure s c orderUUID)) (\<lambda>_. ret ()))
      | Err e \<Rightarrow> ret ()
      | Panic p \<Rightarrow> liftR (Panic p))"

subsection \<open>The service on its repository\<close>

text \<open>
  The clients the service is given (\<open>InventoryClient\<close>, \<open>PaymentClient\<close>, the producer and the
  metric counters), as a record of their own, and the service \<open>di.go\<close> builds from them and the
  repository.
\<close>

record 'w order_clients =
  cl_ListParts :: "ctx \<Rightarrow> uuid list \<Rightarrow> ('w, OrderPart list, order_error) act"
  cl_ReserveParts :: "ctx \<Rightarrow> uuid list \<Rightarrow> ('w, unit, order_error) act"
  cl_ReleaseParts :: "ctx \<Rightarrow> uuid list \<Rightarrow> ('w, unit, order_error) act"
  cl_CommitParts :: "ctx \<Rightarrow> uuid list \<Rightarrow> ('w, unit, order_error) act"
  cl_ValidateCompatibility :: "ctx \<Rightarrow> OrderParts \<Rightarrow> ('w, unit, order_error) act"
  cl_PayOrder :: "ctx \<Rightarrow> uuid \<Rightarrow> PaymentMethod \<Rightarrow> ('w, uuid, order_error) act"
  cl_ProduceOrderPaid :: "ctx \<Rightarrow> OrderPaidEvent \<Rightarrow> ('w, unit, order_error) act"
  cl_createdTotal :: "'w \<Rightarrow> 'w"
  cl_paidTotal :: "'w \<Rightarrow> 'w"
  cl_revenueTotal :: "int \<Rightarrow> 'w \<Rightarrow> 'w"

definition NewOrderService ::
    "order_env
      \<Rightarrow> (('a order_db_scheme, unit, order_error) act \<Rightarrow> ('a order_db_scheme, unit, order_error) act)
      \<Rightarrow> (('a order_db_scheme, captured, order_error) act \<Rightarrow> ('a order_db_scheme, captured, order_error) act)
      \<Rightarrow> 'a order_db_scheme order_clients \<Rightarrow> 'a order_db_scheme order_service" where
  "NewOrderService E repoDo Do cl =
     \<lparr>os_Get = OrderRepo_Get E, os_Create = OrderRepo_Create E repoDo, os_Update = OrderRepo_Update E,
      os_GetForUpdate = OrderRepo_GetForUpdate E, os_ListParts = cl_ListParts cl,
      os_ReserveParts = cl_ReserveParts cl, os_ReleaseParts = cl_ReleaseParts cl,
      os_CommitParts = cl_CommitParts cl, os_ValidateCompatibility = cl_ValidateCompatibility cl,
      os_PayOrder = cl_PayOrder cl, os_ProduceOrderPaid = cl_ProduceOrderPaid cl, os_txDo = Do,
      os_createdTotal = cl_createdTotal cl, os_paidTotal = cl_paidTotal cl,
      os_revenueTotal = cl_revenueTotal cl\<rparr>"

end
