(* ===== verification/Order_Lifecycle.thy ===== *)
theory Order_Lifecycle
  imports Order_Service
begin

text \<open>
  The life of an order. The locale \<open>order_backend\<close> states what the order service relies on: a
  transaction manager and clients that do not write to the order tables. On that, each operation is
  characterised by the rows it changes, and the status of every order moves along the state machine
  \<open>status_step\<close> in every execution, whatever fails.
\<close>

subsection \<open>The contract of the clients\<close>

definition same_tables :: "'a order_db_scheme \<Rightarrow> 'a order_db_scheme \<Rightarrow> bool" where
  "same_tables w w' \<longleftrightarrow>
     od_orders w' = od_orders w \<and> od_updated_at w' = od_updated_at w \<and> od_items w' = od_items w"

definition keeps_tables :: "('a order_db_scheme, 'b, 'e) act \<Rightarrow> bool" where
  "keeps_tables a \<longleftrightarrow> (\<forall>w. same_tables w (snd (a w)))"

definition clients_frame :: "'a order_db_scheme order_clients \<Rightarrow> bool" where
  "clients_frame cl \<longleftrightarrow>
     (\<forall>c us. keeps_tables (cl_ListParts cl c us) \<and> keeps_tables (cl_ReserveParts cl c us) \<and>
        keeps_tables (cl_ReleaseParts cl c us) \<and> keeps_tables (cl_CommitParts cl c us)) \<and>
     (\<forall>c ps. keeps_tables (cl_ValidateCompatibility cl c ps)) \<and>
     (\<forall>c u pm. keeps_tables (cl_PayOrder cl c u pm)) \<and>
     (\<forall>c ev. keeps_tables (cl_ProduceOrderPaid cl c ev)) \<and>
     (\<forall>w. same_tables w (cl_createdTotal cl w)) \<and> (\<forall>w. same_tables w (cl_paidTotal cl w)) \<and>
     (\<forall>n w. same_tables w (cl_revenueTotal cl n w))"

lemma same_tables_refl [simp]: "same_tables w w"
  by (simp add: same_tables_def)

lemma same_tables_trans: "same_tables w1 w2 \<Longrightarrow> same_tables w2 w3 \<Longrightarrow> same_tables w1 w3"
  by (simp add: same_tables_def)

lemma same_tables_view: "same_tables w w' \<Longrightarrow> order_row w' = order_row w \<and> items_of w' = items_of w"
  by (simp add: same_tables_def order_row_def items_of_def fun_eq_iff)

lemma same_tables_odb_ok: "same_tables w w' \<Longrightarrow> odb_ok w' = odb_ok w"
  by (simp add: same_tables_def odb_ok_def)

lemma same_tables_rollback [simp]: "same_tables w (order_rollback w w')"
  by (simp add: same_tables_def order_rollback_def)

lemma keeps_tablesD: "keeps_tables a \<Longrightarrow> a w = (r, w') \<Longrightarrow> same_tables w w'"
  by (metis keeps_tables_def snd_conv)

text \<open>An action that leaves the tables alone unless it succeeds.\<close>

definition fails_clean :: "('a order_db_scheme, 'b, 'e) act \<Rightarrow> bool" where
  "fails_clean a \<longleftrightarrow> (\<forall>w. (\<forall>x. fst (a w) \<noteq> Ret x) \<longrightarrow> same_tables w (snd (a w)))"

lemma fails_clean_bind:
  assumes "keeps_tables a" "\<And>x. fails_clean (k x)"
  shows "fails_clean (bindA a k)"
  unfolding fails_clean_def
proof (intro allI impI)
  fix w assume nr: "\<forall>x. fst (bindA a k w) \<noteq> Ret x"
  obtain r w1 where a: "a w = (r, w1)" by fastforce
  with assms(1) have t: "same_tables w w1" by (rule keeps_tablesD)
  show "same_tables w (snd (bindA a k w))"
  proof (cases r)
    case (Ret x)
    with a nr assms(2) [of x] have "same_tables w1 (snd (k x w1))"
      by (simp add: fails_clean_def bindA_app)
    with t a Ret show ?thesis by (auto simp: bindA_app intro: same_tables_trans)
  qed (use a t in \<open>simp_all add: bindA_app\<close>)
qed

lemma fails_clean_ends [simp]:
  "fails_clean (fail e)" "fails_clean (liftR r)" "keeps_tables (liftR r)"
  by (simp_all add: fails_clean_def keeps_tables_def)

lemma keeps_tables_wrap [simp]: "keeps_tables (wrapA m a) = keeps_tables a"
  by (simp add: keeps_tables_def wrapA_app)

subsection \<open>What the repository operations do to the view\<close>

definition set_row :: "uuid \<Rightarrow> OrderRecord \<Rightarrow> 'a order_db_scheme \<Rightarrow> 'a order_db_scheme \<Rightarrow> bool" where
  "set_row u r w w' \<longleftrightarrow>
     order_row w' = (order_row w)(u \<mapsto> r) \<and> items_of w' = items_of w \<and> (odb_ok w \<longrightarrow> odb_ok w')"

lemma get_for_update_Ret:
  assumes "OrderRepo_GetForUpdate E u w = (Ret order, w')"
  shows "w' = w" "\<exists>r. order_row w u = Some r \<and> ord_UUID r = u \<and>
    order = (OrderRecordToModel r)\<lparr>o_Items := OrderItemRecordsToModels (oe_scan E (items_of w u))\<rparr>"
  using assms
  by (auto simp: OrderRepo_GetForUpdate_Get OrderRepo_Get_app dest: order_row_uuid
      split: option.splits if_splits)

lemma update_order_Ret:
  assumes "OrderRepo_Update E order w = (Ret (), w')"
  obtains r where "order_row w (o_UUID order) = Some r"
    "set_row (o_UUID order) (r\<lparr>ord_Status := o_Status order, ord_TransactionUUID := o_TransactionUUID order,
       ord_PaymentMethod := o_PaymentMethod order\<rparr>) w w'"
proof -
  from assms obtain r where r: "order_row w (o_UUID order) = Some r"
    and w': "w' = w\<lparr>od_orders := map (order_set order) (od_orders w),
      od_updated_at := (od_updated_at w)(o_UUID order \<mapsto> oe_timestamp E (oe_now E))\<rparr>"
    by (auto simp: OrderRepo_Update_app split: option.splits if_splits)
  have "order_row w' v = ((order_row w)(o_UUID order \<mapsto> order_set order r)) v" for v
    using r order_row_uuid [of w v] unfolding w' order_row_update
    by (cases "order_row w v") (auto simp: order_set_def)
  moreover have "ord_UUID r = o_UUID order" using r by (rule order_row_uuid)
  moreover have "odb_ok w' = odb_ok w"
  proof -
    have "map ord_UUID (map (order_set order) rs) = map ord_UUID rs" for rs
      by (induction rs) (simp_all add: order_set_def)
    then have keys: "map ord_UUID (od_orders w') = map ord_UUID (od_orders w)" by (simp add: w')
    from arg_cong [OF keys, of set] have "ord_UUID ` set (od_orders w') = ord_UUID ` set (od_orders w)"
      by simp
    moreover have "od_items w' = od_items w" by (simp add: w')
    ultimately show ?thesis using keys by (simp add: odb_ok_def)
  qed
  ultimately have "set_row (o_UUID order) (r\<lparr>ord_Status := o_Status order,
      ord_TransactionUUID := o_TransactionUUID order, ord_PaymentMethod := o_PaymentMethod order\<rparr>) w w'"
    by (auto simp: set_row_def fun_eq_iff order_set_def w')
  with r that show ?thesis by blast
qed

lemma set_row_same_tables:
  "same_tables w0 w \<Longrightarrow> set_row u r w w' \<Longrightarrow> same_tables w' w'' \<Longrightarrow> set_row u r w0 w''"
  using same_tables_view [of w0 w] same_tables_view [of w' w''] same_tables_odb_ok [of w0 w]
    same_tables_odb_ok [of w' w''] by (simp add: set_row_def)

subsection \<open>The operations on the view\<close>

locale order_backend =
  fixes E :: order_env
    and repoDo :: "('a order_db_scheme, unit, order_error) act \<Rightarrow> ('a order_db_scheme, unit, order_error) act"
    and Do :: "('a order_db_scheme, captured, order_error) act \<Rightarrow> ('a order_db_scheme, captured, order_error) act"
    and cl :: "'a order_db_scheme order_clients"
  assumes repo_tx: "tx_manager repoDo order_rollback"
    and tx: "tx_manager Do order_rollback"
    and frame: "clients_frame cl"
begin

abbreviation s :: "'a order_db_scheme order_service" where
  "s \<equiv> NewOrderService E repoDo Do cl"

lemma service_sel [simp]:
  "os_Get s = OrderRepo_Get E" "os_Create s = OrderRepo_Create E repoDo"
  "os_Update s = OrderRepo_Update E" "os_GetForUpdate s = OrderRepo_GetForUpdate E"
  "os_ListParts s = cl_ListParts cl" "os_ReserveParts s = cl_ReserveParts cl"
  "os_ReleaseParts s = cl_ReleaseParts cl" "os_CommitParts s = cl_CommitParts cl"
  "os_ValidateCompatibility s = cl_ValidateCompatibility cl" "os_PayOrder s = cl_PayOrder cl"
  "os_ProduceOrderPaid s = cl_ProduceOrderPaid cl" "os_txDo s = Do"
  "os_createdTotal s = cl_createdTotal cl" "os_paidTotal s = cl_paidTotal cl"
  "os_revenueTotal s = cl_revenueTotal cl"
  by (simp_all add: NewOrderService_def)

lemma frames:
  "keeps_tables (cl_ListParts cl c us)" "keeps_tables (cl_ReserveParts cl c us)"
  "keeps_tables (cl_ReleaseParts cl c us)" "keeps_tables (cl_CommitParts cl c us)"
  "keeps_tables (cl_ValidateCompatibility cl c ps)" "keeps_tables (cl_PayOrder cl c u pm)"
  "keeps_tables (cl_ProduceOrderPaid cl c ev)" "same_tables w (cl_createdTotal cl w)"
  "same_tables w (cl_paidTotal cl w)" "same_tables w (cl_revenueTotal cl n w)"
  using frame by (auto simp: clients_frame_def)

text \<open>A transaction that does not commit leaves the order tables as they were.\<close>

lemma Do_not_Ret_tables: "(\<And>x. fst (Do f w) \<noteq> Ret x) \<Longrightarrow> same_tables w (snd (Do f w))"
  by (simp add: tx_manager.Do_not_Ret [OF tx])

lemma pay_closure_Ret:
  assumes "pay_closure s U c u pm w = (Ret x, w')"
  obtains r txu order w1 w2 w3 where
    "x = Some (txu, order)" "order_row w u = Some r" "ord_Status r = OrderStatusPendingPayment"
    "order = (OrderRecordToModel r)\<lparr>o_Items := OrderItemRecordsToModels (oe_scan E (items_of w u)),
       o_Status := OrderStatusPaid, o_TransactionUUID := Some txu, o_PaymentMethod := Some pm\<rparr>"
    "cl_PayOrder cl c u pm w = (Ret txu, w1)"
    "OrderRepo_Update E order w1 = (Ret (), w2)"
    "cl_ProduceOrderPaid cl c \<lparr>pe_UUID = uuid_String U u, pe_OrderUUID = uuid_String U u,
       pe_UserUUID = uuid_String U (ord_UserUUID r)\<rparr> w2 = (Ret (), w3)"
    "w' = w3"
    "set_row u (r\<lparr>ord_Status := OrderStatusPaid, ord_TransactionUUID := Some txu, ord_PaymentMethod := Some pm\<rparr>) w w'"
proof -
  let ?ord = "\<lambda>o0 t. o0\<lparr>o_Status := OrderStatusPaid, o_TransactionUUID := Some t, o_PaymentMethod := Some pm\<rparr>"
  let ?ev = "\<lambda>o0. \<lparr>pe_UUID = uuid_String U (o_UUID o0), pe_OrderUUID = uuid_String U (o_UUID o0),
           pe_UserUUID = uuid_String U (o_UserUUID o0)\<rparr>"
  from assms obtain order0 w0 t w1 w2 where get0: "OrderRepo_GetForUpdate E u w = (Ret order0, w0)"
    and st: "o_Status order0 = OrderStatusPendingPayment"
    and pay0: "cl_PayOrder cl c u pm w0 = (Ret t, w1)"
    and upd: "OrderRepo_Update E (?ord order0 t) w1 = (Ret (), w2)"
    and prod0: "cl_ProduceOrderPaid cl c (?ev order0) w2 = (Ret (), w')"
    and x: "x = Some (t, ?ord order0 t)"
    by (auto simp: pay_closure_def bindA_Ret_iff wrapA_Ret_iff Let_def split: if_splits)
  from get_for_update_Ret(1) [OF get0] have get: "OrderRepo_GetForUpdate E u w = (Ret order0, w)"
    and pay: "cl_PayOrder cl c u pm w = (Ret t, w1)"
    using get0 pay0 by simp_all
  from get_for_update_Ret(2) [OF get] obtain r where r: "order_row w u = Some r" "ord_UUID r = u"
    and o0: "order0 = (OrderRecordToModel r)\<lparr>o_Items := OrderItemRecordsToModels (oe_scan E (items_of w u))\<rparr>"
    by blast
  have prod: "cl_ProduceOrderPaid cl c \<lparr>pe_UUID = uuid_String U u, pe_OrderUUID = uuid_String U u,
       pe_UserUUID = uuid_String U (ord_UserUUID r)\<rparr> w2 = (Ret (), w')"
    using prod0 by (simp add: o0 r OrderRecordToModel_def)
  have u: "o_UUID order0 = u" by (simp add: o0 r OrderRecordToModel_def)
  have t1: "same_tables w w1" using pay frames(6) by (rule keeps_tablesD [rotated])
  have t2: "same_tables w2 w'" using prod frames(7) by (rule keeps_tablesD [rotated])
  from update_order_Ret [OF upd] u obtain r1 where r1: "order_row w1 u = Some r1"
    "set_row u (r1\<lparr>ord_Status := OrderStatusPaid, ord_TransactionUUID := Some t, ord_PaymentMethod := Some pm\<rparr>) w1 w2"
    by auto
  moreover have "r1 = r" using r1(1) r(1) same_tables_view [OF t1] by simp
  ultimately have sr: "set_row u (r\<lparr>ord_Status := OrderStatusPaid, ord_TransactionUUID := Some t,
      ord_PaymentMethod := Some pm\<rparr>) w w'"
    using set_row_same_tables [OF t1 _ t2] by blast
  have st': "ord_Status r = OrderStatusPendingPayment" using st by (simp add: o0 OrderRecordToModel_def)
  show ?thesis
    by (rule that [OF x r(1) st' _ pay upd prod refl sr]) (simp add: o0)
qed

text \<open>\<open>Cancel\<close> and the handler share the shape: fetch, call the inventory, write the status.\<close>

lemma status_write_Ret:
  assumes get: "OrderRepo_GetForUpdate E u w = (Ret order0, w0)"
    and client: "call w0 = (Ret (), w1)" "keeps_tables call"
    and upd: "OrderRepo_Update E (order0\<lparr>o_Status := st\<rparr>) w1 = (Ret (), w')"
  obtains r where "order_row w u = Some r" "set_row u (r\<lparr>ord_Status := st\<rparr>) w w'"
proof -
  from get_for_update_Ret [OF get] obtain r where w0: "w0 = w" and r: "order_row w u = Some r" "ord_UUID r = u"
    and o0: "order0 = (OrderRecordToModel r)\<lparr>o_Items := OrderItemRecordsToModels (oe_scan E (items_of w u))\<rparr>"
    by blast
  have t1: "same_tables w w1" using keeps_tablesD [OF client(2,1)] w0 by simp
  from update_order_Ret [OF upd] obtain r1 where r1: "order_row w1 u = Some r1"
    "set_row u (r1\<lparr>ord_Status := st, ord_TransactionUUID := ord_TransactionUUID r,
       ord_PaymentMethod := ord_PaymentMethod r\<rparr>) w1 w'"
    by (auto simp: o0 r OrderRecordToModel_def)
  have "r1 = r" using r1(1) r(1) same_tables_view [OF t1] by simp
  with r1(2) have "set_row u (r\<lparr>ord_Status := st\<rparr>) w1 w'" by simp
  with that r(1) set_row_same_tables [OF t1 _ same_tables_refl] show ?thesis by blast
qed

lemma get_status:
  assumes "OrderRepo_GetForUpdate E u w = (Ret order0, w0)" "order_row w u = Some r"
  shows "o_Status order0 = ord_Status r" "Order_ItemsUUIDs order0 = map itr_PartUUID (oe_scan E (items_of w u))"
    "o_UUID order0 = u"
  using get_for_update_Ret [OF assms(1)] assms(2)
  by (auto simp: OrderRecordToModel_def Order_ItemsUUIDs_def OrderItemRecordsToModels_def OrderItemRecordToModel_def)

lemma cancel_closure_Ret:
  assumes "cancel_closure s c u w = (Ret x, w')"
  obtains r w1 where "order_row w u = Some r" "ord_Status r = OrderStatusPendingPayment"
    "cl_ReleaseParts cl c (map itr_PartUUID (oe_scan E (items_of w u))) w = (Ret (), w1)"
    "set_row u (r\<lparr>ord_Status := OrderStatusCancelled\<rparr>) w w'" "x = None"
proof -
  from assms obtain order0 w0 w1 where get: "OrderRepo_GetForUpdate E u w = (Ret order0, w0)"
    and st: "o_Status order0 = OrderStatusPendingPayment"
    and rel: "cl_ReleaseParts cl c (Order_ItemsUUIDs order0) w0 = (Ret (), w1)"
    and upd: "OrderRepo_Update E (order0\<lparr>o_Status := OrderStatusCancelled\<rparr>) w1 = (Ret (), w')" and x: "x = None"
    by (auto simp: cancel_closure_def bindA_Ret_iff split: if_splits)
  from status_write_Ret [OF get rel frames(3) upd] obtain r where
    r: "order_row w u = Some r" "set_row u (r\<lparr>ord_Status := OrderStatusCancelled\<rparr>) w w'" .
  note g = get_status [OF get r(1)]
  have "w0 = w" using get_for_update_Ret(1) [OF get] .
  with that [OF r(1) _ _ r(2) x] g st rel show ?thesis by simp
qed

lemma ship_closure_Ret:
  assumes "ship_closure s c u w = (Ret x, w')"
  obtains (skipped) r where "order_row w u = Some r" "ord_Status r = OrderStatusAssembled" "w' = w"
  | (assembled) r w1 where "order_row w u = Some r" "ord_Status r \<noteq> OrderStatusAssembled"
    "cl_CommitParts cl c (map itr_PartUUID (oe_scan E (items_of w u))) w = (Ret (), w1)"
    "set_row u (r\<lparr>ord_Status := OrderStatusAssembled\<rparr>) w w'"
proof -
  from assms obtain order0 w0 where get: "OrderRepo_GetForUpdate E u w = (Ret order0, w0)"
    and rest: "(if o_Status order0 = OrderStatusAssembled then ret None
       else bindA (cl_CommitParts cl c (Order_ItemsUUIDs order0)) (\<lambda>_.
            bindA (OrderRepo_Update E (order0\<lparr>o_Status := OrderStatusAssembled\<rparr>)) (\<lambda>_. ret None))) w0 = (Ret x, w')"
    by (auto simp: ship_closure_def bindA_Ret_iff split del: if_split cong: if_cong)
  from get_for_update_Ret [OF get] obtain r where w0: "w0 = w" and r: "order_row w u = Some r" by blast
  note g = get_status [OF get r]
  show ?thesis
  proof (cases "ord_Status r = OrderStatusAssembled")
    case True
    with skipped r g rest w0 show ?thesis by simp
  next
    case False
    with rest g obtain w1 where com: "cl_CommitParts cl c (Order_ItemsUUIDs order0) w0 = (Ret (), w1)"
      and upd: "OrderRepo_Update E (order0\<lparr>o_Status := OrderStatusAssembled\<rparr>) w1 = (Ret (), w')"
      by (auto simp: bindA_Ret_iff)
    from status_write_Ret [OF get com frames(4) upd] r
    have "set_row u (r\<lparr>ord_Status := OrderStatusAssembled\<rparr>) w w'" by auto
    with assembled r False com g w0 show ?thesis by simp
  qed
qed

text \<open>The operations themselves: what they changed when they succeed, nothing when they do not.\<close>

lemma pay_closure_Some:
  assumes "pay_closure s U c u pm w = (Ret (Some (txu, order)), w')"
  shows "\<exists>r w1 w2. order_row w u = Some r \<and> ord_Status r = OrderStatusPendingPayment
    \<and> order = (OrderRecordToModel r)\<lparr>o_Items := OrderItemRecordsToModels (oe_scan E (items_of w u)),
        o_Status := OrderStatusPaid, o_TransactionUUID := Some txu, o_PaymentMethod := Some pm\<rparr>
    \<and> cl_PayOrder cl c u pm w = (Ret txu, w1) \<and> OrderRepo_Update E order w1 = (Ret (), w2)
    \<and> cl_ProduceOrderPaid cl c \<lparr>pe_UUID = uuid_String U u, pe_OrderUUID = uuid_String U u,
        pe_UserUUID = uuid_String U (ord_UserUUID r)\<rparr> w2 = (Ret (), w')
    \<and> set_row u (r\<lparr>ord_Status := OrderStatusPaid, ord_TransactionUUID := Some txu,
        ord_PaymentMethod := Some pm\<rparr>) w w'"
  by (rule pay_closure_Ret [OF assms]) (unfold option.inject prod.inject, blast)

lemma pay_committed:
  assumes "OrderService_Pay s U c u pm w = (Ret txu, w')"
  obtains order w1 where "pm \<noteq> PaymentMethodUnspecified"
    "pay_closure s U c u pm w = (Ret (Some (txu, order)), w1)"
    "w' = cl_revenueTotal cl (Order_TotalPrice order) (cl_paidTotal cl w1)"
proof -
  from assms obtain x w1 where do1: "Do (pay_closure s U c u pm) w = (Ret x, w1)"
    and pm: "pm \<noteq> PaymentMethodUnspecified"
    and fin: "(case (case x of None \<Rightarrow> (uuid_Nil, zero_order) | Some v \<Rightarrow> v) of
      (t, order) \<Rightarrow> (Ret t, cl_revenueTotal cl (Order_TotalPrice order) (cl_paidTotal cl w1)))
      = (Ret txu :: uuid ord_res, w')"
    by (auto simp: OrderService_Pay_def bindA_Ret_iff split: if_splits)
  have closure: "pay_closure s U c u pm w = (Ret x, w1)" using do1 by (rule tx_manager.Do_RetD [OF tx])
  from closure obtain t order where "x = Some (t, order)" by (rule pay_closure_Ret) blast
  with that pm fin closure show ?thesis by auto
qed

lemma pay_Ret:
  assumes "OrderService_Pay s U c u pm w = (Ret txu, w')"
  obtains r where "pm \<noteq> PaymentMethodUnspecified" "order_row w u = Some r"
    "ord_Status r = OrderStatusPendingPayment"
    "set_row u (r\<lparr>ord_Status := OrderStatusPaid, ord_TransactionUUID := Some txu, ord_PaymentMethod := Some pm\<rparr>) w w'"
proof -
  from assms obtain order w1 where pm: "pm \<noteq> PaymentMethodUnspecified"
    and closure: "pay_closure s U c u pm w = (Ret (Some (txu, order)), w1)"
    and w': "w' = cl_revenueTotal cl (Order_TotalPrice order) (cl_paidTotal cl w1)"
    by (rule pay_committed)
  have "same_tables w1 w'" unfolding w' by (rule same_tables_trans [OF frames(9) frames(10)])
  moreover from pay_closure_Some [OF closure] obtain r where r: "order_row w u = Some r"
    "ord_Status r = OrderStatusPendingPayment"
    "set_row u (r\<lparr>ord_Status := OrderStatusPaid, ord_TransactionUUID := Some txu, ord_PaymentMethod := Some pm\<rparr>) w w1"
    by blast
  ultimately show ?thesis
    using set_row_same_tables [OF same_tables_refl r(3)] that [OF pm r(1,2)] by blast
qed

lemma pay_not_Ret:
  assumes "\<And>x. fst (OrderService_Pay s U c u pm w) \<noteq> Ret x"
  shows "same_tables w (snd (OrderService_Pay s U c u pm w))"
proof (cases "pm = PaymentMethodUnspecified")
  case False
  obtain r w1 where do1: "Do (pay_closure s U c u pm) w = (r, w1)" by fastforce
  with assms False have nr: "\<And>x. r \<noteq> Ret x"
    by (fastforce simp: OrderService_Pay_def bindA_app split: prod.splits option.splits)
  with do1 Do_not_Ret_tables [of "pay_closure s U c u pm" w] have "same_tables w w1" by simp
  with do1 nr False show ?thesis
    by (cases r) (auto simp: OrderService_Pay_def bindA_app)
qed (simp add: OrderService_Pay_def)

lemma cancel_Ret:
  assumes "OrderService_Cancel s c u w = (Ret (), w')"
  obtains r where "order_row w u = Some r" "ord_Status r = OrderStatusPendingPayment"
    "set_row u (r\<lparr>ord_Status := OrderStatusCancelled\<rparr>) w w'"
proof -
  from assms obtain x where "Do (cancel_closure s c u) w = (Ret x, w')"
    by (auto simp: OrderService_Cancel_def bindA_Ret_iff)
  from cancel_closure_Ret [OF tx_manager.Do_RetD [OF tx this]] that show ?thesis by blast
qed

lemma unit_tx_not_Ret:
  assumes "fst (bindA (Do f) (\<lambda>_. ret ()) w) \<noteq> Ret ()"
  shows "same_tables w (snd (bindA (Do f) (\<lambda>_. ret ()) w))"
proof -
  obtain r w1 where do1: "Do f w = (r, w1)" by fastforce
  with assms have nr: "\<And>x. r \<noteq> Ret x" by (auto simp: bindA_app)
  with do1 Do_not_Ret_tables [of f w] have "same_tables w w1" by simp
  with do1 nr show ?thesis by (cases r) (auto simp: bindA_app)
qed

lemma cancel_not_Ret:
  "fst (OrderService_Cancel s c u w) \<noteq> Ret () \<Longrightarrow> same_tables w (snd (OrderService_Cancel s c u w))"
  unfolding OrderService_Cancel_def service_sel by (rule unit_tx_not_Ret)

lemma ship_cases:
  assumes "ShipAssembledHandler s U unm c v w = (r, w')"
  obtains (unchanged) "same_tables w w'"
  | (assembled) u row where "order_row w u = Some row" "ord_Status row \<noteq> OrderStatusAssembled" "r = Ret ()"
    "set_row u (row\<lparr>ord_Status := OrderStatusAssembled\<rparr>) w w'"
proof -
  consider "r = Ret ()" "w' = w"
    | u where "bindA (Do (ship_closure s c u)) (\<lambda>_. ret ()) w = (r, w')"
    using assms by (auto simp: ShipAssembledHandler_def decodeShipAssembled_def split: option.splits)
  then show ?thesis
  proof cases
    case 1
    then show ?thesis using unchanged by simp
  next
    case (2 u)
    show ?thesis
    proof (cases "r = Ret ()")
      case True
      with 2 obtain x where "Do (ship_closure s c u) w = (Ret x, w')" by (auto simp: bindA_Ret_iff)
      from tx_manager.Do_RetD [OF tx this] show ?thesis
      proof (cases rule: ship_closure_Ret)
        case (skipped r)
        then show ?thesis using that(1) by simp
      next
        case (assembled r w1)
        with True that(2) show ?thesis by blast
      qed
    next
      case False
      with 2 unit_tx_not_Ret [of "ship_closure s c u" w] unchanged show ?thesis by simp
    qed
  qed
qed

lemma create_row_Ret:
  assumes "OrderRepo_Create E repoDo order w = (Ret (), w')"
  shows "order_row w (o_UUID order) = None"
    "order_row w' = (order_row w)(o_UUID order \<mapsto>
       \<lparr>ord_UUID = o_UUID order, ord_UserUUID = o_UserUUID order, ord_Status = o_Status order,
        ord_TransactionUUID = None, ord_PaymentMethod = None,
        ord_CreatedAt = oe_timestamp E (o_CreatedAt order)\<rparr>)"
    "items_of w' u = items_of w u @ (if u = o_UUID order
       then OrderItemModelsToRecords (o_UUID order) (o_Items order) else [])"
proof -
  let ?row = "\<lparr>ord_UUID = o_UUID order, ord_UserUUID = o_UserUUID order, ord_Status = o_Status order,
        ord_TransactionUUID = None, ord_PaymentMethod = None,
        ord_CreatedAt = oe_timestamp E (o_CreatedAt order)\<rparr>"
  let ?items = "OrderItemModelsToRecords (o_UUID order) (o_Items order)"
  from tx_manager.Do_RetD [OF repo_tx assms [unfolded OrderRepo_Create_def]]
  have new: "o_UUID order \<notin> ord_UUID ` set (od_orders w)"
    and w': "od_orders w' = od_orders w @ [?row]" "od_items w' = od_items w @ ?items"
    by (auto simp: bindA_Ret_iff wrapA_Ret_iff OrderRepo_createOrder_def OrderRepo_createOrderItems_def
          sql_app OrderItemModelsToRecords_def split: option.splits if_splits)
  have find_snoc: "find P (xs @ [y]) = (case find P xs of Some x \<Rightarrow> Some x | None \<Rightarrow> if P y then Some y else None)"
    for P xs and y :: OrderRecord by (induction xs) auto
  have sel: "filter (\<lambda>r. itr_OrderUUID r = u) (OrderItemModelsToRecords v items) =
      (if u = v then OrderItemModelsToRecords v items else [])" for v items
    by (induction items) (auto simp: OrderItemModelsToRecords_def OrderItemModelToRecord_def)
  show "order_row w (o_UUID order) = None" using new by (simp add: order_row_None)
  then show "order_row w' = (order_row w)(o_UUID order \<mapsto> ?row)"
    by (auto simp: fun_eq_iff order_row_def w' find_snoc split: option.splits)
  show "items_of w' u = items_of w u @ (if u = o_UUID order then ?items else [])"
    by (simp add: items_of_def w' sel)
qed

lemma create_row_clean: "fails_clean (OrderRepo_Create E repoDo order)"
  by (simp add: fails_clean_def OrderRepo_Create_def tx_manager.Do_not_Ret [OF repo_tx])

lemma create_not_Ret:
  assumes "\<And>x. fst (OrderService_Create s c n now ps w) \<noteq> Ret x"
  shows "same_tables w (snd (OrderService_Create s c n now ps w))"
proof -
  define fin where "fin order = bindA (OrderRepo_Create E repoDo order) (\<lambda>_ w. (Ret order, cl_createdTotal cl w))"
    for order :: Order
  have last: "fails_clean (fin order)" for order
    unfolding fails_clean_def
  proof (intro allI impI)
    fix w assume nr: "\<forall>x. fst (fin order w) \<noteq> Ret x"
    obtain r w1 where "OrderRepo_Create E repoDo order w = (r, w1)" by fastforce
    with nr create_row_clean [of order] show "same_tables w (snd (fin order w))"
      by (cases r) (auto simp: bindA_app fails_clean_def fin_def dest!: spec [of _ w])
  qed
  have "fails_clean (OrderService_Create s c n now ps)"
    by (auto simp: OrderService_Create_def Let_def fin_def [symmetric] last intro!: fails_clean_bind frames
          split: prod.splits)
  with assms show ?thesis by (simp add: fails_clean_def)
qed

lemma create_Ret:
  assumes "OrderService_Create s c n now ps w = (Ret order, w')"
  obtains parts items w1 w2 w3 w4 where
    "UserUUIDFromContext c = (o_UserUUID order, True)" "validateUniqueUUIDs (parts_uuids ps) = Ret ()"
    "cl_ListParts cl c (parts_uuids ps) w = (Ret parts, w1)" "length parts = length (parts_uuids ps)"
    "mapR order_item parts = Ret items" "cl_ValidateCompatibility cl c ps w1 = (Ret (), w2)"
    "cl_ReserveParts cl c (parts_uuids ps) w2 = (Ret (), w3)"
    "order = \<lparr>o_UUID = n, o_UserUUID = o_UserUUID order, o_Items = items, o_TransactionUUID = None,
       o_PaymentMethod = None, o_Status = OrderStatusPendingPayment, o_CreatedAt = now\<rparr>"
    "OrderRepo_Create E repoDo order w3 = (Ret (), w4)" "w' = cl_createdTotal cl w4"
  using assms
  by (auto simp: OrderService_Create_def Let_def bindA_Ret_iff wrapA_Ret_iff split: prod.splits if_splits)

lemma create_Ret_view:
  assumes "OrderService_Create s c n now ps w = (Ret order, w')"
  shows "order_row w n = None" "order_row w' = (order_row w)(n \<mapsto>
       \<lparr>ord_UUID = n, ord_UserUUID = o_UserUUID order, ord_Status = OrderStatusPendingPayment,
        ord_TransactionUUID = None, ord_PaymentMethod = None, ord_CreatedAt = oe_timestamp E now\<rparr>)"
    "items_of w' u = items_of w u @ (if u = n then OrderItemModelsToRecords n (o_Items order) else [])"
proof -
  from assms obtain parts items w1 w2 w3 w4 where
    calls: "cl_ListParts cl c (parts_uuids ps) w = (Ret parts, w1)" "cl_ValidateCompatibility cl c ps w1 = (Ret (), w2)"
    "cl_ReserveParts cl c (parts_uuids ps) w2 = (Ret (), w3)"
    and order: "order = \<lparr>o_UUID = n, o_UserUUID = o_UserUUID order, o_Items = items, o_TransactionUUID = None,
       o_PaymentMethod = None, o_Status = OrderStatusPendingPayment, o_CreatedAt = now\<rparr>"
    and ins: "OrderRepo_Create E repoDo order w3 = (Ret (), w4)" and w': "w' = cl_createdTotal cl w4"
    by (rule create_Ret)
  have n: "o_UUID order = n" "o_Status order = OrderStatusPendingPayment" "o_CreatedAt order = now"
    by (simp_all add: arg_cong [OF order, of o_UUID] arg_cong [OF order, of o_Status] arg_cong [OF order, of o_CreatedAt])
  have "same_tables w w3"
    using calls frames by (meson keeps_tablesD same_tables_trans)
  from same_tables_view [OF this] have v3: "order_row w3 = order_row w" "items_of w3 = items_of w" by auto
  from same_tables_view [OF frames(8)] w' have v': "order_row w' = order_row w4" "items_of w' = items_of w4" by auto
  note ins' = create_row_Ret [OF ins, unfolded n v3]
  show "order_row w n = None" by (rule ins'(1))
  show "order_row w' = (order_row w)(n \<mapsto>
       \<lparr>ord_UUID = n, ord_UserUUID = o_UserUUID order, ord_Status = OrderStatusPendingPayment,
        ord_TransactionUUID = None, ord_PaymentMethod = None, ord_CreatedAt = oe_timestamp E now\<rparr>)"
    unfolding v' by (rule ins'(2))
  show "items_of w' u = items_of w u @ (if u = n then OrderItemModelsToRecords n (o_Items order) else [])"
    unfolding v' by (rule ins'(3))
qed

end

subsection \<open>The state machine of the status\<close>

inductive status_step :: "OrderStatus option \<Rightarrow> OrderStatus option \<Rightarrow> bool" where
  created: "status_step None (Some OrderStatusPendingPayment)"
| paid: "status_step (Some OrderStatusPendingPayment) (Some OrderStatusPaid)"
| cancelled: "status_step (Some OrderStatusPendingPayment) (Some OrderStatusCancelled)"
| assembled: "st \<noteq> OrderStatusAssembled \<Longrightarrow> status_step (Some st) (Some OrderStatusAssembled)"

inductive_cases status_step_SomeE: "status_step (Some st) s'"

definition status_of :: "'a order_db_scheme \<Rightarrow> uuid \<Rightarrow> OrderStatus option" where
  "status_of w u = map_option ord_Status (order_row w u)"

text \<open>What never changes of an order once it exists.\<close>

definition order_identity :: "'a order_db_scheme \<Rightarrow> uuid \<Rightarrow> (uuid \<times> time \<times> OrderItemRecord list) option" where
  "order_identity w u = map_option (\<lambda>r. (ord_UserUUID r, ord_CreatedAt r, items_of w u)) (order_row w u)"

datatype order_call =
    DoCreate ctx uuid time OrderParts | DoPay ctx uuid PaymentMethod | DoCancel ctx uuid | DoShip ctx bytes

definition exec_order_call ::
    "'a order_db_scheme order_service \<Rightarrow> uuid_lib \<Rightarrow> (bytes \<Rightarrow> ShipAssembledMsg option) \<Rightarrow> order_call
      \<Rightarrow> 'a order_db_scheme \<Rightarrow> 'a order_db_scheme" where
  "exec_order_call s U unm call w = (case call of
       DoCreate c n now ps \<Rightarrow> snd (OrderService_Create s c n now ps w)
     | DoPay c u pm \<Rightarrow> snd (OrderService_Pay s U c u pm w)
     | DoCancel c u \<Rightarrow> snd (OrderService_Cancel s c u w)
     | DoShip c v \<Rightarrow> snd (ShipAssembledHandler s U unm c v w))"

text \<open>Each call of an execution meets its own environment, so any statement may fail in any call.\<close>

fun exec_order_calls where
  "exec_order_calls repoDo Do cl U unm [] w = w"
| "exec_order_calls repoDo Do cl U unm ((E, call) # calls) w =
     exec_order_calls repoDo Do cl U unm calls (exec_order_call (NewOrderService E repoDo Do cl) U unm call w)"

definition order_change :: "'a order_db_scheme \<Rightarrow> 'a order_db_scheme \<Rightarrow> bool" where
  "order_change w w' \<longleftrightarrow> (\<forall>u. (status_of w' u = status_of w u \<or> status_step (status_of w u) (status_of w' u))
     \<and> (order_row w u \<noteq> None \<longrightarrow> order_identity w' u = order_identity w u))"

lemma order_change_same: "same_tables w w' \<Longrightarrow> order_change w w'"
  using same_tables_view [of w w'] by (simp add: order_change_def status_of_def order_identity_def)

lemma order_change_set_row:
  assumes "set_row u r' w w'" "order_row w u = Some r"
    "ord_UserUUID r' = ord_UserUUID r" "ord_CreatedAt r' = ord_CreatedAt r"
    "status_step (Some (ord_Status r)) (Some (ord_Status r'))"
  shows "order_change w w'"
  using assms by (auto simp: order_change_def set_row_def status_of_def order_identity_def)

context order_backend
begin

lemma exec_order_call_change: "order_change w (exec_order_call s U unm call w)"
proof (cases call)
  case (DoCreate c n now ps)
  obtain r w' where run: "OrderService_Create s c n now ps w = (r, w')" by fastforce
  show ?thesis
  proof (cases "\<exists>order. r = Ret order")
    case True
    then obtain order where "OrderService_Create s c n now ps w = (Ret order, w')" using run by auto
    from create_Ret_view [OF this] have "order_change w w'"
      by (auto simp: order_change_def status_of_def order_identity_def intro: status_step.created)
    with run DoCreate show ?thesis by (simp add: exec_order_call_def)
  next
    case False
    with run create_not_Ret [of c n now ps w] have "same_tables w w'" by simp
    with run DoCreate show ?thesis by (simp add: exec_order_call_def order_change_same)
  qed
next
  case (DoPay c u pm)
  obtain r w' where run: "OrderService_Pay s U c u pm w = (r, w')" by fastforce
  have "order_change w w'"
  proof (cases "\<exists>x. r = Ret x")
    case True
    then obtain x where "OrderService_Pay s U c u pm w = (Ret x, w')" using run by auto
    then show ?thesis
      by (rule pay_Ret) (erule order_change_set_row, auto intro: status_step.paid)
  next
    case False
    with run pay_not_Ret [of U c u pm w] show ?thesis by (auto intro: order_change_same)
  qed
  with run DoPay show ?thesis by (simp add: exec_order_call_def)
next
  case (DoCancel c u)
  obtain r w' where run: "OrderService_Cancel s c u w = (r, w')" by fastforce
  have "order_change w w'"
  proof (cases "r = Ret ()")
    case True
    with run have "OrderService_Cancel s c u w = (Ret (), w')" by simp
    then show ?thesis
      by (rule cancel_Ret) (erule order_change_set_row, auto intro: status_step.cancelled)
  next
    case False
    with run cancel_not_Ret [of c u w] show ?thesis by (auto intro: order_change_same)
  qed
  with run DoCancel show ?thesis by (simp add: exec_order_call_def)
next
  case (DoShip c v)
  obtain r w' where run: "ShipAssembledHandler s U unm c v w = (r, w')" by fastforce
  then have "order_change w w'"
  proof (cases rule: ship_cases)
    case (assembled u row)
    then show ?thesis
      by (intro order_change_set_row [OF assembled(4,1)]) (auto intro: status_step.assembled)
  qed (rule order_change_same)
  with run DoShip show ?thesis by (simp add: exec_order_call_def)
qed

end

lemma exec_order_calls_change:
  assumes "tx_manager repoDo order_rollback" "tx_manager Do order_rollback" "clients_frame cl"
  shows "status_step\<^sup>*\<^sup>* (status_of w u) (status_of (exec_order_calls repoDo Do cl U unm calls w) u)
    \<and> (order_row w u \<noteq> None \<longrightarrow>
       order_identity (exec_order_calls repoDo Do cl U unm calls w) u = order_identity w u)"
proof (induction calls arbitrary: w)
  case (Cons ec calls)
  obtain E call where ec: "ec = (E, call)" by (cases ec)
  let ?w1 = "exec_order_call (NewOrderService E repoDo Do cl) U unm call w"
  have step: "order_change w ?w1"
    by (rule order_backend.exec_order_call_change [OF order_backend.intro [OF assms]])
  then have "status_step\<^sup>*\<^sup>* (status_of w u) (status_of ?w1 u)"
    by (auto simp: order_change_def dest: spec [of _ u])
  moreover have "order_row ?w1 u \<noteq> None \<and> order_identity ?w1 u = order_identity w u" if "order_row w u \<noteq> None"
    using step that by (auto simp: order_change_def order_identity_def dest!: spec [of _ u])
  ultimately show ?case
    using Cons.IH [of ?w1] ec by (auto intro: rtranclp_trans)
qed simp

lemma status_steps_from:
  assumes "status_step\<^sup>*\<^sup>* (Some st) s'"
  shows "st = OrderStatusAssembled \<Longrightarrow> s' = Some OrderStatusAssembled"
    and "st = OrderStatusPaid \<Longrightarrow> s' \<in> {Some OrderStatusPaid, Some OrderStatusAssembled}"
    and "st = OrderStatusCancelled \<Longrightarrow> s' \<in> {Some OrderStatusCancelled, Some OrderStatusAssembled}"
  using assms by (induction rule: rtranclp_induct) (auto elim: status_step_SomeE)

end
