(* ===== verification/Order_Properties.thy ===== *)
theory Order_Properties
  imports Order_Lifecycle
begin

text \<open>
  The functional properties of the order service: what a payment does and that it happens once, what
  the assembly handler does and that a redelivered message does nothing, and that a created order can
  be read back.
\<close>

subsection \<open>Witness material\<close>

text \<open>Clients that touch nothing but a log of their calls, which extends the tables.\<close>

datatype client_call =
    CReserve "uuid list" | CRelease "uuid list" | CCommit "uuid list" | CPay uuid PaymentMethod
  | CProduce OrderPaidEvent

record log_db = order_db +
  lg_calls :: "client_call list"

definition log_act :: "client_call \<Rightarrow> 'b \<Rightarrow> (log_db, 'b, order_error) act" where
  "log_act call x = (\<lambda>w. (Ret x, w\<lparr>lg_calls := lg_calls w @ [call]\<rparr>))"

definition log_clients :: "log_db order_clients" where
  "log_clients =
     \<lparr>cl_ListParts = (\<lambda>c us. ret (map (\<lambda>u. \<lparr>op_UUID = u, op_PartType = ''HULL'', op_Name = [],
          op_Price = 100, op_StockQuantity = 1\<rparr>) us)),
      cl_ReserveParts = (\<lambda>c us. log_act (CReserve us) ()), cl_ReleaseParts = (\<lambda>c us. log_act (CRelease us) ()),
      cl_CommitParts = (\<lambda>c us. log_act (CCommit us) ()), cl_ValidateCompatibility = (\<lambda>c ps. ret ()),
      cl_PayOrder = (\<lambda>c u pm. log_act (CPay u pm) 99), cl_ProduceOrderPaid = (\<lambda>c ev. log_act (CProduce ev) ()),
      cl_createdTotal = (\<lambda>w. w), cl_paidTotal = (\<lambda>w. w), cl_revenueTotal = (\<lambda>n w. w)\<rparr>"

lemma log_clients_frame: "clients_frame log_clients"
  by (simp add: clients_frame_def log_clients_def keeps_tables_def log_act_def same_tables_def)

definition calm_env :: order_env where
  "calm_env = \<lparr>oe_query = None, oe_items_query = None, oe_items_scan = None, oe_insert = None,
     oe_items_build = None, oe_items_insert = None, oe_update = None, oe_now = 5,
     oe_timestamp = (\<lambda>t. t div 1000 * 1000), oe_scan = rev\<rparr>"

lemma calm_env_ok: "order_up calm_env" "scan_ok calm_env"
  by (simp_all add: calm_env_def scan_ok_def)

abbreviation ord_Do :: "('a order_db_scheme, 'b, order_error) act \<Rightarrow> ('a order_db_scheme, 'b, order_error) act" where
  "ord_Do \<equiv> pg_Do order_rollback None"

lemma ord_Do_tx [simp]: "tx_manager ord_Do order_rollback"
  by (rule pg.tx_manager_axioms)

interpretation calm: order_backend E ord_Do ord_Do log_clients
  for E
  by (intro order_backend.intro ord_Do_tx log_clients_frame)

definition pending_order :: log_db where
  "pending_order = \<lparr>od_orders = [\<lparr>ord_UUID = 5, ord_UserUUID = 8, ord_Status = OrderStatusPendingPayment,
       ord_TransactionUUID = None, ord_PaymentMethod = None, ord_CreatedAt = 0\<rparr>],
     od_updated_at = Map.empty,
     od_items = [\<lparr>itr_OrderUUID = 5, itr_PartUUID = 1, itr_PartType = ''HULL'', itr_Price = 100\<rparr>,
                 \<lparr>itr_OrderUUID = 5, itr_PartUUID = 2, itr_PartType = ''ENGINE'', itr_Price = 250\<rparr>],
     lg_calls = []\<rparr>"

definition ship_msg :: "bytes \<Rightarrow> ShipAssembledMsg option" where
  "ship_msg v = Some \<lparr>sam_EventUuid = [], sam_OrderUuid = uuid_String unary_uuid_lib 5, sam_UserUuid = [],
     sam_BuildTimeSec = 3, sam_AssembledAt = Some 0\<rparr>"

subsection \<open>Helper lemmas\<close>

lemma get_for_update_up:
  assumes "order_up E" "order_row w u = Some r"
  shows "OrderRepo_GetForUpdate E u w =
    (Ret ((OrderRecordToModel r)\<lparr>o_Items := OrderItemRecordsToModels (oe_scan E (items_of w u))\<rparr>), w)"
  using assms by (simp add: OrderRepo_GetForUpdate_Get OrderRepo_Get_app)

lemma order_rollback_self [simp]: "order_rollback w w = w"
  by (simp add: order_rollback_def)

lemma pay_wrong_status:
  assumes tx: "tx_manager Do order_rollback" and "order_up E" "order_row w u = Some r"
    and "ord_Status r \<noteq> OrderStatusPendingPayment" "pm \<noteq> PaymentMethodUnspecified"
  shows "OrderService_Pay (NewOrderService E repoDo Do cl) U c u pm w = (Err (Sent ErrInvalidOrderStatus), w)"
proof -
  have "pay_closure (NewOrderService E repoDo Do cl) U c u pm w = (Err (Sent ErrInvalidOrderStatus), w)"
    using assms get_for_update_up [of E w u r]
    by (simp add: pay_closure_def NewOrderService_def act_simps OrderRecordToModel_def)
  from tx_manager.Do_Err [OF tx, of "pay_closure (NewOrderService E repoDo Do cl) U c u pm", OF this] assms(5)
  show ?thesis
    by (simp add: OrderService_Pay_def NewOrderService_def act_simps)
qed

lemma ship_assembled_again:
  assumes tx: "tx_manager Do order_rollback" "commits Do" and "order_up E" "order_row w u = Some r"
    and "ord_Status r = OrderStatusAssembled"
    and "unm v = Some ev" "uuid_Parse U (sam_OrderUuid ev) = Some u"
  shows "ShipAssembledHandler (NewOrderService E repoDo Do cl) U unm c v w = (Ret (), w)"
proof -
  have "ship_closure (NewOrderService E repoDo Do cl) c u w = (Ret None, w)"
    using assms get_for_update_up [of E w u r]
    by (simp add: ship_closure_def NewOrderService_def act_simps OrderRecordToModel_def)
  with tx(2) have "Do (ship_closure (NewOrderService E repoDo Do cl) c u) w = (Ret None, w)"
    by (simp add: commits_def)
  with assms show ?thesis
    by (simp add: ShipAssembledHandler_def decodeShipAssembled_def act_simps) (simp add: NewOrderService_def)
qed

subsection \<open>Properties\<close>

text \<open>
  C2. In every execution of the order service, with any failures of the database, of the transaction
  manager and of the other services, the status of an order moves only along the state machine
  (created as \<open>PENDING_PAYMENT\<close>, then \<open>PAID\<close> or \<open>CANCELLED\<close>, and \<open>ASSEMBLED\<close> at
  the end); a paid order is never cancelled, an assembled order stays assembled, and the customer,
  the creation time and the items of an order never change.
\<close>

theorem order_status_machine:
  fixes w :: "'a order_db_scheme"
  assumes "tx_manager repoDo order_rollback" "tx_manager Do order_rollback" "clients_frame cl"
    and "w' = exec_order_calls repoDo Do cl U unm calls w"
  shows "status_step\<^sup>*\<^sup>* (status_of w u) (status_of w' u)
    \<and> (status_of w u = Some OrderStatusPaid \<longrightarrow> status_of w' u \<in> {Some OrderStatusPaid, Some OrderStatusAssembled})
    \<and> (status_of w u = Some OrderStatusAssembled \<longrightarrow> status_of w' u = Some OrderStatusAssembled)
    \<and> (order_row w u \<noteq> None \<longrightarrow> order_identity w' u = order_identity w u)"
proof -
  note change = exec_order_calls_change [OF assms(1-3), of w u U unm calls, folded assms(4)]
  with status_steps_from [of _ "status_of w' u"] show ?thesis by auto
qed

theorem order_status_machine_witness:
  "status_of (exec_order_calls ord_Do ord_Do log_clients unary_uuid_lib ship_msg
     [(calm_env, DoPay background_ctx 5 PaymentMethodCard), (calm_env, DoCancel background_ctx 5)] pending_order) 5
   = Some OrderStatusPaid"
proof -
  let ?w = "exec_order_calls ord_Do ord_Do log_clients unary_uuid_lib ship_msg
     [(calm_env, DoPay background_ctx 5 PaymentMethodCard)] pending_order"
  have "status_of ?w 5 = Some OrderStatusPaid" by code_simp
  moreover have "status_of (exec_order_calls ord_Do ord_Do log_clients unary_uuid_lib ship_msg
      [(calm_env, DoCancel background_ctx 5)] ?w) 5 \<noteq> Some OrderStatusAssembled" by code_simp
  ultimately show ?thesis
    using order_status_machine [OF ord_Do_tx ord_Do_tx log_clients_frame refl, where w = ?w and u = 5
        and U = unary_uuid_lib and unm = ship_msg and calls = "[(calm_env, DoCancel background_ctx 5)]"]
    by simp
qed

text \<open>
  C6. A successful \<open>Pay\<close> found the order unpaid, called the payment service exactly once, marked
  the order \<open>PAID\<close> with the transaction and the method of this call, published one
  \<open>OrderPaid\<close> event that names the order and its customer, and counted the payment and its
  revenue; nothing else happened. When it does not succeed the order tables are what they were.
\<close>

theorem pay_order_effects:
  fixes w :: "'a order_db_scheme"
  assumes "tx_manager repoDo order_rollback" "tx_manager Do order_rollback" "clients_frame cl"
  shows "case OrderService_Pay (NewOrderService E repoDo Do cl) U c u pm w of
      (Ret txu, w') \<Rightarrow> (\<exists>r order w1 w2 w3. order_row w u = Some r \<and> ord_Status r = OrderStatusPendingPayment
        \<and> order = (OrderRecordToModel r)\<lparr>o_Items := OrderItemRecordsToModels (oe_scan E (items_of w u)),
            o_Status := OrderStatusPaid, o_TransactionUUID := Some txu, o_PaymentMethod := Some pm\<rparr>
        \<and> cl_PayOrder cl c u pm w = (Ret txu, w1) \<and> OrderRepo_Update E order w1 = (Ret (), w2)
        \<and> cl_ProduceOrderPaid cl c \<lparr>pe_UUID = uuid_String U u, pe_OrderUUID = uuid_String U u,
            pe_UserUUID = uuid_String U (ord_UserUUID r)\<rparr> w2 = (Ret (), w3)
        \<and> w' = cl_revenueTotal cl (Order_TotalPrice order) (cl_paidTotal cl w3))
    | (_, w') \<Rightarrow> od_orders w' = od_orders w \<and> od_items w' = od_items w"
proof -
  let ?s = "NewOrderService E repoDo Do cl"
  note B = order_backend.intro [OF assms]
  obtain res w' where run: "OrderService_Pay ?s U c u pm w = (res, w')" by fastforce
  show ?thesis
  proof (cases res)
    case (Ret txu)
    with run have "OrderService_Pay ?s U c u pm w = (Ret txu, w')" by simp
    from order_backend.pay_committed [OF B this] obtain order w1 where
      "pay_closure ?s U c u pm w = (Ret (Some (txu, order)), w1)"
      and w': "w' = cl_revenueTotal cl (Order_TotalPrice order) (cl_paidTotal cl w1)" .
    from order_backend.pay_closure_Some [OF B this(1)] w' show ?thesis
      unfolding run Ret prod.case res.case by blast
  next
    case (Err e)
    with run order_backend.pay_not_Ret [OF B, of E U c u pm w] show ?thesis by (simp add: same_tables_def)
  next
    case (Panic p)
    with run order_backend.pay_not_Ret [OF B, of E U c u pm w] show ?thesis by (simp add: same_tables_def)
  qed
qed

theorem pay_order_effects_witness:
  "lg_calls (snd (OrderService_Pay (NewOrderService calm_env ord_Do ord_Do log_clients) unary_uuid_lib
     background_ctx 5 PaymentMethodCard pending_order))
   = [CPay 5 PaymentMethodCard, CProduce \<lparr>pe_UUID = uuid_String unary_uuid_lib 5,
       pe_OrderUUID = uuid_String unary_uuid_lib 5, pe_UserUUID = uuid_String unary_uuid_lib 8\<rparr>]"
proof -
  let ?run = "OrderService_Pay (NewOrderService calm_env ord_Do ord_Do log_clients) unary_uuid_lib
     background_ctx 5 PaymentMethodCard pending_order"
  have "fst ?run = Ret 99" by code_simp
  then obtain w' where run: "?run = (Ret 99, w')" by (metis prod.collapse)
  show ?thesis
    using pay_order_effects [OF ord_Do_tx ord_Do_tx log_clients_frame, where E = calm_env
        and U = unary_uuid_lib and c = background_ctx and u = 5 and pm = PaymentMethodCard and w = pending_order] run
    by (auto simp: pending_order_def order_row_def log_clients_def log_act_def OrderRepo_Update_app
          split: option.splits if_splits)
qed



text \<open>
  C9. The assembly handler is idempotent: once a message has been handled successfully, a redelivery
  of it succeeds without touching anything, so the parts of the order are committed once. A message
  that cannot be decoded or names no order identifier is dropped as handled.
\<close>

theorem ship_handler_idempotent:
  fixes w :: "'a order_db_scheme"
  assumes tx: "tx_manager repoDo order_rollback" "tx_manager Do order_rollback" "clients_frame cl"
    and "commits Do" "order_up E'"
    and first: "ShipAssembledHandler (NewOrderService E repoDo Do cl) U unm c v w = (Ret (), w')"
  shows "ShipAssembledHandler (NewOrderService E' repoDo Do cl) U unm c' v w' = (Ret (), w')"
proof (cases "Option.bind (unm v) (\<lambda>ev. uuid_Parse U (sam_OrderUuid ev))")
  case None
  then show ?thesis
    by (auto simp: ShipAssembledHandler_def decodeShipAssembled_def bind_eq_None_conv split: option.splits)
next
  case (Some u)
  then obtain ev where ev: "unm v = Some ev" "uuid_Parse U (sam_OrderUuid ev) = Some u"
    by (auto simp: bind_eq_Some_conv)
  note B = order_backend.intro [OF tx]
  from first ev obtain x where "Do (ship_closure (NewOrderService E repoDo Do cl) c u) w = (Ret x, w')"
    by (auto simp: ShipAssembledHandler_def decodeShipAssembled_def bindA_Ret_iff order_backend.service_sel [OF B])
  then have "ship_closure (NewOrderService E repoDo Do cl) c u w = (Ret x, w')"
    by (rule tx_manager.Do_RetD [OF tx(2)])
  then have "\<exists>r. order_row w' u = Some r \<and> ord_Status r = OrderStatusAssembled"
    by (rule order_backend.ship_closure_Ret [OF B]) (auto simp: set_row_def)
  then show ?thesis
    using ship_assembled_again [OF tx(2) assms(4,5), where unm = unm and v = v and ev = ev and U = U and u = u] ev
    by blast
qed

theorem ship_handler_idempotent_witness:
  "fst (ShipAssembledHandler (NewOrderService calm_env ord_Do ord_Do log_clients) unary_uuid_lib ship_msg background_ctx []
     (snd (ShipAssembledHandler (NewOrderService calm_env ord_Do ord_Do log_clients) unary_uuid_lib ship_msg
       background_ctx [] pending_order))) = Ret ()"
proof -
  let ?run = "ShipAssembledHandler (NewOrderService calm_env ord_Do ord_Do log_clients) unary_uuid_lib ship_msg
       background_ctx [] pending_order"
  have "fst ?run = Ret ()" by code_simp
  then have "?run = (Ret (), snd ?run)" by (metis prod.collapse)
  from ship_handler_idempotent [OF ord_Do_tx ord_Do_tx log_clients_frame commits_pg calm_env_ok(1) this]
  show ?thesis by simp
qed

text \<open>
  A created order can be read back: after a successful \<open>Create\<close>, \<open>Get\<close> returns the
  order that \<open>Create\<close> returned, with the same customer, status and items (in the order the
  database scans them, and with the creation time at the precision of the column).
\<close>

lemma create_then_get:
  fixes w :: "'a order_db_scheme"
  assumes tx: "tx_manager repoDo order_rollback" "tx_manager Do order_rollback" "clients_frame cl"
    and "odb_ok w" "order_up E'" "scan_ok E'"
    and create: "OrderService_Create (NewOrderService E repoDo Do cl) c n now ps w = (Ret order, w')"
  shows "\<exists>items. OrderService_Get (NewOrderService E' repoDo Do cl) n w'
      = (Ret (order\<lparr>o_Items := items, o_CreatedAt := oe_timestamp E now\<rparr>), w')
    \<and> mset items = mset (o_Items order)"
proof -
  note B = order_backend.intro [OF tx]
  note view = order_backend.create_Ret_view [OF B create]
  have fields: "o_UUID order = n" "o_TransactionUUID order = None" "o_PaymentMethod order = None"
    "o_Status order = OrderStatusPendingPayment"
    by (rule order_backend.create_Ret [OF B create], metis Order.select_convs)+
  have "items_of w n = []"
    using assms(4) view(1) by (auto simp: odb_ok_def order_row_None items_of_def filter_empty_conv)
  with view(3) [of n] have items: "items_of w' n = OrderItemModelsToRecords n (o_Items order)" by simp
  let ?items = "OrderItemRecordsToModels (oe_scan E' (items_of w' n))"
  have "mset ?items = mset (OrderItemRecordsToModels (items_of w' n))"
    using assms(6) by (simp add: scan_ok_def OrderItemRecordsToModels_def)
  then have "mset ?items = mset (o_Items order)" by (simp add: items)
  moreover have "OrderService_Get (NewOrderService E' repoDo Do cl) n w'
      = (Ret (order\<lparr>o_Items := ?items, o_CreatedAt := oe_timestamp E now\<rparr>), w')"
    using assms(5) fields view(2)
    by (simp add: OrderService_Get_def order_backend.service_sel [OF B] OrderRepo_Get_app OrderRecordToModel_def)
  ultimately show ?thesis by blast
qed

definition empty_log_db :: log_db where
  "empty_log_db = \<lparr>od_orders = [], od_updated_at = Map.empty, od_items = [], lg_calls = []\<rparr>"

definition two_parts :: OrderParts where
  "two_parts = \<lparr>in_HullUUID = 1, in_EngineUUID = 2, in_ShieldUUID = None, in_WeaponUUID = None\<rparr>"

end
