(* ===== verification/Order_Clients.thy ===== *)
theory Order_Clients
  imports Order_Service Proto
begin

text \<open>
  The gRPC clients of the order service (\<open>order/internal/client/grpc\<close>): inventory, payment and
  IAM, with the translation of a status into an error of the order service, and the client
  interceptor that forwards the session. The generated stubs are parameters here
  (\<open>System_Grpc\<close> has the generated ones); the deadlines put on the
  contexts are part of the stub's behaviour, which may fail with any error.
\<close>

subsection \<open>Session forwarding\<close>

definition SessionForwarder :: "uuid_lib \<Rightarrow> (ctx \<Rightarrow> 'q \<Rightarrow> ('w, 'r, 'e) act) \<Rightarrow> ctx \<Rightarrow> 'q \<Rightarrow> ('w, 'r, 'e) act" where
  "SessionForwarder U invoker c req =
     (case SessionUUIDFromContext c of (token, ok) \<Rightarrow>
        invoker (if ok then metadata_AppendToOutgoingContext c SessionTokenKey (uuid_String U token) else c) req)"

subsection \<open>The inventory client\<close>

record ('w, 'e) inventory_stub =
  ist_ListParts :: "ctx \<Rightarrow> string list \<Rightarrow> ('w, PartProto list, 'e) act"
  ist_ReserveParts :: "ctx \<Rightarrow> string list \<Rightarrow> ('w, unit, 'e) act"
  ist_ReleaseParts :: "ctx \<Rightarrow> string list \<Rightarrow> ('w, unit, 'e) act"
  ist_CommitParts :: "ctx \<Rightarrow> string list \<Rightarrow> ('w, unit, 'e) act"
  ist_ValidateCompatibility :: "ctx \<Rightarrow> ValidateCompatibilityRequest \<Rightarrow> ('w, unit, 'e) act"

definition inventory_mapErrors :: "'e status_lib \<Rightarrow> 'e err \<Rightarrow> order_error err" where
  "inventory_mapErrors S err = (case S err of
       Some code \<Rightarrow> Wrap ''inventory service returned an error %q''
         (Sent (if code = NotFound then ErrPartNotFound
                else if code = InvalidArgument then ErrPartTypeMismatch
                else if code = FailedPrecondition then ErrIncompatibleParts
                else if code = ResourceExhausted then ErrOutOfStock
                else ErrInternalError))
     | None \<Rightarrow> Wrap ''inventory service call failed'' (Sent ErrInternalError))"

definition UuidsToStrings :: "uuid_lib \<Rightarrow> uuid list \<Rightarrow> string list" where
  "UuidsToStrings U uuids = map (uuid_String U) uuids"

definition PartTypeFromProto :: "PartTypeProto \<Rightarrow> OrderPartType" where
  "PartTypeFromProto partType =
     (if partType = PART_TYPE_HULL then ''HULL''
      else if partType = PART_TYPE_ENGINE then ''ENGINE''
      else if partType = PART_TYPE_SHIELD then ''SHIELD''
      else if partType = PART_TYPE_WEAPON then ''WEAPON''
      else ''UNSPECIFIED'')"

definition PartFromProto :: "PartProto \<Rightarrow> uuid \<Rightarrow> OrderPart" where
  "PartFromProto part partUuid =
     \<lparr>op_UUID = partUuid, op_PartType = PartTypeFromProto (pp_PartType part), op_Name = pp_Name part,
      op_Price = pp_Price part, op_StockQuantity = pp_StockQuantity part\<rparr>"

text \<open>A parse error of \<open>uuid\<close> is a plain error, without a status.\<close>

definition InventoryClient_ListParts ::
    "uuid_lib \<Rightarrow> 'e status_lib \<Rightarrow> ('w, 'e) inventory_stub \<Rightarrow> ctx \<Rightarrow> uuid list \<Rightarrow> ('w, OrderPart list, order_error) act" where
  "InventoryClient_ListParts U S stub c uuids =
     bindA (mapErrA (inventory_mapErrors S) (ist_ListParts stub c (UuidsToStrings U uuids))) (\<lambda>parts.
     liftR (mapR (\<lambda>part. case uuid_Parse U (pp_Uuid part) of
         None \<Rightarrow> Err (inventory_mapErrors S (Ext (Foreign ''uuid'')))
       | Some parsedUuid \<Rightarrow> Ret (PartFromProto part parsedUuid)) parts))"

definition InventoryClient_ReserveParts ::
    "uuid_lib \<Rightarrow> 'e status_lib \<Rightarrow> ('w, 'e) inventory_stub \<Rightarrow> ctx \<Rightarrow> uuid list \<Rightarrow> ('w, unit, order_error) act" where
  "InventoryClient_ReserveParts U S stub c uuids =
     mapErrA (inventory_mapErrors S) (ist_ReserveParts stub c (UuidsToStrings U uuids))"

definition InventoryClient_ReleaseParts ::
    "uuid_lib \<Rightarrow> 'e status_lib \<Rightarrow> ('w, 'e) inventory_stub \<Rightarrow> ctx \<Rightarrow> uuid list \<Rightarrow> ('w, unit, order_error) act" where
  "InventoryClient_ReleaseParts U S stub c uuids =
     mapErrA (inventory_mapErrors S) (ist_ReleaseParts stub c (UuidsToStrings U uuids))"

definition InventoryClient_CommitParts ::
    "uuid_lib \<Rightarrow> 'e status_lib \<Rightarrow> ('w, 'e) inventory_stub \<Rightarrow> ctx \<Rightarrow> uuid list \<Rightarrow> ('w, unit, order_error) act" where
  "InventoryClient_CommitParts U S stub c uuids =
     mapErrA (inventory_mapErrors S) (ist_CommitParts stub c (UuidsToStrings U uuids))"

definition UUIDPtrToString :: "uuid_lib \<Rightarrow> uuid option \<Rightarrow> string" where
  "UUIDPtrToString U u = (case u of None \<Rightarrow> [] | Some v \<Rightarrow> uuid_String U v)"

definition InventoryClient_ValidateCompatibility ::
    "uuid_lib \<Rightarrow> 'e status_lib \<Rightarrow> ('w, 'e) inventory_stub \<Rightarrow> ctx \<Rightarrow> OrderParts \<Rightarrow> ('w, unit, order_error) act" where
  "InventoryClient_ValidateCompatibility U S stub c orderParts =
     mapErrA (inventory_mapErrors S) (ist_ValidateCompatibility stub c
       \<lparr>vr_HullUuid = uuid_String U (in_HullUUID orderParts), vr_EngineUuid = uuid_String U (in_EngineUUID orderParts),
        vr_ShieldUuid = UUIDPtrToString U (in_ShieldUUID orderParts),
        vr_WeaponUuid = UUIDPtrToString U (in_WeaponUUID orderParts)\<rparr>)"

subsection \<open>The payment client\<close>

definition MapPaymentMethod :: "PaymentMethod \<Rightarrow> PaymentMethodProto" where
  "MapPaymentMethod pm =
     (if pm = PaymentMethodCard then PAYMENT_METHOD_CARD
      else if pm = PaymentMethodSBP then PAYMENT_METHOD_SBP
      else if pm = PaymentMethodCreditCard then PAYMENT_METHOD_CREDIT_CARD
      else if pm = PaymentMethodInvestorMoney then PAYMENT_METHOD_INVESTOR_MONEY
      else PAYMENT_METHOD_UNSPECIFIED)"

definition payment_mapErrors :: "'e status_lib \<Rightarrow> 'e err \<Rightarrow> order_error err" where
  "payment_mapErrors S err = (case S err of
       Some code \<Rightarrow> (if code = InvalidArgument
          then Wrap ''payment service received invalid arguments: %s'' (Sent ErrPaymentFailed)
          else Wrap ''payment service call failed: %s'' (Sent ErrInternalError))
     | None \<Rightarrow> Wrap ''payment service call failed'' (Sent ErrInternalError))"

definition PaymentClient_PayOrder ::
    "uuid_lib \<Rightarrow> 'e status_lib \<Rightarrow> (ctx \<Rightarrow> string \<times> PaymentMethodProto \<Rightarrow> ('w, string, 'e) act)
      \<Rightarrow> ctx \<Rightarrow> uuid \<Rightarrow> PaymentMethod \<Rightarrow> ('w, uuid, order_error) act" where
  "PaymentClient_PayOrder U S stub c orderUuid paymentMethod =
     bindA (mapErrA (payment_mapErrors S) (stub c (uuid_String U orderUuid, MapPaymentMethod paymentMethod))) (\<lambda>resp.
     case uuid_Parse U resp of
       None \<Rightarrow> fail (Wrap ''payment service returned an invalid uuid'' (Sent ErrInvalidUUID))
     | Some txUuid \<Rightarrow> ret txUuid)"

subsection \<open>The IAM client\<close>

definition order_iam_mapErrors :: "'e status_lib \<Rightarrow> 'e err \<Rightarrow> order_error err" where
  "order_iam_mapErrors S err = (case S err of
       Some code \<Rightarrow> Wrap ''iam service returned an error %q''
         (Sent (if code = Unauthenticated \<or> code = InvalidArgument then ErrUnauthorized else ErrInternalError))
     | None \<Rightarrow> Wrap ''iam service call failed'' (Sent ErrInternalError))"

definition OrderIAMClient_Whoami ::
    "uuid_lib \<Rightarrow> 'e status_lib \<Rightarrow> (ctx \<Rightarrow> string \<Rightarrow> ('w, string \<times> string, 'e) act)
      \<Rightarrow> ctx \<Rightarrow> uuid \<Rightarrow> ('w, uuid \<times> uuid, order_error) act" where
  "OrderIAMClient_Whoami U S stub c sessionUUID =
     bindA (mapErrA (order_iam_mapErrors S) (stub c (uuid_String U sessionUUID))) (\<lambda>(user, session).
     case (uuid_Parse U user, uuid_Parse U session) of
       (Some u, Some s) \<Rightarrow> ret (u, s)
     | _ \<Rightarrow> liftR (Panic ''uuid: Parse''))"

end
