(* ===== verification/OpenApi_Json.thy ===== *)
theory OpenApi_Json
  imports Prelude Json
begin

unbundle bit_operations_syntax

text \<open>
  The schemas of the order API and their JSON codecs, as ogen generated them
  (\<open>shared/pkg/openapi/order/v1\<close>: oas_schemas_gen.go, oas_json_gen.go, oas_validators_gen.go).

  The token library \<open>jx\<close> and the value codecs of ogen are not part of the repository: they are the
  parameter \<open>jx_lib\<close>, with the law that a value that was written reads back. The encoder of a struct
  is the JSON value it writes; a decoder is a function of the value it reads. Times are written with
  the precision of the library: \<open>jx_Rounded\<close> is what is left of an instant.
\<close>

record jx_lib =
  jx_EncodeUUID :: "uuid \<Rightarrow> json"
  jx_DecodeUUID :: "json \<Rightarrow> uuid option"
  jx_PutInt64 :: "int \<Rightarrow> json"
  jx_Int64 :: "json \<Rightarrow> int option"
  jx_PutStr :: "string \<Rightarrow> json"
  jx_StrBytes :: "json \<Rightarrow> string option"
  jx_EncodeDateTime :: "time \<Rightarrow> json"
  jx_DecodeDateTime :: "json \<Rightarrow> time option"
  jx_Rounded :: "time \<Rightarrow> time"

definition jx_lib_ok :: "jx_lib \<Rightarrow> bool" where
  "jx_lib_ok J \<longleftrightarrow>
     (\<forall>u. jx_DecodeUUID J (jx_EncodeUUID J u) = Some u \<and> jx_EncodeUUID J u \<noteq> JNull) \<and>
     (\<forall>n. in64 n \<longrightarrow> jx_Int64 J (jx_PutInt64 J n) = Some n) \<and>
     (\<forall>s. jx_StrBytes J (jx_PutStr J s) = Some s \<and> jx_PutStr J s \<noteq> JNull) \<and>
     (\<forall>t. jx_DecodeDateTime J (jx_EncodeDateTime J t) = Some (jx_Rounded J t))"

subsection \<open>Schemas\<close>

text \<open>
  \<open>OptNilUUID\<close> and \<open>OptNilPaymentMethod\<close> are the same generated text at two types. The zero value of
  the payload type is an argument where the code declares a zero variable.
\<close>

record 'a OptNil =
  on_Value :: 'a
  on_Set :: bool
  on_Null :: bool

definition NewOptNil :: "'a \<Rightarrow> 'a OptNil" where
  "NewOptNil v = \<lparr>on_Value = v, on_Set = True, on_Null = False\<rparr>"

definition OptNil_Reset :: "'a \<Rightarrow> 'a OptNil" where
  "OptNil_Reset zero = \<lparr>on_Value = zero, on_Set = False, on_Null = False\<rparr>"

definition OptNil_SetTo :: "'a \<Rightarrow> 'a OptNil" where
  "OptNil_SetTo v = \<lparr>on_Value = v, on_Set = True, on_Null = False\<rparr>"

definition OptNil_SetToNull :: "'a \<Rightarrow> 'a OptNil" where
  "OptNil_SetToNull zero = \<lparr>on_Value = zero, on_Set = True, on_Null = True\<rparr>"

definition OptNil_Get :: "'a OptNil \<Rightarrow> 'a option" where
  "OptNil_Get x = (if on_Null x then None else if \<not> on_Set x then None else Some (on_Value x))"

definition OptNil_Or :: "'a OptNil \<Rightarrow> 'a \<Rightarrow> 'a" where
  "OptNil_Or x d = (case OptNil_Get x of Some v \<Rightarrow> v | None \<Rightarrow> d)"

text \<open>The schemas: the selectors and updates of a record are the Get and Set methods of its type.\<close>

record CreateOrderRequest =
  cr_HullUUID :: uuid
  cr_EngineUUID :: uuid
  cr_ShieldUUID :: "uuid OptNil"
  cr_WeaponUUID :: "uuid OptNil"

record CreateOrderResponse =
  co_OrderUUID :: uuid
  co_TotalPrice :: int

record ApiError =
  ae_Code :: int
  ae_Message :: string

record PayOrderRequest =
  pq_PaymentMethod :: string

record PayOrderResponse =
  po_TransactionUUID :: uuid

record OrderDto =
  dto_OrderUUID :: uuid
  dto_UserUUID :: uuid
  dto_HullUUID :: uuid
  dto_EngineUUID :: uuid
  dto_ShieldUUID :: "uuid OptNil"
  dto_WeaponUUID :: "uuid OptNil"
  dto_TotalPrice :: int
  dto_TransactionUUID :: "uuid OptNil"
  dto_PaymentMethod :: "string OptNil"
  dto_Status :: string
  dto_CreatedAt :: time

text \<open>The responses of the four operations; the error responses are aliases of the schema \<open>Error\<close>.\<close>

datatype CreateOrderRes =
    CreateOrderOK CreateOrderResponse | CreateOrderBadRequest ApiError | CreateOrderUnauthorized ApiError
  | CreateOrderNotFound ApiError | CreateOrderConflict ApiError | CreateOrderInternalServerError ApiError

datatype GetOrderRes =
    GetOrderDto OrderDto | GetOrderBadRequest ApiError | GetOrderNotFound ApiError
  | GetOrderInternalServerError ApiError

datatype PayOrderRes =
    PayOrderOK PayOrderResponse | PayOrderBadRequest ApiError | PayOrderNotFound ApiError
  | PayOrderConflict ApiError | PayOrderInternalServerError ApiError

datatype CancelOrderRes =
    CancelOrderOK | CancelOrderBadRequest ApiError | CancelOrderNotFound ApiError
  | CancelOrderConflict ApiError | CancelOrderInternalServerError ApiError

subsection \<open>Errors of the decoders\<close>

datatype oas_error =
    UnexpectedValue
  | DecodeField string oas_error
  | DecodeStruct string oas_error
  | FieldsRequired "string list"
  | InvalidFields "string list"

type_synonym 'a oas = "oas_error + 'a"

definition need :: "'a option \<Rightarrow> 'a oas" where
  "need r = (case r of None \<Rightarrow> Inl UnexpectedValue | Some v \<Rightarrow> Inr v)"

text \<open>
  One case of the key switch: decode the value into the struct, an error is wrapped with the name of
  the field; a required field first sets its bit.
\<close>

type_synonym 's decoding = "'s \<times> 8 word list"

definition field :: "string \<Rightarrow> 'a oas \<Rightarrow> ('a \<Rightarrow> 's \<Rightarrow> 's) \<Rightarrow> 's decoding \<Rightarrow> 's decoding oas" where
  "field name r put st = (case r of Inl e \<Rightarrow> Inl (DecodeField name e) | Inr v \<Rightarrow> Inr (put v (fst st), snd st))"

definition set_required :: "nat \<Rightarrow> nat \<Rightarrow> 's decoding \<Rightarrow> 's decoding" where
  "set_required i b st = (fst st, (snd st)[i := snd st ! i OR push_bit b 1])"

text \<open>\<open>d.ObjBytes\<close>: the callback for every entry of an object, in order.\<close>

fun each_entry :: "(string \<Rightarrow> json \<Rightarrow> 's \<Rightarrow> 's oas) \<Rightarrow> (string \<times> json) list \<Rightarrow> 's \<Rightarrow> 's oas" where
  "each_entry f [] st = Inr st"
| "each_entry f ((k, v) # kvs) st = (case f k v st of Inl e \<Rightarrow> Inl e | Inr st' \<Rightarrow> each_entry f kvs st')"

definition ObjBytes :: "(string \<Rightarrow> json \<Rightarrow> 's \<Rightarrow> 's oas) \<Rightarrow> json \<Rightarrow> 's \<Rightarrow> 's oas" where
  "ObjBytes f j st = (case j of JObj kvs \<Rightarrow> each_entry f kvs st | _ \<Rightarrow> Inl UnexpectedValue)"

subsection \<open>Required fields\<close>

text \<open>\<open>bits.OnesCount8\<close>, \<open>bits.TrailingZeros8\<close> and \<open>strconv.Itoa\<close> of the standard library.\<close>

definition OnesCount8 :: "8 word \<Rightarrow> nat" where
  "OnesCount8 x = length (filter (bit x) [0..<8])"

definition TrailingZeros8 :: "8 word \<Rightarrow> nat" where
  "TrailingZeros8 x = (case find (bit x) [0..<8] of Some b \<Rightarrow> b | None \<Rightarrow> 8)"

fun Itoa :: "nat \<Rightarrow> string" where
  "Itoa n = (if n < 10 then [char_of (48 + n)] else Itoa (n div 10) @ [char_of (48 + n mod 10)])"

declare Itoa.simps [simp del]

text \<open>The inner loop over the missed bits of one byte, with its three variables.\<close>

fun missed_names :: "nat \<Rightarrow> nat \<Rightarrow> 8 word \<Rightarrow> string list \<Rightarrow> string list" where
  "missed_names 0 i result names = []"
| "missed_names (Suc missed) i result names =
    (let bitIdx = TrailingZeros8 result;
         fieldIdx = i * 8 + bitIdx;
         name = (if fieldIdx < length names then names ! fieldIdx else Itoa fieldIdx)
     in name # missed_names missed i (result AND NOT (push_bit bitIdx 1)) names)"

text \<open>The outer loop over the bytes of the set.\<close>

fun required_failures :: "nat \<Rightarrow> 8 word list \<Rightarrow> 8 word list \<Rightarrow> string list \<Rightarrow> string list" where
  "required_failures i [] bits names = []"
| "required_failures i (m # masks) bits names =
    (let result = (bits ! i AND m) XOR m
     in (if result \<noteq> 0 then missed_names (OnesCount8 result) i result names else [])
        @ required_failures (Suc i) masks bits names)"

text \<open>The frame of every struct decoder: entries, then the required fields.\<close>

definition decode_struct ::
    "string \<Rightarrow> 8 word list \<Rightarrow> string list \<Rightarrow> (string \<Rightarrow> json \<Rightarrow> 's decoding \<Rightarrow> 's decoding oas) \<Rightarrow> 's \<Rightarrow> json \<Rightarrow> 's oas" where
  "decode_struct name masks names f zero j =
    (case ObjBytes f j (zero, map (\<lambda>_. 0) masks) of
       Inl e \<Rightarrow> Inl (DecodeStruct name e)
     | Inr (s, bits) \<Rightarrow>
         (let failures = required_failures 0 masks bits names
          in if length failures > 0 then Inl (FieldsRequired failures) else Inr s))"

subsection \<open>Codecs of the values\<close>

definition OptNilUUID_Encode :: "jx_lib \<Rightarrow> uuid OptNil \<Rightarrow> json option" where
  "OptNilUUID_Encode J x =
    (if \<not> on_Set x then None else if on_Null x then Some JNull else Some (jx_EncodeUUID J (on_Value x)))"

definition OptNilUUID_Decode :: "jx_lib \<Rightarrow> json \<Rightarrow> uuid OptNil oas" where
  "OptNilUUID_Decode J j =
    (if j = JNull then Inr \<lparr>on_Value = uuid_Nil, on_Set = True, on_Null = True\<rparr>
     else case need (jx_DecodeUUID J j) of
         Inl e \<Rightarrow> Inl e
       | Inr v \<Rightarrow> Inr \<lparr>on_Value = v, on_Set = True, on_Null = False\<rparr>)"

definition OrderStatus_Decode :: "jx_lib \<Rightarrow> json \<Rightarrow> string oas" where
  "OrderStatus_Decode J j =
    (case need (jx_StrBytes J j) of
       Inl e \<Rightarrow> Inl e
     | Inr v \<Rightarrow> Inr (if v = ''PENDING_PAYMENT'' then ''PENDING_PAYMENT''
                   else if v = ''PAID'' then ''PAID''
                   else if v = ''CANCELLED'' then ''CANCELLED''
                   else if v = ''ASSEMBLED'' then ''ASSEMBLED''
                   else v))"

definition PaymentMethod_Decode :: "jx_lib \<Rightarrow> json \<Rightarrow> string oas" where
  "PaymentMethod_Decode J j =
    (case need (jx_StrBytes J j) of
       Inl e \<Rightarrow> Inl e
     | Inr v \<Rightarrow> Inr (if v = ''CARD'' then ''CARD''
                   else if v = ''SBP'' then ''SBP''
                   else if v = ''CREDIT_CARD'' then ''CREDIT_CARD''
                   else if v = ''INVESTOR_MONEY'' then ''INVESTOR_MONEY''
                   else v))"

definition OptNilPaymentMethod_Encode :: "jx_lib \<Rightarrow> string OptNil \<Rightarrow> json option" where
  "OptNilPaymentMethod_Encode J x =
    (if \<not> on_Set x then None else if on_Null x then Some JNull else Some (jx_PutStr J (on_Value x)))"

definition OptNilPaymentMethod_Decode :: "jx_lib \<Rightarrow> json \<Rightarrow> string OptNil oas" where
  "OptNilPaymentMethod_Decode J j =
    (if j = JNull then Inr \<lparr>on_Value = '''', on_Set = True, on_Null = True\<rparr>
     else case PaymentMethod_Decode J j of
         Inl e \<Rightarrow> Inl e
       | Inr v \<Rightarrow> Inr \<lparr>on_Value = v, on_Set = True, on_Null = False\<rparr>)"

text \<open>An optional field is written only when it is set.\<close>

definition opt_entry :: "string \<Rightarrow> json option \<Rightarrow> (string \<times> json) list" where
  "opt_entry k r = (case r of None \<Rightarrow> [] | Some j \<Rightarrow> [(k, j)])"

subsection \<open>Codecs of the structs\<close>

definition CreateOrderRequest_Encode :: "jx_lib \<Rightarrow> CreateOrderRequest \<Rightarrow> json" where
  "CreateOrderRequest_Encode J s = JObj
    ([(''hull_uuid'', jx_EncodeUUID J (cr_HullUUID s)), (''engine_uuid'', jx_EncodeUUID J (cr_EngineUUID s))]
     @ opt_entry ''shield_uuid'' (OptNilUUID_Encode J (cr_ShieldUUID s))
     @ opt_entry ''weapon_uuid'' (OptNilUUID_Encode J (cr_WeaponUUID s)))"

definition CreateOrderRequest_field ::
    "jx_lib \<Rightarrow> string \<Rightarrow> json \<Rightarrow> CreateOrderRequest decoding \<Rightarrow> CreateOrderRequest decoding oas" where
  "CreateOrderRequest_field J k d st =
    (if k = ''hull_uuid'' then
       field ''hull_uuid'' (need (jx_DecodeUUID J d)) (\<lambda>v s. s\<lparr>cr_HullUUID := v\<rparr>) (set_required 0 0 st)
     else if k = ''engine_uuid'' then
       field ''engine_uuid'' (need (jx_DecodeUUID J d)) (\<lambda>v s. s\<lparr>cr_EngineUUID := v\<rparr>) (set_required 0 1 st)
     else if k = ''shield_uuid'' then
       field ''shield_uuid'' (OptNilUUID_Decode J d) (\<lambda>v s. s\<lparr>cr_ShieldUUID := v\<rparr>) st
     else if k = ''weapon_uuid'' then
       field ''weapon_uuid'' (OptNilUUID_Decode J d) (\<lambda>v s. s\<lparr>cr_WeaponUUID := v\<rparr>) st
     else Inr st)"

definition CreateOrderRequest_zero :: CreateOrderRequest where
  "CreateOrderRequest_zero =
    \<lparr>cr_HullUUID = uuid_Nil, cr_EngineUUID = uuid_Nil, cr_ShieldUUID = OptNil_Reset uuid_Nil,
     cr_WeaponUUID = OptNil_Reset uuid_Nil\<rparr>"

definition CreateOrderRequest_Decode :: "jx_lib \<Rightarrow> json \<Rightarrow> CreateOrderRequest oas" where
  "CreateOrderRequest_Decode J =
    decode_struct ''CreateOrderRequest'' [0b00000011]
      [''hull_uuid'', ''engine_uuid'', ''shield_uuid'', ''weapon_uuid'']
      (CreateOrderRequest_field J) CreateOrderRequest_zero"

definition CreateOrderResponse_Encode :: "jx_lib \<Rightarrow> CreateOrderResponse \<Rightarrow> json" where
  "CreateOrderResponse_Encode J s = JObj
    [(''order_uuid'', jx_EncodeUUID J (co_OrderUUID s)), (''total_price'', jx_PutInt64 J (co_TotalPrice s))]"

definition CreateOrderResponse_field ::
    "jx_lib \<Rightarrow> string \<Rightarrow> json \<Rightarrow> CreateOrderResponse decoding \<Rightarrow> CreateOrderResponse decoding oas" where
  "CreateOrderResponse_field J k d st =
    (if k = ''order_uuid'' then
       field ''order_uuid'' (need (jx_DecodeUUID J d)) (\<lambda>v s. s\<lparr>co_OrderUUID := v\<rparr>) (set_required 0 0 st)
     else if k = ''total_price'' then
       field ''total_price'' (need (jx_Int64 J d)) (\<lambda>v s. s\<lparr>co_TotalPrice := v\<rparr>) (set_required 0 1 st)
     else Inr st)"

definition CreateOrderResponse_Decode :: "jx_lib \<Rightarrow> json \<Rightarrow> CreateOrderResponse oas" where
  "CreateOrderResponse_Decode J =
    decode_struct ''CreateOrderResponse'' [0b00000011] [''order_uuid'', ''total_price'']
      (CreateOrderResponse_field J) \<lparr>co_OrderUUID = uuid_Nil, co_TotalPrice = 0\<rparr>"

definition ApiError_Encode :: "jx_lib \<Rightarrow> ApiError \<Rightarrow> json" where
  "ApiError_Encode J s = JObj
    [(''code'', jx_PutInt64 J (ae_Code s)), (''message'', jx_PutStr J (ae_Message s))]"

definition ApiError_field :: "jx_lib \<Rightarrow> string \<Rightarrow> json \<Rightarrow> ApiError decoding \<Rightarrow> ApiError decoding oas" where
  "ApiError_field J k d st =
    (if k = ''code'' then
       field ''code'' (need (jx_Int64 J d)) (\<lambda>v s. s\<lparr>ae_Code := v\<rparr>) (set_required 0 0 st)
     else if k = ''message'' then
       field ''message'' (need (jx_StrBytes J d)) (\<lambda>v s. s\<lparr>ae_Message := v\<rparr>) (set_required 0 1 st)
     else Inr st)"

definition ApiError_Decode :: "jx_lib \<Rightarrow> json \<Rightarrow> ApiError oas" where
  "ApiError_Decode J =
    decode_struct ''Error'' [0b00000011] [''code'', ''message''] (ApiError_field J) \<lparr>ae_Code = 0, ae_Message = ''''\<rparr>"

definition PayOrderRequest_Encode :: "jx_lib \<Rightarrow> PayOrderRequest \<Rightarrow> json" where
  "PayOrderRequest_Encode J s = JObj [(''payment_method'', jx_PutStr J (pq_PaymentMethod s))]"

definition PayOrderRequest_field ::
    "jx_lib \<Rightarrow> string \<Rightarrow> json \<Rightarrow> PayOrderRequest decoding \<Rightarrow> PayOrderRequest decoding oas" where
  "PayOrderRequest_field J k d st =
    (if k = ''payment_method'' then
       field ''payment_method'' (PaymentMethod_Decode J d) (\<lambda>v s. s\<lparr>pq_PaymentMethod := v\<rparr>) (set_required 0 0 st)
     else Inr st)"

definition PayOrderRequest_Decode :: "jx_lib \<Rightarrow> json \<Rightarrow> PayOrderRequest oas" where
  "PayOrderRequest_Decode J =
    decode_struct ''PayOrderRequest'' [0b00000001] [''payment_method''] (PayOrderRequest_field J)
      \<lparr>pq_PaymentMethod = ''''\<rparr>"

definition PayOrderResponse_Encode :: "jx_lib \<Rightarrow> PayOrderResponse \<Rightarrow> json" where
  "PayOrderResponse_Encode J s = JObj [(''transaction_uuid'', jx_EncodeUUID J (po_TransactionUUID s))]"

definition PayOrderResponse_field ::
    "jx_lib \<Rightarrow> string \<Rightarrow> json \<Rightarrow> PayOrderResponse decoding \<Rightarrow> PayOrderResponse decoding oas" where
  "PayOrderResponse_field J k d st =
    (if k = ''transaction_uuid'' then
       field ''transaction_uuid'' (need (jx_DecodeUUID J d)) (\<lambda>v s. s\<lparr>po_TransactionUUID := v\<rparr>) (set_required 0 0 st)
     else Inr st)"

definition PayOrderResponse_Decode :: "jx_lib \<Rightarrow> json \<Rightarrow> PayOrderResponse oas" where
  "PayOrderResponse_Decode J =
    decode_struct ''PayOrderResponse'' [0b00000001] [''transaction_uuid''] (PayOrderResponse_field J)
      \<lparr>po_TransactionUUID = uuid_Nil\<rparr>"

definition CancelOrderResponse_Encode :: json where
  "CancelOrderResponse_Encode = JObj []"

definition CancelOrderResponse_Decode :: "json \<Rightarrow> unit oas" where
  "CancelOrderResponse_Decode j =
    (case ObjBytes (\<lambda>k d st. Inr st) j () of Inl e \<Rightarrow> Inl (DecodeStruct ''CancelOrderResponse'' e) | Inr _ \<Rightarrow> Inr ())"

definition OrderDto_Encode :: "jx_lib \<Rightarrow> OrderDto \<Rightarrow> json" where
  "OrderDto_Encode J s = JObj
    ([(''order_uuid'', jx_EncodeUUID J (dto_OrderUUID s)), (''user_uuid'', jx_EncodeUUID J (dto_UserUUID s)),
      (''hull_uuid'', jx_EncodeUUID J (dto_HullUUID s)), (''engine_uuid'', jx_EncodeUUID J (dto_EngineUUID s))]
     @ opt_entry ''shield_uuid'' (OptNilUUID_Encode J (dto_ShieldUUID s))
     @ opt_entry ''weapon_uuid'' (OptNilUUID_Encode J (dto_WeaponUUID s))
     @ [(''total_price'', jx_PutInt64 J (dto_TotalPrice s))]
     @ opt_entry ''transaction_uuid'' (OptNilUUID_Encode J (dto_TransactionUUID s))
     @ opt_entry ''payment_method'' (OptNilPaymentMethod_Encode J (dto_PaymentMethod s))
     @ [(''status'', jx_PutStr J (dto_Status s)), (''created_at'', jx_EncodeDateTime J (dto_CreatedAt s))])"

definition OrderDto_field :: "jx_lib \<Rightarrow> string \<Rightarrow> json \<Rightarrow> OrderDto decoding \<Rightarrow> OrderDto decoding oas" where
  "OrderDto_field J k d st =
    (if k = ''order_uuid'' then
       field ''order_uuid'' (need (jx_DecodeUUID J d)) (\<lambda>v s. s\<lparr>dto_OrderUUID := v\<rparr>) (set_required 0 0 st)
     else if k = ''user_uuid'' then
       field ''user_uuid'' (need (jx_DecodeUUID J d)) (\<lambda>v s. s\<lparr>dto_UserUUID := v\<rparr>) (set_required 0 1 st)
     else if k = ''hull_uuid'' then
       field ''hull_uuid'' (need (jx_DecodeUUID J d)) (\<lambda>v s. s\<lparr>dto_HullUUID := v\<rparr>) (set_required 0 2 st)
     else if k = ''engine_uuid'' then
       field ''engine_uuid'' (need (jx_DecodeUUID J d)) (\<lambda>v s. s\<lparr>dto_EngineUUID := v\<rparr>) (set_required 0 3 st)
     else if k = ''shield_uuid'' then
       field ''shield_uuid'' (OptNilUUID_Decode J d) (\<lambda>v s. s\<lparr>dto_ShieldUUID := v\<rparr>) st
     else if k = ''weapon_uuid'' then
       field ''weapon_uuid'' (OptNilUUID_Decode J d) (\<lambda>v s. s\<lparr>dto_WeaponUUID := v\<rparr>) st
     else if k = ''total_price'' then
       field ''total_price'' (need (jx_Int64 J d)) (\<lambda>v s. s\<lparr>dto_TotalPrice := v\<rparr>) (set_required 0 6 st)
     else if k = ''transaction_uuid'' then
       field ''transaction_uuid'' (OptNilUUID_Decode J d) (\<lambda>v s. s\<lparr>dto_TransactionUUID := v\<rparr>) st
     else if k = ''payment_method'' then
       field ''payment_method'' (OptNilPaymentMethod_Decode J d) (\<lambda>v s. s\<lparr>dto_PaymentMethod := v\<rparr>) st
     else if k = ''status'' then
       field ''status'' (OrderStatus_Decode J d) (\<lambda>v s. s\<lparr>dto_Status := v\<rparr>) (set_required 1 1 st)
     else if k = ''created_at'' then
       field ''created_at'' (need (jx_DecodeDateTime J d)) (\<lambda>v s. s\<lparr>dto_CreatedAt := v\<rparr>) (set_required 1 2 st)
     else Inr st)"

text \<open>The zero \<open>time.Time\<close> is an argument: it is overwritten, since the field is required.\<close>

definition OrderDto_zero :: "time \<Rightarrow> OrderDto" where
  "OrderDto_zero t =
    \<lparr>dto_OrderUUID = uuid_Nil, dto_UserUUID = uuid_Nil, dto_HullUUID = uuid_Nil, dto_EngineUUID = uuid_Nil,
     dto_ShieldUUID = OptNil_Reset uuid_Nil, dto_WeaponUUID = OptNil_Reset uuid_Nil, dto_TotalPrice = 0,
     dto_TransactionUUID = OptNil_Reset uuid_Nil, dto_PaymentMethod = OptNil_Reset '''', dto_Status = '''',
     dto_CreatedAt = t\<rparr>"

definition OrderDto_Decode :: "jx_lib \<Rightarrow> time \<Rightarrow> json \<Rightarrow> OrderDto oas" where
  "OrderDto_Decode J zero_time =
    decode_struct ''OrderDto'' [0b01001111, 0b00000110]
      [''order_uuid'', ''user_uuid'', ''hull_uuid'', ''engine_uuid'', ''shield_uuid'', ''weapon_uuid'', ''total_price'',
       ''transaction_uuid'', ''payment_method'', ''status'', ''created_at'']
      (OrderDto_field J) (OrderDto_zero zero_time)"

subsection \<open>Validation\<close>

definition OrderStatus_Validate :: "string \<Rightarrow> unit oas" where
  "OrderStatus_Validate s =
    (if s = ''PENDING_PAYMENT'' \<or> s = ''PAID'' \<or> s = ''CANCELLED'' \<or> s = ''ASSEMBLED'' then Inr () else Inl UnexpectedValue)"

definition PaymentMethod_Validate :: "string \<Rightarrow> unit oas" where
  "PaymentMethod_Validate s =
    (if s = ''CARD'' \<or> s = ''SBP'' \<or> s = ''CREDIT_CARD'' \<or> s = ''INVESTOR_MONEY'' then Inr () else Inl UnexpectedValue)"

definition validation :: "(string \<times> unit oas) list \<Rightarrow> unit oas" where
  "validation checks =
    (let failures = map fst (filter (\<lambda>(name, r). r \<noteq> Inr ()) checks)
     in if length failures > 0 then Inl (InvalidFields failures) else Inr ())"

definition PayOrderRequest_Validate :: "PayOrderRequest \<Rightarrow> unit oas" where
  "PayOrderRequest_Validate s = validation [(''payment_method'', PaymentMethod_Validate (pq_PaymentMethod s))]"

definition OrderDto_Validate :: "OrderDto \<Rightarrow> unit oas" where
  "OrderDto_Validate s = validation
    [(''payment_method'', case OptNil_Get (dto_PaymentMethod s) of
         Some value \<Rightarrow> PaymentMethod_Validate value | None \<Rightarrow> Inr ()),
     (''status'', OrderStatus_Validate (dto_Status s))]"

text \<open>The enumerations as texts: \<open>MarshalText\<close> and \<open>UnmarshalText\<close> refuse every other value.\<close>

definition OrderStatus_AllValues :: "string list" where
  "OrderStatus_AllValues = [''PENDING_PAYMENT'', ''PAID'', ''CANCELLED'', ''ASSEMBLED'']"

definition OrderStatus_MarshalText :: "string \<Rightarrow> string oas" where
  "OrderStatus_MarshalText s =
    (if s = ''PENDING_PAYMENT'' \<or> s = ''PAID'' \<or> s = ''CANCELLED'' \<or> s = ''ASSEMBLED'' then Inr s else Inl UnexpectedValue)"

definition OrderStatus_UnmarshalText :: "string \<Rightarrow> string oas" where
  "OrderStatus_UnmarshalText data =
    (if data = ''PENDING_PAYMENT'' then Inr ''PENDING_PAYMENT''
     else if data = ''PAID'' then Inr ''PAID''
     else if data = ''CANCELLED'' then Inr ''CANCELLED''
     else if data = ''ASSEMBLED'' then Inr ''ASSEMBLED''
     else Inl UnexpectedValue)"

definition PaymentMethod_AllValues :: "string list" where
  "PaymentMethod_AllValues = [''CARD'', ''SBP'', ''CREDIT_CARD'', ''INVESTOR_MONEY'']"

definition PaymentMethod_MarshalText :: "string \<Rightarrow> string oas" where
  "PaymentMethod_MarshalText s =
    (if s = ''CARD'' \<or> s = ''SBP'' \<or> s = ''CREDIT_CARD'' \<or> s = ''INVESTOR_MONEY'' then Inr s else Inl UnexpectedValue)"

definition PaymentMethod_UnmarshalText :: "string \<Rightarrow> string oas" where
  "PaymentMethod_UnmarshalText data =
    (if data = ''CARD'' then Inr ''CARD''
     else if data = ''SBP'' then Inr ''SBP''
     else if data = ''CREDIT_CARD'' then Inr ''CREDIT_CARD''
     else if data = ''INVESTOR_MONEY'' then Inr ''INVESTOR_MONEY''
     else Inl UnexpectedValue)"

lemma enum_texts:
  "(OrderStatus_Validate s = Inr ()) = (s \<in> set OrderStatus_AllValues)"
  "OrderStatus_MarshalText s = (if s \<in> set OrderStatus_AllValues then Inr s else Inl UnexpectedValue)"
  "OrderStatus_UnmarshalText s = OrderStatus_MarshalText s"
  "(PaymentMethod_Validate m = Inr ()) = (m \<in> set PaymentMethod_AllValues)"
  "PaymentMethod_MarshalText m = (if m \<in> set PaymentMethod_AllValues then Inr m else Inl UnexpectedValue)"
  "PaymentMethod_UnmarshalText m = PaymentMethod_MarshalText m"
  by (simp_all add: OrderStatus_Validate_def OrderStatus_AllValues_def OrderStatus_MarshalText_def
    OrderStatus_UnmarshalText_def PaymentMethod_Validate_def PaymentMethod_AllValues_def
    PaymentMethod_MarshalText_def PaymentMethod_UnmarshalText_def)

subsection \<open>The bit loops\<close>

definition field_name :: "nat \<Rightarrow> string list \<Rightarrow> nat \<Rightarrow> string" where
  "field_name i names b = (if i * 8 + b < length names then names ! (i * 8 + b) else Itoa (i * 8 + b))"

lemma find_filter: "find P xs = (case filter P xs of [] \<Rightarrow> None | x # _ \<Rightarrow> Some x)"
  by (induction xs) auto

lemma clear_lowest_bit:
  assumes "filter (bit x) [0..<8] = b # bs"
  shows "filter (bit (x AND NOT (push_bit b 1) :: 8 word)) [0..<8] = bs"
proof -
  have "distinct (b # bs)" using assms by (metis distinct_filter distinct_upt)
  moreover have "filter (bit (x AND NOT (push_bit b 1))) [0..<8] = filter (\<lambda>n. n \<noteq> b) (filter (bit x) [0..<8])"
    by (auto simp: filter_filter bit_simps intro!: filter_cong)
  ultimately show ?thesis using assms by (auto simp: filter_id_conv)
qed

lemma missed_names_spec:
  "missed_names (OnesCount8 x) i x names = map (field_name i names) (filter (bit x) [0..<8])"
proof -
  have "missed_names (length bs) i x names = map (field_name i names) bs"
    if "filter (bit x) [0..<8] = bs" for bs
    using that
  proof (induction bs arbitrary: x)
    case (Cons b bs)
    have "TrailingZeros8 x = b" using Cons.prems by (simp add: TrailingZeros8_def find_filter)
    then show ?case
      using Cons.IH [OF clear_lowest_bit [OF Cons.prems]] by (simp add: Let_def field_name_def)
  qed simp
  then show ?thesis by (simp add: OnesCount8_def)
qed

lemma missing_bits: "bit ((x AND m) XOR m :: 8 word) b \<longleftrightarrow> bit m b \<and> \<not> bit x b"
  by (auto simp: bit_simps)

text \<open>Field \<open>n\<close> of a struct is required when its bit is set in the masks.\<close>

definition required_bit :: "8 word list \<Rightarrow> nat \<Rightarrow> bool" where
  "required_bit masks n \<longleftrightarrow> n div 8 < length masks \<and> bit (masks ! (n div 8)) (n mod 8)"

lemma required_failures_spec:
  assumes "length bits = length masks"
  shows "required_failures i (drop i masks) bits names =
    map (\<lambda>n. field_name (n div 8) names (n mod 8))
      (filter (\<lambda>n. required_bit masks n \<and> \<not> required_bit bits n) [i * 8..<length masks * 8])"
proof (cases "i \<le> length masks")
  case True
  then show ?thesis
  proof (induction "length masks - i" arbitrary: i)
    case 0
    then show ?case by simp
  next
    case (Suc k)
    then have i: "i < length masks" by simp
    let ?P = "\<lambda>n. required_bit masks n \<and> \<not> required_bit bits n"
    let ?f = "\<lambda>n. field_name (n div 8) names (n mod 8)"
    let ?r = "(bits ! i AND masks ! i) XOR masks ! i"
    have split: "[i * 8..<length masks * 8] = map (\<lambda>b. b + i * 8) [0..<8] @ [Suc i * 8..<length masks * 8]"
      using i upt_add_eq_append [of "i * 8" "i * 8 + 8" "length masks * 8 - (i * 8 + 8)"]
      by (simp add: map_add_upt [of "i * 8" 8] add.commute)
    have here: "filter ?P (map (\<lambda>b. b + i * 8) [0..<8]) = map (\<lambda>b. b + i * 8) (filter (bit ?r) [0..<8])"
      using i assms by (auto simp: filter_map comp_def required_bit_def missing_bits intro!: filter_cong)
    have "(if ?r \<noteq> 0 then missed_names (OnesCount8 ?r) i ?r names else []) = map (field_name i names) (filter (bit ?r) [0..<8])"
      by (simp add: missed_names_spec)
    moreover have "map ?f (map (\<lambda>b. b + i * 8) (filter (bit ?r) [0..<8])) = map (field_name i names) (filter (bit ?r) [0..<8])"
      by simp
    ultimately show ?case
      using Suc.hyps(1) [of "Suc i"] Suc.hyps(2) i
      by (simp add: Cons_nth_drop_Suc [symmetric] split here Let_def)
  qed
qed simp

subsection \<open>Missing fields\<close>

text \<open>
  What the key switch of a decoder promises: it sets the bit of a required field exactly at the key of
  that field. The client lemma: the loops over the bits report the required keys that do not occur in
  the object, in the order of the declaration.
\<close>

locale struct_decoder =
  fixes masks :: "8 word list" and names :: "string list"
    and f :: "string \<Rightarrow> json \<Rightarrow> 's decoding \<Rightarrow> 's decoding oas"
  assumes marks: "f k d (s, bits) = Inr (s', bits') \<Longrightarrow> length bits = length masks \<Longrightarrow>
      length bits' = length masks \<and>
      (\<forall>n. required_bit bits' n \<longleftrightarrow> required_bit bits n \<or> required_bit masks n \<and> k = names ! n)"
    and in_range: "required_bit masks n \<Longrightarrow> n < length names"
begin

definition missing :: "(string \<times> json) list \<Rightarrow> string list" where
  "missing kvs = filter (\<lambda>k. k \<notin> fst ` set kvs) (map ((!) names) (filter (required_bit masks) [0..<length names]))"

lemma entries_marked:
  "each_entry f kvs (s, bits) = Inr (s', bits') \<Longrightarrow> length bits = length masks \<Longrightarrow>
   length bits' = length masks \<and>
   (\<forall>n. required_bit bits' n \<longleftrightarrow> required_bit bits n \<or> required_bit masks n \<and> names ! n \<in> fst ` set kvs)"
proof (induction kvs arbitrary: s bits)
  case (Cons kv kvs)
  obtain k d where kv: "kv = (k, d)" by fastforce
  then obtain s1 bits1 where one: "f k d (s, bits) = Inr (s1, bits1)"
    and rest: "each_entry f kvs (s1, bits1) = Inr (s', bits')"
    using Cons.prems(1) by (auto split: sum.splits)
  show ?case using marks [OF one Cons.prems(2)] Cons.IH [OF rest] kv by auto
qed auto

lemma decode_missing:
  assumes "each_entry f kvs (zero, map (\<lambda>_. 0) masks) = Inr (s, bits)"
  shows "decode_struct name masks names f zero (JObj kvs) =
    (if missing kvs = [] then Inr s else Inl (FieldsRequired (missing kvs)))"
proof -
  have none: "\<not> required_bit (map (\<lambda>_. 0) masks) n" for n by (simp add: required_bit_def)
  have bits: "length bits = length masks"
    "required_bit bits n \<longleftrightarrow> required_bit masks n \<and> names ! n \<in> fst ` set kvs" for n
    using entries_marked [OF assms] none by auto
  have range: "filter P [0..<length masks * 8] = filter P [0..<length names]"
    if "\<And>n. P n \<Longrightarrow> required_bit masks n" for P
  proof -
    have bound: "n < length masks * 8" if "P n" for n
      using \<open>P n \<Longrightarrow> required_bit masks n\<close> that by (auto simp: required_bit_def)
    have "sorted_list_of_set {n. P n \<and> n < length masks * 8} = sorted_list_of_set {n. P n \<and> n < length names}"
      using bound in_range that by metis
    moreover have "filter P [0..<k] = sorted_list_of_set {n. P n \<and> n < k}" for k
      by (rule sorted_distinct_set_unique) (auto simp: sorted_wrt_filter)
    ultimately show ?thesis by simp
  qed
  let ?P = "\<lambda>n. required_bit masks n \<and> \<not> required_bit bits n"
  have "required_failures 0 masks bits names =
      map (\<lambda>n. field_name (n div 8) names (n mod 8)) (filter ?P [0..<length masks * 8])"
    using required_failures_spec [OF bits(1), of 0 names] by simp
  also have "filter ?P [0..<length masks * 8] = filter ?P [0..<length names]" by (rule range) simp
  also have "map (\<lambda>n. field_name (n div 8) names (n mod 8)) (filter ?P [0..<length names]) = map ((!) names) (filter ?P [0..<length names])"
    by (rule map_cong) (auto simp: field_name_def div_mult_mod_eq)
  also have "\<dots> = missing kvs"
    by (auto simp: missing_def filter_map comp_def bits(2) intro!: arg_cong [where f = "map ((!) names)"] filter_cong)
  finally have "required_failures 0 masks bits names = missing kvs" .
  then show ?thesis using assms by (simp add: decode_struct_def ObjBytes_def)
qed

lemma decode_eq:
  "decode_struct name masks names f zero (JObj kvs) =
    (case each_entry f kvs (zero, map (\<lambda>_. 0) masks) of
       Inl e \<Rightarrow> Inl (DecodeStruct name e)
     | Inr (s, bits) \<Rightarrow> if missing kvs = [] then Inr s else Inl (FieldsRequired (missing kvs)))"
proof (cases "each_entry f kvs (zero, map (\<lambda>_. 0) masks)")
  case (Inr st)
  then show ?thesis using decode_missing [of kvs zero "fst st" "snd st" name] by (cases st) simp
qed (simp add: decode_struct_def ObjBytes_def)

end

lemma required_bit_set:
  assumes "i < length bits" "b < 8"
  shows "required_bit (bits[i := bits ! i OR push_bit b 1]) n \<longleftrightarrow> required_bit bits n \<or> n = i * 8 + b"
proof -
  have "bit (push_bit b (1 :: 8 word)) (n mod 8) \<longleftrightarrow> n mod 8 = b" using assms(2) by (auto simp: bit_simps)
  moreover have "n div 8 = i \<and> n mod 8 = b \<longleftrightarrow> n = i * 8 + b" using assms(2) by (auto simp: div_mult_mod_eq)
  ultimately show ?thesis using assms by (auto simp: required_bit_def nth_list_update bit_or_iff)
qed

lemma field_required:
  assumes "field name r put (set_required i b (s, bits)) = Inr (s', bits')" "i < length bits" "b < 8"
  shows "length bits' = length bits" "required_bit bits' n \<longleftrightarrow> required_bit bits n \<or> n = i * 8 + b"
  using assms required_bit_set by (auto simp: field_def set_required_def split: sum.splits)

lemma field_plain: "field name r put (s, bits) = Inr (s', bits') \<Longrightarrow> bits' = bits"
  by (auto simp: field_def split: sum.splits)

lemma required_one: "required_bit [1] n \<longleftrightarrow> n = 0"
  by (auto simp: required_bit_def bit_1_iff div_eq_0_iff)

lemma required_by_bytes:
  assumes "\<forall>n \<in> set [0..<length masks * 8]. required_bit masks n \<longleftrightarrow> n \<in> set ns"
    and "\<forall>n \<in> set ns. n < length masks * 8"
  shows "required_bit masks n \<longleftrightarrow> n \<in> set ns"
proof (cases "n < length masks * 8")
  case False
  then have "length masks \<le> n div 8" by simp
  then show ?thesis using False assms(2) by (auto simp: required_bit_def)
qed (use assms(1) in simp)

lemma required_two: "required_bit [3] n \<longleftrightarrow> n \<in> set [0, 1]"
  by (rule required_by_bytes) code_simp+

lemma required_dto: "required_bit [79, 6] n \<longleftrightarrow> n \<in> set [0, 1, 2, 3, 6, 9, 10]"
  by (rule required_by_bytes) code_simp+

text \<open>The invariant of one case of a key switch: the bits grow by the fields in \<open>Q\<close>.\<close>

definition marks_only :: "(nat \<Rightarrow> bool) \<Rightarrow> 8 word list \<Rightarrow> 's decoding oas \<Rightarrow> bool" where
  "marks_only Q bits r \<longleftrightarrow> (\<forall>s' bits'. r = Inr (s', bits') \<longrightarrow>
     length bits' = length bits \<and> (\<forall>n. required_bit bits' n \<longleftrightarrow> required_bit bits n \<or> Q n))"

named_theorems marks_intros \<open>the cases of the key switches\<close>

lemma marks_if [marks_intros]:
  "(c \<Longrightarrow> marks_only Q bits a) \<Longrightarrow> (\<not> c \<Longrightarrow> marks_only Q bits b) \<Longrightarrow> marks_only Q bits (if c then a else b)"
  by simp

lemma marks_required [marks_intros]:
  assumes "i < length bits" "b < 8" "Q (i * 8 + b)" "\<And>n. Q n \<Longrightarrow> n = i * 8 + b"
  shows "marks_only Q bits (field name r put (set_required i b (s, bits)))"
  unfolding marks_only_def using field_required [OF _ assms(1,2)] assms(3,4) by metis

lemma marks_plain [marks_intros]: "(\<And>n. Q n \<Longrightarrow> False) \<Longrightarrow> marks_only Q bits (field name r put (s, bits))"
  using field_plain [of name r put s bits] by (auto simp: marks_only_def)

lemma marks_skip [marks_intros]: "(\<And>n. Q n \<Longrightarrow> False) \<Longrightarrow> marks_only Q bits (Inr (s, bits))"
  by (auto simp: marks_only_def)

lemma struct_decoderI:
  assumes "\<And>k d s bits. length bits = length masks \<Longrightarrow>
      marks_only (\<lambda>n. required_bit masks n \<and> k = names ! n) bits (f k d (s, bits))"
    and "\<And>n. required_bit masks n \<Longrightarrow> n < length names"
  shows "struct_decoder masks names f"
proof
  fix k d s bits s' bits'
  assume "f k d (s, bits) = Inr (s', bits')" and l: "length bits = length masks"
  then show "length bits' = length masks \<and>
      (\<forall>n. required_bit bits' n \<longleftrightarrow> required_bit bits n \<or> required_bit masks n \<and> k = names ! n)"
    using assms(1) [OF l, of k d s] by (simp add: marks_only_def)
qed (rule assms(2))

interpretation create_request: struct_decoder "[3]"
    "[''hull_uuid'', ''engine_uuid'', ''shield_uuid'', ''weapon_uuid'']"
    "CreateOrderRequest_field J" for J
  by (rule struct_decoderI, unfold CreateOrderRequest_field_def, intro marks_intros) (auto simp: required_two)

interpretation create_response: struct_decoder "[3]"
    "[''order_uuid'', ''total_price'']"
    "CreateOrderResponse_field J" for J
  by (rule struct_decoderI, unfold CreateOrderResponse_field_def, intro marks_intros) (auto simp: required_two)

interpretation api_error: struct_decoder "[3]"
    "[''code'', ''message'']"
    "ApiError_field J" for J
  by (rule struct_decoderI, unfold ApiError_field_def, intro marks_intros) (auto simp: required_two)

interpretation pay_request: struct_decoder "[1]"
    "[''payment_method'']"
    "PayOrderRequest_field J" for J
  by (rule struct_decoderI, unfold PayOrderRequest_field_def, intro marks_intros) (auto simp: required_one)

interpretation pay_response: struct_decoder "[1]"
    "[''transaction_uuid'']"
    "PayOrderResponse_field J" for J
  by (rule struct_decoderI, unfold PayOrderResponse_field_def, intro marks_intros) (auto simp: required_one)

interpretation order_dto: struct_decoder "[79, 6]"
    "[''order_uuid'', ''user_uuid'', ''hull_uuid'', ''engine_uuid'', ''shield_uuid'', ''weapon_uuid'', ''total_price'', ''transaction_uuid'', ''payment_method'', ''status'', ''created_at'']"
    "OrderDto_field J" for J
  by (rule struct_decoderI, unfold OrderDto_field_def, intro marks_intros) (auto simp: required_dto)

lemma missing_lists:
  "create_request.missing kvs = filter (\<lambda>k. k \<notin> fst ` set kvs) [''hull_uuid'', ''engine_uuid'']"
  "pay_request.missing kvs = filter (\<lambda>k. k \<notin> fst ` set kvs) [''payment_method'']"
  "order_dto.missing kvs = filter (\<lambda>k. k \<notin> fst ` set kvs)
    [''order_uuid'', ''user_uuid'', ''hull_uuid'', ''engine_uuid'', ''total_price'', ''status'', ''created_at'']"
  by (simp_all add: create_request.missing_def pay_request.missing_def order_dto.missing_def upt_rec
    required_two required_one required_dto)

subsection \<open>Properties of the codecs\<close>

text \<open>
  C18. Decoding a request or an order reports exactly what is missing: unless a field fails to decode,
  the answer is the decoded struct when every required key occurs in the object, and otherwise the list
  of the required keys that do not occur, in the order of the schema, whatever optional, unknown or
  repeated keys there are.
\<close>

theorem missing_fields_reported:
  "CreateOrderRequest_Decode J (JObj kvs) =
     (case each_entry (CreateOrderRequest_field J) kvs (CreateOrderRequest_zero, [0]) of
        Inl e \<Rightarrow> Inl (DecodeStruct ''CreateOrderRequest'' e)
      | Inr (s, bits) \<Rightarrow>
          let absent = filter (\<lambda>k. k \<notin> fst ` set kvs) [''hull_uuid'', ''engine_uuid'']
          in if absent = [] then Inr s else Inl (FieldsRequired absent))
   \<and> PayOrderRequest_Decode J (JObj kvs) =
     (case each_entry (PayOrderRequest_field J) kvs (\<lparr>pq_PaymentMethod = ''''\<rparr>, [0]) of
        Inl e \<Rightarrow> Inl (DecodeStruct ''PayOrderRequest'' e)
      | Inr (s, bits) \<Rightarrow>
          let absent = filter (\<lambda>k. k \<notin> fst ` set kvs) [''payment_method'']
          in if absent = [] then Inr s else Inl (FieldsRequired absent))
   \<and> OrderDto_Decode J t (JObj kvs) =
     (case each_entry (OrderDto_field J) kvs (OrderDto_zero t, [0, 0]) of
        Inl e \<Rightarrow> Inl (DecodeStruct ''OrderDto'' e)
      | Inr (s, bits) \<Rightarrow>
          let absent = filter (\<lambda>k. k \<notin> fst ` set kvs)
            [''order_uuid'', ''user_uuid'', ''hull_uuid'', ''engine_uuid'', ''total_price'', ''status'', ''created_at'']
          in if absent = [] then Inr s else Inl (FieldsRequired absent))"
  using missing_lists [of kvs]
  unfolding CreateOrderRequest_Decode_def PayOrderRequest_Decode_def OrderDto_Decode_def Let_def
  by (simp only: create_request.decode_eq pay_request.decode_eq order_dto.decode_eq list.map)

subsection \<open>Round trips\<close>

definition opt_wf :: "'a \<Rightarrow> 'a OptNil \<Rightarrow> bool" where
  "opt_wf zero x \<longleftrightarrow> x = OptNil_Reset zero \<or> x = OptNil_SetToNull zero \<or> (\<exists>v. x = NewOptNil v)"

lemmas opt_defs = OptNil_Reset_def OptNil_SetToNull_def NewOptNil_def

lemma jx_rules:
  assumes "jx_lib_ok J"
  shows "jx_DecodeUUID J (jx_EncodeUUID J u) = Some u" "jx_EncodeUUID J u \<noteq> JNull"
    "in64 n \<Longrightarrow> jx_Int64 J (jx_PutInt64 J n) = Some n"
    "jx_StrBytes J (jx_PutStr J s) = Some s" "jx_PutStr J s \<noteq> JNull"
    "jx_DecodeDateTime J (jx_EncodeDateTime J t) = Some (jx_Rounded J t)"
  using assms by (simp_all add: jx_lib_ok_def)

lemma each_entry_append:
  "each_entry f (xs @ ys) st = (case each_entry f xs st of Inl e \<Rightarrow> Inl e | Inr st' \<Rightarrow> each_entry f ys st')"
proof (induction xs arbitrary: st)
  case (Cons kv xs)
  then show ?case by (cases kv) (auto split: sum.splits)
qed simp

lemma OptNilUUID_roundtrip:
  "jx_lib_ok J \<Longrightarrow> opt_wf uuid_Nil x \<Longrightarrow> OptNilUUID_Encode J x = Some j \<Longrightarrow> OptNilUUID_Decode J j = Inr x"
  by (auto simp: opt_wf_def opt_defs OptNilUUID_Encode_def OptNilUUID_Decode_def jx_rules need_def split: if_splits)

lemma OptNilPaymentMethod_roundtrip:
  "jx_lib_ok J \<Longrightarrow> opt_wf '''' x \<Longrightarrow> OptNilPaymentMethod_Encode J x = Some j \<Longrightarrow> OptNilPaymentMethod_Decode J j = Inr x"
  by (auto simp: opt_wf_def opt_defs OptNilPaymentMethod_Encode_def OptNilPaymentMethod_Decode_def
      PaymentMethod_Decode_def jx_rules need_def split: if_splits)

lemma each_opt_uuid:
  assumes "jx_lib_ok J" "opt_wf uuid_Nil x" and "\<And>d st. f k d st = field k (OptNilUUID_Decode J d) put st"
  shows "each_entry f (opt_entry k (OptNilUUID_Encode J x)) st = Inr (if on_Set x then put x (fst st) else fst st, snd st)"
proof (cases "OptNilUUID_Encode J x")
  case None
  then show ?thesis by (auto simp: opt_entry_def OptNilUUID_Encode_def split: if_splits)
next
  case (Some j)
  then have "on_Set x" by (auto simp: OptNilUUID_Encode_def split: if_splits)
  then show ?thesis
    using OptNilUUID_roundtrip [OF assms(1,2) Some] Some by (simp add: opt_entry_def assms(3) field_def)
qed

lemma each_opt_method:
  assumes "jx_lib_ok J" "opt_wf '''' x" and "\<And>d st. f k d st = field k (OptNilPaymentMethod_Decode J d) put st"
  shows "each_entry f (opt_entry k (OptNilPaymentMethod_Encode J x)) st
    = Inr (if on_Set x then put x (fst st) else fst st, snd st)"
proof (cases "OptNilPaymentMethod_Encode J x")
  case None
  then show ?thesis by (auto simp: opt_entry_def OptNilPaymentMethod_Encode_def split: if_splits)
next
  case (Some j)
  then have "on_Set x" by (auto simp: OptNilPaymentMethod_Encode_def split: if_splits)
  then show ?thesis
    using OptNilPaymentMethod_roundtrip [OF assms(1,2) Some] Some by (simp add: opt_entry_def assms(3) field_def)
qed

lemma opt_unset: "opt_wf zero x \<Longrightarrow> \<not> on_Set x \<Longrightarrow> OptNil_Reset zero = x"
  by (auto simp: opt_wf_def opt_defs)

lemma create_request_roundtrip:
  assumes J: "jx_lib_ok J" and wf: "opt_wf uuid_Nil (cr_ShieldUUID r)" "opt_wf uuid_Nil (cr_WeaponUUID r)"
  shows "CreateOrderRequest_Decode J (CreateOrderRequest_Encode J r) = Inr r"
proof -
  have shield: "each_entry (CreateOrderRequest_field J) (opt_entry ''shield_uuid'' (OptNilUUID_Encode J (cr_ShieldUUID r))) st
      = Inr (if on_Set (cr_ShieldUUID r) then (fst st)\<lparr>cr_ShieldUUID := cr_ShieldUUID r\<rparr> else fst st, snd st)" for st
    by (rule each_opt_uuid [OF J wf(1)]) (simp add: CreateOrderRequest_field_def)
  have weapon: "each_entry (CreateOrderRequest_field J) (opt_entry ''weapon_uuid'' (OptNilUUID_Encode J (cr_WeaponUUID r))) st
      = Inr (if on_Set (cr_WeaponUUID r) then (fst st)\<lparr>cr_WeaponUUID := cr_WeaponUUID r\<rparr> else fst st, snd st)" for st
    by (rule each_opt_uuid [OF J wf(2)]) (simp add: CreateOrderRequest_field_def)
  show ?thesis
    using opt_unset [OF wf(1)] opt_unset [OF wf(2)]
    by (auto simp: CreateOrderRequest_Decode_def decode_struct_def CreateOrderRequest_Encode_def ObjBytes_def
      each_entry_append shield weapon CreateOrderRequest_field_def field_def need_def set_required_def
      CreateOrderRequest_zero_def jx_rules [OF J])
qed

lemma small_roundtrips:
  assumes J: "jx_lib_ok J"
  shows "in64 (co_TotalPrice c) \<Longrightarrow> CreateOrderResponse_Decode J (CreateOrderResponse_Encode J c) = Inr c"
    and "in64 (ae_Code e) \<Longrightarrow> ApiError_Decode J (ApiError_Encode J e) = Inr e"
    and "PayOrderRequest_Decode J (PayOrderRequest_Encode J q) = Inr q"
    and "PayOrderResponse_Decode J (PayOrderResponse_Encode J p) = Inr p"
    and "CancelOrderResponse_Decode CancelOrderResponse_Encode = Inr ()"
  by (auto simp: CreateOrderResponse_Decode_def CreateOrderResponse_Encode_def CreateOrderResponse_field_def
    ApiError_Decode_def ApiError_Encode_def ApiError_field_def PayOrderRequest_Decode_def PayOrderRequest_Encode_def
    PayOrderRequest_field_def PaymentMethod_Decode_def PayOrderResponse_Decode_def PayOrderResponse_Encode_def
    PayOrderResponse_field_def CancelOrderResponse_Decode_def CancelOrderResponse_Encode_def
    decode_struct_def ObjBytes_def field_def need_def set_required_def jx_rules [OF J])

definition dto_wf :: "OrderDto \<Rightarrow> bool" where
  "dto_wf d \<longleftrightarrow> opt_wf uuid_Nil (dto_ShieldUUID d) \<and> opt_wf uuid_Nil (dto_WeaponUUID d)
     \<and> opt_wf uuid_Nil (dto_TransactionUUID d) \<and> opt_wf '''' (dto_PaymentMethod d) \<and> in64 (dto_TotalPrice d)"

lemma OrderStatus_roundtrip: "jx_lib_ok J \<Longrightarrow> OrderStatus_Decode J (jx_PutStr J s) = Inr s"
  by (simp add: OrderStatus_Decode_def need_def jx_rules)

lemma dto_roundtrip:
  assumes J: "jx_lib_ok J" and wf: "dto_wf d"
  shows "OrderDto_Decode J t (OrderDto_Encode J d) = Inr (d\<lparr>dto_CreatedAt := jx_Rounded J (dto_CreatedAt d)\<rparr>)"
proof -
  note w = wf [unfolded dto_wf_def]
  have shield: "each_entry (OrderDto_field J) (opt_entry ''shield_uuid'' (OptNilUUID_Encode J (dto_ShieldUUID d))) st
      = Inr (if on_Set (dto_ShieldUUID d) then (fst st)\<lparr>dto_ShieldUUID := dto_ShieldUUID d\<rparr> else fst st, snd st)" for st
    by (rule each_opt_uuid [OF J]) (simp_all add: w OrderDto_field_def)
  have weapon: "each_entry (OrderDto_field J) (opt_entry ''weapon_uuid'' (OptNilUUID_Encode J (dto_WeaponUUID d))) st
      = Inr (if on_Set (dto_WeaponUUID d) then (fst st)\<lparr>dto_WeaponUUID := dto_WeaponUUID d\<rparr> else fst st, snd st)" for st
    by (rule each_opt_uuid [OF J]) (simp_all add: w OrderDto_field_def)
  have transaction: "each_entry (OrderDto_field J)
        (opt_entry ''transaction_uuid'' (OptNilUUID_Encode J (dto_TransactionUUID d))) st
      = Inr (if on_Set (dto_TransactionUUID d) then (fst st)\<lparr>dto_TransactionUUID := dto_TransactionUUID d\<rparr> else fst st,
             snd st)" for st
    by (rule each_opt_uuid [OF J]) (simp_all add: w OrderDto_field_def)
  have paymeth: "each_entry (OrderDto_field J)
        (opt_entry ''payment_method'' (OptNilPaymentMethod_Encode J (dto_PaymentMethod d))) st
      = Inr (if on_Set (dto_PaymentMethod d) then (fst st)\<lparr>dto_PaymentMethod := dto_PaymentMethod d\<rparr> else fst st,
             snd st)" for st
    by (rule each_opt_method [OF J]) (simp_all add: w OrderDto_field_def)
  have unset: "\<not> on_Set (dto_ShieldUUID d) \<Longrightarrow> OptNil_Reset uuid_Nil = dto_ShieldUUID d"
    "\<not> on_Set (dto_WeaponUUID d) \<Longrightarrow> OptNil_Reset uuid_Nil = dto_WeaponUUID d"
    "\<not> on_Set (dto_TransactionUUID d) \<Longrightarrow> OptNil_Reset uuid_Nil = dto_TransactionUUID d"
    "\<not> on_Set (dto_PaymentMethod d) \<Longrightarrow> OptNil_Reset '''' = dto_PaymentMethod d"
    using w by (auto intro: opt_unset)
  have entries: "\<exists>bits. each_entry (OrderDto_field J) (case OrderDto_Encode J d of JObj kvs \<Rightarrow> kvs) (OrderDto_zero t, [0, 0])
      = Inr (d\<lparr>dto_CreatedAt := jx_Rounded J (dto_CreatedAt d)\<rparr>, bits)"
    using unset w
    by (auto simp: OrderDto_Encode_def each_entry_append shield weapon transaction paymeth OrderDto_field_def
      field_def need_def set_required_def OrderDto_zero_def OrderStatus_roundtrip [OF J] jx_rules [OF J])
  obtain kvs where kvs: "OrderDto_Encode J d = JObj kvs"
    "{''order_uuid'', ''user_uuid'', ''hull_uuid'', ''engine_uuid'', ''total_price'', ''status'', ''created_at''} \<subseteq> fst ` set kvs"
    by (auto simp: OrderDto_Encode_def)
  have "order_dto.missing kvs = []" using kvs(2) by (auto simp: missing_lists)
  then show ?thesis
    using entries by (auto simp: kvs(1) OrderDto_Decode_def order_dto.decode_eq)
qed

text \<open>
  What one side of the API writes the other side reads back unchanged: requests, responses and
  errors survive encoding and decoding, with set, null and absent optional fields kept apart; of an
  order only the instant of creation is cut to the precision of the time format.
\<close>

lemma json_roundtrip:
  assumes "jx_lib_ok J"
  shows "(opt_wf uuid_Nil (cr_ShieldUUID r) \<and> opt_wf uuid_Nil (cr_WeaponUUID r) \<longrightarrow>
      CreateOrderRequest_Decode J (CreateOrderRequest_Encode J r) = Inr r)
    \<and> PayOrderRequest_Decode J (PayOrderRequest_Encode J q) = Inr q
    \<and> (in64 (co_TotalPrice c) \<longrightarrow> CreateOrderResponse_Decode J (CreateOrderResponse_Encode J c) = Inr c)
    \<and> PayOrderResponse_Decode J (PayOrderResponse_Encode J p) = Inr p
    \<and> (in64 (ae_Code e) \<longrightarrow> ApiError_Decode J (ApiError_Encode J e) = Inr e)
    \<and> (dto_wf d \<longrightarrow> OrderDto_Decode J t (OrderDto_Encode J d)
          = Inr (d\<lparr>dto_CreatedAt := jx_Rounded J (dto_CreatedAt d)\<rparr>))"
  using create_request_roundtrip [OF assms] small_roundtrips [OF assms] dto_roundtrip [OF assms] by blast

text \<open>A library for the witnesses.\<close>

definition plain_jx :: jx_lib where
  "plain_jx =
    \<lparr>jx_EncodeUUID = (\<lambda>u. JStr (uuid_String unary_uuid_lib u)),
     jx_DecodeUUID = (\<lambda>j. case j of JStr s \<Rightarrow> uuid_Parse unary_uuid_lib s | _ \<Rightarrow> None),
     jx_PutInt64 = JInt, jx_Int64 = (\<lambda>j. case j of JInt n \<Rightarrow> if in64 n then Some n else None | _ \<Rightarrow> None),
     jx_PutStr = JStr, jx_StrBytes = (\<lambda>j. case j of JStr s \<Rightarrow> Some s | _ \<Rightarrow> None),
     jx_EncodeDateTime = JInt, jx_DecodeDateTime = (\<lambda>j. case j of JInt n \<Rightarrow> Some n | _ \<Rightarrow> None),
     jx_Rounded = (\<lambda>t. t)\<rparr>"

lemma plain_jx_ok: "jx_lib_ok plain_jx"
  using unary_uuid_lib_ok by (auto simp: jx_lib_ok_def plain_jx_def uuid_lib_ok_def)

end
