(* ===== verification/Order_Api.thy ===== *)
theory Order_Api
  imports Order_Properties Order_Clients OpenApi_Json
begin

text \<open>
  The HTTP surface of the order service: converters and handlers (\<open>order/internal/api\<close>), the
  mapping of errors to status codes, the authentication middleware
  (\<open>order/internal/middleware/auth.go\<close>), the rate limiter and the trace middleware of the
  platform, and the chain that \<open>initHTTPServer\<close> builds. The generated router is the
  \<open>next\<close> handler of the chain (theory \<open>OpenApi_Server\<close>).
\<close>

subsection \<open>Converters\<close>

definition OrderStatusFromModelToApi :: "OrderStatus \<Rightarrow> string" where
  "OrderStatusFromModelToApi st =
     (if st = OrderStatusPendingPayment then ''PENDING_PAYMENT''
      else if st = OrderStatusPaid then ''PAID''
      else if st = OrderStatusCancelled then ''CANCELLED''
      else if st = OrderStatusAssembled then ''ASSEMBLED''
      else '''')"

definition PaymentMethodFromModelToApi :: "PaymentMethod option \<Rightarrow> string option" where
  "PaymentMethodFromModelToApi m = (case m of
       None \<Rightarrow> None
     | Some pm \<Rightarrow>
         if pm = PaymentMethodCard then Some ''CARD''
         else if pm = PaymentMethodSBP then Some ''SBP''
         else if pm = PaymentMethodCreditCard then Some ''CREDIT_CARD''
         else if pm = PaymentMethodInvestorMoney then Some ''INVESTOR_MONEY''
         else None)"

definition PaymentMethodFromApiToModel :: "string \<Rightarrow> PaymentMethod" where
  "PaymentMethodFromApiToModel pm =
     (if pm = ''CARD'' then PaymentMethodCard
      else if pm = ''SBP'' then PaymentMethodSBP
      else if pm = ''CREDIT_CARD'' then PaymentMethodCreditCard
      else if pm = ''INVESTOR_MONEY'' then PaymentMethodInvestorMoney
      else PaymentMethodUnspecified)"

definition OptNilUUIDFromPtr :: "uuid option \<Rightarrow> uuid OptNil" where
  "OptNilUUIDFromPtr u = (case u of None \<Rightarrow> OptNil_Reset uuid_Nil | Some v \<Rightarrow> NewOptNil v)"

definition OptNilPaymentMethodFromPtr :: "PaymentMethod option \<Rightarrow> string OptNil" where
  "OptNilPaymentMethodFromPtr pm =
     (case PaymentMethodFromModelToApi pm of None \<Rightarrow> OptNil_Reset '''' | Some a \<Rightarrow> NewOptNil a)"

subsection \<open>Handlers\<close>

definition getOrderItemByType :: "OrderItem list \<Rightarrow> OrderParts" where
  "getOrderItemByType items = foldl (\<lambda>parts item.
       if oi_PartType item = ''HULL'' then parts\<lparr>in_HullUUID := oi_UUID item\<rparr>
       else if oi_PartType item = ''ENGINE'' then parts\<lparr>in_EngineUUID := oi_UUID item\<rparr>
       else if oi_PartType item = ''SHIELD'' then parts\<lparr>in_ShieldUUID := Some (oi_UUID item)\<rparr>
       else if oi_PartType item = ''WEAPON'' then parts\<lparr>in_WeaponUUID := Some (oi_UUID item)\<rparr>
       else parts)
     \<lparr>in_HullUUID = uuid_Nil, in_EngineUUID = uuid_Nil, in_ShieldUUID = None, in_WeaponUUID = None\<rparr> items"

definition order_dto :: "Order \<Rightarrow> OrderDto" where
  "order_dto order =
     (let orderParts = getOrderItemByType (o_Items order)
      in \<lparr>dto_OrderUUID = o_UUID order, dto_UserUUID = o_UserUUID order,
          dto_HullUUID = in_HullUUID orderParts, dto_EngineUUID = in_EngineUUID orderParts,
          dto_ShieldUUID = OptNilUUIDFromPtr (in_ShieldUUID orderParts),
          dto_WeaponUUID = OptNilUUIDFromPtr (in_WeaponUUID orderParts),
          dto_TotalPrice = Order_TotalPrice order,
          dto_TransactionUUID = OptNilUUIDFromPtr (o_TransactionUUID order),
          dto_PaymentMethod = OptNilPaymentMethodFromPtr (o_PaymentMethod order),
          dto_Status = OrderStatusFromModelToApi (o_Status order), dto_CreatedAt = o_CreatedAt order\<rparr>)"

definition OrderApi_GetOrder :: "'w order_service \<Rightarrow> uuid \<Rightarrow> ('w, GetOrderRes, order_error) act" where
  "OrderApi_GetOrder s orderUUID = (\<lambda>w. case OrderService_Get s orderUUID w of
       (Err err, w') \<Rightarrow>
         (if errors_Is err ErrOrderNotFound
          then Ret (GetOrderNotFound \<lparr>ae_Code = 404, ae_Message = ''order not found''\<rparr>)
          else Ret (GetOrderInternalServerError \<lparr>ae_Code = 500, ae_Message = ''something went wrong''\<rparr>), w')
     | (Ret order, w') \<Rightarrow> (Ret (GetOrderDto (order_dto order)), w')
     | (Panic p, w') \<Rightarrow> (Panic p, w'))"

definition OrderApi_CreateOrder ::
    "'w order_service \<Rightarrow> ctx \<Rightarrow> uuid \<Rightarrow> time \<Rightarrow> CreateOrderRequest \<Rightarrow> ('w, CreateOrderRes, order_error) act" where
  "OrderApi_CreateOrder s c newUUID now req =
     bindA (OrderService_Create s c newUUID now
       \<lparr>in_HullUUID = cr_HullUUID req, in_EngineUUID = cr_EngineUUID req,
        in_ShieldUUID = OptNil_Get (cr_ShieldUUID req), in_WeaponUUID = OptNil_Get (cr_WeaponUUID req)\<rparr>) (\<lambda>order.
     ret (CreateOrderOK \<lparr>co_OrderUUID = o_UUID order, co_TotalPrice = Order_TotalPrice order\<rparr>))"

definition OrderApi_PayOrder ::
    "'w order_service \<Rightarrow> uuid_lib \<Rightarrow> ctx \<Rightarrow> PayOrderRequest \<Rightarrow> uuid \<Rightarrow> ('w, PayOrderRes, order_error) act" where
  "OrderApi_PayOrder s U c req orderUUID =
     (let paymentMethod = PaymentMethodFromApiToModel (pq_PaymentMethod req)
      in bindA (OrderService_Pay s U c orderUUID paymentMethod) (\<lambda>txUuid.
         ret (PayOrderOK \<lparr>po_TransactionUUID = txUuid\<rparr>)))"

definition OrderApi_CancelOrder :: "'w order_service \<Rightarrow> ctx \<Rightarrow> uuid \<Rightarrow> ('w, CancelOrderRes, order_error) act" where
  "OrderApi_CancelOrder s c orderUUID = bindA (OrderService_Cancel s c orderUUID) (\<lambda>_. ret CancelOrderOK)"

subsection \<open>Errors as status codes\<close>

text \<open>\<open>errors.As\<close> with the two decoding errors of the generated server is a test for them.\<close>

definition order_mapError :: "order_error err \<Rightarrow> int" where
  "order_mapError err =
     (if errors_Is_ext err DecodeParamsError \<or> errors_Is_ext err DecodeRequestError then 400
      else if errors_Is err ErrOrderNotFound \<or> errors_Is err ErrPartNotFound then 404
      else if errors_Is err ErrUnauthorized then 401
      else if errors_Is err ErrInvalidOrderStatus \<or> errors_Is err ErrIncompatibleParts
              \<or> errors_Is err ErrOutOfStock then 409
      else if errors_Is err ErrInvalidUUID \<or> errors_Is err ErrPaymentFailed
              \<or> errors_Is err ErrPartTypeMismatch \<or> errors_Is err ErrInvalidPaymentMethod then 400
      else 500)"

subsection \<open>Middleware\<close>

text \<open>
  A request as the handlers read it: method, decoded and raw path, the headers they look at, the
  announced length of the body (-1 when unknown), the body (\<open>None\<close> when reading it fails) and the
  context.
\<close>

record http_req =
  hq_method :: string
  hq_path :: string
  hq_rawPath :: string
  hq_authorization :: string
  hq_contentType :: string
  hq_requestMethod :: string
  hq_contentLength :: int
  hq_body :: "string option"
  hq_ctx :: ctx

record http_resp =
  hp_code :: int
  hp_headers :: "(string \<times> string) list"
  hp_body :: string

type_synonym 'w http_handler = "http_req \<Rightarrow> ('w, http_resp, order_error) act"

text \<open>
  The text of an error and the text form of JSON (\<open>encoding/json\<close>, with its final line break) are
  parameters.
\<close>

definition ErrorHandler ::
    "(json \<Rightarrow> string) \<Rightarrow> (order_error err \<Rightarrow> string) \<Rightarrow> order_error err \<Rightarrow> http_resp" where
  "ErrorHandler enc render err =
     (let code = order_mapError err; message = (if code = 500 then ''internal error'' else render err)
      in \<lparr>hp_code = code, hp_headers = [(''Content-Type'', ''application/json'')],
          hp_body = enc (JObj [(''code'', JInt code), (''message'', JStr message)])\<rparr>)"

text \<open>\<open>http.Error\<close> of the standard library.\<close>

definition http_Error :: "int \<Rightarrow> string \<Rightarrow> http_resp" where
  "http_Error code msg =
     \<lparr>hp_code = code,
      hp_headers = [(''Content-Type'', ''text/plain; charset=utf-8''), (''X-Content-Type-Options'', ''nosniff'')],
      hp_body = msg @ [CHR 0x0A]\<rparr>"

definition has_prefix :: "string \<Rightarrow> string \<Rightarrow> bool" where
  "has_prefix s p \<longleftrightarrow> take (length p) s = p"

definition AuthMiddleware ::
    "uuid_lib \<Rightarrow> (ctx \<Rightarrow> uuid \<Rightarrow> ('w, uuid \<times> uuid, order_error) act) \<Rightarrow> 'w http_handler \<Rightarrow> 'w http_handler" where
  "AuthMiddleware U whoami next r =
     (if hq_authorization r = [] then ret (http_Error 401 ''Authorization header is missing'')
      else if \<not> has_prefix (hq_authorization r) ''Bearer ''
      then ret (http_Error 401 ''expected format: Bearer <token>'')
      else
        (let token = drop 7 (hq_authorization r)
         in if token = [] then ret (http_Error 401 ''token is empty'')
            else case uuid_Parse U token of
                None \<Rightarrow> ret (http_Error 401 ''token has an invalid format'')
              | Some sessionUUID \<Rightarrow> (\<lambda>w. case whoami (hq_ctx r) sessionUUID w of
                    (Err e, w') \<Rightarrow> (Ret (http_Error 401 ''session is not valid''), w')
                  | (Panic p, w') \<Rightarrow> (Panic p, w')
                  | (Ret (userUUID, sessionUUID'), w') \<Rightarrow>
                      next (r\<lparr>hq_ctx := WithSessionUUID (WithUserUUID (hq_ctx r) userUUID) sessionUUID'\<rparr>) w')))"

text \<open>
  The rate limiter of \<open>redis_rate\<close> is a parameter: it reports how many requests of a key it
  allowed, or fails.
\<close>

definition rate_limited :: http_resp where
  "rate_limited =
     \<lparr>hp_code = 429, hp_headers = [(''Content-Type'', ''text/plain; charset=utf-8'')],
      hp_body = ''request rate limit exceeded''\<rparr>"

definition RateLimitMiddleware ::
    "(string \<Rightarrow> ('w, int, order_error) act) \<Rightarrow> 'w http_handler \<Rightarrow> 'w http_handler" where
  "RateLimitMiddleware allow next r = (\<lambda>w. case allow (hq_path r) w of
       (Err e, w') \<Rightarrow> next r w'
     | (Panic p, w') \<Rightarrow> (Panic p, w')
     | (Ret allowed, w') \<Rightarrow>
         (if allowed = 0 then (Ret rate_limited, w') else next r w'))"

definition TraceIDMiddleware :: "(ctx \<Rightarrow> string) \<Rightarrow> 'w http_handler \<Rightarrow> 'w http_handler" where
  "TraceIDMiddleware traceID next r =
     (if traceID (hq_ctx r) \<noteq> []
      then bindA (next r) (\<lambda>resp. ret (resp\<lparr>hp_headers := (''X-Trace-ID'', traceID (hq_ctx r)) # hp_headers resp\<rparr>))
      else next r)"

text \<open>The chain of \<open>initHTTPServer\<close> below the telemetry layer, outermost first.\<close>

definition order_http_chain ::
    "uuid_lib \<Rightarrow> (string \<Rightarrow> ('w, int, order_error) act) \<Rightarrow> (ctx \<Rightarrow> string)
      \<Rightarrow> (ctx \<Rightarrow> uuid \<Rightarrow> ('w, uuid \<times> uuid, order_error) act) \<Rightarrow> 'w http_handler \<Rightarrow> 'w http_handler" where
  "order_http_chain U allow traceID whoami router =
     RateLimitMiddleware allow (TraceIDMiddleware traceID (AuthMiddleware U whoami router))"

subsection \<open>Helper lemmas\<close>

definition item_entry :: "OrderItem \<Rightarrow> OrderPartType \<times> uuid" where
  "item_entry i = (oi_PartType i, oi_UUID i)"

lemma getOrderItemByType_map_of:
  "getOrderItemByType items =
     (let m = map_of (rev (map item_entry items))
      in \<lparr>in_HullUUID = (case m ''HULL'' of None \<Rightarrow> uuid_Nil | Some u \<Rightarrow> u),
          in_EngineUUID = (case m ''ENGINE'' of None \<Rightarrow> uuid_Nil | Some u \<Rightarrow> u),
          in_ShieldUUID = m ''SHIELD'', in_WeaponUUID = m ''WEAPON''\<rparr>)"
proof (induction items rule: rev_induct)
  case (snoc x xs)
  then show ?case
    by (auto simp: getOrderItemByType_def item_entry_def Let_def)
qed (simp add: getOrderItemByType_def)

lemma getOrderItemByType_mset:
  assumes "mset items = mset items'" "distinct (map oi_PartType items)"
  shows "getOrderItemByType items = getOrderItemByType items'"
proof -
  have keys: "map fst (rev (map item_entry xs)) = rev (map oi_PartType xs)" for xs
    by (simp add: item_entry_def comp_def rev_map)
  have "distinct (map oi_PartType items')"
    using assms by (metis mset_eq_imp_distinct_iff mset_map)
  then have "map_of (rev (map item_entry items)) = map_of (rev (map item_entry items'))"
    using assms mset_eq_setD [OF assms(1)] by (subst map_of_inject_set) (simp_all only: keys distinct_rev, simp)
  then show ?thesis by (simp add: getOrderItemByType_map_of)
qed

lemma TotalPrice_mset:
  "mset (o_Items a) = mset (o_Items b) \<Longrightarrow> Order_TotalPrice a = Order_TotalPrice b"
  by (simp add: TotalPrice_wrapped_sum) (metis mset_map sum_mset_sum_list)

text \<open>The session of a request: what follows \<open>Bearer\<close>, when it parses.\<close>

definition bearer_session :: "uuid_lib \<Rightarrow> http_req \<Rightarrow> uuid option" where
  "bearer_session U r =
     (if has_prefix (hq_authorization r) ''Bearer '' then uuid_Parse U (drop 7 (hq_authorization r)) else None)"

lemma AuthMiddleware_session:
  assumes "uuid_lib_ok U"
  shows "(bearer_session U r = None \<longrightarrow> (\<exists>msg. AuthMiddleware U whoami next r w = (Ret (http_Error 401 msg), w)))
    \<and> (\<forall>s. bearer_session U r = Some s \<longrightarrow> AuthMiddleware U whoami next r w =
        (case whoami (hq_ctx r) s w of
           (Err e, w') \<Rightarrow> (Ret (http_Error 401 ''session is not valid''), w')
         | (Panic p, w') \<Rightarrow> (Panic p, w')
         | (Ret (u, s'), w') \<Rightarrow> next (r\<lparr>hq_ctx := WithSessionUUID (WithUserUUID (hq_ctx r) u) s'\<rparr>) w'))"
proof -
  have "uuid_Parse U [] = None" using assms by (simp add: uuid_lib_ok_def)
  moreover have "\<not> has_prefix [] ''Bearer ''" by (simp add: has_prefix_def)
  ultimately show ?thesis
    by (auto simp: AuthMiddleware_def bearer_session_def Let_def split: option.splits if_splits)
qed

text \<open>The trace header on a response.\<close>

definition tag_trace :: "(ctx \<Rightarrow> string) \<Rightarrow> http_req \<Rightarrow> http_resp \<Rightarrow> http_resp" where
  "tag_trace traceID r resp =
     (if traceID (hq_ctx r) \<noteq> []
      then resp\<lparr>hp_headers := (''X-Trace-ID'', traceID (hq_ctx r)) # hp_headers resp\<rparr> else resp)"

lemma TraceIDMiddleware_tag:
  "TraceIDMiddleware traceID next r w = bindA (next r) (\<lambda>resp. ret (tag_trace traceID r resp)) w"
  by (simp add: TraceIDMiddleware_def tag_trace_def bindA_app split: prod.splits res.splits)

subsection \<open>Properties\<close>

text \<open>
  The HTTP status of a failed order request depends on the innermost error alone: 404 for an
  unknown order or part, 401 without a session, 409 for a wrong status, incompatible or exhausted
  parts, 400 for malformed input and refused payments, and 500 with a fixed text for anything else,
  so no internal error text leaves the service.
\<close>

lemma order_error_table:
  "ErrorHandler enc render err =
     (let code = (case cause err of
          Sent ErrOrderNotFound \<Rightarrow> 404 | Sent ErrPartNotFound \<Rightarrow> 404
        | Sent ErrUnauthorized \<Rightarrow> 401
        | Sent ErrInvalidOrderStatus \<Rightarrow> 409 | Sent ErrIncompatibleParts \<Rightarrow> 409 | Sent ErrOutOfStock \<Rightarrow> 409
        | Sent ErrInvalidUUID \<Rightarrow> 400 | Sent ErrPaymentFailed \<Rightarrow> 400 | Sent ErrPartTypeMismatch \<Rightarrow> 400
        | Sent ErrInvalidPaymentMethod \<Rightarrow> 400
        | Ext DecodeParamsError \<Rightarrow> 400 | Ext DecodeRequestError \<Rightarrow> 400
        | _ \<Rightarrow> 500)
      in \<lparr>hp_code = code, hp_headers = [(''Content-Type'', ''application/json'')],
          hp_body = enc (JObj [(''code'', JInt code),
            (''message'', JStr (if code = 500 then ''internal error'' else render err))])\<rparr>)"
  by (auto simp: ErrorHandler_def order_mapError_def errors_Is_cause errors_Is_ext_cause Let_def
        split: err.splits order_error.splits ext_error.splits)

text \<open>
  C25. The front door of the order service: a request that the limiter refuses is answered 429; a
  limiter that cannot be reached lets every request through; behind it, a request without a parsable
  bearer session, or whose session the IAM service does not confirm, is answered 401 and never reaches
  the router; the router sees the user and the session that were confirmed.
\<close>

theorem http_front_door:
  assumes "uuid_lib_ok U"
  shows "case allow (hq_path r) w of
      (Panic p, w1) \<Rightarrow> order_http_chain U allow traceID whoami router r w = (Panic p, w1)
    | (l, w1) \<Rightarrow>
        if l = Ret 0
        then order_http_chain U allow traceID whoami router r w = (Ret rate_limited, w1)
        else (case bearer_session U r of
            None \<Rightarrow> (\<exists>msg. order_http_chain U allow traceID whoami router r w
              = (Ret (tag_trace traceID r (http_Error 401 msg)), w1))
          | Some s \<Rightarrow> order_http_chain U allow traceID whoami router r w = (case whoami (hq_ctx r) s w1 of
                (Err e, w2) \<Rightarrow> (Ret (tag_trace traceID r (http_Error 401 ''session is not valid'')), w2)
              | (Panic p, w2) \<Rightarrow> (Panic p, w2)
              | (Ret (u, s'), w2) \<Rightarrow>
                  bindA (router (r\<lparr>hq_ctx := WithSessionUUID (WithUserUUID (hq_ctx r) u) s'\<rparr>))
                    (\<lambda>resp. ret (tag_trace traceID r resp)) w2))"
proof -
  obtain l w1 where al: "allow (hq_path r) w = (l, w1)" by fastforce
  note auth = AuthMiddleware_session [OF assms(1), of r whoami router w1]
  have chain: "order_http_chain U allow traceID whoami router r w =
      (if l = Ret 0 then (Ret rate_limited, w1)
       else bindA (AuthMiddleware U whoami router r) (\<lambda>resp. ret (tag_trace traceID r resp)) w1)"
    if "\<And>p. l \<noteq> Panic p"
    using al that by (cases l) (auto simp: order_http_chain_def RateLimitMiddleware_def TraceIDMiddleware_tag)
  show ?thesis
  proof (cases "\<exists>p. l = Panic p")
    case True
    then show ?thesis using al by (auto simp: order_http_chain_def RateLimitMiddleware_def)
  next
    case False
    with chain al show ?thesis
      by (cases "bearer_session U r"; cases l)
         (use auth in \<open>auto simp: bindA_app split: prod.split res.split\<close>)
  qed
qed

definition bearer_req :: "string \<Rightarrow> http_req" where
  "bearer_req a =
     \<lparr>hq_method = ''POST'', hq_path = ''/api/v1/orders'', hq_rawPath = [], hq_authorization = a,
      hq_contentType = ''application/json'', hq_requestMethod = [], hq_contentLength = -1, hq_body = Some [],
      hq_ctx = background_ctx\<rparr>"

theorem http_front_door_witness:
  "\<exists>msg. order_http_chain unary_uuid_lib (\<lambda>_. fail (Ext (Foreign ''redis down''))) (\<lambda>_. []) (\<lambda>_ _. ret (1, 2))
     (\<lambda>_. ret (http_Error 200 ''ok'')) (bearer_req ''Basic x'') (0::nat) = (Ret (http_Error 401 msg), 0)"
  using http_front_door [OF unary_uuid_lib_ok, where traceID = "\<lambda>_. []" and r = "bearer_req ''Basic x''"
      and allow = "\<lambda>_. fail (Ext (Foreign ''redis down''))" and w = "0::nat" and whoami = "\<lambda>_ _. ret (1, 2)"
      and router = "\<lambda>_. ret (http_Error 200 ''ok'')"]
  by (simp add: bearer_session_def bearer_req_def has_prefix_def tag_trace_def)

text \<open>
  The answer to \<open>GetOrder\<close> does not depend on the order in which the database happens to
  scan the items, as long as an order has at most one item per part type; the total price never
  depends on it.
\<close>

lemma order_dto_scan_independent:
  assumes "mset items = mset items'" "distinct (map oi_PartType items)"
  shows "order_dto (order\<lparr>o_Items := items\<rparr>) = order_dto (order\<lparr>o_Items := items'\<rparr>)"
  using getOrderItemByType_mset [OF assms]
    TotalPrice_mset [of "order\<lparr>o_Items := items\<rparr>" "order\<lparr>o_Items := items'\<rparr>"] assms(1)
  by (simp add: order_dto_def)

end
