(* ===== verification/Payment.thy ===== *)
theory Payment
  imports Platform_Auth Proto
begin

text \<open>
  The payment service (\<open>payment/internal\<close>): one stateless operation behind a gRPC handler and an
  error interceptor. The fresh transaction identifier is an argument.
\<close>

datatype pay_error = ErrPaymentMethodNotSpecified | ErrPayInvalidUUID

type_synonym PayMethod = string

abbreviation PayMethodUnspecified :: PayMethod where "PayMethodUnspecified \<equiv> ''unspecified''"
abbreviation PayMethodCard :: PayMethod where "PayMethodCard \<equiv> ''card''"
abbreviation PayMethodSBP :: PayMethod where "PayMethodSBP \<equiv> ''sbp''"
abbreviation PayMethodCreditCard :: PayMethod where "PayMethodCreditCard \<equiv> ''credit_card''"
abbreviation PayMethodInvestorMoney :: PayMethod where "PayMethodInvestorMoney \<equiv> ''investor_money''"

definition PaymentMethodModelToProto :: "PayMethod \<Rightarrow> PaymentMethodProto" where
  "PaymentMethodModelToProto pm =
     (if pm = PayMethodCard then PAYMENT_METHOD_CARD
      else if pm = PayMethodSBP then PAYMENT_METHOD_SBP
      else if pm = PayMethodCreditCard then PAYMENT_METHOD_CREDIT_CARD
      else if pm = PayMethodInvestorMoney then PAYMENT_METHOD_INVESTOR_MONEY
      else PAYMENT_METHOD_UNSPECIFIED)"

definition PaymentMethodProtoToModel :: "PaymentMethodProto \<Rightarrow> PayMethod" where
  "PaymentMethodProtoToModel pm =
     (if pm = PAYMENT_METHOD_CARD then PayMethodCard
      else if pm = PAYMENT_METHOD_SBP then PayMethodSBP
      else if pm = PAYMENT_METHOD_CREDIT_CARD then PayMethodCreditCard
      else if pm = PAYMENT_METHOD_INVESTOR_MONEY then PayMethodInvestorMoney
      else PayMethodUnspecified)"

definition PaymentService_PayOrder :: "uuid \<Rightarrow> uuid \<Rightarrow> PayMethod \<Rightarrow> (uuid, pay_error) res" where
  "PaymentService_PayOrder newUUID orderUuid paymentMethod =
     (if paymentMethod = PayMethodUnspecified then Err (Sent ErrPaymentMethodNotSpecified) else Ret newUUID)"

definition PaymentApi_PayOrder :: "uuid_lib \<Rightarrow> uuid \<Rightarrow> string \<Rightarrow> PaymentMethodProto \<Rightarrow> (string, pay_error) res" where
  "PaymentApi_PayOrder U newUUID orderUuid paymentMethod =
     (if orderUuid = [] then Err (Wrap ''order_uuid must not be empty'' (Sent ErrPayInvalidUUID))
      else case uuid_Parse U orderUuid of
          None \<Rightarrow> Err (Wrap ''invalid order_uuid format: %s'' (Sent ErrPayInvalidUUID))
        | Some parsedUuid \<Rightarrow>
            bindR (PaymentService_PayOrder newUUID parsedUuid (PaymentMethodProtoToModel paymentMethod))
              (\<lambda>txUuid. Ret (uuid_String U txUuid)))"

definition pay_error_code :: "pay_error err \<Rightarrow> pay_error err" where
  "pay_error_code err =
     (if errors_Is err ErrPaymentMethodNotSpecified \<or> errors_Is err ErrPayInvalidUUID
      then Status InvalidArgument else Status Internal)"

definition Payment_ErrorInterceptor :: "('r, pay_error) res \<Rightarrow> ('r, pay_error) res" where
  "Payment_ErrorInterceptor r = mapErr pay_error_code r"

lemma payment_methods_roundtrip:
  "pm \<in> {PayMethodCard, PayMethodSBP, PayMethodCreditCard, PayMethodInvestorMoney, PayMethodUnspecified} \<Longrightarrow>
     PaymentMethodProtoToModel (PaymentMethodModelToProto pm) = pm"
  by (auto simp: PaymentMethodProtoToModel_def PaymentMethodModelToProto_def)

text \<open>What the server answers: a fresh transaction for a parsable order and a known method.\<close>

lemma payment_answer:
  assumes "uuid_lib_ok U"
  shows "Payment_ErrorInterceptor (PaymentApi_PayOrder U newUUID (uuid_String U u) m) =
    (if m \<in> {PAYMENT_METHOD_CARD, PAYMENT_METHOD_SBP, PAYMENT_METHOD_CREDIT_CARD, PAYMENT_METHOD_INVESTOR_MONEY}
     then Ret (uuid_String U newUUID) else Err (Status InvalidArgument))"
  using uuid_lib_nonempty [OF assms] uuid_lib_parse [OF assms]
  by (auto simp: Payment_ErrorInterceptor_def PaymentApi_PayOrder_def PaymentService_PayOrder_def
        PaymentMethodProtoToModel_def pay_error_code_def)

end
