(* ===== verification/System_Stock.thy ===== *)
theory System_Stock
  imports Inventory_Api Inventory_Locks Order_Api Payment
begin

text \<open>
  The order and the inventory service put together: the clients of the order service call the
  handlers of the inventory and of the payment service through the interceptors of both sides. The
  world is the order tables extended by the inventory table and the published \<open>OrderPaid\<close>
  events. The theorems say how an inventory error reaches an HTTP client and that reservations and
  orders stay in step.
\<close>

subsection \<open>The world and the wiring\<close>

record system = order_db +
  sys_inv :: inv_db
  sys_paid :: "OrderPaidEvent list"

text \<open>
  Transport: the outgoing metadata of the client is the incoming metadata of the server, and an error
  of the server reaches the client as a status. How gRPC turns an error into a status is the parameter
  \<open>wire\<close>; its documented law is that a status keeps its code, that a plain error becomes
  \<open>Unknown\<close>, and that an error never becomes \<open>OK\<close>.
\<close>

definition server_ctx :: "ctx \<Rightarrow> ctx" where
  "server_ctx c = \<lparr>ctx_user = None, ctx_session = None,
     ctx_md_in = Some (\<lambda>k. map snd (filter (\<lambda>kv. fst kv = k) (ctx_md_out c))), ctx_md_out = []\<rparr>"

definition wire_ok :: "('e err \<Rightarrow> 'f err) \<Rightarrow> bool" where
  "wire_ok wire \<longleftrightarrow> (\<forall>c. c \<noteq> OK \<longrightarrow> wire (Status c) = Status c) \<and>
     (\<forall>e s. cause e = Sent s \<longrightarrow> wire e = Status Unknown) \<and> (\<forall>e. \<exists>c. c \<noteq> OK \<and> wire e = Status c)"

primrec code_wire :: "'e err \<Rightarrow> 'f err" where
  "code_wire (Sent s) = Status Unknown"
| "code_wire (Wrap m e) = code_wire e"
| "code_wire (Status c) = Status (if c = OK then Unknown else c)"
| "code_wire (Ext x) = Status Unknown"

lemma code_wire_ok: "wire_ok (code_wire :: 'a err \<Rightarrow> 'b err)"
proof -
  have "\<exists>c. c \<noteq> OK \<and> (code_wire e :: 'b err) = Status c" for e :: "'a err" by (induction e) auto
  moreover have "cause e = Sent s \<Longrightarrow> (code_wire e :: 'b err) = Status Unknown" for e :: "'a err" and s
    by (induction e) auto
  ultimately show ?thesis by (simp add: wire_ok_def)
qed

definition remote :: "('e err \<Rightarrow> order_error err) \<Rightarrow> (inv_db, 'b, 'e) act \<Rightarrow> (system, 'b, order_error) act" where
  "remote wire a = (\<lambda>w. case a (sys_inv w) of (r, d) \<Rightarrow> (mapErr wire r, w\<lparr>sys_inv := d\<rparr>))"

text \<open>What one deployment of the system is made of.\<close>

record deployment =
  dp_uuid :: uuid_lib
  dp_inv_status :: "inv_error status_lib"
  dp_ord_status :: "order_error status_lib"
  dp_wire :: "inv_error err \<Rightarrow> order_error err"
  dp_pay_wire :: "pay_error err \<Rightarrow> order_error err"
  dp_whoami :: "ctx \<Rightarrow> uuid \<Rightarrow> (inv_db, uuid \<times> uuid, inv_error) act"
  dp_invDo :: "(inv_db, unit, inv_error) act \<Rightarrow> (inv_db, unit, inv_error) act"
  dp_repoDo :: "(system, unit, order_error) act \<Rightarrow> (system, unit, order_error) act"
  dp_Do :: "(system, captured, order_error) act \<Rightarrow> (system, captured, order_error) act"

definition inventory_rpc ::
    "deployment \<Rightarrow> (pg_env \<Rightarrow> 'q \<Rightarrow> (inv_db, 'r, inv_error) act) \<Rightarrow> pg_env \<Rightarrow> ctx \<Rightarrow> 'q \<Rightarrow> (system, 'r, order_error) act" where
  "inventory_rpc D handler E =
     SessionForwarder (dp_uuid D) (\<lambda>c q. remote (dp_wire D)
       (inventory_chain (dp_uuid D) (dp_inv_status D) (\<lambda>_. []) (\<lambda>_ _ d. d) (dp_whoami D) (\<lambda>_. handler E q) (server_ctx c)))"

definition inventory_stub_of :: "deployment \<Rightarrow> pg_env \<Rightarrow> (system, order_error) inventory_stub" where
  "inventory_stub_of D E =
     (let s = (\<lambda>E. NewPartService E (dp_invDo D)); U = dp_uuid D
      in \<lparr>ist_ListParts = inventory_rpc D (\<lambda>E q. InventoryApi_ListParts U (s E) q PART_TYPE_UNSPECIFIED) E,
          ist_ReserveParts = inventory_rpc D (\<lambda>E. InventoryApi_ReserveParts U (s E)) E,
          ist_ReleaseParts = inventory_rpc D (\<lambda>E. InventoryApi_ReleaseParts U (s E)) E,
          ist_CommitParts = inventory_rpc D (\<lambda>E. InventoryApi_CommitParts U (s E)) E,
          ist_ValidateCompatibility = inventory_rpc D (\<lambda>E. InventoryApi_ValidateCompatibility U (s E)) E\<rparr>)"

text \<open>
  The clients of one request: the inventory environment it meets, the transaction identifier the
  payment service would issue, and whether the broker takes the event.
\<close>

definition system_clients :: "deployment \<Rightarrow> pg_env \<Rightarrow> uuid \<Rightarrow> ext_error option \<Rightarrow> system order_clients" where
  "system_clients D E txu broker =
     (let U = dp_uuid D; S = dp_ord_status D; stub = inventory_stub_of D E
      in \<lparr>cl_ListParts = InventoryClient_ListParts U S stub,
          cl_ReserveParts = InventoryClient_ReserveParts U S stub,
          cl_ReleaseParts = InventoryClient_ReleaseParts U S stub,
          cl_CommitParts = InventoryClient_CommitParts U S stub,
          cl_ValidateCompatibility = InventoryClient_ValidateCompatibility U S stub,
          cl_PayOrder = PaymentClient_PayOrder U S (\<lambda>c (o', m). liftR (mapErr (dp_pay_wire D)
            (Payment_ErrorInterceptor (PaymentApi_PayOrder U txu o' m)))),
          cl_ProduceOrderPaid = (\<lambda>c ev. case broker of
            None \<Rightarrow> (\<lambda>w. (Ret (), w\<lparr>sys_paid := sys_paid w @ [ev]\<rparr>)) | Some x \<Rightarrow> fail (Ext x)),
          cl_createdTotal = (\<lambda>w. w), cl_paidTotal = (\<lambda>w. w), cl_revenueTotal = (\<lambda>n w. w)\<rparr>)"

definition system_service ::
    "deployment \<Rightarrow> order_env \<Rightarrow> pg_env \<Rightarrow> uuid \<Rightarrow> ext_error option \<Rightarrow> system order_service" where
  "system_service D Eo Ei txu broker =
     NewOrderService Eo (dp_repoDo D) (dp_Do D) (system_clients D Ei txu broker)"

definition deployment_ok :: "deployment \<Rightarrow> bool" where
  "deployment_ok D \<longleftrightarrow> uuid_lib_ok (dp_uuid D) \<and> status_lib_ok (dp_inv_status D) \<and> status_lib_ok (dp_ord_status D)
     \<and> wire_ok (dp_wire D) \<and> wire_ok (dp_pay_wire D) \<and> tx_manager (dp_invDo D) db_rollback
     \<and> tx_manager (dp_repoDo D) order_rollback \<and> tx_manager (dp_Do D) order_rollback"

definition valid_session :: "deployment \<Rightarrow> ctx \<Rightarrow> bool" where
  "valid_session D c \<longleftrightarrow> ctx_md_out c = [] \<and> (\<exists>s u. ctx_session c = Some s \<and> (\<forall>c' d. dp_whoami D c' s d = (Ret (u, s), d)))"

subsection \<open>A call from service to service\<close>

lemma inventory_rpc_authenticated:
  assumes D: "deployment_ok D" and c: "valid_session D c"
  shows "inventory_rpc D handler E c q w =
    (mapErr (\<lambda>e. dp_wire D (inv_error_code (dp_inv_status D) e)) (fst (handler E q (sys_inv w))),
     w\<lparr>sys_inv := snd (handler E q (sys_inv w))\<rparr>)"
proof -
  have U: "uuid_lib_ok (dp_uuid D)" and S: "status_lib_ok (dp_inv_status D)"
    using D by (simp_all add: deployment_ok_def)
  from c obtain s u where s: "ctx_session c = Some s" "ctx_md_out c = []"
    and who: "\<And>c' d. dp_whoami D c' s d = (Ret (u, s), d)" by (auto simp: valid_session_def)
  let ?c = "server_ctx (metadata_AppendToOutgoingContext c SessionTokenKey (uuid_String (dp_uuid D) s))"
  have ps: "presented_session (dp_uuid D) ?c = Some s"
    by (simp add: presented_session_def server_ctx_def metadata_AppendToOutgoingContext_def s uuid_lib_parse [OF U])
  have "SessionUUIDFromContext c = (s, True)" using s by (simp add: SessionUUIDFromContext_def)
  then have "inventory_rpc D handler E c q w = remote (dp_wire D) (inventory_chain (dp_uuid D) (dp_inv_status D)
      (\<lambda>_. []) (\<lambda>_ _ d. d) (dp_whoami D) (\<lambda>_. handler E q) ?c) w"
    by (simp add: inventory_rpc_def SessionForwarder_def)
  moreover have "inventory_chain (dp_uuid D) (dp_inv_status D) (\<lambda>_. []) (\<lambda>_ _ d. d) (dp_whoami D)
      (\<lambda>_. handler E q) ?c d = (mapErr (inv_error_code (dp_inv_status D)) (fst (handler E q d)), snd (handler E q d))" for d
  proof -
    have "Inventory_ErrorInterceptor (dp_inv_status D) (\<lambda>_. handler E q) x d
        = (mapErr (inv_error_code (dp_inv_status D)) (fst (handler E q d)), snd (handler E q d))" for x
      by (simp add: Inventory_ErrorInterceptor_def split: prod.split res.split)
    then show ?thesis
      by (simp add: inventory_chain_def Inventory_ErrorInterceptor_def TraceIDUnaryServerInterceptor_def
            Inventory_Auth_session ps who)
  qed
  ultimately show ?thesis
    by (cases "fst (handler E q (sys_inv w))") (simp_all add: remote_def)
qed

text \<open>The error a client of the inventory is left with, and its HTTP status.\<close>

definition client_error :: "deployment \<Rightarrow> inv_error err \<Rightarrow> order_error err" where
  "client_error D e = inventory_mapErrors (dp_ord_status D) (dp_wire D (inv_error_code (dp_inv_status D) e))"

lemma client_error_Status:
  assumes "deployment_ok D" "inv_error_code (dp_inv_status D) e = Status c" "c \<noteq> OK"
  shows "client_error D e = Wrap ''inventory service returned an error %q''
    (Sent (if c = NotFound then ErrPartNotFound else if c = InvalidArgument then ErrPartTypeMismatch
      else if c = FailedPrecondition then ErrIncompatibleParts else if c = ResourceExhausted then ErrOutOfStock
      else ErrInternalError))"
  using assms by (simp add: client_error_def deployment_ok_def wire_ok_def inventory_mapErrors_def status_lib_Status)

lemma client_error_Sent:
  assumes D: "deployment_ok D" and e: "cause e = Sent s"
  shows "cause (client_error D e) = Sent (case s of
      inv_error.ErrPartNotFound \<Rightarrow> ErrPartNotFound
    | inv_error.ErrInvalidUUID \<Rightarrow> ErrPartTypeMismatch
    | inv_error.ErrPartTypeMismatch \<Rightarrow> ErrPartTypeMismatch
    | inv_error.ErrIncompatibleParts \<Rightarrow> ErrIncompatibleParts
    | ErrNothingToCommit \<Rightarrow> ErrIncompatibleParts
    | ErrNothingToRelease \<Rightarrow> ErrIncompatibleParts
    | inv_error.ErrOutOfStock \<Rightarrow> ErrOutOfStock
    | _ \<Rightarrow> ErrInternalError)"
proof -
  have S: "status_Code (dp_inv_status D) e \<noteq> OK"
    using D by (simp add: deployment_ok_def status_Code_not_OK)
  have W: "dp_wire D e = Status Unknown" "dp_ord_status D (Status Unknown) = Some Unknown"
    using D e by (auto simp: deployment_ok_def wire_ok_def status_lib_ok_def)
  note code = client_error_Status [OF D]
  show ?thesis
    using e S W
    by (cases s) (simp_all add: code inv_error_code_def errors_Is_cause,
        simp_all add: client_error_def inv_error_code_def errors_Is_cause inventory_mapErrors_def)
qed

lemma wire_Unauthenticated:
  "deployment_ok D \<Longrightarrow> client_error D (Status Unauthenticated) =
     Wrap ''inventory service returned an error %q'' (Sent ErrInternalError)"
  by (subst client_error_Status [of D _ Unauthenticated])
     (auto simp: inv_error_code_def deployment_ok_def status_Code_def status_lib_Status)

end
