(* ===== verification/System_Conservation.thy ===== *)
theory System_Conservation
  imports System_Stock
begin

text \<open>
  Reservations and orders in step. In a deployment where no infrastructure fails, every request
  either leaves the whole system as it was or does all of its work on both databases, and the
  reserved counter of a part is the number of open orders that contain it, in every reachable state.
  The last section shows that the first infrastructure failure at the wrong moment breaks this.
\<close>

subsection \<open>Fault-free calls\<close>

definition fault_free :: "order_env \<Rightarrow> pg_env \<Rightarrow> bool" where
  "fault_free Eo Ei \<longleftrightarrow> order_up Eo \<and> scan_ok Eo \<and> pg_up Ei"

definition committing :: "deployment \<Rightarrow> bool" where
  "committing D \<longleftrightarrow> commits (dp_invDo D) \<and> commits (dp_repoDo D) \<and> commits (dp_Do D)"

lemma system_clients_frame: "clients_frame (system_clients D E txu broker)"
proof -
  have rpc: "same_tables w (snd (inventory_rpc D h E c q w))" for h c q w
    by (simp add: inventory_rpc_def SessionForwarder_def remote_def same_tables_def split: prod.splits)
  have bind: "same_tables w (snd (bindA a k w))"
    if "same_tables w (snd (a w))" "\<And>x w. same_tables w (snd (k x w))" for a k and w :: system
    using that by (auto simp: bindA_app split: prod.splits res.splits intro: same_tables_trans)
  show ?thesis
    by (auto simp: clients_frame_def system_clients_def Let_def keeps_tables_def inventory_stub_of_def
          InventoryClient_ListParts_def InventoryClient_ReserveParts_def InventoryClient_ReleaseParts_def
          InventoryClient_CommitParts_def InventoryClient_ValidateCompatibility_def PaymentClient_PayOrder_def
          mapErrA_app rpc same_tables_def [of _ "_\<lparr>sys_paid := _\<rparr>"] intro!: bind split: option.split prod.split)
qed

lemma system_metrics:
  "cl_createdTotal (system_clients D E txu b) w = w" "cl_paidTotal (system_clients D E txu b) w = w"
  "cl_revenueTotal (system_clients D E txu b) n w = w"
  by (simp_all add: system_clients_def Let_def)

lemma system_backend:
  assumes "deployment_ok D"
  shows "order_backend (dp_repoDo D) (dp_Do D) (system_clients D E txu broker)"
  using assms by (intro order_backend.intro system_clients_frame) (simp_all add: deployment_ok_def)

text \<open>The bulk calls of the inventory as the order service makes them.\<close>

lemma bulk_rpc:
  assumes "deployment_ok D" "valid_session D c"
  shows "cl_ReserveParts (system_clients D E txu b) c us w =
      (mapErr (client_error D) (fst (exec_call (CallReserve us) (NewPartService E (dp_invDo D)) (sys_inv w))),
       w\<lparr>sys_inv := snd (exec_call (CallReserve us) (NewPartService E (dp_invDo D)) (sys_inv w))\<rparr>)"
    "cl_ReleaseParts (system_clients D E txu b) c us w =
      (mapErr (client_error D) (fst (exec_call (CallRelease us) (NewPartService E (dp_invDo D)) (sys_inv w))),
       w\<lparr>sys_inv := snd (exec_call (CallRelease us) (NewPartService E (dp_invDo D)) (sys_inv w))\<rparr>)"
    "cl_CommitParts (system_clients D E txu b) c us w =
      (mapErr (client_error D) (fst (exec_call (CallCommit us) (NewPartService E (dp_invDo D)) (sys_inv w))),
       w\<lparr>sys_inv := snd (exec_call (CallCommit us) (NewPartService E (dp_invDo D)) (sys_inv w))\<rparr>)"
proof -
  have U: "uuid_lib_ok (dp_uuid D)" using assms(1) by (simp add: deployment_ok_def)
  have comp: "mapErr f (mapErr g r) = mapErr (\<lambda>e. f (g e)) r" for f :: "order_error err \<Rightarrow> order_error err"
    and g :: "inv_error err \<Rightarrow> order_error err" and r :: "unit inv_res" by (cases r) simp_all
  note defs = system_clients_def inventory_stub_of_def Let_def mapErrA_app UuidsToStrings_def comp
    inventory_rpc_authenticated [OF assms] api_printed [OF U] client_error_def [abs_def]
  show "cl_ReserveParts (system_clients D E txu b) c us w =
      (mapErr (client_error D) (fst (exec_call (CallReserve us) (NewPartService E (dp_invDo D)) (sys_inv w))),
       w\<lparr>sys_inv := snd (exec_call (CallReserve us) (NewPartService E (dp_invDo D)) (sys_inv w))\<rparr>)"
    by (simp add: InventoryClient_ReserveParts_def defs)
  show "cl_ReleaseParts (system_clients D E txu b) c us w =
      (mapErr (client_error D) (fst (exec_call (CallRelease us) (NewPartService E (dp_invDo D)) (sys_inv w))),
       w\<lparr>sys_inv := snd (exec_call (CallRelease us) (NewPartService E (dp_invDo D)) (sys_inv w))\<rparr>)"
    by (simp add: InventoryClient_ReleaseParts_def defs)
  show "cl_CommitParts (system_clients D E txu b) c us w =
      (mapErr (client_error D) (fst (exec_call (CallCommit us) (NewPartService E (dp_invDo D)) (sys_inv w))),
       w\<lparr>sys_inv := snd (exec_call (CallCommit us) (NewPartService E (dp_invDo D)) (sys_inv w))\<rparr>)"
    by (simp add: InventoryClient_CommitParts_def defs)
qed

text \<open>
  The two reading calls of \<open>Create\<close> leave the system alone. What \<open>ListParts\<close> returns are the
  parts of the table as the order service sees them.
\<close>

definition listed_part :: "uuid_lib \<Rightarrow> inv_db \<Rightarrow> uuid \<Rightarrow> OrderPart" where
  "listed_part U db u = PartFromProto (PartModelToPartProto U (the (part_of db u))) u"

lemma list_rpc:
  assumes D: "deployment_ok D" "valid_session D c" and up: "pg_up E" "db_ok (sys_inv w)" "us \<noteq> []"
    and run: "cl_ListParts (system_clients D E txu b) c us w = (r, w')"
  shows "w' = w" "\<And>ps. r = Ret ps \<Longrightarrow> map op_UUID ps = us \<and> distinct us \<and>
    (\<forall>u \<in> set us. part_of (sys_inv w) u \<noteq> None)"
    "\<And>ps. r = Ret ps \<Longrightarrow> ps = map (listed_part (dp_uuid D) (sys_inv w)) us"
proof -
  have U: "uuid_lib_ok (dp_uuid D)" using D(1) by (simp add: deployment_ok_def)
  let ?db = "sys_inv w" and ?U = "dp_uuid D"
  have list: "PartService_List (NewPartService E (dp_invDo D)) us (PartTypeProtoToModel 0) ?db =
      (if distinct us \<and> (\<forall>u \<in> set us. part_of ?db u \<noteq> None) then Ret (map (the \<circ> part_of ?db) us)
       else Err (Wrap ''failed to fetch parts'' (Wrap ''find parts'' (Sent inv_error.ErrPartNotFound))), ?db)"
    using list_ok [OF up(2,1,3)] by (simp add: PartService_List_def NewPartService_def wrapA_app)
  note defs = system_clients_def inventory_stub_of_def Let_def act_simps UuidsToStrings_def
    inventory_rpc_authenticated [OF D] api_printed [OF U] InventoryClient_ListParts_def list
  show "w' = w"
    using run by (simp add: defs split: if_splits)
  have ok: "distinct us \<and> (\<forall>u \<in> set us. part_of ?db u \<noteq> None)" if "r = Ret ps" for ps
    using run that by (auto simp: defs split: if_splits)
  show listed: "ps = map (listed_part ?U ?db) us" if ps: "r = Ret ps" for ps
  proof -
    let ?f = "\<lambda>part. case uuid_Parse ?U (pp_Uuid part) of None \<Rightarrow> Err (inventory_mapErrors (dp_ord_status D) (Ext (Foreign ''uuid'')))
        | Some v \<Rightarrow> Ret (PartFromProto part v)"
    have uuid: "p_uuid (the (part_of ?db u)) = u" if "u \<in> set us" for u
      using ok [OF ps] that up(2) by (metis db_ok_def option.exhaust_sel part_of_uuid)
    have "mapR ?f (map (PartModelToPartProto ?U) (map (the \<circ> part_of ?db) us)) = Ret ps"
      using run ps ok [OF ps] by (auto simp: defs)
    then have "list_all2 (\<lambda>u p. ?f (PartModelToPartProto ?U (the (part_of ?db u))) = Ret p) us ps"
      by (simp add: mapR_Ret_iff list_all2_map1 comp_def)
    then have "list_all2 (\<lambda>u p. p = PartFromProto (PartModelToPartProto ?U (the (part_of ?db u))) (p_uuid (the (part_of ?db u)))) us ps"
      by (rule list_all2_mono) (auto simp: PartModelToPartProto_def uuid_lib_parse [OF U])
    then show ?thesis
      using uuid by (auto simp: list_all2_conv_all_nth listed_part_def intro: nth_equalityI)
  qed
  show "map op_UUID ps = us \<and> distinct us \<and> (\<forall>u \<in> set us. part_of ?db u \<noteq> None)" if "r = Ret ps" for ps
    using listed [OF that] ok [OF that] by (simp add: listed_part_def PartFromProto_def comp_def)
qed

text \<open>The slots a request for compatibility names, once it has crossed the wire.\<close>

definition requested_slots :: "OrderParts \<Rightarrow> ShipSlots" where
  "requested_slots ps =
    \<lparr>slot_HullUUID = in_HullUUID ps, slot_EngineUUID = in_EngineUUID ps,
     slot_ShieldUUID = (case in_ShieldUUID ps of None \<Rightarrow> uuid_Nil | Some u \<Rightarrow> u),
     slot_WeaponUUID = (case in_WeaponUUID ps of None \<Rightarrow> uuid_Nil | Some u \<Rightarrow> u)\<rparr>"

lemma validate_rpc:
  assumes D: "deployment_ok D" "valid_session D c" and up: "pg_up E" "db_ok (sys_inv w)"
    and run: "cl_ValidateCompatibility (system_clients D E txu b) c ps w = (r, w')"
  shows "w' = w" "r = Ret () \<Longrightarrow> ship_spec (part_of (sys_inv w)) (requested_slots ps) = Success"
proof -
  have U: "uuid_lib_ok (dp_uuid D)" using D(1) by (simp add: deployment_ok_def)
  note defs = system_clients_def inventory_stub_of_def Let_def mapErrA_app InventoryClient_ValidateCompatibility_def
    inventory_rpc_authenticated [OF D]
  have "snd (InventoryApi_ValidateCompatibility U (NewPartService E (dp_invDo D)) q (sys_inv w)) = sys_inv w" for U q
    using validate_outcome(2) [OF up(2,1)]
    by (simp add: InventoryApi_ValidateCompatibility_def bindA_app split: res.splits)
  with run show "w' = w" by (auto simp: defs)
  show "ship_spec (part_of (sys_inv w)) (requested_slots ps) = Success" if "r = Ret ()"
  proof -
    have "composeShipSlots (dp_uuid D)
        \<lparr>vr_HullUuid = uuid_String (dp_uuid D) (in_HullUUID ps), vr_EngineUuid = uuid_String (dp_uuid D) (in_EngineUUID ps),
         vr_ShieldUuid = UUIDPtrToString (dp_uuid D) (in_ShieldUUID ps),
         vr_WeaponUuid = UUIDPtrToString (dp_uuid D) (in_WeaponUUID ps)\<rparr> = Ret (requested_slots ps)"
      by (simp add: composeShipSlots_def requested_slots_def UUIDPtrToString_def parse_uuid_def uuid_lib_parse [OF U]
        uuid_lib_nonempty [OF U] split: option.split)
    then have "fst (PartService_ValidateCompatibility (NewPartService E (dp_invDo D)) (requested_slots ps) (sys_inv w)) = Ret ()"
      using run that
      by (cases "fst (PartService_ValidateCompatibility (NewPartService E (dp_invDo D)) (requested_slots ps) (sys_inv w))")
        (auto simp: defs InventoryApi_ValidateCompatibility_def act_simps split: prod.splits)
    then show ?thesis using validate_outcome(1) [OF up(2,1), of "dp_invDo D" "requested_slots ps"] by simp
  qed
qed

subsection \<open>The invariant\<close>

definition open_order :: "'a order_db_scheme \<Rightarrow> uuid \<Rightarrow> bool" where
  "open_order w u \<longleftrightarrow> status_of w u = Some OrderStatusPendingPayment \<or> status_of w u = Some OrderStatusPaid"

definition item_parts :: "'a order_db_scheme \<Rightarrow> uuid \<Rightarrow> uuid set" where
  "item_parts w u = itr_PartUUID ` set (items_of w u)"

definition holders :: "'a order_db_scheme \<Rightarrow> uuid \<Rightarrow> uuid set" where
  "holders w p = {u. open_order w u \<and> p \<in> item_parts w u}"

definition system_ok :: "deployment \<Rightarrow> system \<Rightarrow> bool" where
  "system_ok D w \<longleftrightarrow> odb_ok w \<and> db_ok (sys_inv w)
     \<and> (\<forall>p part. part_of (sys_inv w) p = Some part \<longrightarrow> p_reserved part = int (card (holders w p)))
     \<and> (\<forall>u. open_order w u \<longrightarrow> items_of w u \<noteq> [] \<and> (\<forall>p \<in> item_parts w u. part_of (sys_inv w) p \<noteq> None))
     \<and> (\<forall>ev \<in> set (sys_paid w). \<exists>u. pe_OrderUUID ev = uuid_String (dp_uuid D) u \<and>
          (status_of w u = Some OrderStatusPaid \<or> status_of w u = Some OrderStatusAssembled))"

lemma finite_holders [simp]: "finite (holders w p)"
proof (rule finite_subset)
  show "holders w p \<subseteq> ord_UUID ` set (od_orders w)"
  proof
    fix u assume "u \<in> holders w p"
    then have "order_row w u \<noteq> None" by (auto simp: holders_def open_order_def status_of_def)
    then show "u \<in> ord_UUID ` set (od_orders w)" by (simp only: order_row_None not_not)
  qed
qed simp

lemma items_parts_distinct:
  assumes "odb_ok w"
  shows "distinct (map itr_PartUUID (items_of w u))"
proof -
  have "distinct (map item_key (items_of w u))"
    using assms by (simp add: odb_ok_def items_of_def distinct_map_filter)
  moreover have "map item_key (items_of w u) = map (Pair u) (map itr_PartUUID (items_of w u))"
    by (auto simp: items_of_def item_key_def)
  ultimately have "distinct (map (Pair u) (map itr_PartUUID (items_of w u)))" by simp
  then show ?thesis by (rule distinct_map [THEN iffD1, THEN conjunct1])
qed

lemma scanned_items:
  assumes "odb_ok w" "scan_ok E"
  shows "distinct (map itr_PartUUID (oe_scan E (items_of w u)))"
    "set (map itr_PartUUID (oe_scan E (items_of w u))) = item_parts w u"
    "oe_scan E (items_of w u) = [] \<longleftrightarrow> items_of w u = []"
proof -
  have m: "mset (oe_scan E (items_of w u)) = mset (items_of w u)" using assms(2) by (simp add: scan_ok_def)
  then show "distinct (map itr_PartUUID (oe_scan E (items_of w u)))"
    using items_parts_distinct [OF assms(1), of u] by (metis mset_eq_imp_distinct_iff mset_map)
  show "set (map itr_PartUUID (oe_scan E (items_of w u))) = item_parts w u"
    using mset_eq_setD [OF m] by (simp add: item_parts_def)
  show "oe_scan E (items_of w u) = [] \<longleftrightarrow> items_of w u = []"
    using m by (metis mset_zero_iff)
qed

text \<open>How the invariant is re-established: counters and holders move by the same amount.\<close>

lemma system_ok_step:
  assumes "system_ok D w" "odb_ok w'" "db_ok (sys_inv w')"
    and "\<And>p. part_of (sys_inv w') p = (if p \<in> P then map_option f (part_of (sys_inv w) p) else part_of (sys_inv w) p)"
    and "\<And>part. p_reserved (f part) = p_reserved part + d"
    and "\<And>p. int (card (holders w' p)) = int (card (holders w p)) + (if p \<in> P then d else 0)"
    and "\<And>u. open_order w' u \<Longrightarrow> items_of w' u \<noteq> [] \<and> (\<forall>p \<in> item_parts w' u. part_of (sys_inv w) p \<noteq> None)"
    and "\<And>ev. ev \<in> set (sys_paid w') \<Longrightarrow> \<exists>u. pe_OrderUUID ev = uuid_String (dp_uuid D) u \<and>
          (status_of w' u = Some OrderStatusPaid \<or> status_of w' u = Some OrderStatusAssembled)"
  shows "system_ok D w'"
proof -
  have "p_reserved part = int (card (holders w' p))" if "part_of (sys_inv w') p = Some part" for p part
    using that assms(1) assms(4) [of p] assms(5) assms(6) [of p] by (auto simp: system_ok_def split: if_splits)
  moreover have "part_of (sys_inv w') p \<noteq> None" if "part_of (sys_inv w) p \<noteq> None" for p
    using that assms(4) [of p] by auto
  ultimately show ?thesis
    using assms(2,3,7,8) unfolding system_ok_def by meson
qed

lemma bulk_effect:
  assumes D: "deployment_ok D" and db: "db_ok db" and us: "call_uuids call \<noteq> []"
    and run: "exec_call call (NewPartService E (dp_invDo D)) db = (Ret (), db')"
  shows "db_ok db'" "distinct (call_uuids call)" "\<forall>u \<in> set (call_uuids call). part_of db u \<noteq> None"
    "part_of db' p = (if p \<in> set (call_uuids call)
       then map_option (case call of CallReserve _ \<Rightarrow> add_reserved | CallRelease _ \<Rightarrow> drop_reserved | CallCommit _ \<Rightarrow> take_out)
              (part_of db p) else part_of db p)"
proof -
  have tx: "tx_manager (dp_invDo D) db_rollback" using D by (simp add: deployment_ok_def)
  show "db_ok db'" using exec_call_keeps_ok [OF tx db, of call E] run by simp
  have "distinct (call_uuids call) \<and> (\<forall>u \<in> set (call_uuids call). part_of db u \<noteq> None) \<and>
    part_of db' p = (if p \<in> set (call_uuids call)
       then map_option (case call of CallReserve _ \<Rightarrow> add_reserved | CallRelease _ \<Rightarrow> drop_reserved | CallCommit _ \<Rightarrow> take_out)
              (part_of db p) else part_of db p)"
  proof (cases call)
    case (CallReserve us)
    with run us call_success(1) [OF tx db, of us E "''failed to reserve parts''" db'] bulk_spec_Success
    show ?thesis by (fastforce simp: PartService_bulk)
  next
    case (CallRelease us)
    with run us call_success(2) [OF tx db, of us E "''failed to release parts''" db'] bulk_spec_Success
    show ?thesis by (fastforce simp: PartService_bulk)
  next
    case (CallCommit us)
    with run us call_success(3) [OF tx db, of us E "''failed to commit parts''" db'] bulk_spec_Success
    show ?thesis by (fastforce simp: PartService_bulk)
  qed
  then show "distinct (call_uuids call)" "\<forall>u \<in> set (call_uuids call). part_of db u \<noteq> None"
    "part_of db' p = (if p \<in> set (call_uuids call)
       then map_option (case call of CallReserve _ \<Rightarrow> add_reserved | CallRelease _ \<Rightarrow> drop_reserved | CallCommit _ \<Rightarrow> take_out)
              (part_of db p) else part_of db p)" by blast+
qed

subsection \<open>Create\<close>

lemma repo_create_ok:
  fixes w :: system
  assumes "order_up E" "commits repoDo" "odb_ok w" "order_row w (o_UUID order) = None"
    and "o_Items order \<noteq> []" "distinct (map oi_UUID (o_Items order))"
  shows "\<exists>w'. OrderRepo_Create E repoDo order w = (Ret (), w') \<and> sys_inv w' = sys_inv w \<and> sys_paid w' = sys_paid w \<and> odb_ok w'"
proof -
  let ?items = "OrderItemModelsToRecords (o_UUID order) (o_Items order)"
  have new: "o_UUID order \<notin> ord_UUID ` set (od_orders w)" using assms(4) by (simp add: order_row_None)
  have keys: "map item_key ?items = map (Pair (o_UUID order)) (map oi_UUID (o_Items order))"
    by (simp add: OrderItemModelsToRecords_def OrderItemModelToRecord_def item_key_def comp_def)
  have "itr_OrderUUID r \<noteq> o_UUID order" if "r \<in> set (od_items w)" for r
    using that new assms(3) unfolding odb_ok_def by (metis imageI subsetD)
  then have disj: "distinct (map item_key (od_items w @ ?items))"
    using assms(3,6) unfolding map_append keys
    by (auto simp: odb_ok_def distinct_map item_key_def inj_on_def)
  have "bindA (OrderRepo_createOrder E order) (\<lambda>_. OrderRepo_createOrderItems E order) w =
      (Ret (), w\<lparr>od_orders := od_orders w @ [\<lparr>ord_UUID = o_UUID order, ord_UserUUID = o_UserUUID order,
          ord_Status = o_Status order, ord_TransactionUUID = None, ord_PaymentMethod = None,
          ord_CreatedAt = oe_timestamp E (o_CreatedAt order)\<rparr>], od_items := od_items w @ ?items\<rparr>)" (is "_ = (Ret (), ?w')")
    using assms(1,5) new disj
    by (simp add: OrderRepo_createOrder_def OrderRepo_createOrderItems_def act_simps Let_def)
  with assms(2) have "OrderRepo_Create E repoDo order w = (Ret (), ?w')"
    by (simp add: OrderRepo_Create_def commits_def)
  moreover have "odb_ok ?w'"
    using assms(3) new disj
    by (auto simp: odb_ok_def OrderItemModelsToRecords_def OrderItemModelToRecord_def)
  ultimately show ?thesis by (intro exI [of _ ?w']) simp
qed

lemma order_items_uuids: "mapR order_item prts = Ret items \<Longrightarrow> map oi_UUID items = map op_UUID prts"
  by (induction prts arbitrary: items) (auto simp: bindR_Ret_iff order_item_def split: if_splits)

lemma parts_uuids_nonempty [simp]: "parts_uuids ps \<noteq> []"
  by (simp add: parts_uuids_def)

text \<open>The call that reserves the parts is the only one of \<open>Create\<close> that changes the inventory.\<close>

lemma create_outcome:
  assumes D: "deployment_ok D" "committing D" "valid_session D c" and ff: "fault_free Eo Ei"
    and w: "odb_ok w" "db_ok (sys_inv w)" "order_row w n = None"
    and run: "OrderService_Create (system_service D Eo Ei txu b) c n now ps w = (r, w')"
  obtains (unchanged) "w' = w"
  | (created) order db3 where "r = Ret order"
    "exec_call (CallReserve (parts_uuids ps)) (NewPartService Ei (dp_invDo D)) (sys_inv w) = (Ret (), db3)"
    "map oi_UUID (o_Items order) = parts_uuids ps" "sys_inv w' = db3" "sys_paid w' = sys_paid w" "odb_ok w'"
proof -
  let ?cl = "system_clients D Ei txu b" and ?us = "parts_uuids ps"
  let ?s = "system_service D Eo Ei txu b"
  have up: "order_up Eo" "pg_up Ei" "commits (dp_repoDo D)" using ff D(2) by (auto simp: fault_free_def committing_def)
  have tx: "tx_manager (dp_invDo D) db_rollback" using D(1) by (simp add: deployment_ok_def)
  note sel = system_service_def order_backend.service_sel [OF system_backend [OF D(1)]]
  obtain user ok where user: "UserUUIDFromContext c = (user, ok)" by fastforce
  obtain r1 w1 where list: "cl_ListParts ?cl c ?us w = (r1, w1)" by fastforce
  note l = list_rpc [OF D(1,3) up(2) w(2) parts_uuids_nonempty list]
  obtain r2 w2 where val: "cl_ValidateCompatibility ?cl c ps w = (r2, w2)" by fastforce
  note v = validate_rpc(1) [OF D(1,3) up(2) w(2) val]
  obtain r3 db3 where res: "exec_call (CallReserve ?us) (NewPartService Ei (dp_invDo D)) (sys_inv w) = (r3, db3)"
    by fastforce
  have reserve: "cl_ReserveParts ?cl c ?us w = (mapErr (client_error D) r3, w\<lparr>sys_inv := db3\<rparr>)"
    using bulk_rpc(1) [OF D(1,3)] res by simp
  note start = run [unfolded OrderService_Create_def sel Let_def user prod.case]
  show ?thesis
  proof (cases "ok \<and> validateUniqueUUIDs ?us = Ret () \<and> (\<exists>prts items. r1 = Ret prts \<and> mapR order_item prts = Ret items)
      \<and> r2 = Ret () \<and> r3 = Ret ()")
    case False
    have "w' = w"
    proof -
      have "r3 \<noteq> Ret () \<Longrightarrow> db3 = sys_inv w"
        using exec_call_failed [OF tx, of "CallReserve ?us" Ei "sys_inv w"] res by simp
      with False start l(1) v show ?thesis
        by (cases "validateUniqueUUIDs ?us"; cases r1; cases r2; cases r3)
           (auto simp: act_simps list val reserve split: if_splits res.splits)
    qed
    with unchanged show ?thesis .
  next
    case True
    then obtain prts items where ok: "ok" "validateUniqueUUIDs ?us = Ret ()" "r1 = Ret prts"
      "mapR order_item prts = Ret items" "r2 = Ret ()" "r3 = Ret ()" by blast
    from l(2) [OF ok(3)] have us: "map op_UUID prts = ?us" "distinct ?us" by simp_all
    let ?order = "\<lparr>o_UUID = n, o_UserUUID = user, o_Items = items, o_TransactionUUID = None, o_PaymentMethod = None,
        o_Status = OrderStatusPendingPayment, o_CreatedAt = now\<rparr>"
    let ?w3 = "w\<lparr>sys_inv := db3\<rparr>"
    have items: "map oi_UUID items = ?us" using order_items_uuids [OF ok(4)] us by simp
    have "order_row ?w3 n = None" "odb_ok ?w3"
      using w(1,3) by (simp_all add: order_row_def odb_ok_def)
    moreover have "items \<noteq> []" using items parts_uuids_nonempty by (metis list.simps(8))
    ultimately obtain w4 where w4: "OrderRepo_Create Eo (dp_repoDo D) ?order ?w3 = (Ret (), w4)"
      "sys_inv w4 = db3" "sys_paid w4 = sys_paid w" "odb_ok w4"
      using repo_create_ok [OF up(1,3), of ?w3 ?order] items us(2) by auto
    have "length prts = length ?us" using arg_cong [OF us(1), of length] by simp
    with start ok l(1) v w4(1) have "r = Ret ?order" "w' = w4"
      by (auto simp: act_simps list val reserve system_metrics)
    with created [of ?order db3] res ok items w4 show ?thesis by simp
  qed
qed

subsection \<open>Pay, Cancel and the assembly handler\<close>

text \<open>An update of an order that exists goes through and touches the order tables only.\<close>

lemma update_ok:
  fixes w :: system
  assumes "order_up E" "order_row w (o_UUID order) = Some row"
  obtains w' where "OrderRepo_Update E order w = (Ret (), w')" "sys_inv w' = sys_inv w" "sys_paid w' = sys_paid w"
    "set_row (o_UUID order) (row\<lparr>ord_Status := o_Status order, ord_TransactionUUID := o_TransactionUUID order,
       ord_PaymentMethod := o_PaymentMethod order\<rparr>) w w'"
proof -
  from assms obtain w' where upd: "OrderRepo_Update E order w = (Ret (), w')" "sys_inv w' = sys_inv w" "sys_paid w' = sys_paid w"
    by (simp add: OrderRepo_Update_app)
  from update_order_Ret [OF upd(1)] assms(2) that [OF upd] show ?thesis by auto
qed

definition bulk_client :: "'w order_clients \<Rightarrow> ctx \<Rightarrow> inv_call \<Rightarrow> ('w, unit, order_error) act" where
  "bulk_client cl c call = (case call of
       CallReserve us \<Rightarrow> cl_ReserveParts cl c us
     | CallRelease us \<Rightarrow> cl_ReleaseParts cl c us
     | CallCommit us \<Rightarrow> cl_CommitParts cl c us)"

lemma bulk_client_rpc:
  assumes "deployment_ok D" "valid_session D c"
  shows "bulk_client (system_clients D E txu b) c call w =
      (mapErr (client_error D) (fst (exec_call call (NewPartService E (dp_invDo D)) (sys_inv w))),
       w\<lparr>sys_inv := snd (exec_call call (NewPartService E (dp_invDo D)) (sys_inv w))\<rparr>)"
  by (cases call) (simp_all add: bulk_client_def bulk_rpc [OF assms])

text \<open>The common tail of \<open>Cancel\<close> and the handler: a bulk call, then the new status.\<close>

lemma status_write_outcome:
  assumes D: "deployment_ok D" "valid_session D c" and up: "order_up Eo"
    and row: "order_row w u = Some row"
    and order: "o_UUID order = u" "o_TransactionUUID order = ord_TransactionUUID row"
      "o_PaymentMethod order = ord_PaymentMethod row"
    and run: "bindA (bulk_client (system_clients D Ei txu b) c call) (\<lambda>_.
        bindA (OrderRepo_Update Eo (order\<lparr>o_Status := st\<rparr>)) (\<lambda>_. ret None)) w = (r, w')"
  shows "(\<forall>x. r \<noteq> Ret x) \<and> w' = w \<or>
    (\<exists>db'. r = Ret (None :: captured) \<and> exec_call call (NewPartService Ei (dp_invDo D)) (sys_inv w) = (Ret (), db')
       \<and> set_row u (row\<lparr>ord_Status := st\<rparr>) w w' \<and> sys_inv w' = db' \<and> sys_paid w' = sys_paid w)"
proof -
  have tx: "tx_manager (dp_invDo D) db_rollback" using D(1) by (simp add: deployment_ok_def)
  obtain r1 db1 where ex: "exec_call call (NewPartService Ei (dp_invDo D)) (sys_inv w) = (r1, db1)" by fastforce
  note rpc = bulk_client_rpc [OF D, of Ei txu b call w, unfolded ex fst_conv snd_conv]
  show ?thesis
  proof (cases "r1 = Ret ()")
    case False
    with exec_call_failed [OF tx, of call Ei "sys_inv w"] ex have "db1 = sys_inv w" by simp
    with False run rpc show ?thesis by (cases r1) (auto simp: bindA_app)
  next
    case True
    let ?w1 = "w\<lparr>sys_inv := db1\<rparr>"
    have row1: "order_row ?w1 (o_UUID (order\<lparr>o_Status := st\<rparr>)) = Some row"
      using row order(1) by (simp add: order_row_def)
    obtain w2 where u2: "OrderRepo_Update Eo (order\<lparr>o_Status := st\<rparr>) ?w1 = (Ret (), w2)"
        "sys_inv w2 = sys_inv ?w1" "sys_paid w2 = sys_paid ?w1"
      and sr: "set_row (o_UUID (order\<lparr>o_Status := st\<rparr>)) (row\<lparr>ord_Status := o_Status (order\<lparr>o_Status := st\<rparr>),
        ord_TransactionUUID := o_TransactionUUID (order\<lparr>o_Status := st\<rparr>),
        ord_PaymentMethod := o_PaymentMethod (order\<lparr>o_Status := st\<rparr>)\<rparr>) ?w1 w2"
      using update_ok [OF up row1] .
    have "same_tables w ?w1" by (simp add: same_tables_def)
    moreover have "set_row u (row\<lparr>ord_Status := st\<rparr>) ?w1 w2" using sr order by simp
    ultimately have "set_row u (row\<lparr>ord_Status := st\<rparr>) w w2"
      by (rule set_row_same_tables) simp
    with u2
      True run rpc ex show ?thesis by (simp add: bindA_app)
  qed
qed

lemma get_ok:
  assumes "order_up E"
  shows "OrderRepo_GetForUpdate E u w = (case order_row w u of
      None \<Rightarrow> Err (Wrap ''order not found'' (Sent ErrOrderNotFound))
    | Some row \<Rightarrow> Ret ((OrderRecordToModel row)\<lparr>o_Items := OrderItemRecordsToModels (oe_scan E (items_of w u))\<rparr>), w)"
  using assms by (simp add: OrderRepo_GetForUpdate_Get OrderRepo_Get_app split: option.split)

text \<open>A closure that fails without touching the rest of the system is undone completely.\<close>

lemma committed_or_undone:
  assumes D: "deployment_ok D" "committing D"
    and f: "f w = (r, w1)" "\<forall>x. r \<noteq> Ret x \<Longrightarrow> sys_inv w1 = sys_inv w \<and> sys_paid w1 = sys_paid w"
  shows "dp_Do D f w = (if \<exists>x. r = Ret x then (r, w1) else (r, w))"
proof -
  have tx: "tx_manager (dp_Do D) order_rollback" and cm: "commits (dp_Do D)"
    using D by (simp_all add: deployment_ok_def committing_def)
  have rb: "order_rollback w w1 = w" if "sys_inv w1 = sys_inv w" "sys_paid w1 = sys_paid w"
    using that by (simp add: order_rollback_def)
  show ?thesis
  proof (cases r)
    case (Ret x)
    with f(1) cm show ?thesis by (simp add: commits_def)
  next
    case (Err e)
    with f tx_manager.Do_Err [OF tx, of f w e w1] rb show ?thesis by simp
  next
    case (Panic p)
    with f tx_manager.Do_Panic [OF tx, of f w p w1] rb show ?thesis by simp
  qed
qed

text \<open>What the two handlers read of the order they fetched.\<close>

lemma fetched_order:
  assumes "order_row w u = Some row"
    and "order = (OrderRecordToModel row)\<lparr>o_Items := OrderItemRecordsToModels (oe_scan E (items_of w u))\<rparr>"
  shows "o_UUID order = u" "o_TransactionUUID order = ord_TransactionUUID row" "o_PaymentMethod order = ord_PaymentMethod row"
    "o_Status order = ord_Status row" "Order_ItemsUUIDs order = map itr_PartUUID (oe_scan E (items_of w u))"
  using order_row_uuid [OF assms(1)] unfolding assms(2)
  by (simp_all add: OrderRecordToModel_def Order_ItemsUUIDs_def OrderItemRecordsToModels_def OrderItemRecordToModel_def)

definition bulk_and_status ::
    "deployment \<Rightarrow> order_env \<Rightarrow> pg_env \<Rightarrow> (uuid list \<Rightarrow> inv_call) \<Rightarrow> OrderStatus \<Rightarrow> uuid \<Rightarrow> system \<Rightarrow> system \<Rightarrow> bool" where
  "bulk_and_status D Eo Ei call st u w w' \<longleftrightarrow> (\<exists>row db'. order_row w u = Some row
     \<and> exec_call (call (map itr_PartUUID (oe_scan Eo (items_of w u)))) (NewPartService Ei (dp_invDo D)) (sys_inv w) = (Ret (), db')
     \<and> set_row u (row\<lparr>ord_Status := st\<rparr>) w w' \<and> sys_inv w' = db' \<and> sys_paid w' = sys_paid w)"

lemma cancel_closure_outcome:
  assumes D: "deployment_ok D" "valid_session D c" and up: "order_up Eo"
    and cl: "cancel_closure (system_service D Eo Ei txu b) c u w = (r1, w1)"
  shows "(\<forall>x. r1 \<noteq> Ret x) \<and> w1 = w \<or> r1 = Ret None \<and> status_of w u = Some OrderStatusPendingPayment
    \<and> bulk_and_status D Eo Ei CallRelease OrderStatusCancelled u w w1"
proof (cases "order_row w u")
  case None
  with cl show ?thesis
    by (auto simp: cancel_closure_def system_service_def order_backend.service_sel [OF system_backend [OF D(1)]]
          bindA_app get_ok [OF up])
next
  case (Some row)
  define order where "order = (OrderRecordToModel row)\<lparr>o_Items := OrderItemRecordsToModels (oe_scan Eo (items_of w u))\<rparr>"
  note o = fetched_order [OF Some order_def]
  have cl': "(if ord_Status row \<noteq> OrderStatusPendingPayment then fail (Sent ErrInvalidOrderStatus)
     else bindA (bulk_client (system_clients D Ei txu b) c (CallRelease (map itr_PartUUID (oe_scan Eo (items_of w u))))) (\<lambda>_.
          bindA (OrderRepo_Update Eo (order\<lparr>o_Status := OrderStatusCancelled\<rparr>)) (\<lambda>_. ret None))) w = (r1, w1)"
    using cl Some o(4,5)
    by (simp add: cancel_closure_def system_service_def order_backend.service_sel [OF system_backend [OF D(1)]]
          bindA_app [of "OrderRepo_GetForUpdate Eo u"] get_ok [OF up] order_def [symmetric] bulk_client_def
          cong: if_cong)
  show ?thesis
  proof (cases "ord_Status row = OrderStatusPendingPayment")
    case False
    with cl' show ?thesis by auto
  next
    case True
    with cl' status_write_outcome [OF D up Some o(1-3)] Some show ?thesis
      by (fastforce simp: bulk_and_status_def status_of_def)
  qed
qed

lemma ship_closure_outcome:
  assumes D: "deployment_ok D" "valid_session D c" and up: "order_up Eo"
    and cl: "ship_closure (system_service D Eo Ei txu b) c u w = (r1, w1)"
  shows "w1 = w \<or> r1 = Ret None \<and> status_of w u \<noteq> Some OrderStatusAssembled
    \<and> bulk_and_status D Eo Ei CallCommit OrderStatusAssembled u w w1"
proof (cases "order_row w u")
  case None
  with cl show ?thesis
    by (auto simp: ship_closure_def system_service_def order_backend.service_sel [OF system_backend [OF D(1)]]
          bindA_app get_ok [OF up])
next
  case (Some row)
  define order where "order = (OrderRecordToModel row)\<lparr>o_Items := OrderItemRecordsToModels (oe_scan Eo (items_of w u))\<rparr>"
  note o = fetched_order [OF Some order_def]
  have cl': "(if ord_Status row = OrderStatusAssembled then ret None
     else bindA (bulk_client (system_clients D Ei txu b) c (CallCommit (map itr_PartUUID (oe_scan Eo (items_of w u))))) (\<lambda>_.
          bindA (OrderRepo_Update Eo (order\<lparr>o_Status := OrderStatusAssembled\<rparr>)) (\<lambda>_. ret None))) w = (r1, w1)"
    using cl Some o(4,5)
    by (simp add: ship_closure_def system_service_def order_backend.service_sel [OF system_backend [OF D(1)]]
          bindA_app [of "OrderRepo_GetForUpdate Eo u"] get_ok [OF up] order_def [symmetric] bulk_client_def
          cong: if_cong)
  show ?thesis
  proof (cases "ord_Status row = OrderStatusAssembled")
    case True
    with cl' show ?thesis by simp
  next
    case False
    with cl' status_write_outcome [OF D up Some o(1-3)] Some show ?thesis
      by (fastforce simp: bulk_and_status_def status_of_def)
  qed
qed

lemma cancel_outcome:
  assumes D: "deployment_ok D" "committing D" "valid_session D c" and up: "order_up Eo"
    and run: "OrderService_Cancel (system_service D Eo Ei txu b) c u w = (r, w')"
  shows "w' = w \<or> status_of w u = Some OrderStatusPendingPayment
    \<and> bulk_and_status D Eo Ei CallRelease OrderStatusCancelled u w w'"
proof -
  let ?f = "cancel_closure (system_service D Eo Ei txu b) c u"
  obtain r1 w1 where cl: "?f w = (r1, w1)" by fastforce
  note out = cancel_closure_outcome [OF D(1,3) up cl]
  have "dp_Do D ?f w = (if \<exists>x. r1 = Ret x then (r1, w1) else (r1, w))"
    using out by (intro committed_or_undone [OF D(1,2), of ?f w r1 w1] cl) blast
  with run have "w' = (if \<exists>x. r1 = Ret x then w1 else w)"
    by (auto simp: OrderService_Cancel_def system_service_def bindA_app
          order_backend.service_sel [OF system_backend [OF D(1)]] split: if_splits res.splits)
  with out show ?thesis by auto
qed

lemma ship_outcome:
  assumes D: "deployment_ok D" "committing D" "valid_session D c" and up: "order_up Eo"
    and msg: "unm v = Some ev" "uuid_Parse (dp_uuid D) (sam_OrderUuid ev) = Some u"
    and run: "ShipAssembledHandler (system_service D Eo Ei txu b) (dp_uuid D) unm c v w = (r, w')"
  shows "w' = w \<or> status_of w u \<noteq> Some OrderStatusAssembled
    \<and> bulk_and_status D Eo Ei CallCommit OrderStatusAssembled u w w'"
proof -
  let ?f = "ship_closure (system_service D Eo Ei txu b) c u"
  obtain r1 w1 where cl: "?f w = (r1, w1)" by fastforce
  note out = ship_closure_outcome [OF D(1,3) up cl]
  have "dp_Do D ?f w = (if \<exists>x. r1 = Ret x then (r1, w1) else (r1, w))"
    using out by (intro committed_or_undone [OF D(1,2), of ?f w r1 w1] cl) auto
  with run msg have "w' = (if \<exists>x. r1 = Ret x then w1 else w)"
    by (auto simp: ShipAssembledHandler_def decodeShipAssembled_def system_service_def bindA_app
          order_backend.service_sel [OF system_backend [OF D(1)]] split: if_splits res.splits)
  with out show ?thesis by auto
qed

definition paid_event :: "deployment \<Rightarrow> uuid \<Rightarrow> OrderRecord \<Rightarrow> OrderPaidEvent" where
  "paid_event D u row = \<lparr>pe_UUID = uuid_String (dp_uuid D) u, pe_OrderUUID = uuid_String (dp_uuid D) u,
     pe_UserUUID = uuid_String (dp_uuid D) (ord_UserUUID row)\<rparr>"

lemma pay_client: "\<exists>r. cl_PayOrder (system_clients D Ei txu b) c u pm w = (r, w)"
  by (simp add: system_clients_def Let_def PaymentClient_PayOrder_def act_simps split: res.split option.split)

lemma produce_client:
  "cl_ProduceOrderPaid (system_clients D Ei txu None) c ev w = (Ret (), w\<lparr>sys_paid := sys_paid w @ [ev]\<rparr>)"
  by (simp add: system_clients_def Let_def)

lemma pay_closure_outcome:
  assumes D: "deployment_ok D" and up: "order_up Eo"
    and cl: "pay_closure (system_service D Eo Ei txu None) (dp_uuid D) c u pm w = (r1, w1)"
  shows "(\<forall>x. r1 \<noteq> Ret x) \<and> w1 = w \<or> (\<exists>x. r1 = Ret x) \<and> (\<exists>row txu'. order_row w u = Some row \<and> ord_Status row = OrderStatusPendingPayment
    \<and> set_row u (row\<lparr>ord_Status := OrderStatusPaid, ord_TransactionUUID := Some txu', ord_PaymentMethod := Some pm\<rparr>) w w1
    \<and> sys_inv w1 = sys_inv w \<and> sys_paid w1 = sys_paid w @ [paid_event D u row])"
proof (cases "order_row w u")
  case None
  with cl show ?thesis
    by (auto simp: pay_closure_def system_service_def order_backend.service_sel [OF system_backend [OF D]]
          act_simps get_ok [OF up])
next
  case (Some row)
  define order where "order = (OrderRecordToModel row)\<lparr>o_Items := OrderItemRecordsToModels (oe_scan Eo (items_of w u))\<rparr>"
  note o = fetched_order [OF Some order_def]
  obtain r2 where pay: "cl_PayOrder (system_clients D Ei txu None) c u pm w = (r2, w)" using pay_client by blast
  note defs = pay_closure_def system_service_def order_backend.service_sel [OF system_backend [OF D]]
    act_simps get_ok [OF up] order_def [symmetric] Let_def pay produce_client
  show ?thesis
  proof (cases "ord_Status row = OrderStatusPendingPayment \<and> (\<exists>t. r2 = Ret t)")
    case False
    with cl Some o(4) show ?thesis by (cases r2) (auto simp: defs split: if_splits)
  next
    case True
    then obtain t where t: "r2 = Ret t" by blast
    let ?o = "order\<lparr>o_Status := OrderStatusPaid, o_TransactionUUID := Some t, o_PaymentMethod := Some pm\<rparr>"
    have row1: "order_row w (o_UUID ?o) = Some row" using Some o(1) by simp
    obtain w2 where u2: "OrderRepo_Update Eo ?o w = (Ret (), w2)" "sys_inv w2 = sys_inv w" "sys_paid w2 = sys_paid w"
      and sr: "set_row (o_UUID ?o) (row\<lparr>ord_Status := o_Status ?o, ord_TransactionUUID := o_TransactionUUID ?o,
        ord_PaymentMethod := o_PaymentMethod ?o\<rparr>) w w2"
      using update_ok [OF up row1] .
    have ev: "o_UserUUID order = ord_UserUUID row" by (simp add: order_def OrderRecordToModel_def)
    have w1: "w1 = w2\<lparr>sys_paid := sys_paid w2 @ [paid_event D u row]\<rparr>" and r1: "r1 = Ret (Some (t, ?o))"
      using cl Some o(1,4) True t u2 ev by (auto simp: defs paid_event_def)
    have "same_tables w2 w1" by (simp add: w1 same_tables_def)
    with sr o(1) set_row_same_tables [OF same_tables_refl]
    have "set_row u (row\<lparr>ord_Status := OrderStatusPaid, ord_TransactionUUID := Some t, ord_PaymentMethod := Some pm\<rparr>) w w1"
      by simp blast
    with Some True u2 w1 r1 show ?thesis by auto
  qed
qed

lemma pay_outcome:
  assumes D: "deployment_ok D" "committing D" and up: "order_up Eo"
    and run: "OrderService_Pay (system_service D Eo Ei txu None) (dp_uuid D) c u pm w = (r, w')"
  shows "w' = w \<or> (\<exists>row txu'. order_row w u = Some row \<and> ord_Status row = OrderStatusPendingPayment
    \<and> set_row u (row\<lparr>ord_Status := OrderStatusPaid, ord_TransactionUUID := Some txu', ord_PaymentMethod := Some pm\<rparr>) w w'
    \<and> sys_inv w' = sys_inv w \<and> sys_paid w' = sys_paid w @ [paid_event D u row])"
proof -
  let ?f = "pay_closure (system_service D Eo Ei txu None) (dp_uuid D) c u pm"
  obtain r1 w1 where cl: "?f w = (r1, w1)" by fastforce
  note out = pay_closure_outcome [OF D(1) up cl]
  have "dp_Do D ?f w = (if \<exists>x. r1 = Ret x then (r1, w1) else (r1, w))"
    using out by (intro committed_or_undone [OF D, of ?f w r1 w1] cl) blast
  with run have "w' = w \<or> w' = w1"
    by (cases r1) (auto simp: OrderService_Pay_def system_service_def bindA_app system_metrics
          order_backend.service_sel [OF system_backend [OF D(1)]] split: if_splits prod.splits)
  with out show ?thesis by auto
qed

subsection \<open>Preservation\<close>

lemma open_set_row:
  "set_row u row' w w' \<Longrightarrow> open_order w' v = (if v = u
     then ord_Status row' = OrderStatusPendingPayment \<or> ord_Status row' = OrderStatusPaid else open_order w v)"
  by (simp add: set_row_def open_order_def status_of_def)

lemma set_row_items: "set_row u row' w w' \<Longrightarrow> items_of w' = items_of w \<and> item_parts w' = item_parts w"
  by (simp add: set_row_def item_parts_def fun_eq_iff)

lemma set_row_status: "set_row u row' w w' \<Longrightarrow> status_of w' v = (if v = u then Some (ord_Status row') else status_of w v)"
  by (simp add: set_row_def status_of_def)

text \<open>Closing an open order with a bulk call that takes one unit of each of its parts off the counter.\<close>

lemma close_order_ok:
  assumes D: "deployment_ok D" and ok: "system_ok D w" and E: "scan_ok Eo"
    and bulk: "bulk_and_status D Eo Ei call st u w w'" and op: "open_order w u"
    and call: "\<And>us. call_uuids (call us) = us"
      "\<And>us part. p_reserved ((case call us of CallReserve _ \<Rightarrow> add_reserved | CallRelease _ \<Rightarrow> drop_reserved
         | CallCommit _ \<Rightarrow> take_out) part) = p_reserved part - 1"
    and st: "st \<noteq> OrderStatusPendingPayment" "st \<noteq> OrderStatusPaid"
    and events: "st = OrderStatusAssembled \<or> status_of w u = Some OrderStatusPendingPayment"
  shows "system_ok D w'"
proof -
  let ?us = "map itr_PartUUID (oe_scan Eo (items_of w u))"
  from bulk obtain row db' where row: "order_row w u = Some row" and sr: "set_row u (row\<lparr>ord_Status := st\<rparr>) w w'"
    and ex: "exec_call (call ?us) (NewPartService Ei (dp_invDo D)) (sys_inv w) = (Ret (), db')"
    and w': "sys_inv w' = db'" "sys_paid w' = sys_paid w"
    by (auto simp: bulk_and_status_def)
  have odb: "odb_ok w" "db_ok (sys_inv w)" using ok by (simp_all add: system_ok_def)
  note sc = scanned_items [OF odb(1) E, of u]
  have "?us \<noteq> []" using ok op sc(3) by (simp add: system_ok_def)
  then have "call_uuids (call ?us) \<noteq> []" by (simp add: call)
  note eff = bulk_effect [OF D odb(2) this ex, unfolded call(1) sc(2)]
  have hold: "holders w' p = holders w p - {u}" for p
    using open_set_row [OF sr] set_row_items [OF sr] st by (auto simp: holders_def split: if_splits)
  have mem: "u \<in> holders w p \<longleftrightarrow> p \<in> item_parts w u" for p using op by (simp add: holders_def)
  have card: "int (card (holders w' p)) = int (card (holders w p)) + (if p \<in> item_parts w u then - 1 else 0)" for p
    using mem [of p] card_Suc_Diff1 [OF finite_holders, of u w p] by (auto simp: hold)
  show ?thesis
  proof (rule system_ok_step [OF ok, of w' "item_parts w u" _ "- 1"])
    show "odb_ok w'" using sr odb by (simp add: set_row_def)
    show "db_ok (sys_inv w')" using eff(1) w' by simp
    show "part_of (sys_inv w') p = (if p \<in> item_parts w u then map_option
        (case call ?us of CallReserve _ \<Rightarrow> add_reserved | CallRelease _ \<Rightarrow> drop_reserved | CallCommit _ \<Rightarrow> take_out)
        (part_of (sys_inv w) p) else part_of (sys_inv w) p)" for p
      using eff(4) [of p] by (simp add: w')
    show "items_of w' v \<noteq> [] \<and> (\<forall>p \<in> item_parts w' v. part_of (sys_inv w) p \<noteq> None)" if "open_order w' v" for v
      using that ok open_set_row [OF sr] set_row_items [OF sr] st by (auto simp: system_ok_def split: if_splits)
    show "\<exists>v. pe_OrderUUID ev = uuid_String (dp_uuid D) v \<and>
        (status_of w' v = Some OrderStatusPaid \<or> status_of w' v = Some OrderStatusAssembled)" if "ev \<in> set (sys_paid w')" for ev
    proof -
      from that w' ok obtain v where v: "pe_OrderUUID ev = uuid_String (dp_uuid D) v"
        "status_of w v = Some OrderStatusPaid \<or> status_of w v = Some OrderStatusAssembled"
        by (auto simp: system_ok_def)
      with events have "status_of w' v = Some OrderStatusPaid \<or> status_of w' v = Some OrderStatusAssembled"
        by (auto simp: set_row_status [OF sr])
      with v show ?thesis by blast
    qed
  qed (use call(2) card in simp_all)
qed

lemma pay_keeps_ok:
  assumes D: "deployment_ok D" "committing D" and up: "order_up Eo" and ok: "system_ok D w"
    and run: "OrderService_Pay (system_service D Eo Ei txu None) (dp_uuid D) c u pm w = (r, w')"
  shows "system_ok D w'"
proof -
  { fix row txu'
    assume row: "order_row w u = Some row" "ord_Status row = OrderStatusPendingPayment"
      and sr: "set_row u (row\<lparr>ord_Status := OrderStatusPaid, ord_TransactionUUID := Some txu', ord_PaymentMethod := Some pm\<rparr>) w w'"
      and w': "sys_inv w' = sys_inv w" "sys_paid w' = sys_paid w @ [paid_event D u row]"
    have op: "open_order w u" using row by (simp add: open_order_def status_of_def)
    have same: "open_order w' = open_order w" using open_set_row [OF sr] op by (auto simp: fun_eq_iff)
    have "system_ok D w'"
    proof (rule system_ok_step [OF ok, of w' "{}" "\<lambda>p. p" 0])
      show "odb_ok w'" using sr ok by (simp add: set_row_def system_ok_def)
      show "int (card (holders w' p)) = int (card (holders w p)) + (if p \<in> {} then 0 else 0)" for p
        using same set_row_items [OF sr] by (simp add: holders_def)
      show "items_of w' v \<noteq> [] \<and> (\<forall>p \<in> item_parts w' v. part_of (sys_inv w) p \<noteq> None)" if "open_order w' v" for v
        using that ok same set_row_items [OF sr] by (auto simp: system_ok_def)
      show "\<exists>v. pe_OrderUUID ev = uuid_String (dp_uuid D) v \<and>
        (status_of w' v = Some OrderStatusPaid \<or> status_of w' v = Some OrderStatusAssembled)" if "ev \<in> set (sys_paid w')" for ev
      proof (cases "ev = paid_event D u row")
        case True
        then show ?thesis by (auto simp: paid_event_def set_row_status [OF sr])
      next
        case False
        with that w' ok obtain v where "pe_OrderUUID ev = uuid_String (dp_uuid D) v"
          "status_of w v = Some OrderStatusPaid \<or> status_of w v = Some OrderStatusAssembled"
          by (auto simp: system_ok_def)
        then show ?thesis using set_row_status [OF sr, of v] by (intro exI [of _ v]) auto
      qed
    qed (use ok w' in \<open>simp_all add: system_ok_def\<close>) }
  with pay_outcome [OF D up run] ok show ?thesis by blast
qed

lemma create_keeps_ok:
  assumes D: "deployment_ok D" "committing D" "valid_session D c" and ff: "fault_free Eo Ei"
    and ok: "system_ok D w" and new: "order_row w n = None"
    and run: "OrderService_Create (system_service D Eo Ei txu b) c n now ps w = (r, w')"
  shows "system_ok D w'"
proof -
  have odb: "odb_ok w" "db_ok (sys_inv w)" using ok by (simp_all add: system_ok_def)
  have nil: "items_of w n = []"
    using odb(1) new by (auto simp: odb_ok_def order_row_None items_of_def filter_empty_conv)
  from D ff odb new run show ?thesis
  proof (cases rule: create_outcome)
    case unchanged
    with ok show ?thesis by simp
  next
    case (created order db3)
    let ?us = "parts_uuids ps"
    note view = order_backend.create_Ret_view [OF system_backend [OF D(1)], folded system_service_def, OF run [unfolded created(1)]]
    note eff = bulk_effect [OF D(1) odb(2) _ created(2), unfolded call_uuids.simps inv_call.case]
    have items: "items_of w' v = (if v = n then OrderItemModelsToRecords n (o_Items order) else items_of w v)" for v
      using view(3) [of v] nil by simp
    have parts_n: "item_parts w' v = (if v = n then set ?us else item_parts w v)" for v
      using arg_cong [OF created(3), of set]
      by (simp add: item_parts_def items OrderItemModelsToRecords_def OrderItemModelToRecord_def image_image)
    have status: "status_of w' v = (if v = n then Some OrderStatusPendingPayment else status_of w v)" for v
      using view(2) by (simp add: status_of_def)
    have op: "open_order w' v = (v = n \<or> open_order w v)" for v
      using status by (simp add: open_order_def)
    have hold: "holders w' p = (if p \<in> set ?us then insert n (holders w p) else holders w p)" and notin: "n \<notin> holders w p" for p
      using op parts_n new by (auto simp: holders_def open_order_def status_of_def)
    show ?thesis
    proof (rule system_ok_step [OF ok, of w' "set ?us" add_reserved 1])
      show "odb_ok w'" by (rule created)
      show "db_ok (sys_inv w')" using eff(1) created by simp
      show "part_of (sys_inv w') p = (if p \<in> set ?us then map_option add_reserved (part_of (sys_inv w) p) else part_of (sys_inv w) p)" for p
        using eff(4) [of p] created by simp
      show "int (card (holders w' p)) = int (card (holders w p)) + (if p \<in> set ?us then 1 else 0)" for p
        using notin [of p] by (simp add: hold)
      show "items_of w' v \<noteq> [] \<and> (\<forall>p \<in> item_parts w' v. part_of (sys_inv w) p \<noteq> None)" if "open_order w' v" for v
      proof (cases "v = n")
        case True
        moreover have "o_Items order \<noteq> []" using created(3) parts_uuids_nonempty [of ps] by (metis list.simps(8))
        ultimately show ?thesis using eff(3) by (simp add: items parts_n OrderItemModelsToRecords_def)
      next
        case False
        with that op ok show ?thesis by (simp add: items parts_n system_ok_def)
      qed
      show "\<exists>v. pe_OrderUUID ev = uuid_String (dp_uuid D) v \<and>
        (status_of w' v = Some OrderStatusPaid \<or> status_of w' v = Some OrderStatusAssembled)" if "ev \<in> set (sys_paid w')" for ev
      proof -
        from that created(5) ok obtain v where v: "pe_OrderUUID ev = uuid_String (dp_uuid D) v"
          "status_of w v = Some OrderStatusPaid \<or> status_of w v = Some OrderStatusAssembled"
          by (auto simp: system_ok_def)
        then have "v \<noteq> n" using new by (auto simp: status_of_def)
        with v status show ?thesis by metis
      qed
    qed (simp add: add_reserved_def)
  qed
qed

subsection \<open>Reachable states\<close>

text \<open>
  One request or message, in a deployment where no infrastructure fails: the environments answer, the
  broker takes the event, the identifier of a new order is fresh, and a \<open>ShipAssembled\<close> message
  answers an \<open>OrderPaid\<close> event that was published.
\<close>

inductive system_step :: "deployment \<Rightarrow> system \<Rightarrow> system \<Rightarrow> bool" for D where
  create: "fault_free Eo Ei \<Longrightarrow> valid_session D c \<Longrightarrow> order_row w n = None \<Longrightarrow>
    system_step D w (snd (OrderService_Create (system_service D Eo Ei txu None) c n now ps w))"
| pay: "fault_free Eo Ei \<Longrightarrow> valid_session D c \<Longrightarrow>
    system_step D w (snd (OrderService_Pay (system_service D Eo Ei txu None) (dp_uuid D) c u pm w))"
| cancel: "fault_free Eo Ei \<Longrightarrow> valid_session D c \<Longrightarrow>
    system_step D w (snd (OrderService_Cancel (system_service D Eo Ei txu None) c u w))"
| ship: "fault_free Eo Ei \<Longrightarrow> valid_session D c \<Longrightarrow> ev \<in> set (sys_paid w) \<Longrightarrow> unm v = Some msg \<Longrightarrow>
    sam_OrderUuid msg = pe_OrderUUID ev \<Longrightarrow>
    system_step D w (snd (ShipAssembledHandler (system_service D Eo Ei txu None) (dp_uuid D) unm c v w))"

lemma system_step_ok:
  assumes "system_step D w w'" "deployment_ok D" "committing D" "system_ok D w"
  shows "system_ok D w'"
  using assms(1)
proof cases
  case (create Eo Ei c n txu now ps)
  with assms show ?thesis
    by (metis create_keeps_ok prod.collapse)
next
  case (pay Eo Ei c txu u pm)
  then have "order_up Eo" by (simp add: fault_free_def)
  with pay assms show ?thesis by (metis pay_keeps_ok prod.collapse)
next
  case (cancel Eo Ei c txu u)
  then have E: "order_up Eo" "scan_ok Eo" by (simp_all add: fault_free_def)
  from cancel(1) have run: "OrderService_Cancel (system_service D Eo Ei txu None) c u w =
      (fst (OrderService_Cancel (system_service D Eo Ei txu None) c u w), w')" by simp
  from cancel_outcome [OF assms(2,3) cancel(3) E(1) run] show ?thesis
  proof
    assume "status_of w u = Some OrderStatusPendingPayment \<and> bulk_and_status D Eo Ei CallRelease OrderStatusCancelled u w w'"
    then show ?thesis
      using close_order_ok [OF assms(2,4) E(2), of Ei CallRelease OrderStatusCancelled u w']
      by (simp add: open_order_def drop_reserved_def)
  qed (use assms in simp)
next
  case (ship Eo Ei c ev unm v msg txu)
  then have E: "order_up Eo" "scan_ok Eo" by (simp_all add: fault_free_def)
  from assms(4) ship(4) obtain u where u: "pe_OrderUUID ev = uuid_String (dp_uuid D) u"
    "status_of w u = Some OrderStatusPaid \<or> status_of w u = Some OrderStatusAssembled"
    by (auto simp: system_ok_def)
  then have parse: "uuid_Parse (dp_uuid D) (sam_OrderUuid msg) = Some u"
    using assms(2) ship(6) by (simp add: deployment_ok_def uuid_lib_parse)
  from ship(1) have run: "ShipAssembledHandler (system_service D Eo Ei txu None) (dp_uuid D) unm c v w =
      (fst (ShipAssembledHandler (system_service D Eo Ei txu None) (dp_uuid D) unm c v w), w')" by simp
  from ship_outcome [OF assms(2,3) ship(3) E(1) ship(5) parse run] show ?thesis
  proof
    assume "status_of w u \<noteq> Some OrderStatusAssembled \<and> bulk_and_status D Eo Ei CallCommit OrderStatusAssembled u w w'"
    then show ?thesis
      using u(2) close_order_ok [OF assms(2,4) E(2), of Ei CallCommit OrderStatusAssembled u w']
      by (simp add: open_order_def take_out_def)
  qed (use assms in simp)
qed

lemma system_steps_ok:
  assumes "(system_step D)\<^sup>*\<^sup>* w w'" "deployment_ok D" "committing D" "system_ok D w"
  shows "system_ok D w'"
  using assms by (induction rule: rtranclp_induct) (auto intro: system_step_ok)

subsection \<open>A deployment for the witnesses\<close>

definition demo :: deployment where
  "demo = \<lparr>dp_uuid = unary_uuid_lib, dp_inv_status = chain_FromError, dp_ord_status = chain_FromError,
     dp_wire = code_wire, dp_pay_wire = code_wire, dp_whoami = (\<lambda>c s. ret (8, s)),
     dp_invDo = pg_commit, dp_repoDo = ord_Do, dp_Do = ord_Do\<rparr>"

lemma demo_ok: "deployment_ok demo" "committing demo"
  by (simp_all add: deployment_ok_def committing_def demo_def unary_uuid_lib_ok chain_FromError_ok code_wire_ok commits_pg)

interpretation demo_orders: order_backend E "dp_repoDo demo" "dp_Do demo" "system_clients demo Ei txu broker"
  for E Ei txu broker
  by (rule system_backend [OF demo_ok(1)])

definition demo_ctx :: ctx where
  "demo_ctx = WithSessionUUID (WithUserUUID background_ctx 8) 77"

lemma demo_session: "valid_session demo demo_ctx"
  by (auto simp: valid_session_def demo_ctx_def demo_def WithSessionUUID_def WithUserUUID_def background_ctx_def)

definition engine_row :: "uuid \<Rightarrow> int \<Rightarrow> int \<Rightarrow> PartRecord" where
  "engine_row u stock reserved = (hull_row u stock reserved)\<lparr>rec_PartType := Inventory_Domain.PartTypeEngine,
     rec_Properties := JObj [(''engine'', JObj [(''class'', JStr ''A''), (''required_strength'', JInt 80)])]\<rparr>"

definition demo_start :: system where
  "demo_start = \<lparr>od_orders = [], od_updated_at = Map.empty, od_items = [],
     sys_inv = \<lparr>parts = [hull_row 1 2 0, engine_row 2 5 0]\<rparr>, sys_paid = []\<rparr>"

definition demo_create :: system where
  "demo_create = snd (OrderService_Create (system_service demo calm_env (healthy (\<lambda>_. 0)) 99 None) demo_ctx 5 1234
     two_parts demo_start)"

lemma demo_fault_free: "fault_free calm_env (healthy coll)"
  by (simp add: fault_free_def calm_env_ok)

lemma demo_start_ok: "system_ok demo demo_start"
proof -
  have db: "db_ok (sys_inv demo_start)" by code_simp
  have hold: "holders demo_start p = {}" and op: "\<not> open_order demo_start u" for p u
    by (simp_all add: holders_def open_order_def status_of_def order_row_def demo_start_def)
  have "p_reserved part = 0" if "part_of (sys_inv demo_start) p = Some part" for p part
    using part_of_counters [OF that] by (auto simp: demo_start_def hull_row_def engine_row_def)
  with db hold op show ?thesis
    by (simp add: system_ok_def odb_ok_def) (simp add: demo_start_def)
qed

lemma demo_step: "system_step demo demo_start demo_create"
  unfolding demo_create_def
  by (rule system_step.create [OF demo_fault_free demo_session])
     (simp add: order_row_def demo_start_def)

subsection \<open>Properties\<close>

text \<open>
  C36. An error of the inventory domain reaches the HTTP client of the order service with the status
  that fits it, through both interceptors, the wire and both error tables: an unknown part is 404, bad
  identifiers and parts in the wrong slot are 400, incompatible, exhausted or unreserved parts are
  409, and any other inventory error is 500. A session the inventory refuses also ends as 500, not as
  401.
\<close>

theorem inventory_errors_over_http:
  assumes "deployment_ok D"
  shows "(cause e = Sent s \<longrightarrow> order_mapError (client_error D e) = (case s of
      inv_error.ErrPartNotFound \<Rightarrow> 404
    | inv_error.ErrInvalidUUID \<Rightarrow> 400 | inv_error.ErrPartTypeMismatch \<Rightarrow> 400
    | inv_error.ErrIncompatibleParts \<Rightarrow> 409 | ErrNothingToCommit \<Rightarrow> 409 | ErrNothingToRelease \<Rightarrow> 409
    | inv_error.ErrOutOfStock \<Rightarrow> 409
    | _ \<Rightarrow> 500))
    \<and> order_mapError (client_error D (Status Unauthenticated)) = 500"
  using client_error_Sent [OF assms, of e s] wire_Unauthenticated [OF assms]
  by (auto simp: order_mapError_def errors_Is_cause errors_Is_ext_cause split: inv_error.splits)

theorem inventory_errors_over_http_witness:
  "order_mapError (client_error demo (Wrap ''failed to reserve parts'' (Sent inv_error.ErrOutOfStock))) = 409"
  using inventory_errors_over_http [OF demo_ok(1), of "Wrap ''failed to reserve parts'' (Sent inv_error.ErrOutOfStock)"
      inv_error.ErrOutOfStock]
  by simp

text \<open>
  C1. Reservations and orders stay in step: from a state in which they agree, after any sequence of
  create, pay, cancel requests and assembly messages in a deployment without infrastructure failures,
  the reserved counter of every part is the number of open (pending or paid) orders that contain it.
  Every request went through both services, their interceptors and both databases.
\<close>

theorem reservations_match_orders:
  assumes "deployment_ok D" "committing D" "system_ok D w" "(system_step D)\<^sup>*\<^sup>* w w'"
    and "part_of (sys_inv w') p = Some part"
  shows "p_reserved part = int (card (holders w' p)) \<and> p_reserved part \<le> p_stockQuantity part"
proof -
  have ok: "system_ok D w'" using system_steps_ok [OF assms(4,1,2,3)] .
  then have "part_ok part" using part_of_ok [OF _ assms(5)] by (simp add: system_ok_def)
  with ok assms(5) show ?thesis by (simp add: system_ok_def part_ok_def counters_ok_def)
qed

theorem reservations_match_orders_witness:
  "\<exists>part. part_of (sys_inv demo_create) 1 = Some part \<and> p_reserved part = 1 \<and> card (holders demo_create 1) = 1"
proof -
  have "map_option p_reserved (part_of (sys_inv demo_create) 1) = Some 1" by code_simp
  then obtain part where part: "part_of (sys_inv demo_create) 1 = Some part" "p_reserved part = 1" by auto
  from reservations_match_orders [OF demo_ok demo_start_ok r_into_rtranclp [of "system_step demo", OF demo_step] part(1)] part
  show ?thesis by simp
qed

text \<open>
  C38. What one failure at the wrong moment does to \<open>Create\<close>: a request that would have
  succeeded, but whose \<open>INSERT\<close> into \<open>orders\<close> fails, ends in an error and creates no order,
  while the inventory keeps every reservation it made; nothing releases them.
\<close>

theorem failed_insert_leaks_reservations:
  assumes D: "deployment_ok D"
    and run: "OrderService_Create (system_service D Eo Ei txu b) c n now ps w = (Ret order, w1)"
  shows "\<exists>w'. OrderService_Create (system_service D (Eo\<lparr>oe_insert := Some x\<rparr>) Ei txu b) c n now ps w
      = (Err (Wrap ''create order'' (Ext x)), w')
    \<and> od_orders w' = od_orders w \<and> od_items w' = od_items w \<and> sys_inv w' = sys_inv w1"
proof -
  let ?cl = "system_clients D Ei txu b" and ?us = "parts_uuids ps" and ?E = "Eo\<lparr>oe_insert := Some x\<rparr>"
  note sel = system_service_def order_backend.service_sel [OF system_backend [OF D]]
  obtain prts items wa wb wc wd where
    user: "UserUUIDFromContext c = (o_UserUUID order, True)" and uniq: "validateUniqueUUIDs ?us = Ret ()"
    and list: "cl_ListParts ?cl c ?us w = (Ret prts, wa)" "length prts = length ?us" "mapR order_item prts = Ret items"
    and val: "cl_ValidateCompatibility ?cl c ps wa = (Ret (), wb)" and res: "cl_ReserveParts ?cl c ?us wb = (Ret (), wc)"
    and order: "order = \<lparr>o_UUID = n, o_UserUUID = o_UserUUID order, o_Items = items, o_TransactionUUID = None,
       o_PaymentMethod = None, o_Status = OrderStatusPendingPayment, o_CreatedAt = now\<rparr>"
    and ins: "OrderRepo_Create Eo (dp_repoDo D) order wc = (Ret (), wd)" and w1: "w1 = cl_createdTotal ?cl wd"
    using run unfolding system_service_def by (rule order_backend.create_Ret [OF system_backend [OF D]]) blast
  have tx: "tx_manager (dp_repoDo D) order_rollback" using D by (simp add: deployment_ok_def)
  have fail1: "OrderRepo_Create ?E (dp_repoDo D) o' wc = (Err (Wrap ''create order'' (Ext x)), wc)" for o'
    using tx_manager.Do_Err [OF tx, of "bindA (OrderRepo_createOrder ?E o') (\<lambda>_. OrderRepo_createOrderItems ?E o')" wc]
    by (simp add: OrderRepo_Create_def OrderRepo_createOrder_def act_simps)
  have eq: "OrderService_Create (system_service D ?E Ei txu b) c n now ps w = (Err (Wrap ''create order'' (Ext x)), wc)"
    by (simp add: OrderService_Create_def sel Let_def user uniq act_simps list val res fail1)
  from tx_manager.Do_RetD [OF tx ins [unfolded OrderRepo_Create_def]] have "sys_inv wd = sys_inv wc"
    by (auto simp: bindA_Ret_iff wrapA_Ret_iff OrderRepo_createOrder_def OrderRepo_createOrderItems_def Let_def
          sql_app split: option.splits if_splits)
  moreover have "same_tables w wc"
    using list(1) val res order_backend.frames [OF system_backend [OF D]] by (meson keeps_tablesD same_tables_trans)
  ultimately show ?thesis using w1 eq by (simp add: system_metrics same_tables_def)
qed

theorem failed_insert_leaks_reservations_witness:
  "map_option p_reserved (part_of (sys_inv (snd (OrderService_Create (system_service demo
      (calm_env\<lparr>oe_insert := Some (Foreign ''connection lost'')\<rparr>) (healthy (\<lambda>_. 0)) 99 None) demo_ctx 5 1234
     two_parts demo_start))) 1) = Some 1"
proof -
  let ?run = "OrderService_Create (system_service demo calm_env (healthy (\<lambda>_. 0)) 99 None) demo_ctx 5 1234 two_parts demo_start"
  have "case fst ?run of Ret order \<Rightarrow> True | _ \<Rightarrow> False" by code_simp
  then obtain order where "fst ?run = Ret order" by (auto split: res.splits)
  then have run: "?run = (Ret order, demo_create)" by (simp add: demo_create_def prod_eq_iff)
  have "map_option p_reserved (part_of (sys_inv demo_create) 1) = Some 1" by code_simp
  with failed_insert_leaks_reservations [OF demo_ok(1) run, of "Foreign ''connection lost''"] show ?thesis by auto
qed

text \<open>
  What a failed commit does to \<open>Cancel\<close>: a cancellation that would have succeeded, but whose
  transaction cannot be committed, reports the failure and leaves the order as it was, still waiting
  for payment, while the inventory has already given its reservations back; cancelling again releases
  them a second time.
\<close>

lemma failed_commit_splits_cancel:
  assumes D: "deployment_ok D"
    and run: "OrderService_Cancel (system_service D Eo Ei txu b) c u w = (Ret (), w1)"
  shows "OrderService_Cancel (system_service (D\<lparr>dp_Do := pg_Do order_rollback (Some x)\<rparr>) Eo Ei txu b) c u w
    = (Err (Ext x), order_rollback w w1)
    \<and> status_of (order_rollback w w1) u = Some OrderStatusPendingPayment
    \<and> sys_inv (order_rollback w w1) = sys_inv w1"
proof -
  let ?D = "D\<lparr>dp_Do := pg_Do order_rollback (Some x)\<rparr>"
  have cl: "system_clients ?D Ei txu b = system_clients D Ei txu b"
    by (simp add: system_clients_def inventory_stub_of_def inventory_rpc_def [abs_def] Let_def)
  have closure: "cancel_closure (system_service ?D Eo Ei txu b) c u = cancel_closure (system_service D Eo Ei txu b) c u"
    by (simp add: cancel_closure_def system_service_def NewOrderService_def cl cong: if_cong)
  have tx: "tx_manager (dp_Do D) order_rollback" using D by (simp add: deployment_ok_def)
  from run obtain v where "dp_Do D (cancel_closure (system_service D Eo Ei txu b) c u) w = (Ret v, w1)"
    by (auto simp: OrderService_Cancel_def bindA_Ret_iff system_service_def order_backend.service_sel [OF system_backend [OF D]])
  then have cc: "cancel_closure (system_service D Eo Ei txu b) c u w = (Ret v, w1)"
    by (rule tx_manager.Do_RetD [OF tx])
  from cc have "status_of w u = Some OrderStatusPendingPayment"
    unfolding system_service_def
    by (rule order_backend.cancel_closure_Ret [OF system_backend [OF D]]) (simp add: status_of_def)
  moreover have "status_of (order_rollback w w1) u = status_of w u"
    by (simp add: status_of_def order_row_def order_rollback_def)
  moreover have "OrderService_Cancel (system_service ?D Eo Ei txu b) c u w = (Err (Ext x), order_rollback w w1)"
    using cc by (simp add: OrderService_Cancel_def closure act_simps)
      (simp add: system_service_def NewOrderService_def pg_Do_def)
  ultimately show ?thesis by (simp add: order_rollback_def)
qed

end
