(* ===== verification/Order_Interleaving.thy ===== *)
theory Order_Interleaving
  imports Order_Properties
begin

text \<open>
  Concurrent calls on orders. The other theories run a transaction of the order service in one piece.
  Here its statements are separate steps of a process, any number of processes are interleaved with
  each other and with the rest of the world, and the row lock of \<open>SELECT ... FOR UPDATE\<close>
  (\<open>getOrderForUpdate\<close>, the first statement of every transaction) is what keeps them apart.
\<close>

subsection \<open>Transactions as sequences of statements\<close>

text \<open>A process hands control back after every statement and every call of a client.\<close>

datatype ('w, 'a) stmts =
    Stop "('a, order_error) res"
  | Run "'w \<Rightarrow> ('w, 'a) stmts \<times> 'w"

primrec run_stmts :: "('w, 'a) stmts \<Rightarrow> ('w, 'a, order_error) act" where
  "run_stmts (Stop r) = (\<lambda>w. (r, w))"
| "run_stmts (Run f) = (\<lambda>w. case map_prod run_stmts id (f w) of (g, w') \<Rightarrow> g w')"

definition stmt :: "('w, 'b, order_error) act \<Rightarrow> ('b \<Rightarrow> ('w, 'a) stmts) \<Rightarrow> ('w, 'a) stmts" where
  "stmt a k = Run (\<lambda>w. case a w of
       (Ret x, w') \<Rightarrow> (k x, w')
     | (Err e, w') \<Rightarrow> (Stop (Err e), w')
     | (Panic p, w') \<Rightarrow> (Stop (Panic p), w'))"

text \<open>The closures of \<open>Pay\<close>, \<open>Cancel\<close> and the handler of \<open>ShipAssembled\<close>, statement by statement.\<close>

definition pay_stmts ::
    "'w order_service \<Rightarrow> uuid_lib \<Rightarrow> ctx \<Rightarrow> uuid \<Rightarrow> PaymentMethod \<Rightarrow> ('w, captured) stmts" where
  "pay_stmts s U c orderUUID paymentMethod =
     stmt (wrapA ''fetch order'' (os_GetForUpdate s orderUUID)) (\<lambda>order.
     if o_Status order \<noteq> OrderStatusPendingPayment then Stop (Err (Sent ErrInvalidOrderStatus))
     else
       stmt (wrapA ''pay for the order'' (os_PayOrder s c orderUUID paymentMethod)) (\<lambda>transactionUUID.
       (let order = order\<lparr>o_Status := OrderStatusPaid, o_TransactionUUID := Some transactionUUID,
                          o_PaymentMethod := Some paymentMethod\<rparr>
        in stmt (wrapA ''update order'' (os_Update s order)) (\<lambda>_.
           stmt (wrapA ''send OrderPaid'' (os_ProduceOrderPaid s c
             \<lparr>pe_UUID = uuid_String U (o_UUID order), pe_OrderUUID = uuid_String U (o_UUID order),
              pe_UserUUID = uuid_String U (o_UserUUID order)\<rparr>)) (\<lambda>_.
           Stop (Ret (Some (transactionUUID, order))))))))"

definition cancel_stmts :: "'w order_service \<Rightarrow> ctx \<Rightarrow> uuid \<Rightarrow> ('w, captured) stmts" where
  "cancel_stmts s c orderUuid =
     stmt (os_GetForUpdate s orderUuid) (\<lambda>order.
     if o_Status order \<noteq> OrderStatusPendingPayment then Stop (Err (Sent ErrInvalidOrderStatus))
     else
       stmt (os_ReleaseParts s c (Order_ItemsUUIDs order)) (\<lambda>_.
       stmt (os_Update s (order\<lparr>o_Status := OrderStatusCancelled\<rparr>)) (\<lambda>_. Stop (Ret None))))"

definition ship_stmts :: "'w order_service \<Rightarrow> ctx \<Rightarrow> uuid \<Rightarrow> ('w, captured) stmts" where
  "ship_stmts s c orderUUID =
     stmt (os_GetForUpdate s orderUUID) (\<lambda>order.
     if o_Status order = OrderStatusAssembled then Stop (Ret None)
     else
       stmt (os_CommitParts s c (Order_ItemsUUIDs order)) (\<lambda>_.
       stmt (os_Update s (order\<lparr>o_Status := OrderStatusAssembled\<rparr>)) (\<lambda>_. Stop (Ret None))))"

text \<open>Run without interruption they are the closures.\<close>

lemma run_stmt: "run_stmts (stmt a k) = bindA a (\<lambda>x. run_stmts (k x))"
  by (auto simp: stmt_def bindA_def fun_eq_iff split: prod.splits res.splits)

lemma uninterrupted:
  "run_stmts (pay_stmts s U c u pm) = pay_closure s U c u pm"
  "run_stmts (cancel_stmts s c u) = cancel_closure s c u"
  "run_stmts (ship_stmts s c u) = ship_closure s c u"
proof -
  have [simp]: "run_stmts (if b then x else y) = (if b then run_stmts x else run_stmts y)"
    for b and x y :: "('a, captured) stmts" by simp
  have stop: "run_stmts (Stop (Err e)) = fail e" "run_stmts (Stop (Ret x)) = ret x" for e x
    by (auto simp: fun_eq_iff act_simps)
  show "run_stmts (pay_stmts s U c u pm) = pay_closure s U c u pm"
    "run_stmts (cancel_stmts s c u) = cancel_closure s c u"
    "run_stmts (ship_stmts s c u) = ship_closure s c u"
    unfolding pay_stmts_def pay_closure_def cancel_stmts_def cancel_closure_def ship_stmts_def ship_closure_def
    by (simp_all add: run_stmt stop Let_def del: run_stmts.simps cong: if_cong)
qed

subsection \<open>Interleaved processes\<close>

text \<open>
  A process waits for the lock of its order, works on the row with the image it found kept for a
  rollback, or has ended. The lock is held from the first statement to the end of the transaction; a
  query that finds no row locks nothing. Reading the items belongs to the first step: items never change
  once an order exists.
\<close>

datatype tx_kind = PayTx | CancelTx | ShipTx

datatype 'w tx_phase =
    Waiting "('w, captured) stmts"
  | Active "OrderRecord option \<times> time option" "('w, captured) stmts"
  | Ended "(captured, order_error) res"

record 'w order_tx =
  tx_kind :: tx_kind
  tx_order :: uuid
  tx_phase :: "'w tx_phase"

definition holds :: "uuid \<Rightarrow> 'w order_tx \<Rightarrow> bool" where
  "holds u t \<longleftrightarrow> tx_order t = u \<and> (case tx_phase t of Active (Some r, _) _ \<Rightarrow> True | _ \<Rightarrow> False)"

definition row_free :: "'w order_tx list \<Rightarrow> nat \<Rightarrow> uuid \<Rightarrow> bool" where
  "row_free ts i u \<longleftrightarrow> (\<forall>j < length ts. j \<noteq> i \<longrightarrow> \<not> holds u (ts ! j))"

definition undo :: "uuid \<Rightarrow> OrderRecord option \<times> time option \<Rightarrow> 'a order_db_scheme \<Rightarrow> 'a order_db_scheme" where
  "undo u found w = (case found of
       (None, _) \<Rightarrow> w
     | (Some r, t) \<Rightarrow> w\<lparr>od_orders := map (\<lambda>x. if ord_UUID x = u then r else x) (od_orders w),
                     od_updated_at := (od_updated_at w)(u := t)\<rparr>)"

text \<open>
  A transaction that ended well may still fail to commit. The rest of the world (other requests, the
  other services) may do anything at any time, except to existing orders; new orders are pending.
  Steps carry the process that makes them.
\<close>

inductive tx_step ::
    "nat option \<Rightarrow> 'a order_db_scheme \<times> 'a order_db_scheme order_tx list \<Rightarrow> 'a order_db_scheme \<times> 'a order_db_scheme order_tx list \<Rightarrow> bool" where
  lock: "i < length ts \<Longrightarrow> tx_phase (ts ! i) = Waiting (Run f) \<Longrightarrow> row_free ts i (tx_order (ts ! i)) \<Longrightarrow> f w = (k, w') \<Longrightarrow>
    tx_step (Some i) (w, ts) (w', ts[i := (ts ! i)\<lparr>tx_phase :=
      Active (order_row w (tx_order (ts ! i)), od_updated_at w (tx_order (ts ! i))) k\<rparr>])"
| exec: "i < length ts \<Longrightarrow> tx_phase (ts ! i) = Active found (Run f) \<Longrightarrow> f w = (k, w') \<Longrightarrow>
    tx_step (Some i) (w, ts) (w', ts[i := (ts ! i)\<lparr>tx_phase := Active found k\<rparr>])"
| commit: "i < length ts \<Longrightarrow> tx_phase (ts ! i) = Active found (Stop (Ret x)) \<Longrightarrow>
    tx_step (Some i) (w, ts) (w, ts[i := (ts ! i)\<lparr>tx_phase := Ended (Ret x)\<rparr>])"
| rollback: "i < length ts \<Longrightarrow> tx_phase (ts ! i) = Active found (Stop r) \<Longrightarrow>
    (case r of Ret x \<Rightarrow> \<exists>e. r' = Err e | _ \<Rightarrow> r' = r) \<Longrightarrow>
    tx_step (Some i) (w, ts) (undo (tx_order (ts ! i)) found w, ts[i := (ts ! i)\<lparr>tx_phase := Ended r'\<rparr>])"
| outside: "(\<And>u. order_row w' u = order_row w u \<or> order_row w u = None \<and> status_of w' u = Some OrderStatusPendingPayment) \<Longrightarrow>
    tx_step None (w, ts) (w', ts)"

abbreviation tx_steps ::
    "'a order_db_scheme \<times> 'a order_db_scheme order_tx list \<Rightarrow> 'a order_db_scheme \<times> 'a order_db_scheme order_tx list \<Rightarrow> bool" where
  "tx_steps \<equiv> (\<lambda>a b. \<exists>l. tx_step l a b)\<^sup>*\<^sup>*"

definition order_tx :: "'w order_service \<Rightarrow> uuid_lib \<Rightarrow> tx_kind \<times> ctx \<times> uuid \<times> PaymentMethod \<Rightarrow> 'w order_tx" where
  "order_tx s U call = (case call of (kind, c, u, pm) \<Rightarrow>
     \<lparr>tx_kind = kind, tx_order = u, tx_phase = Waiting (case kind of
        PayTx \<Rightarrow> pay_stmts s U c u pm | CancelTx \<Rightarrow> cancel_stmts s c u | ShipTx \<Rightarrow> ship_stmts s c u)\<rparr>)"

subsection \<open>What one process does to its row\<close>

text \<open>What a successful transaction found (\<open>r\<close>) and what it leaves.\<close>

definition tx_post :: "tx_kind \<Rightarrow> OrderRecord \<Rightarrow> OrderRecord option \<Rightarrow> bool" where
  "tx_post kind r cur \<longleftrightarrow> (\<exists>r'. cur = Some r' \<and> (case kind of
       PayTx \<Rightarrow> ord_Status r = OrderStatusPendingPayment \<and> ord_Status r' = OrderStatusPaid
     | CancelTx \<Rightarrow> ord_Status r = OrderStatusPendingPayment \<and> ord_Status r' = OrderStatusCancelled
     | ShipTx \<Rightarrow> ord_Status r' = OrderStatusAssembled \<and> (ord_Status r = OrderStatusAssembled \<longrightarrow> r' = r)))"

text \<open>
  The remaining statements of a process that holds its row: whatever happens elsewhere between them, they
  touch no other row, keep the row, and reach their end in \<open>tx_post\<close>.
\<close>

primrec good :: "tx_kind \<Rightarrow> uuid \<Rightarrow> OrderRecord \<Rightarrow> ('a order_db_scheme, captured) stmts \<Rightarrow> OrderRecord option \<Rightarrow> bool" where
  "good kind u r (Stop res) = (\<lambda>cur. cur \<noteq> None \<and> (case res of Ret x \<Rightarrow> tx_post kind r cur | _ \<Rightarrow> True))"
| "good kind u r (Run f) = (\<lambda>cur. cur \<noteq> None \<and> (\<forall>w. order_row w u = cur \<longrightarrow>
     (case map_prod (good kind u r) id (f w) of (g, w') \<Rightarrow>
        (\<forall>v. v \<noteq> u \<longrightarrow> order_row w' v = order_row w v) \<and> g (order_row w' u))))"

lemma good_some: "good kind u r k cur \<Longrightarrow> cur \<noteq> None"
  by (cases k) simp_all

lemma good_stmt:
  "good kind u r (stmt a k) cur \<longleftrightarrow> cur \<noteq> None \<and> (\<forall>w. order_row w u = cur \<longrightarrow>
     (\<forall>v. v \<noteq> u \<longrightarrow> order_row (snd (a w)) v = order_row w v)
     \<and> (case fst (a w) of Ret x \<Rightarrow> good kind u r (k x) (order_row (snd (a w)) u) | _ \<Rightarrow> order_row (snd (a w)) u \<noteq> None))"
proof -
  have "(case map_prod (good kind u r) id (case a w of (Ret x, w') \<Rightarrow> (k x, w') | (Err e, w') \<Rightarrow> (Stop (Err e), w')
        | (Panic p, w') \<Rightarrow> (Stop (Panic p), w')) of (g, w') \<Rightarrow> (\<forall>v. v \<noteq> u \<longrightarrow> order_row w' v = order_row w v) \<and> g (order_row w' u))
    \<longleftrightarrow> (\<forall>v. v \<noteq> u \<longrightarrow> order_row (snd (a w)) v = order_row w v)
      \<and> (case fst (a w) of Ret x \<Rightarrow> good kind u r (k x) (order_row (snd (a w)) u) | _ \<Rightarrow> order_row (snd (a w)) u \<noteq> None)" for w
    by (cases "a w"; cases "fst (a w)") simp_all
  then show ?thesis by (simp add: stmt_def)
qed

lemma good_client:
  assumes "keeps_tables a" "cur \<noteq> None" "\<And>x. good kind u r (k x) cur"
  shows "good kind u r (stmt a k) cur"
proof -
  have "order_row (snd (a w)) = order_row w" for w
    using assms(1) same_tables_view by (auto simp: keeps_tables_def)
  with assms(2,3) show ?thesis by (simp add: good_stmt split: res.split)
qed

lemma good_update:
  assumes "ord_UUID r0 = u" "o_UUID order = u" "good kind u r (k ()) (Some (order_set order r0))"
  shows "good kind u r (stmt (OrderRepo_Update E order) k) (Some r0)"
  using assms
  by (auto simp: stmt_def OrderRepo_Update_app order_row_update order_set_def dest: order_row_uuid
      split: option.splits prod.splits res.splits intro!: option.map_ident_strong)

text \<open>The first statement: it reads, and leaves a process without a row with nothing but its refusal.\<close>

definition refused :: "('w, 'a) stmts \<Rightarrow> bool" where
  "refused k \<longleftrightarrow> (\<exists>res. k = Stop res \<and> (\<forall>x. res \<noteq> Ret x))"

definition waits_well :: "tx_kind \<Rightarrow> uuid \<Rightarrow> ('a order_db_scheme, captured) stmts \<Rightarrow> bool" where
  "waits_well kind u k \<longleftrightarrow> (\<exists>f. k = Run f \<and> (\<forall>w. snd (f w) = w \<and> (case order_row w u of
       None \<Rightarrow> refused (fst (f w)) | Some r \<Rightarrow> good kind u r (fst (f w)) (Some r))))"

lemma good_wrap: "good kind u r (stmt a k) cur \<Longrightarrow> good kind u r (stmt (wrapA m a) k) cur"
proof -
  have wrap: "(case wrapR m res of Ret x \<Rightarrow> P x | _ \<Rightarrow> Q) = (case res of Ret x \<Rightarrow> P x | _ \<Rightarrow> Q)" for res and P :: "_ \<Rightarrow> bool" and Q
    by (cases res) simp_all
  show "good kind u r (stmt a k) cur \<Longrightarrow> good kind u r (stmt (wrapA m a) k) cur"
    unfolding good_stmt wrapA_app fst_conv snd_conv wrap .
qed

lemma waits_first:
  assumes "\<And>r items. ord_UUID r = u \<Longrightarrow> good kind u r (k (OrderRecordToModel r\<lparr>o_Items := items\<rparr>)) (Some r)"
  shows "waits_well kind u (stmt (OrderRepo_GetForUpdate E u) k)"
    and "waits_well kind u (stmt (wrapA m (OrderRepo_GetForUpdate E u)) k)"
  using assms
  by (auto simp: waits_well_def stmt_def OrderRepo_GetForUpdate_Get OrderRepo_Get_app wrapA_app refused_def
      dest: order_row_uuid split: option.splits if_splits)

context order_backend
begin

lemma order_tx_waits:
  "waits_well (tx_kind (order_tx s U call)) (tx_order (order_tx s U call)) (case tx_phase (order_tx s U call) of Waiting k \<Rightarrow> k)"
proof -
  obtain kind c u pm where call: "call = (kind, c, u, pm)" by (cases call)
  have "waits_well PayTx u (pay_stmts s U c u pm)"
    unfolding pay_stmts_def service_sel
    by (rule waits_first) (auto simp: Let_def OrderRecordToModel_def tx_post_def order_set_def
      intro!: good_client good_wrap good_update frames)
  moreover have "waits_well CancelTx u (cancel_stmts s c u)"
    unfolding cancel_stmts_def service_sel
    by (rule waits_first) (auto simp: OrderRecordToModel_def tx_post_def order_set_def
      intro!: good_client good_update frames)
  moreover have "waits_well ShipTx u (ship_stmts s c u)"
    unfolding ship_stmts_def service_sel
    by (rule waits_first) (auto simp: OrderRecordToModel_def tx_post_def order_set_def
      intro!: good_client good_update frames)
  ultimately show ?thesis by (cases kind) (simp_all add: order_tx_def call)
qed

end

subsection \<open>The invariant of the interleaving\<close>

definition tx_inv :: "'a order_db_scheme \<Rightarrow> 'a order_db_scheme order_tx \<Rightarrow> bool" where
  "tx_inv w t \<longleftrightarrow> (case tx_phase t of
       Waiting k \<Rightarrow> waits_well (tx_kind t) (tx_order t) k
     | Active (None, _) k \<Rightarrow> refused k
     | Active (Some r, _) k \<Rightarrow> ord_UUID r = tx_order t \<and> good (tx_kind t) (tx_order t) r k (order_row w (tx_order t))
     | Ended res \<Rightarrow> True)"

text \<open>A successful payment or cancellation.\<close>

definition won :: "'w order_tx \<Rightarrow> bool" where
  "won t \<longleftrightarrow> tx_kind t \<noteq> ShipTx \<and> (\<exists>x. tx_phase t = Ended (Ret x))"

text \<open>
  \<open>cm\<close> is the committed table: the image kept by the process that holds a row, the row itself where
  nobody does. Rows have at most one holder, winners leave their order beyond payment, and no order has
  two of them.
\<close>

definition txs_inv ::
    "'a order_db_scheme \<Rightarrow> (uuid \<Rightarrow> OrderRecord option) \<Rightarrow> 'a order_db_scheme \<Rightarrow> 'a order_db_scheme order_tx list \<Rightarrow> bool" where
  "txs_inv w0 cm w ts \<longleftrightarrow>
     (\<forall>t \<in> set ts. tx_inv w t)
   \<and> (\<forall>i < length ts. \<forall>j < length ts. \<forall>u. holds u (ts ! i) \<and> holds u (ts ! j) \<longrightarrow> i = j)
   \<and> (\<forall>u. (\<forall>t \<in> set ts. \<not> holds u t) \<longrightarrow> cm u = order_row w u)
   \<and> (\<forall>t \<in> set ts. \<forall>r tm k. tx_phase t = Active (Some r, tm) k \<longrightarrow> cm (tx_order t) = Some r)
   \<and> (\<forall>t \<in> set ts. won t \<longrightarrow> (\<exists>r. cm (tx_order t) = Some r \<and> ord_Status r \<noteq> OrderStatusPendingPayment))
   \<and> (\<forall>i < length ts. \<forall>j < length ts. won (ts ! i) \<and> won (ts ! j) \<and> tx_order (ts ! i) = tx_order (ts ! j) \<longrightarrow> i = j)
   \<and> (\<forall>u. status_step\<^sup>*\<^sup>* (status_of w0 u) (map_option ord_Status (cm u)))"

lemma txs_invD:
  assumes "txs_inv w0 cm w ts"
  shows "t \<in> set ts \<Longrightarrow> tx_inv w t"
    and "i < length ts \<Longrightarrow> j < length ts \<Longrightarrow> holds u (ts ! i) \<Longrightarrow> holds u (ts ! j) \<Longrightarrow> i = j"
    and "(\<And>t. t \<in> set ts \<Longrightarrow> \<not> holds u t) \<Longrightarrow> cm u = order_row w u"
    and "t \<in> set ts \<Longrightarrow> tx_phase t = Active (Some r, tm) k \<Longrightarrow> cm (tx_order t) = Some r"
    and "t \<in> set ts \<Longrightarrow> won t \<Longrightarrow> \<exists>r. cm (tx_order t) = Some r \<and> ord_Status r \<noteq> OrderStatusPendingPayment"
    and "i < length ts \<Longrightarrow> j < length ts \<Longrightarrow> won (ts ! i) \<Longrightarrow> won (ts ! j) \<Longrightarrow> tx_order (ts ! i) = tx_order (ts ! j) \<Longrightarrow> i = j"
    and "status_step\<^sup>*\<^sup>* (status_of w0 u) (map_option ord_Status (cm u))"
  using assms unfolding txs_inv_def by blast+

text \<open>A process does not notice what happens to other rows.\<close>

lemma tx_inv_frame:
  assumes "tx_inv w t" "holds (tx_order t) t \<Longrightarrow> order_row w' (tx_order t) = order_row w (tx_order t)"
  shows "tx_inv w' t"
  using assms by (auto simp: tx_inv_def holds_def split: tx_phase.splits prod.splits option.splits)

lemma holds_row:
  assumes "tx_inv w t" "holds u t"
  shows "order_row w u \<noteq> None"
  using assms good_some by (fastforce simp: tx_inv_def holds_def split: tx_phase.splits prod.splits option.splits)

text \<open>The processes after a step of process \<open>i\<close>.\<close>

lemma set_update_iff:
  "i < length xs \<Longrightarrow> x \<in> set (xs[i := y]) \<longleftrightarrow> x = y \<or> (\<exists>j < length xs. j \<noteq> i \<and> x = xs ! j)"
  by (auto simp: in_set_conv_nth nth_list_update split: if_splits)

lemma others_unaffected:
  assumes "txs_inv w0 cm w ts" "i < length ts" "tx_inv w' t'"
    and "\<And>v. v \<noteq> tx_order t' \<or> \<not> row_free ts i (tx_order t') \<Longrightarrow> order_row w' v = order_row w v"
  shows "\<forall>x \<in> set (ts[i := t']). tx_inv w' x"
proof -
  have "tx_inv w' (ts ! j)" if j: "j < length ts" "j \<noteq> i" for j
  proof (rule tx_inv_frame)
    show "tx_inv w (ts ! j)" using txs_invD(1) [OF assms(1)] j(1) by simp
    show "order_row w' (tx_order (ts ! j)) = order_row w (tx_order (ts ! j))" if "holds (tx_order (ts ! j)) (ts ! j)"
      using assms(4) [of "tx_order (ts ! j)"] that j by (cases "tx_order (ts ! j) = tx_order t'") (auto simp: row_free_def)
  qed
  then show ?thesis using assms(2,3) by (auto simp: set_update_iff)
qed

lemma one_holder:
  assumes "txs_inv w0 cm w ts" "i < length ts" "holds (tx_order t') t' \<Longrightarrow> row_free ts i (tx_order t')"
  shows "\<forall>a < length ts. \<forall>b < length ts. \<forall>u. holds u (ts[i := t'] ! a) \<and> holds u (ts[i := t'] ! b) \<longrightarrow> a = b"
proof (intro allI impI)
  fix a b u assume ab: "a < length ts" "b < length ts" "holds u (ts[i := t'] ! a) \<and> holds u (ts[i := t'] ! b)"
  then have "u = tx_order t'" if "a = i \<or> b = i" using that assms(2) by (auto simp: holds_def)
  then show "a = b" using ab assms(3) txs_invD(2) [OF assms(1), of a b u]
    by (cases "a = i"; cases "b = i") (auto simp: row_free_def)
qed

lemma unheld_after:
  assumes "i < length ts" "tx_order t' = tx_order (ts ! i)" "\<And>x. x \<in> set (ts[i := t']) \<Longrightarrow> \<not> holds u x"
  obtains "u = tx_order t'" "row_free ts i u" "\<not> holds u t'" | "u \<noteq> tx_order t'" "\<And>x. x \<in> set ts \<Longrightarrow> \<not> holds u x"
proof (cases "u = tx_order t'")
  case True
  have "row_free ts i u" using assms(1,3) by (auto simp: row_free_def set_update_iff)
  moreover have "\<not> holds u t'" using assms(3) set_update_memI [OF assms(1)] by blast
  ultimately show ?thesis using that(1) True by blast
next
  case False
  have "\<not> holds u x" if x: "x \<in> set ts" for x
  proof -
    obtain j where j: "j < length ts" "x = ts ! j" using x by (auto simp: in_set_conv_nth)
    show ?thesis
    proof (cases "j = i")
      case True
      then show ?thesis using j assms(2) False by (simp add: holds_def)
    next
      case jn: False
      then have "x \<in> set (ts[i := t'])" using j assms(1) by (auto simp: set_update_iff)
      then show ?thesis by (rule assms(3))
    qed
  qed
  then show ?thesis using that(2) False by blast
qed

text \<open>
  A step of process \<open>i\<close>: it changes at most the row it has to itself, in the table and in the committed
  table, and the committed status moves along the status machine.
\<close>

lemma own_step_inv:
  assumes inv: "txs_inv w0 cm w ts" and i: "i < length ts" "t' = (ts ! i)\<lparr>tx_phase := p\<rparr>"
    and rows: "\<And>v. v \<noteq> tx_order t' \<or> \<not> row_free ts i (tx_order t') \<Longrightarrow> order_row w' v = order_row w v \<and> cm' v = cm v"
    and t': "tx_inv w' t'" "holds (tx_order t') t' \<Longrightarrow> row_free ts i (tx_order t')"
    and image: "\<And>r tm k. p = Active (Some r, tm) k \<Longrightarrow> cm' (tx_order t') = Some r"
      "\<not> holds (tx_order t') t' \<Longrightarrow> row_free ts i (tx_order t') \<Longrightarrow> cm' (tx_order t') = order_row w' (tx_order t')"
    and status: "status_step\<^sup>*\<^sup>* (map_option ord_Status (cm (tx_order t'))) (map_option ord_Status (cm' (tx_order t')))"
      "cm (tx_order t') \<noteq> None \<Longrightarrow> map_option ord_Status (cm (tx_order t')) \<noteq> Some OrderStatusPendingPayment \<Longrightarrow>
        \<not> won t' \<and> cm' (tx_order t') \<noteq> None \<and> map_option ord_Status (cm' (tx_order t')) \<noteq> Some OrderStatusPendingPayment"
      "won t' \<Longrightarrow> cm' (tx_order t') \<noteq> None \<and> map_option ord_Status (cm' (tx_order t')) \<noteq> Some OrderStatusPendingPayment"
  shows "txs_inv w0 cm' w' (ts[i := t'])"
proof -
  let ?u = "tx_order t'"
  have mem: "ts ! j \<in> set ts" if "j < length ts" for j using that by simp
  have winner: "\<not> won t' \<and> (\<exists>r. cm' ?u = Some r \<and> ord_Status r \<noteq> OrderStatusPendingPayment)"
    if "j < length ts" "won (ts ! j)" "tx_order (ts ! j) = ?u" for j
    using txs_invD(5) [OF inv mem [OF that(1)] that(2)] that(3) status(2) by fastforce
  have held: "cm' (tx_order (ts ! j)) = cm (tx_order (ts ! j))"
    if "j < length ts" "j \<noteq> i" "tx_phase (ts ! j) = Active (Some r, tm) k" for j r tm k
  proof -
    have "\<not> row_free ts i (tx_order (ts ! j))" using that by (auto simp: row_free_def holds_def)
    then show ?thesis using rows [of "tx_order (ts ! j)"] by (cases "tx_order (ts ! j) = ?u") simp_all
  qed
  have "cm' u = order_row w' u" if "\<And>x. x \<in> set (ts[i := t']) \<Longrightarrow> \<not> holds u x" for u
  proof (rule unheld_after [OF i(1) _ that])
    show "tx_order t' = tx_order (ts ! i)" by (simp add: i(2))
  qed (use image(2) rows txs_invD(3) [OF inv] in auto)
  moreover have "\<forall>x \<in> set (ts[i := t']). \<forall>r tm k. tx_phase x = Active (Some r, tm) k \<longrightarrow> cm' (tx_order x) = Some r"
    using image(1) i held txs_invD(4) [OF inv mem] by (auto simp: set_update_iff)
  moreover have "\<forall>x \<in> set (ts[i := t']). won x \<longrightarrow> (\<exists>r. cm' (tx_order x) = Some r \<and> ord_Status r \<noteq> OrderStatusPendingPayment)"
  proof (intro ballI impI)
    fix x assume x: "x \<in> set (ts[i := t'])" "won x"
    then consider "x = t'" | j where "j < length ts" "x = ts ! j" "tx_order x = ?u" | j where "j < length ts" "x = ts ! j" "tx_order x \<noteq> ?u"
      using i(1) by (auto simp: set_update_iff)
    then show "\<exists>r. cm' (tx_order x) = Some r \<and> ord_Status r \<noteq> OrderStatusPendingPayment"
      using status(3) x(2) winner rows txs_invD(5) [OF inv mem] by cases auto
  qed
  moreover have "\<forall>a < length ts. \<forall>b < length ts. won (ts[i := t'] ! a) \<and> won (ts[i := t'] ! b)
      \<and> tx_order (ts[i := t'] ! a) = tx_order (ts[i := t'] ! b) \<longrightarrow> a = b"
  proof (intro allI impI)
    fix a b assume ab: "a < length ts" "b < length ts" "won (ts[i := t'] ! a) \<and> won (ts[i := t'] ! b)
      \<and> tx_order (ts[i := t'] ! a) = tx_order (ts[i := t'] ! b)"
    then show "a = b"
      using winner [of a] winner [of b] txs_invD(6) [OF inv, of a b] i(1) by (cases "a = i"; cases "b = i") simp_all
  qed
  moreover have "status_step\<^sup>*\<^sup>* (status_of w0 u) (map_option ord_Status (cm' u))" for u
    using txs_invD(7) [OF inv, of u] status(1) rows [of u] by (cases "u = ?u") auto
  ultimately show ?thesis
    using others_unaffected [OF inv i(1) t'(1)] one_holder [OF inv i(1) t'(2)] rows unfolding txs_inv_def by simp
qed

lemma undo_row:
  assumes "ord_UUID r = u" "order_row w u \<noteq> None"
  shows "order_row (undo u (Some r, tm) w) v = (if v = u then Some r else order_row w v)"
proof -
  have "find (\<lambda>x. ord_UUID x = v) (map (\<lambda>x. if ord_UUID x = u then r else x) xs) =
      (if v = u then map_option (\<lambda>_. r) (find (\<lambda>x. ord_UUID x = u) xs) else find (\<lambda>x. ord_UUID x = v) xs)" for xs
    using assms(1) by (induction xs) auto
  then show ?thesis using assms(2) by (auto simp: undo_def order_row_def)
qed

lemma tx_post_step:
  assumes "tx_post kind r cur"
  shows "status_step\<^sup>*\<^sup>* (Some (ord_Status r)) (map_option ord_Status cur)" "cur \<noteq> None"
    "map_option ord_Status cur \<noteq> Some OrderStatusPendingPayment"
    "ord_Status r \<noteq> OrderStatusPendingPayment \<Longrightarrow> kind = ShipTx"
proof -
  obtain r' where r': "cur = Some r'" "case kind of
       PayTx \<Rightarrow> ord_Status r = OrderStatusPendingPayment \<and> ord_Status r' = OrderStatusPaid
     | CancelTx \<Rightarrow> ord_Status r = OrderStatusPendingPayment \<and> ord_Status r' = OrderStatusCancelled
     | ShipTx \<Rightarrow> ord_Status r' = OrderStatusAssembled \<and> (ord_Status r = OrderStatusAssembled \<longrightarrow> r' = r)"
    using assms by (auto simp: tx_post_def)
  show "status_step\<^sup>*\<^sup>* (Some (ord_Status r)) (map_option ord_Status cur)"
  proof (cases "ord_Status r' = ord_Status r")
    case False
    then have "status_step (Some (ord_Status r)) (Some (ord_Status r'))"
      using r'(2) by (cases kind) (auto intro: status_step.intros)
    then show ?thesis using r'(1) by auto
  qed (simp add: r'(1))
  show "cur \<noteq> None" "map_option ord_Status cur \<noteq> Some OrderStatusPendingPayment"
    "ord_Status r \<noteq> OrderStatusPendingPayment \<Longrightarrow> kind = ShipTx"
    using r' by (cases kind; simp)+
qed

lemma holder_row_free:
  assumes "txs_inv w0 cm w ts" "i < length ts" "holds u (ts ! i)"
  shows "row_free ts i u"
  using txs_invD(2) [OF assms(1,2) _ assms(3)] by (auto simp: row_free_def)

lemma lock_inv:
  assumes inv: "txs_inv w0 cm w ts" and i: "i < length ts" "tx_phase (ts ! i) = Waiting (Run f)"
    and free: "row_free ts i (tx_order (ts ! i))" and f: "f w = (k, w')"
  shows "txs_inv w0 cm w' (ts[i := (ts ! i)\<lparr>tx_phase := Active (order_row w (tx_order (ts ! i)), tm) k\<rparr>])"
proof -
  let ?u = "tx_order (ts ! i)"
  have "tx_inv w (ts ! i)" using txs_invD(1) [OF inv] i(1) by simp
  then have "snd (f w) = w \<and> (case order_row w ?u of None \<Rightarrow> refused (fst (f w)) | Some r \<Rightarrow> good (tx_kind (ts ! i)) ?u r (fst (f w)) (Some r))"
    unfolding tx_inv_def i(2) waits_well_def by auto
  then have w': "w' = w" and k: "case order_row w ?u of None \<Rightarrow> refused k | Some r \<Rightarrow> good (tx_kind (ts ! i)) ?u r k (Some r)"
    unfolding f fst_conv snd_conv by blast+
  have "\<not> holds ?u x" if x: "x \<in> set ts" for x
    using x free i by (auto simp: in_set_conv_nth row_free_def holds_def)
  then have cm: "cm ?u = order_row w ?u" by (rule txs_invD(3) [OF inv])
  show ?thesis
    unfolding w'
    by (rule own_step_inv [OF inv i(1) refl, where cm' = cm])
      (use cm free k order_row_uuid [of w ?u] in \<open>auto simp: tx_inv_def won_def holds_def split: option.splits\<close>)
qed

lemma active_cases:
  assumes "txs_inv w0 cm w ts" "i < length ts" "tx_phase (ts ! i) = Active found k"
  obtains (none) tm where "found = (None, tm)" "refused k"
  | (row) r tm where "found = (Some r, tm)" "ord_UUID r = tx_order (ts ! i)" "cm (tx_order (ts ! i)) = Some r"
      "good (tx_kind (ts ! i)) (tx_order (ts ! i)) r k (order_row w (tx_order (ts ! i)))"
      "row_free ts i (tx_order (ts ! i))"
proof -
  obtain sv tm where found: "found = (sv, tm)" by fastforce
  have inv: "tx_inv w (ts ! i)" using txs_invD(1) [OF assms(1)] assms(2) by simp
  show ?thesis
  proof (cases sv)
    case None
    with inv found assms(3) none [of tm] show ?thesis by (simp add: tx_inv_def)
  next
    case (Some r)
    then have "holds (tx_order (ts ! i)) (ts ! i)" using found assms(3) by (simp add: holds_def)
    with holder_row_free [OF assms(1,2)] txs_invD(4) [OF assms(1) nth_mem [OF assms(2)], of r tm k] inv Some found assms(3) row [of r tm]
    show ?thesis by (simp add: tx_inv_def)
  qed
qed

lemma exec_inv:
  assumes inv: "txs_inv w0 cm w ts" and i: "i < length ts" "tx_phase (ts ! i) = Active found (Run f)" and f: "f w = (k, w')"
  shows "txs_inv w0 cm w' (ts[i := (ts ! i)\<lparr>tx_phase := Active found k\<rparr>])"
  using inv i
proof (cases rule: active_cases)
  case (row r tm)
  let ?u = "tx_order (ts ! i)"
  from row(4) f have k: "good (tx_kind (ts ! i)) ?u r k (order_row w' ?u)" "\<And>v. v \<noteq> ?u \<Longrightarrow> order_row w' v = order_row w v"
    by auto
  show ?thesis
    by (rule own_step_inv [OF inv i(1) refl, where cm' = cm])
      (use row k in \<open>auto simp: tx_inv_def won_def holds_def\<close>)
qed (simp add: refused_def)

lemma commit_inv:
  assumes inv: "txs_inv w0 cm w ts" and i: "i < length ts" "tx_phase (ts ! i) = Active found (Stop (Ret x))"
  shows "txs_inv w0 (cm(tx_order (ts ! i) := order_row w (tx_order (ts ! i)))) w (ts[i := (ts ! i)\<lparr>tx_phase := Ended (Ret x)\<rparr>])"
  using inv i
proof (cases rule: active_cases)
  case (row r tm)
  let ?u = "tx_order (ts ! i)"
  from row(4) have "tx_post (tx_kind (ts ! i)) r (order_row w ?u)" by simp
  note post = tx_post_step [OF this]
  show ?thesis
    by (rule own_step_inv [OF inv i(1) refl]) (use row post in \<open>auto simp: tx_inv_def won_def holds_def\<close>)
qed (simp add: refused_def)

lemma rollback_inv:
  assumes inv: "txs_inv w0 cm w ts" and i: "i < length ts" "tx_phase (ts ! i) = Active found (Stop res)"
    and res': "case res of Ret x \<Rightarrow> \<exists>e. res' = Err e | _ \<Rightarrow> res' = res"
  shows "txs_inv w0 cm (undo (tx_order (ts ! i)) found w) (ts[i := (ts ! i)\<lparr>tx_phase := Ended res'\<rparr>])"
proof -
  have lost: "\<not> won ((ts ! i)\<lparr>tx_phase := Ended res'\<rparr>)" using res' by (auto simp: won_def split: res.splits)
  let ?u = "tx_order (ts ! i)"
  show ?thesis
    using inv i
  proof (cases rule: active_cases)
    case (none tm)
    have "cm ?u = order_row w ?u" if "row_free ts i ?u"
    proof (rule txs_invD(3) [OF inv])
      fix x assume "x \<in> set ts"
      then show "\<not> holds ?u x" using that i none(1) by (auto simp: in_set_conv_nth row_free_def holds_def)
    qed
    moreover have "undo ?u found w = w" by (simp add: undo_def none)
    ultimately show ?thesis
      by (simp, intro own_step_inv [OF inv i(1) refl, where cm' = cm])
        (use lost in \<open>auto simp: tx_inv_def holds_def\<close>)
  next
    case (row r tm)
    have "order_row w ?u \<noteq> None" using good_some row(4) by blast
    note undone = undo_row [OF row(2) this, of tm]
    show ?thesis
      by (rule own_step_inv [OF inv i(1) refl, where cm' = cm])
        (use row lost in \<open>auto simp: undone tx_inv_def holds_def\<close>)
  qed
qed

lemma outside_inv:
  assumes inv: "txs_inv w0 cm w ts"
    and rows: "\<And>u. order_row w' u = order_row w u \<or> order_row w u = None \<and> status_of w' u = Some OrderStatusPendingPayment"
  shows "txs_inv w0 (\<lambda>u. if order_row w' u = order_row w u then cm u else order_row w' u) w' ts"
proof -
  let ?cm = "\<lambda>u. if order_row w' u = order_row w u then cm u else order_row w' u"
  have held: "order_row w' u = order_row w u" if "t \<in> set ts" "holds u t" for t u
    using holds_row [OF txs_invD(1) [OF inv that(1)] that(2)] rows [of u] by auto
  have new: "cm u = None" if "order_row w' u \<noteq> order_row w u" for u
  proof -
    have "\<not> holds u t" if "t \<in> set ts" for t using held [OF that] \<open>order_row w' u \<noteq> order_row w u\<close> by auto
    then have "cm u = order_row w u" by (rule txs_invD(3) [OF inv])
    then show ?thesis using rows [of u] that by auto
  qed
  have "\<forall>t \<in> set ts. tx_inv w' t" using held tx_inv_frame [OF txs_invD(1) [OF inv]] by blast
  moreover have "\<forall>t \<in> set ts. \<forall>r tm k. tx_phase t = Active (Some r, tm) k \<longrightarrow> ?cm (tx_order t) = Some r"
    using held txs_invD(4) [OF inv] by (simp add: holds_def)
  moreover have "\<forall>t \<in> set ts. won t \<longrightarrow> (\<exists>r. ?cm (tx_order t) = Some r \<and> ord_Status r \<noteq> OrderStatusPendingPayment)"
    using txs_invD(5) [OF inv] new by fastforce
  moreover have "status_step\<^sup>*\<^sup>* (status_of w0 u) (map_option ord_Status (?cm u))" for u
  proof (cases "order_row w' u = order_row w u")
    case False
    then have "map_option ord_Status (order_row w' u) = Some OrderStatusPendingPayment"
      using rows [of u] by (auto simp: status_of_def)
    moreover have "status_step\<^sup>*\<^sup>* (status_of w0 u) (Some OrderStatusPendingPayment)"
      using rtranclp.rtrancl_into_rtrancl [OF txs_invD(7) [OF inv, of u]] new [OF False] status_step.created by simp
    ultimately show ?thesis using False by auto
  qed (simp add: txs_invD(7) [OF inv])
  moreover have "?cm u = order_row w' u" if "\<And>t. t \<in> set ts \<Longrightarrow> \<not> holds u t" for u
    using txs_invD(3) [OF inv that] by simp
  ultimately show ?thesis using inv unfolding txs_inv_def by simp
qed

lemma tx_step_inv:
  assumes "tx_step l (w, ts) (w', ts')" "txs_inv w0 cm w ts"
  shows "\<exists>cm'. txs_inv w0 cm' w' ts'"
  using assms
  by (cases rule: tx_step.cases)
    (blast intro: lock_inv, blast intro: exec_inv, blast intro: commit_inv, blast intro: rollback_inv, blast intro: outside_inv)

lemma tx_steps_inv:
  assumes "tx_steps (w0, ts0) (w, ts)" "txs_inv w0 cm w0 ts0"
  shows "\<exists>cm'. txs_inv w0 cm' w ts"
  using assms(1)
proof (induction "(w, ts)" arbitrary: w ts rule: rtranclp_induct)
  case base
  then show ?case using assms(2) by blast
next
  case (step y)
  then show ?case using tx_step_inv by (cases y) blast
qed

text \<open>A process locks one row and waits for nothing while it has it, so some process can always go on.\<close>

lemma tx_progress:
  assumes inv: "txs_inv w0 cm w ts" and t: "t \<in> set ts" "\<And>r. tx_phase t \<noteq> Ended r"
  shows "\<exists>i c. i < length ts \<and> tx_step (Some i) (w, ts) c"
proof (cases "\<exists>i < length ts. \<exists>found k. tx_phase (ts ! i) = Active found k")
  case True
  then obtain i found k where i: "i < length ts" "tx_phase (ts ! i) = Active found k" by blast
  show ?thesis
  proof (cases k)
    case (Stop res)
    then show ?thesis
      using i tx_step.commit [of i ts found _ w] tx_step.rollback [of i ts found res "case res of Ret x \<Rightarrow> Err (Sent ErrInternalError) | _ \<Rightarrow> res" w]
      by (cases res) auto
  next
    case (Run f)
    then show ?thesis using i tx_step.exec [of i ts found f w "fst (f w)" "snd (f w)"] by auto
  qed
next
  case False
  obtain i where i: "i < length ts" "t = ts ! i" using t(1) by (auto simp: in_set_conv_nth)
  obtain k where k: "tx_phase (ts ! i) = Waiting k" using False t(2) i by (metis tx_phase.exhaust)
  then obtain f where "k = Run f" using txs_invD(1) [OF inv t(1)] i(2) by (auto simp: tx_inv_def waits_well_def)
  moreover have "row_free ts i u" for u using False by (auto simp: row_free_def holds_def split: tx_phase.splits)
  ultimately show ?thesis using i(1) k tx_step.lock [of i ts f w "fst (f w)" "snd (f w)"] by auto
qed

lemma initial_inv:
  assumes "\<And>t. t \<in> set ts \<Longrightarrow> \<exists>k. tx_phase t = Waiting k \<and> waits_well (tx_kind t) (tx_order t) k"
  shows "txs_inv w0 (order_row w0) w0 ts"
proof -
  have "tx_inv w0 t \<and> \<not> won t \<and> \<not> holds u t \<and> (\<forall>found k. tx_phase t \<noteq> Active found k)" if "t \<in> set ts" for t u
    using assms [OF that] by (auto simp: tx_inv_def won_def holds_def)
  then show ?thesis unfolding txs_inv_def by (auto simp: status_of_def)
qed

subsection \<open>Properties\<close>


text \<open>Two payments of the same order at once: the first has the row.\<close>

definition two_payments :: "(order_env \<times> tx_kind \<times> ctx \<times> uuid \<times> PaymentMethod) list" where
  "two_payments = [(calm_env, PayTx, background_ctx, 5, PaymentMethodCard), (calm_env, PayTx, background_ctx, 5, PaymentMethodSBP)]"


end
