(* ===== verification/Iam_Repository.thy ===== *)
theory Iam_Repository
  imports Platform_Auth
begin

text \<open>
  Data and storage of the IAM service (\<open>iam/internal/model\<close>, \<open>errors\<close>,
  \<open>repository\<close>): users in the table \<open>users\<close>, sessions as Redis hashes that expire.
  PostgreSQL is the list of rows of the migration with the driver's outcomes; the Redis client of
  \<open>deps.go\<close> is a parameter whose documented laws are the locale \<open>redis_hashes\<close>.
\<close>

subsection \<open>Errors and models\<close>

datatype iam_error =
    ErrUserNotFound | ErrUserAlreadyExists | ErrInvalidCredentials | ErrSessionNotFound
  | ErrInvalidLogin | ErrWeakPassword | ErrEmptyCredential | ErrEmptySessionID | ErrInvalidUUID

record User =
  us_UUID :: uuid
  us_Login :: string
  us_PasswordHash :: string
  us_CreatedAt :: time
  us_UpdatedAt :: "time option"

record Session =
  ses_UUID :: uuid
  ses_UserUUID :: uuid
  ses_Login :: string
  ses_CreatedAt :: time
  ses_UpdatedAt :: "time option"
  ses_ExpiresAt :: time

record UserRecord =
  ur_UUID :: uuid
  ur_Login :: string
  ur_PasswordHash :: string
  ur_CreatedAt :: time
  ur_UpdatedAt :: "time option"

record SessionRedisView =
  sv_UserUUID :: string
  sv_UserLogin :: string
  sv_UserCreatedAtNS :: int
  sv_UserUpdatedAtNS :: "int option"
  sv_SessionUUID :: string
  sv_SessionCreatedAtNS :: int
  sv_SessionUpdatedAtNS :: "int option"
  sv_SessionExpiresAtNS :: int

subsection \<open>Converters\<close>

definition UserRecordToModel :: "UserRecord \<Rightarrow> User" where
  "UserRecordToModel rec =
     \<lparr>us_UUID = ur_UUID rec, us_Login = ur_Login rec, us_PasswordHash = ur_PasswordHash rec,
      us_CreatedAt = ur_CreatedAt rec, us_UpdatedAt = ur_UpdatedAt rec\<rparr>"

definition UserModelToRecord :: "User \<Rightarrow> UserRecord" where
  "UserModelToRecord m =
     \<lparr>ur_UUID = us_UUID m, ur_Login = us_Login m, ur_PasswordHash = us_PasswordHash m,
      ur_CreatedAt = us_CreatedAt m, ur_UpdatedAt = us_UpdatedAt m\<rparr>"

text \<open>\<open>UnixNano\<close> is an \<open>int64\<close>; \<open>time.Unix(0, ns)\<close> reads it back.\<close>

definition UnixNano :: "time \<Rightarrow> int" where
  "UnixNano t = wrap64 t"

definition time_Unix0 :: "int \<Rightarrow> time" where
  "time_Unix0 ns = ns"

definition UserModelToSessionView :: "uuid_lib \<Rightarrow> time \<Rightarrow> uuid \<Rightarrow> User \<Rightarrow> time \<Rightarrow> SessionRedisView" where
  "UserModelToSessionView U now sessionUUID user expiredAt =
     \<lparr>sv_UserUUID = uuid_String U (us_UUID user), sv_UserLogin = us_Login user,
      sv_UserCreatedAtNS = UnixNano (us_CreatedAt user),
      sv_UserUpdatedAtNS = map_option UnixNano (us_UpdatedAt user),
      sv_SessionUUID = uuid_String U sessionUUID, sv_SessionCreatedAtNS = UnixNano now,
      sv_SessionUpdatedAtNS = None, sv_SessionExpiresAtNS = UnixNano expiredAt\<rparr>"

definition uuid_MustParse :: "uuid_lib \<Rightarrow> string \<Rightarrow> (uuid, 'e) res" where
  "uuid_MustParse U s = (case uuid_Parse U s of None \<Rightarrow> Panic ''uuid: Parse'' | Some u \<Rightarrow> Ret u)"

definition SessionViewToUserModel :: "uuid_lib \<Rightarrow> SessionRedisView \<Rightarrow> (User, iam_error) res" where
  "SessionViewToUserModel U v =
     bindR (uuid_MustParse U (sv_UserUUID v)) (\<lambda>userUUID.
     Ret \<lparr>us_UUID = userUUID, us_Login = sv_UserLogin v, us_PasswordHash = [],
          us_CreatedAt = time_Unix0 (sv_UserCreatedAtNS v),
          us_UpdatedAt = map_option time_Unix0 (sv_UserUpdatedAtNS v)\<rparr>)"

definition SessionViewToSessionModel :: "uuid_lib \<Rightarrow> SessionRedisView \<Rightarrow> (Session, iam_error) res" where
  "SessionViewToSessionModel U v =
     bindR (uuid_MustParse U (sv_SessionUUID v)) (\<lambda>sessionUUID.
     bindR (uuid_MustParse U (sv_UserUUID v)) (\<lambda>userUUID.
     Ret \<lparr>ses_UUID = sessionUUID, ses_UserUUID = userUUID, ses_Login = sv_UserLogin v,
          ses_CreatedAt = time_Unix0 (sv_SessionCreatedAtNS v),
          ses_UpdatedAt = map_option time_Unix0 (sv_SessionUpdatedAtNS v),
          ses_ExpiresAt = time_Unix0 (sv_SessionExpiresAtNS v)\<rparr>))"

definition SessionViewToModels :: "uuid_lib \<Rightarrow> SessionRedisView \<Rightarrow> (User \<times> Session, iam_error) res" where
  "SessionViewToModels U v =
     bindR (SessionViewToUserModel U v) (\<lambda>user.
     bindR (SessionViewToSessionModel U v) (\<lambda>session. Ret (user, session)))"

text \<open>What a session remembers of its user: everything but the password hash.\<close>

definition session_user :: "User \<Rightarrow> User" where
  "session_user user = user\<lparr>us_PasswordHash := [], us_CreatedAt := UnixNano (us_CreatedAt user),
     us_UpdatedAt := map_option UnixNano (us_UpdatedAt user)\<rparr>"

definition session_of :: "time \<Rightarrow> uuid \<Rightarrow> User \<Rightarrow> time \<Rightarrow> Session" where
  "session_of now s user expiresAt =
     \<lparr>ses_UUID = s, ses_UserUUID = us_UUID user, ses_Login = us_Login user, ses_CreatedAt = UnixNano now,
      ses_UpdatedAt = None, ses_ExpiresAt = UnixNano expiresAt\<rparr>"

lemma session_view_roundtrip:
  "uuid_lib_ok U \<Longrightarrow>
   SessionViewToModels U (UserModelToSessionView U now s user expiresAt) = Ret (session_user user, session_of now s user expiresAt)"
  by (simp add: SessionViewToModels_def SessionViewToUserModel_def SessionViewToSessionModel_def
        UserModelToSessionView_def uuid_MustParse_def uuid_lib_parse session_user_def session_of_def
        time_Unix0_def option.map_comp comp_def option.map_ident)

lemma user_record_roundtrip [simp]: "UserRecordToModel (UserModelToRecord m) = m"
  by (simp add: UserRecordToModel_def UserModelToRecord_def)

subsection \<open>The user repository\<close>

text \<open>
  The world of the service: the table and the state of the Redis server. The primary key and the
  unique index on the login refuse a second row (SQLSTATE 23505, \<open>UniqueViolation\<close>); any other
  refusal of the server or of the driver (a value too long for its column, a lost connection) is
  \<open>iu_insert\<close>. \<open>iu_timestamp\<close> is what a \<open>TIMESTAMP\<close> column keeps of an instant.
\<close>

record 'r iam_world =
  iw_users :: "UserRecord list"
  iw_redis :: 'r

record iam_env =
  iu_query :: "ext_error option"
  iu_insert :: "UserRecord \<Rightarrow> ext_error option"
  iu_timestamp :: "time \<Rightarrow> time"

definition stored_user :: "iam_env \<Rightarrow> UserRecord \<Rightarrow> UserRecord" where
  "stored_user E rec = rec\<lparr>ur_CreatedAt := iu_timestamp E (ur_CreatedAt rec), ur_UpdatedAt := None\<rparr>"

definition insert_user :: "iam_env \<Rightarrow> UserRecord \<Rightarrow> ('r iam_world, unit, iam_error) act" where
  "insert_user E rec = (\<lambda>w.
     case iu_insert E rec of
       Some x \<Rightarrow> (Err (Ext x), w)
     | None \<Rightarrow> if \<exists>r \<in> set (iw_users w). ur_UUID r = ur_UUID rec \<or> ur_Login r = ur_Login rec
               then (Err (Ext UniqueViolation), w)
               else (Ret (), w\<lparr>iw_users := iw_users w @ [stored_user E rec]\<rparr>))"

definition UserRepo_Create :: "iam_env \<Rightarrow> User \<Rightarrow> ('r iam_world, unit, iam_error) act" where
  "UserRepo_Create E user =
     mapErrA (\<lambda>err. if errors_Is_ext err UniqueViolation then Sent ErrUserAlreadyExists
                    else Wrap ''create user'' err)
       (insert_user E (UserModelToRecord user))"

definition select_user :: "iam_env \<Rightarrow> (UserRecord \<Rightarrow> bool) \<Rightarrow> ('r iam_world, UserRecord, iam_error) act" where
  "select_user E sel = (\<lambda>w. (case iu_query E of
       Some x \<Rightarrow> Err (Ext x)
     | None \<Rightarrow> (case find sel (iw_users w) of None \<Rightarrow> Err (Ext ErrNoRows) | Some rec \<Rightarrow> Ret rec), w))"

definition fetch_error :: "iam_error err \<Rightarrow> iam_error err" where
  "fetch_error err = (if errors_Is_ext err ErrNoRows then Sent ErrUserNotFound else Wrap ''fetch user'' err)"

definition UserRepo_GetByLogin :: "iam_env \<Rightarrow> string \<Rightarrow> ('r iam_world, User, iam_error) act" where
  "UserRepo_GetByLogin E login =
     bindA (mapErrA fetch_error (select_user E (\<lambda>r. ur_Login r = login))) (\<lambda>rec. ret (UserRecordToModel rec))"

definition UserRepo_GetByUUID :: "iam_env \<Rightarrow> uuid \<Rightarrow> ('r iam_world, User, iam_error) act" where
  "UserRepo_GetByUUID E userUUID =
     bindA (mapErrA fetch_error (select_user E (\<lambda>r. ur_UUID r = userUUID))) (\<lambda>rec. ret (UserRecordToModel rec))"

text \<open>The keys of the table.\<close>

definition users_ok :: "'r iam_world \<Rightarrow> bool" where
  "users_ok w \<longleftrightarrow> distinct (map ur_UUID (iw_users w)) \<and> distinct (map ur_Login (iw_users w))"

lemma UserRepo_Create_cases:
  "UserRepo_Create E user w = (case iu_insert E (UserModelToRecord user) of
       Some x \<Rightarrow> (Err (if x = UniqueViolation then Sent ErrUserAlreadyExists else Wrap ''create user'' (Ext x)), w)
     | None \<Rightarrow> if \<exists>r \<in> set (iw_users w). ur_UUID r = us_UUID user \<or> ur_Login r = us_Login user
               then (Err (Sent ErrUserAlreadyExists), w)
               else (Ret (), w\<lparr>iw_users := iw_users w @ [stored_user E (UserModelToRecord user)]\<rparr>))"
  by (simp add: UserRepo_Create_def insert_user_def UserModelToRecord_def act_simps
        split: option.splits)

lemma find_unique:
  "distinct (map f xs) \<Longrightarrow> x \<in> set xs \<Longrightarrow> find (\<lambda>y. f y = f x) xs = Some x"
  by (induction xs) auto

lemma select_user_Some:
  assumes "distinct (map f (iw_users w))" "r \<in> set (iw_users w)" "iu_query E = None"
  shows "select_user E (\<lambda>y. f y = f r) w = (Ret r, w)"
  using find_unique [OF assms(1,2)] assms(3) by (simp add: select_user_def)

lemma UserRepo_Create_users_ok:
  "users_ok w \<Longrightarrow> users_ok (snd (UserRepo_Create E user w))"
  by (auto simp: users_ok_def UserRepo_Create_cases stored_user_def UserModelToRecord_def split: option.splits)

end
