(* ===== verification/Iam_Sessions.thy ===== *)
theory Iam_Sessions
  imports Iam_Repository
begin

text \<open>
  The session repository (\<open>iam/internal/repository/session\<close>) over a Redis client. The client's
  laws are the locale \<open>redis_hashes\<close>, what the IAM service needs of its session storage is the
  locale \<open>session_store\<close>; the repository's own definitions turn the first into the second.
\<close>

subsection \<open>The Redis client\<close>

text \<open>
  The interface \<open>redisClient\<close> of \<open>deps.go\<close>; \<open>HGetAll\<close> stands for
  \<open>HGetAll(...).Scan(&view)\<close>. The first argument is the instant at which the server runs the
  command.
\<close>

record 'r redis_client =
  rc_HSet :: "time \<Rightarrow> string \<Rightarrow> SessionRedisView \<Rightarrow> ('r, unit, iam_error) act"
  rc_HGetAll :: "time \<Rightarrow> string \<Rightarrow> ('r, SessionRedisView, iam_error) act"
  rc_ExpireAt :: "time \<Rightarrow> string \<Rightarrow> time \<Rightarrow> ('r, unit, iam_error) act"
  rc_Del :: "time \<Rightarrow> string \<Rightarrow> ('r, unit, iam_error) act"

definition empty_view :: SessionRedisView where
  "empty_view = \<lparr>sv_UserUUID = [], sv_UserLogin = [], sv_UserCreatedAtNS = 0, sv_UserUpdatedAtNS = None,
     sv_SessionUUID = [], sv_SessionCreatedAtNS = 0, sv_SessionUpdatedAtNS = None, sv_SessionExpiresAtNS = 0\<rparr>"

text \<open>The clock readings of one \<open>Set\<close>: two of the service, two of the Redis server.\<close>

record set_clock =
  sc_now :: time
  sc_now_view :: time
  sc_hset :: time
  sc_expire :: time

definition on_redis :: "('r, 'a, 'e) act \<Rightarrow> ('r iam_world, 'a, 'e) act" where
  "on_redis a = (\<lambda>w. case a (iw_redis w) of (x, r) \<Rightarrow> (x, w\<lparr>iw_redis := r\<rparr>))"

subsection \<open>Operations\<close>

abbreviation cacheKeyPrefix :: string where
  "cacheKeyPrefix \<equiv> ''session:''"

definition getSessionKey :: "string \<Rightarrow> string" where
  "getSessionKey sessionUUID = cacheKeyPrefix @ sessionUUID"

definition SessionRepo_Set ::
    "uuid_lib \<Rightarrow> 'r redis_client \<Rightarrow> set_clock \<Rightarrow> uuid \<Rightarrow> User \<Rightarrow> duration \<Rightarrow> ('r, unit, iam_error) act" where
  "SessionRepo_Set U R k sessionUUID user ttl =
     (let sessionKey = getSessionKey (uuid_String U sessionUUID);
          expiresAt = sc_now k + ttl
      in bindA (rc_HSet R (sc_hset k) sessionKey (UserModelToSessionView U (sc_now_view k) sessionUUID user expiresAt)) (\<lambda>_.
         rc_ExpireAt R (sc_expire k) sessionKey expiresAt))"

definition SessionRepo_Get ::
    "uuid_lib \<Rightarrow> 'r redis_client \<Rightarrow> time \<Rightarrow> uuid \<Rightarrow> ('r, User \<times> Session, iam_error) act" where
  "SessionRepo_Get U R t sessionUuid =
     (let sessionKey = getSessionKey (uuid_String U sessionUuid)
      in bindA (mapErrA (\<lambda>err. if errors_Is_ext err RedisNil then Sent ErrSessionNotFound else err)
                 (rc_HGetAll R t sessionKey)) (\<lambda>sessionView.
         if sv_SessionUUID sessionView = [] then fail (Sent ErrSessionNotFound)
         else liftR (SessionViewToModels U sessionView)))"

definition SessionRepo_Delete ::
    "uuid_lib \<Rightarrow> 'r redis_client \<Rightarrow> time \<Rightarrow> uuid \<Rightarrow> ('r, unit, iam_error) act" where
  "SessionRepo_Delete U R t sessionUUID = rc_Del R t (getSessionKey (uuid_String U sessionUUID))"

lemma getSessionKey_inj:
  assumes "uuid_lib_ok U"
  shows "getSessionKey (uuid_String U s) = getSessionKey (uuid_String U s') \<longleftrightarrow> s = s'"
  by (metis assms getSessionKey_def option.inject same_append_eq uuid_lib_parse)

subsection \<open>What Redis promises\<close>

text \<open>
  \<open>lookup r t k\<close> is the hash a reader would see under the key \<open>k\<close> at the instant \<open>t\<close> if
  the server stayed in the state \<open>r\<close>. A command may fail (\<open>Ext\<close>); a failed write may or may
  not have happened, but touches no other key. \<open>EXPIREAT\<close> counts whole seconds, so a hash is gone
  from \<open>deadline tm\<close> on, less than a second before \<open>tm\<close>. \<open>HGETALL\<close> reports a missing
  key as an empty hash, never as \<open>redis.Nil\<close>.
\<close>

locale redis_hashes =
  fixes R :: "'r redis_client"
    and lookup :: "'r \<Rightarrow> time \<Rightarrow> string \<Rightarrow> SessionRedisView option"
    and deadline :: "time \<Rightarrow> time"
  assumes HGetAll: "rc_HGetAll R t k r = (y, r') \<Longrightarrow>
      y = Ret (case lookup r t k of Some v \<Rightarrow> v | None \<Rightarrow> empty_view) \<or> (\<exists>e. e \<noteq> RedisNil \<and> y = Err (Ext e))"
    and HGetAll_frame: "rc_HGetAll R t k r = (y, r') \<Longrightarrow> t \<le> t' \<Longrightarrow> lookup r' t' k' = lookup r t' k'"
    and HSet_key: "rc_HSet R t k v r = (x, r') \<Longrightarrow> lookup r t k = None \<Longrightarrow> t \<le> t' \<Longrightarrow>
      lookup r' t' k = Some v \<or> x \<noteq> Ret () \<and> lookup r' t' k = None"
    and HSet_frame: "rc_HSet R t k v r = (x, r') \<Longrightarrow> t \<le> t' \<Longrightarrow> k' \<noteq> k \<Longrightarrow> lookup r' t' k' = lookup r t' k'"
    and ExpireAt_key: "rc_ExpireAt R t k tm r = (Ret (), r') \<Longrightarrow> t \<le> t' \<Longrightarrow>
      lookup r' t' k = (if t' < deadline tm then lookup r t k else None)"
    and ExpireAt_any: "rc_ExpireAt R t k tm r = (x, r') \<Longrightarrow> t \<le> t' \<Longrightarrow>
      lookup r' t' k = lookup r t k \<or> lookup r' t' k = None"
    and ExpireAt_frame: "rc_ExpireAt R t k tm r = (x, r') \<Longrightarrow> t \<le> t' \<Longrightarrow> k' \<noteq> k \<Longrightarrow> lookup r' t' k' = lookup r t' k'"
    and Del_key: "rc_Del R t k r = (x, r') \<Longrightarrow> t \<le> t' \<Longrightarrow>
      lookup r' t' k = None \<or> x \<noteq> Ret () \<and> lookup r' t' k = lookup r t' k"
    and Del_frame: "rc_Del R t k r = (x, r') \<Longrightarrow> t \<le> t' \<Longrightarrow> k' \<noteq> k \<Longrightarrow> lookup r' t' k' = lookup r t' k'"
    and no_return: "lookup r t' k = Some v \<Longrightarrow> t \<le> t' \<Longrightarrow> lookup r t k = Some v"
    and deadline_before: "deadline tm \<le> tm"
    and deadline_close: "tm < deadline tm + 1000000000"

subsection \<open>What the service needs of its sessions\<close>

text \<open>
  \<open>live r t s\<close> is what the session \<open>s\<close> answers at the instant \<open>t\<close>; \<open>ok r t\<close> says
  that from \<open>t\<close> on every stored session can be read back. A session that was stored under an
  unused identifier is live until \<open>ends\<close> of its expiry and dead afterwards; a deleted one is
  dead; storing, reading or deleting one session says nothing about another.
\<close>

locale session_store =
  fixes Set :: "set_clock \<Rightarrow> uuid \<Rightarrow> User \<Rightarrow> duration \<Rightarrow> ('r, unit, iam_error) act"
    and Get :: "time \<Rightarrow> uuid \<Rightarrow> ('r, User \<times> Session, iam_error) act"
    and Delete :: "time \<Rightarrow> uuid \<Rightarrow> ('r, unit, iam_error) act"
    and live :: "'r \<Rightarrow> time \<Rightarrow> uuid \<Rightarrow> (User \<times> Session) option"
    and ok :: "'r \<Rightarrow> time \<Rightarrow> bool"
    and ends :: "time \<Rightarrow> time"
  assumes Set_key: "Set k s user ttl r = (Ret (), r') \<Longrightarrow> ok r (sc_hset k) \<Longrightarrow> live r (sc_hset k) s = None \<Longrightarrow>
      sc_hset k \<le> sc_expire k \<Longrightarrow> sc_expire k \<le> t \<Longrightarrow>
      live r' t s = (if t < ends (sc_now k + ttl)
        then Some (session_user user, session_of (sc_now_view k) s user (sc_now k + ttl)) else None)"
    and Set_frame: "Set k s user ttl r = (x, r') \<Longrightarrow> sc_hset k \<le> sc_expire k \<Longrightarrow> sc_expire k \<le> t \<Longrightarrow>
      s' \<noteq> s \<Longrightarrow> live r' t s' = live r t s'"
    and Set_ok: "Set k s user ttl r = (x, r') \<Longrightarrow> ok r (sc_hset k) \<Longrightarrow> live r (sc_hset k) s = None \<Longrightarrow>
      sc_hset k \<le> sc_expire k \<Longrightarrow> ok r' (sc_expire k)"
    and Get_live: "Get t s r = (y, r') \<Longrightarrow> ok r t \<Longrightarrow>
      y = (case live r t s of Some p \<Rightarrow> Ret p | None \<Rightarrow> Err (Sent ErrSessionNotFound))
      \<or> (\<exists>e. y = Err (Ext e))"
    and Get_frame: "Get t s r = (y, r') \<Longrightarrow> t \<le> t' \<Longrightarrow> live r' t' s' = live r t' s'"
    and Get_ok: "Get t s r = (y, r') \<Longrightarrow> ok r t \<Longrightarrow> ok r' t"
    and Delete_key: "Delete t s r = (Ret (), r') \<Longrightarrow> t \<le> t' \<Longrightarrow> live r' t' s = None"
    and Delete_frame: "Delete t s r = (x, r') \<Longrightarrow> t \<le> t' \<Longrightarrow> s' \<noteq> s \<Longrightarrow> live r' t' s' = live r t' s'"
    and Delete_ok: "Delete t s r = (x, r') \<Longrightarrow> ok r t \<Longrightarrow> ok r' t"
    and dead_stays: "live r t s = None \<Longrightarrow> t \<le> t' \<Longrightarrow> live r t' s = None"
    and ok_later: "ok r t \<Longrightarrow> t \<le> t' \<Longrightarrow> ok r t'"
    and ends_before: "ends tm \<le> tm"
    and ends_close: "tm < ends tm + 1000000000"

subsection \<open>The repository keeps the contract\<close>

definition wf_view :: "uuid_lib \<Rightarrow> uuid \<Rightarrow> SessionRedisView \<Rightarrow> bool" where
  "wf_view U s v \<longleftrightarrow> (\<exists>now user e. v = UserModelToSessionView U now s user e)"

definition session_live ::
    "uuid_lib \<Rightarrow> ('r \<Rightarrow> time \<Rightarrow> string \<Rightarrow> SessionRedisView option) \<Rightarrow> 'r \<Rightarrow> time \<Rightarrow> uuid \<Rightarrow> (User \<times> Session) option" where
  "session_live U lookup r t s = (case lookup r t (getSessionKey (uuid_String U s)) of
       None \<Rightarrow> None
     | Some v \<Rightarrow> (case SessionViewToModels U v of Ret p \<Rightarrow> Some p | _ \<Rightarrow> None))"

definition sessions_ok ::
    "uuid_lib \<Rightarrow> ('r \<Rightarrow> time \<Rightarrow> string \<Rightarrow> SessionRedisView option) \<Rightarrow> 'r \<Rightarrow> time \<Rightarrow> bool" where
  "sessions_ok U lookup r t \<longleftrightarrow>
     (\<forall>t' s v. t \<le> t' \<longrightarrow> lookup r t' (getSessionKey (uuid_String U s)) = Some v \<longrightarrow> wf_view U s v)"

lemma wf_view_read:
  assumes "uuid_lib_ok U" "wf_view U s v"
  obtains p where "SessionViewToModels U v = Ret p" "sv_SessionUUID v \<noteq> []"
proof -
  from assms(2) obtain now user e where v: "v = UserModelToSessionView U now s user e"
    by (auto simp: wf_view_def)
  then have "sv_SessionUUID v \<noteq> []"
    using uuid_lib_nonempty [OF assms(1)] by (simp add: UserModelToSessionView_def)
  with v session_view_roundtrip [OF assms(1)] that show thesis by auto
qed

lemma session_live_view:
  "uuid_lib_ok U \<Longrightarrow> lookup r t (getSessionKey (uuid_String U s)) = Some (UserModelToSessionView U now s user e) \<Longrightarrow>
   session_live U lookup r t s = Some (session_user user, session_of now s user e)"
  by (simp add: session_live_def session_view_roundtrip)

lemma session_live_None:
  assumes "uuid_lib_ok U" "sessions_ok U lookup r t"
  shows "session_live U lookup r t s = None \<longleftrightarrow> lookup r t (getSessionKey (uuid_String U s)) = None"
proof (cases "lookup r t (getSessionKey (uuid_String U s))")
  case (Some v)
  with assms(2) have "wf_view U s v" by (auto simp: sessions_ok_def)
  with wf_view_read [OF assms(1)] obtain p where "SessionViewToModels U v = Ret p" by blast
  with Some show ?thesis by (simp add: session_live_def)
qed (simp add: session_live_def)

locale redis_sessions = redis_hashes R lookup deadline
  for R :: "'r redis_client" and lookup deadline +
  fixes U :: uuid_lib
  assumes U: "uuid_lib_ok U"
begin

abbreviation key :: "uuid \<Rightarrow> string" where
  "key s \<equiv> getSessionKey (uuid_String U s)"

lemma key_neq: "s' \<noteq> s \<Longrightarrow> key s' \<noteq> key s"
  by (simp add: getSessionKey_inj [OF U])

lemma live_cong: "lookup r' t' (key s) = lookup r t (key s) \<Longrightarrow>
  session_live U lookup r' t' s = session_live U lookup r t s"
  by (simp add: session_live_def)

lemma Set_split:
  assumes "SessionRepo_Set U R k s user ttl r = (x, r')"
  obtains x1 r1 where
    "rc_HSet R (sc_hset k) (key s) (UserModelToSessionView U (sc_now_view k) s user (sc_now k + ttl)) r = (x1, r1)"
    "x1 \<noteq> Ret () \<and> x = x1 \<and> r' = r1 \<or> x1 = Ret () \<and> rc_ExpireAt R (sc_expire k) (key s) (sc_now k + ttl) r1 = (x, r')"
proof (cases "rc_HSet R (sc_hset k) (key s) (UserModelToSessionView U (sc_now_view k) s user (sc_now k + ttl)) r")
  case (Pair x1 r1)
  with assms that show thesis
    by (cases x1) (auto simp: SessionRepo_Set_def Let_def bindA_def)
qed

lemma repo_Set_frame:
  assumes "SessionRepo_Set U R k s user ttl r = (x, r')" "sc_hset k \<le> sc_expire k" "sc_expire k \<le> t" "s' \<noteq> s"
  shows "lookup r' t (key s') = lookup r t (key s')"
  using assms(1)
proof (rule Set_split)
  fix x1 r1
  assume h: "rc_HSet R (sc_hset k) (key s) (UserModelToSessionView U (sc_now_view k) s user (sc_now k + ttl)) r = (x1, r1)"
    and e: "x1 \<noteq> Ret () \<and> x = x1 \<and> r' = r1 \<or> x1 = Ret () \<and> rc_ExpireAt R (sc_expire k) (key s) (sc_now k + ttl) r1 = (x, r')"
  have "lookup r1 t (key s') = lookup r t (key s')"
    using HSet_frame [OF h _ key_neq [OF assms(4)]] assms(2,3) by simp
  moreover have "lookup r' t (key s') = lookup r1 t (key s')"
    using e ExpireAt_frame [OF _ assms(3) key_neq [OF assms(4)]] by auto
  ultimately show ?thesis by simp
qed

lemma repo_Set_any:
  assumes "SessionRepo_Set U R k s user ttl r = (x, r')" "lookup r (sc_hset k) (key s) = None"
    "sc_hset k \<le> sc_expire k" "sc_expire k \<le> t"
  shows "lookup r' t (key s) = Some (UserModelToSessionView U (sc_now_view k) s user (sc_now k + ttl)) \<or> lookup r' t (key s) = None"
  using assms(1)
proof (rule Set_split)
  fix x1 r1
  let ?v = "UserModelToSessionView U (sc_now_view k) s user (sc_now k + ttl)"
  assume h: "rc_HSet R (sc_hset k) (key s) ?v r = (x1, r1)"
    and e: "x1 \<noteq> Ret () \<and> x = x1 \<and> r' = r1 \<or> x1 = Ret () \<and> rc_ExpireAt R (sc_expire k) (key s) (sc_now k + ttl) r1 = (x, r')"
  have "lookup r1 t' (key s) = Some ?v \<or> lookup r1 t' (key s) = None" if "sc_hset k \<le> t'" for t'
    using HSet_key [OF h assms(2) that] by auto
  with assms(3,4) e show ?thesis
    using ExpireAt_any [OF _ assms(4), of "key s" "sc_now k + ttl" r1 x r']
    by (metis order.trans)
qed

lemma repo_Set_key:
  assumes "SessionRepo_Set U R k s user ttl r = (Ret (), r')" "lookup r (sc_hset k) (key s) = None"
    "sc_hset k \<le> sc_expire k" "sc_expire k \<le> t"
  shows "lookup r' t (key s) = (if t < deadline (sc_now k + ttl)
    then Some (UserModelToSessionView U (sc_now_view k) s user (sc_now k + ttl)) else None)"
  using assms(1)
proof (rule Set_split)
  fix x1 r1
  let ?v = "UserModelToSessionView U (sc_now_view k) s user (sc_now k + ttl)"
  assume h: "rc_HSet R (sc_hset k) (key s) ?v r = (x1, r1)"
    and e: "x1 \<noteq> Ret () \<and> Ret () = x1 \<and> r' = r1
      \<or> x1 = Ret () \<and> rc_ExpireAt R (sc_expire k) (key s) (sc_now k + ttl) r1 = (Ret (), r')"
  then have x: "x1 = Ret ()" "rc_ExpireAt R (sc_expire k) (key s) (sc_now k + ttl) r1 = (Ret (), r')" by auto
  have "lookup r1 (sc_expire k) (key s) = Some ?v" using HSet_key [OF h assms(2,3)] x(1) by simp
  then show ?thesis using ExpireAt_key [OF x(2) assms(4)] by simp
qed

lemma repo_Get:
  assumes g: "SessionRepo_Get U R t s r = (y, r')" and ok: "sessions_ok U lookup r t"
  shows "y = (case session_live U lookup r t s of Some p \<Rightarrow> Ret p | None \<Rightarrow> Err (Sent ErrSessionNotFound))
    \<or> (\<exists>e. y = Err (Ext e))"
proof -
  obtain z r1 where h: "rc_HGetAll R t (key s) r = (z, r1)" by fastforce
  show ?thesis
  proof (cases "lookup r t (key s)")
    case None
    then show ?thesis
      using HGetAll [OF h] g h
      by (auto simp: SessionRepo_Get_def act_simps session_live_def empty_view_def)
  next
    case (Some v)
    with ok have "wf_view U s v" by (auto simp: sessions_ok_def)
    with U obtain p where p: "SessionViewToModels U v = Ret p" "sv_SessionUUID v \<noteq> []" by (rule wf_view_read)
    with Some show ?thesis
      using HGetAll [OF h] g h by (auto simp: SessionRepo_Get_def act_simps session_live_def)
  qed
qed

lemma repo_Get_frame:
  assumes "SessionRepo_Get U R t s r = (y, r')" "t \<le> t'"
  shows "lookup r' t' k' = lookup r t' k'"
proof -
  obtain z r1 where h: "rc_HGetAll R t (key s) r = (z, r1)" by fastforce
  with assms(1) have "r' = r1"
    by (cases z) (auto simp: SessionRepo_Get_def act_simps split: if_splits)
  with HGetAll_frame [OF h assms(2)] show ?thesis by simp
qed

end

sublocale redis_sessions \<subseteq> store: session_store "SessionRepo_Set U R" "SessionRepo_Get U R" "SessionRepo_Delete U R"
  "session_live U lookup" "sessions_ok U lookup" deadline
proof
  fix k :: set_clock and s s' user ttl r r' t t' x y tm
  note del = SessionRepo_Delete_def
  show "session_live U lookup r' t s = (if t < deadline (sc_now k + ttl)
      then Some (session_user user, session_of (sc_now_view k) s user (sc_now k + ttl)) else None)"
    if "SessionRepo_Set U R k s user ttl r = (Ret (), r')" "sessions_ok U lookup r (sc_hset k)"
      "session_live U lookup r (sc_hset k) s = None" "sc_hset k \<le> sc_expire k" "sc_expire k \<le> t"
    using repo_Set_key [OF that(1) _ that(4,5)] session_live_None [OF U that(2)] that(3)
    by (auto simp: session_live_view [OF U] session_live_def session_view_roundtrip [OF U])
  show "session_live U lookup r' t s' = session_live U lookup r t s'"
    if "SessionRepo_Set U R k s user ttl r = (x, r')" "sc_hset k \<le> sc_expire k" "sc_expire k \<le> t" "s' \<noteq> s"
    using repo_Set_frame [OF that] by (rule live_cong)
  show "sessions_ok U lookup r' (sc_expire k)"
    if "SessionRepo_Set U R k s user ttl r = (x, r')" "sessions_ok U lookup r (sc_hset k)"
      "session_live U lookup r (sc_hset k) s = None" "sc_hset k \<le> sc_expire k"
    unfolding sessions_ok_def
  proof (intro allI impI)
    fix t2 s2 v
    assume t2: "sc_expire k \<le> t2" and v: "lookup r' t2 (key s2) = Some v"
    show "wf_view U s2 v"
    proof (cases "s2 = s")
      case True
      then have "v = UserModelToSessionView U (sc_now_view k) s user (sc_now k + ttl)"
        using repo_Set_any [OF that(1) _ that(4) t2] session_live_None [OF U that(2)] that(3) v by simp
      with True show ?thesis by (auto simp: wf_view_def)
    next
      case False
      then show ?thesis
        using repo_Set_frame [OF that(1,4) t2 False] that(2,4) t2 v by (metis order.trans sessions_ok_def)
    qed
  qed
  show "y = (case session_live U lookup r t s of Some p \<Rightarrow> Ret p | None \<Rightarrow> Err (Sent ErrSessionNotFound))
      \<or> (\<exists>e. y = Err (Ext e))"
    if "SessionRepo_Get U R t s r = (y, r')" "sessions_ok U lookup r t"
    using that by (rule repo_Get)
  show "session_live U lookup r' t' s' = session_live U lookup r t' s'"
    if "SessionRepo_Get U R t s r = (y, r')" "t \<le> t'"
    using repo_Get_frame [OF that] by (rule live_cong)
  show "sessions_ok U lookup r' t" if "SessionRepo_Get U R t s r = (y, r')" "sessions_ok U lookup r t"
    using repo_Get_frame [OF that(1)] that(2) by (simp add: sessions_ok_def)
  show "session_live U lookup r' t' s = None" if "SessionRepo_Delete U R t s r = (Ret (), r')" "t \<le> t'"
    using Del_key [OF that(1) [unfolded del] that(2)] by (simp add: session_live_def)
  show "session_live U lookup r' t' s' = session_live U lookup r t' s'"
    if "SessionRepo_Delete U R t s r = (x, r')" "t \<le> t'" "s' \<noteq> s"
    using Del_frame [OF that(1) [unfolded del] that(2) key_neq [OF that(3)]] by (rule live_cong)
  show "sessions_ok U lookup r' t" if d: "SessionRepo_Delete U R t s r = (x, r')" and ok: "sessions_ok U lookup r t"
    unfolding sessions_ok_def
  proof (intro allI impI)
    fix t2 s2 v
    assume t2: "t \<le> t2" and v: "lookup r' t2 (key s2) = Some v"
    then have "lookup r t2 (key s2) = Some v"
      using Del_key [OF d [unfolded del] t2] Del_frame [OF d [unfolded del] t2, of "key s2"]
      by (metis option.distinct(1))
    with ok t2 show "wf_view U s2 v" by (simp add: sessions_ok_def)
  qed
  show "session_live U lookup r t' s = None" if "session_live U lookup r t s = None" "t \<le> t'"
    using that no_return [OF _ that(2), of r "key s"]
    by (cases "lookup r t' (key s)") (auto simp: session_live_def)
  show "sessions_ok U lookup r t'" if "sessions_ok U lookup r t" "t \<le> t'"
    using that unfolding sessions_ok_def by (meson order.trans)
  show "deadline tm \<le> tm" by (rule deadline_before)
  show "tm < deadline tm + 1000000000" by (rule deadline_close)
qed

context redis_sessions
begin

lemma is_session_store:
  "session_store (SessionRepo_Set U R) (SessionRepo_Get U R) (SessionRepo_Delete U R)
     (session_live U lookup) (sessions_ok U lookup) deadline"
  by unfold_locales

end

subsection \<open>A server in memory\<close>

text \<open>
  An instance of the client: keys with a hash and an optional expiry, each command with the outcome
  the connection reports. A command that reports a failure has not run here.
\<close>

type_synonym mem_redis = "string \<Rightarrow> (SessionRedisView \<times> time option) option"

definition mem_lookup :: "mem_redis \<Rightarrow> time \<Rightarrow> string \<Rightarrow> SessionRedisView option" where
  "mem_lookup r t k = (case r k of
       None \<Rightarrow> None
     | Some (v, None) \<Rightarrow> Some v
     | Some (v, Some e) \<Rightarrow> if t < e then Some v else None)"

definition whole_seconds :: "time \<Rightarrow> time" where
  "whole_seconds t = t div 1000000000 * 1000000000"

lemma whole_seconds_bounds: "whole_seconds t \<le> t \<and> t < whole_seconds t + 1000000000"
  using div_mult_mod_eq [of t 1000000000] pos_mod_bound [of 1000000000 t] pos_mod_sign [of 1000000000 t]
  unfolding whole_seconds_def by linarith

record redis_outcomes =
  ro_hset :: "ext_error option"
  ro_hgetall :: "ext_error option"
  ro_expireat :: "ext_error option"
  ro_del :: "ext_error option"

definition outcome_act :: "ext_error option \<Rightarrow> ('w, 'a, 'e) act \<Rightarrow> ('w, 'a, 'e) act" where
  "outcome_act oc a = (case oc of None \<Rightarrow> a | Some x \<Rightarrow> fail (Ext x))"

definition mem_redis :: "redis_outcomes \<Rightarrow> mem_redis redis_client" where
  "mem_redis oc =
     \<lparr>rc_HSet = (\<lambda>t k v. outcome_act (ro_hset oc) (\<lambda>r.
        (Ret (), r(k \<mapsto> (v, case mem_lookup r t k of None \<Rightarrow> None | Some _ \<Rightarrow> Option.bind (r k) snd))))),
      rc_HGetAll = (\<lambda>t k. outcome_act (case ro_hgetall oc of Some RedisNil \<Rightarrow> None | x \<Rightarrow> x) (\<lambda>r.
        (Ret (case mem_lookup r t k of None \<Rightarrow> empty_view | Some v \<Rightarrow> v), r))),
      rc_ExpireAt = (\<lambda>t k tm. outcome_act (ro_expireat oc) (\<lambda>r.
        (Ret (), case mem_lookup r t k of None \<Rightarrow> r(k := None) | Some v \<Rightarrow> r(k \<mapsto> (v, Some (whole_seconds tm)))))),
      rc_Del = (\<lambda>t k. outcome_act (ro_del oc) (\<lambda>r. (Ret (), r(k := None))))\<rparr>"

interpretation mem: redis_sessions "mem_redis oc" mem_lookup whole_seconds unary_uuid_lib
  for oc
proof
  fix t t' :: time and k k' v and r r' :: mem_redis and x tm and y :: "(SessionRedisView, iam_error) res"
  note [simp] = mem_redis_def outcome_act_def mem_lookup_def
  show "y = Ret (case mem_lookup r t k of Some v \<Rightarrow> v | None \<Rightarrow> empty_view) \<or> (\<exists>e. e \<noteq> RedisNil \<and> y = Err (Ext e))"
    if "rc_HGetAll (mem_redis oc) t k r = (y, r')"
    using that by (cases "ro_hgetall oc") (auto split: option.splits ext_error.splits)
  show "mem_lookup r' t' k' = mem_lookup r t' k'" if "rc_HGetAll (mem_redis oc) t k r = (y, r')" "t \<le> t'"
    using that by (auto split: option.splits ext_error.splits)
  show "mem_lookup r' t' k = Some v \<or> x \<noteq> Ret () \<and> mem_lookup r' t' k = None"
    if "rc_HSet (mem_redis oc) t k v r = (x, r')" "mem_lookup r t k = None" "t \<le> t'"
    using that by (auto split: option.splits if_splits)
  show "mem_lookup r' t' k' = mem_lookup r t' k'"
    if "rc_HSet (mem_redis oc) t k v r = (x, r')" "t \<le> t'" "k' \<noteq> k"
    using that by (auto split: option.splits)
  show "mem_lookup r' t' k = (if t' < whole_seconds tm then mem_lookup r t k else None)"
    if "rc_ExpireAt (mem_redis oc) t k tm r = (Ret (), r')" "t \<le> t'"
    using that by (auto split: option.splits if_splits)
  show "mem_lookup r' t' k = mem_lookup r t k \<or> mem_lookup r' t' k = None"
    if "rc_ExpireAt (mem_redis oc) t k tm r = (x, r')" "t \<le> t'"
    using that by (auto split: option.splits if_splits)
  show "mem_lookup r' t' k' = mem_lookup r t' k'"
    if "rc_ExpireAt (mem_redis oc) t k tm r = (x, r')" "t \<le> t'" "k' \<noteq> k"
    using that by (auto split: option.splits if_splits)
  show "mem_lookup r' t' k = None \<or> x \<noteq> Ret () \<and> mem_lookup r' t' k = mem_lookup r t' k"
    if "rc_Del (mem_redis oc) t k r = (x, r')" "t \<le> t'"
    using that by (auto split: option.splits)
  show "mem_lookup r' t' k' = mem_lookup r t' k'"
    if "rc_Del (mem_redis oc) t k r = (x, r')" "t \<le> t'" "k' \<noteq> k"
    using that by (auto split: option.splits)
  show "mem_lookup r t k = Some v" if "mem_lookup r t' k = Some v" "t \<le> t'"
    using that by (auto split: option.splits if_splits)
  show "whole_seconds tm \<le> tm" by (simp add: whole_seconds_bounds)
  show "tm < whole_seconds tm + 1000000000" by (simp add: whole_seconds_bounds)
  show "uuid_lib_ok unary_uuid_lib" by (rule unary_uuid_lib_ok)
qed

end
