(* ===== verification/Iam_Service.thy ===== *)
theory Iam_Service
  imports Iam_Sessions
begin

text \<open>
  The IAM service (\<open>iam/internal/service/iam\<close>), its gRPC handlers
  (\<open>iam/internal/api\<close>) and its error interceptor. Clocks, fresh identifiers and salts are
  arguments; \<open>bcrypt\<close> is a parameter with the documented law that a hash accepts the password it
  was made from.
\<close>

subsection \<open>The service\<close>

record bcrypt_lib =
  bc_GenerateFromPassword :: "string \<Rightarrow> string \<Rightarrow> int \<Rightarrow> ext_error + string"
  bc_CompareHashAndPassword :: "string \<Rightarrow> string \<Rightarrow> bool"

definition bcrypt_ok :: "bcrypt_lib \<Rightarrow> bool" where
  "bcrypt_ok B \<longleftrightarrow> (\<forall>salt p cost h. bc_GenerateFromPassword B salt p cost = Inr h \<longrightarrow> bc_CompareHashAndPassword B h p)"

record 'w iam_service =
  is_GetByUUID :: "uuid \<Rightarrow> ('w, User, iam_error) act"
  is_GetByLogin :: "string \<Rightarrow> ('w, User, iam_error) act"
  is_CreateUser :: "User \<Rightarrow> ('w, unit, iam_error) act"
  is_Set :: "set_clock \<Rightarrow> uuid \<Rightarrow> User \<Rightarrow> duration \<Rightarrow> ('w, unit, iam_error) act"
  is_Delete :: "time \<Rightarrow> uuid \<Rightarrow> ('w, unit, iam_error) act"
  is_Get :: "time \<Rightarrow> uuid \<Rightarrow> ('w, User \<times> Session, iam_error) act"
  is_sessionTTL :: duration
  is_bcryptCost :: int

record UserInput =
  ui_Login :: string
  ui_Password :: string

definition validateData :: "string \<Rightarrow> string \<Rightarrow> (unit, iam_error) res" where
  "validateData login password =
     (if login = [] \<or> password = [] then Err (Sent ErrEmptyCredential)
      else if length password < 8 then Err (Sent ErrWeakPassword)
      else Ret ())"

definition IamService_Register ::
    "bcrypt_lib \<Rightarrow> 'w iam_service \<Rightarrow> string \<Rightarrow> uuid \<Rightarrow> time \<Rightarrow> UserInput \<Rightarrow> ('w, User, iam_error) act" where
  "IamService_Register B s salt newUUID now input =
     bindA (liftR (validateData (ui_Login input) (ui_Password input))) (\<lambda>_.
     case bc_GenerateFromPassword B salt (ui_Password input) (is_bcryptCost s) of
       Inl x \<Rightarrow> fail (Ext x)
     | Inr hash \<Rightarrow>
         (let user = \<lparr>us_UUID = newUUID, us_Login = ui_Login input, us_PasswordHash = hash,
                      us_CreatedAt = now, us_UpdatedAt = None\<rparr>
          in bindA (is_CreateUser s user) (\<lambda>_. ret user)))"

text \<open>Every error of \<open>GetByLogin\<close> is answered alike, so the call is matched on.\<close>

definition IamService_Login ::
    "bcrypt_lib \<Rightarrow> 'w iam_service \<Rightarrow> uuid \<Rightarrow> set_clock \<Rightarrow> UserInput \<Rightarrow> ('w, uuid, iam_error) act" where
  "IamService_Login B s newUUID k input =
     (if ui_Login input = [] \<or> ui_Password input = [] then fail (Sent ErrEmptyCredential)
      else bindA (mapErrA (\<lambda>_. Sent ErrInvalidCredentials) (is_GetByLogin s (ui_Login input))) (\<lambda>user.
        if \<not> bc_CompareHashAndPassword B (us_PasswordHash user) (ui_Password input)
        then fail (Sent ErrInvalidCredentials)
        else bindA (is_Set s k newUUID user (is_sessionTTL s)) (\<lambda>_. ret newUUID)))"

definition IamService_Logout :: "'w iam_service \<Rightarrow> time \<Rightarrow> uuid \<Rightarrow> ('w, unit, iam_error) act" where
  "IamService_Logout s t sessionUUID = is_Delete s t sessionUUID"

definition IamService_Whoami :: "'w iam_service \<Rightarrow> time \<Rightarrow> uuid \<Rightarrow> ('w, User \<times> Session, iam_error) act" where
  "IamService_Whoami s t sessionUUID = is_Get s t sessionUUID"

definition IamService_GetUser :: "'w iam_service \<Rightarrow> uuid \<Rightarrow> ('w, User, iam_error) act" where
  "IamService_GetUser s userUuid = is_GetByUUID s userUuid"

definition NewIamService ::
    "iam_env \<Rightarrow> uuid_lib \<Rightarrow> 'r redis_client \<Rightarrow> duration \<Rightarrow> int \<Rightarrow> ('r iam_world) iam_service" where
  "NewIamService E U R sessionTTL bcryptCost =
     \<lparr>is_GetByUUID = UserRepo_GetByUUID E, is_GetByLogin = UserRepo_GetByLogin E, is_CreateUser = UserRepo_Create E,
      is_Set = (\<lambda>k s user ttl. on_redis (SessionRepo_Set U R k s user ttl)),
      is_Delete = (\<lambda>t s. on_redis (SessionRepo_Delete U R t s)),
      is_Get = (\<lambda>t s. on_redis (SessionRepo_Get U R t s)),
      is_sessionTTL = sessionTTL, is_bcryptCost = bcryptCost\<rparr>"

subsection \<open>Handlers\<close>

text \<open>
  The generated messages with their nil-safe getters: a missing \<open>info\<close> reads as empty strings.
\<close>

record UserRegistrationInfo =
  ri_Info :: "string option"
  ri_Password :: string

type_synonym RegisterRequest = "UserRegistrationInfo option"

definition RegisterRequestToRegisterInput :: "RegisterRequest \<Rightarrow> UserInput" where
  "RegisterRequestToRegisterInput req = (case req of
       None \<Rightarrow> \<lparr>ui_Login = [], ui_Password = []\<rparr>
     | Some i \<Rightarrow> \<lparr>ui_Login = (case ri_Info i of None \<Rightarrow> [] | Some l \<Rightarrow> l), ui_Password = ri_Password i\<rparr>)"

record LoginRequest =
  lr_Login :: string
  lr_Password :: string

definition LoginRequestToLoginInput :: "LoginRequest \<Rightarrow> UserInput" where
  "LoginRequestToLoginInput req = \<lparr>ui_Login = lr_Login req, ui_Password = lr_Password req\<rparr>"

record SessionRes =
  sr_Uuid :: string
  sr_CreatedAt :: time
  sr_UpdatedAt :: "time option"
  sr_ExpiresAt :: time

record UserRes =
  ure_Uuid :: string
  ure_Login :: string
  ure_CreatedAt :: time
  ure_UpdatedAt :: "time option"

definition composeSessionRes :: "uuid_lib \<Rightarrow> Session \<Rightarrow> SessionRes" where
  "composeSessionRes U session =
     \<lparr>sr_Uuid = uuid_String U (ses_UUID session), sr_CreatedAt = ses_CreatedAt session,
      sr_UpdatedAt = ses_UpdatedAt session, sr_ExpiresAt = ses_ExpiresAt session\<rparr>"

definition composeUserRes :: "uuid_lib \<Rightarrow> User \<Rightarrow> UserRes" where
  "composeUserRes U user =
     \<lparr>ure_Uuid = uuid_String U (us_UUID user), ure_Login = us_Login user,
      ure_CreatedAt = us_CreatedAt user, ure_UpdatedAt = us_UpdatedAt user\<rparr>"

definition AuthApi_Login ::
    "uuid_lib \<Rightarrow> bcrypt_lib \<Rightarrow> 'w iam_service \<Rightarrow> uuid \<Rightarrow> set_clock \<Rightarrow> LoginRequest \<Rightarrow> ('w, string, iam_error) act" where
  "AuthApi_Login U B s newUUID k req =
     bindA (IamService_Login B s newUUID k (LoginRequestToLoginInput req)) (\<lambda>sessionUUID.
     ret (uuid_String U sessionUUID))"

definition AuthApi_Logout :: "uuid_lib \<Rightarrow> 'w iam_service \<Rightarrow> time \<Rightarrow> string \<Rightarrow> ('w, unit, iam_error) act" where
  "AuthApi_Logout U s t sessionUuid =
     (if sessionUuid = [] then fail (Sent ErrEmptySessionID)
      else case uuid_Parse U sessionUuid of
          None \<Rightarrow> fail (Sent ErrInvalidUUID)
        | Some sessionUUID \<Rightarrow> IamService_Logout s t sessionUUID)"

definition AuthApi_Whoami ::
    "uuid_lib \<Rightarrow> 'w iam_service \<Rightarrow> time \<Rightarrow> string \<Rightarrow> ('w, SessionRes \<times> UserRes, iam_error) act" where
  "AuthApi_Whoami U s t sessionUuid =
     (if sessionUuid = [] then fail (Sent ErrEmptySessionID)
      else case uuid_Parse U sessionUuid of
          None \<Rightarrow> fail (Sent ErrInvalidUUID)
        | Some sessionUUID \<Rightarrow> bindA (IamService_Whoami s t sessionUUID) (\<lambda>(user, session).
            ret (composeSessionRes U session, composeUserRes U user)))"

definition UserApi_Register ::
    "uuid_lib \<Rightarrow> bcrypt_lib \<Rightarrow> 'w iam_service \<Rightarrow> string \<Rightarrow> uuid \<Rightarrow> time \<Rightarrow> RegisterRequest \<Rightarrow> ('w, string, iam_error) act" where
  "UserApi_Register U B s salt newUUID now req =
     bindA (IamService_Register B s salt newUUID now (RegisterRequestToRegisterInput req)) (\<lambda>user.
     ret (uuid_String U (us_UUID user)))"

definition UserApi_GetUser :: "uuid_lib \<Rightarrow> 'w iam_service \<Rightarrow> string \<Rightarrow> ('w, UserRes, iam_error) act" where
  "UserApi_GetUser U s req = (case uuid_Parse U req of
       None \<Rightarrow> fail (Sent ErrInvalidUUID)
     | Some userUuid \<Rightarrow> bindA (IamService_GetUser s userUuid) (\<lambda>user.
         ret \<lparr>ure_Uuid = uuid_String U (us_UUID user), ure_Login = us_Login user,
              ure_CreatedAt = us_CreatedAt user, ure_UpdatedAt = us_UpdatedAt user\<rparr>))"

subsection \<open>Interceptors\<close>

definition iam_error_code :: "iam_error err \<Rightarrow> iam_error err" where
  "iam_error_code err =
     (if errors_Is err ErrUserNotFound then Status NotFound
      else if errors_Is err ErrUserAlreadyExists then Status AlreadyExists
      else if errors_Is err ErrInvalidCredentials then Status Unauthenticated
      else if errors_Is err ErrSessionNotFound then Status Unauthenticated
      else if errors_Is err ErrInvalidLogin then Status InvalidArgument
      else if errors_Is err ErrWeakPassword then Status InvalidArgument
      else if errors_Is err ErrEmptyCredential then Status InvalidArgument
      else if errors_Is err ErrEmptySessionID then Status InvalidArgument
      else if errors_Is err ErrInvalidUUID then Status InvalidArgument
      else Status Internal)"

definition Iam_ErrorInterceptor :: "(ctx \<Rightarrow> ('w, 'r, iam_error) act) \<Rightarrow> ctx \<Rightarrow> ('w, 'r, iam_error) act" where
  "Iam_ErrorInterceptor handler c = (\<lambda>w. case handler c w of
       (Ret resp, w') \<Rightarrow> (Ret resp, w')
     | (Err err, w') \<Rightarrow> (Err (iam_error_code err), w')
     | (Panic p, w') \<Rightarrow> (Panic p, w'))"

definition iam_chain ::
    "(ctx \<Rightarrow> string) \<Rightarrow> (ctx \<Rightarrow> string \<Rightarrow> 'w \<Rightarrow> 'w) \<Rightarrow> (ctx \<Rightarrow> ('w, 'r, iam_error) act) \<Rightarrow> ctx \<Rightarrow> ('w, 'r, iam_error) act" where
  "iam_chain traceID setHeader handler =
     Iam_ErrorInterceptor (TraceIDUnaryServerInterceptor traceID setHeader handler)"

end
