(* ===== verification/Iam_Properties.thy ===== *)
theory Iam_Properties
  imports Iam_Service
begin

text \<open>
  The IAM service against its two stores: the locale \<open>user_store\<close> is what it needs of
  \<open>UserRepository\<close>, \<open>iam_backend\<close> joins it with \<open>session_store\<close>. Properties of
  registration, login, the life of a session through any sequence of calls, and the error table.
\<close>

subsection \<open>The user repository as an interface\<close>

locale user_store =
  fixes Create :: "'e \<Rightarrow> User \<Rightarrow> ('r iam_world, unit, iam_error) act"
    and GetByLogin :: "'e \<Rightarrow> string \<Rightarrow> ('r iam_world, User, iam_error) act"
    and GetByUUID :: "'e \<Rightarrow> uuid \<Rightarrow> ('r iam_world, User, iam_error) act"
    and table :: "'r iam_world \<Rightarrow> User list"
    and stored :: "'e \<Rightarrow> User \<Rightarrow> User"
  assumes Create_cases: "Create E u w = (x, w') \<Longrightarrow>
      (x = Ret () \<and> us_Login u \<notin> us_Login ` set (table w) \<and> us_UUID u \<notin> us_UUID ` set (table w)
        \<and> table w' = table w @ [stored E u] \<and> iw_redis w' = iw_redis w)
      \<or> (w' = w \<and> (x = Err (Sent ErrUserAlreadyExists) \<or> (\<exists>e. x = Err (Wrap ''create user'' (Ext e)))))"
    and GetByLogin_cases: "GetByLogin E l w = (y, w') \<Longrightarrow> w' = w \<and>
      (y = (case find (\<lambda>u. us_Login u = l) (table w) of Some u \<Rightarrow> Ret u | None \<Rightarrow> Err (Sent ErrUserNotFound))
       \<or> (\<exists>e. y = Err e))"
    and GetByUUID_cases: "GetByUUID E i w = (y, w') \<Longrightarrow> w' = w \<and>
      (y = (case find (\<lambda>u. us_UUID u = i) (table w) of Some u \<Rightarrow> Ret u | None \<Rightarrow> Err (Sent ErrUserNotFound))
       \<or> (\<exists>e. y = Err e))"
    and stored_keys: "us_Login (stored E u) = us_Login u" "us_UUID (stored E u) = us_UUID u"
      "us_PasswordHash (stored E u) = us_PasswordHash u"
    and table_redis: "table (w\<lparr>iw_redis := r\<rparr>) = table w"
begin

lemma Create_keys:
  assumes "Create E u w = (x, w')" "distinct (map us_Login (table w))" "distinct (map us_UUID (table w))"
  shows "distinct (map us_Login (table w')) \<and> distinct (map us_UUID (table w')) \<and> (\<exists>new. table w' = table w @ new)"
  using Create_cases [OF assms(1)] assms(2,3) by (auto simp: stored_keys)

end

definition user_table :: "'r iam_world \<Rightarrow> User list" where
  "user_table w = map UserRecordToModel (iw_users w)"

definition stored_model :: "iam_env \<Rightarrow> User \<Rightarrow> User" where
  "stored_model E u = u\<lparr>us_CreatedAt := iu_timestamp E (us_CreatedAt u), us_UpdatedAt := None\<rparr>"

lemma find_user_table:
  "find P (user_table w) = map_option UserRecordToModel (find (P \<circ> UserRecordToModel) (iw_users w))"
proof -
  have "find P (map f xs) = map_option f (find (P \<circ> f) xs)" for f :: "UserRecord \<Rightarrow> User" and xs
    by (induction xs) auto
  then show ?thesis by (simp add: user_table_def)
qed

lemma stored_user_model: "UserRecordToModel (stored_user E (UserModelToRecord u)) = stored_model E u"
  by (simp add: UserRecordToModel_def stored_user_def UserModelToRecord_def stored_model_def)

lemma user_table_keys: "us_Login ` set (user_table w) = ur_Login ` set (iw_users w)"
  "us_UUID ` set (user_table w) = ur_UUID ` set (iw_users w)"
  by (simp_all add: user_table_def image_image UserRecordToModel_def)

interpretation pg_users: user_store UserRepo_Create UserRepo_GetByLogin UserRepo_GetByUUID user_table stored_model
proof
  fix E u and w w' :: "'r iam_world" and x y l i r
  show "(x = Ret () \<and> us_Login u \<notin> us_Login ` set (user_table w) \<and> us_UUID u \<notin> us_UUID ` set (user_table w)
        \<and> user_table w' = user_table w @ [stored_model E u] \<and> iw_redis w' = iw_redis w)
      \<or> (w' = w \<and> (x = Err (Sent ErrUserAlreadyExists) \<or> (\<exists>e. x = Err (Wrap ''create user'' (Ext e)))))"
    if "UserRepo_Create E u w = (x, w')"
    using that unfolding UserRepo_Create_cases user_table_keys
    by (auto simp: user_table_def stored_user_model split: option.splits if_splits)
  show "w' = w \<and> (y = (case find (\<lambda>u. us_Login u = l) (user_table w) of Some u \<Rightarrow> Ret u | None \<Rightarrow> Err (Sent ErrUserNotFound))
       \<or> (\<exists>e. y = Err e))"
    if "UserRepo_GetByLogin E l w = (y, w')"
    using that by (auto simp: UserRepo_GetByLogin_def select_user_def fetch_error_def find_user_table comp_def
        UserRecordToModel_def act_simps split: option.splits)
  show "w' = w \<and> (y = (case find (\<lambda>u. us_UUID u = i) (user_table w) of Some u \<Rightarrow> Ret u | None \<Rightarrow> Err (Sent ErrUserNotFound))
       \<or> (\<exists>e. y = Err e))"
    if "UserRepo_GetByUUID E i w = (y, w')"
    using that by (auto simp: UserRepo_GetByUUID_def select_user_def fetch_error_def find_user_table comp_def
        UserRecordToModel_def act_simps split: option.splits)
  show "us_Login (stored_model E u) = us_Login u" "us_UUID (stored_model E u) = us_UUID u"
      "us_PasswordHash (stored_model E u) = us_PasswordHash u"
    by (simp_all add: stored_model_def)
  show "user_table (w\<lparr>iw_redis := r\<rparr>) = user_table w" by (simp add: user_table_def)
qed

subsection \<open>Sequences of calls\<close>

text \<open>
  One call of the service with the readings it makes of its surroundings: the environment of the
  database, the fresh identifiers and the clocks. Time only moves forward: \<open>call_span\<close> is the
  stretch of Redis time a call occupies when it starts at \<open>t\<close>.
\<close>

datatype 'e iam_call =
    CallRegister 'e string uuid time UserInput
  | CallLogin 'e uuid set_clock UserInput
  | CallLogout 'e time uuid
  | CallWhoami 'e time uuid
  | CallGetUser 'e uuid

fun exec_iam_call :: "bcrypt_lib \<Rightarrow> ('e \<Rightarrow> 'w iam_service) \<Rightarrow> 'e iam_call \<Rightarrow> 'w \<Rightarrow> 'w" where
  "exec_iam_call B svc (CallRegister E salt u now input) w = snd (IamService_Register B (svc E) salt u now input w)"
| "exec_iam_call B svc (CallLogin E s k input) w = snd (IamService_Login B (svc E) s k input w)"
| "exec_iam_call B svc (CallLogout E t s) w = snd (IamService_Logout (svc E) t s w)"
| "exec_iam_call B svc (CallWhoami E t s) w = snd (IamService_Whoami (svc E) t s w)"
| "exec_iam_call B svc (CallGetUser E u) w = snd (IamService_GetUser (svc E) u w)"

fun exec_iam_calls :: "bcrypt_lib \<Rightarrow> ('e \<Rightarrow> 'w iam_service) \<Rightarrow> 'e iam_call list \<Rightarrow> 'w \<Rightarrow> 'w" where
  "exec_iam_calls B svc [] w = w"
| "exec_iam_calls B svc (c # cs) w = exec_iam_calls B svc cs (exec_iam_call B svc c w)"

fun call_span :: "time \<Rightarrow> 'e iam_call \<Rightarrow> time \<times> time" where
  "call_span t (CallLogin E s k input) = (sc_hset k, sc_expire k)"
| "call_span t (CallLogout E t' s) = (t', t')"
| "call_span t (CallWhoami E t' s) = (t', t')"
| "call_span t c = (t, t)"

fun run_end :: "time \<Rightarrow> 'e iam_call list \<Rightarrow> time" where
  "run_end t [] = t"
| "run_end t (c # cs) = run_end (snd (call_span t c)) cs"

fun touches :: "uuid \<Rightarrow> 'e iam_call \<Rightarrow> bool" where
  "touches s (CallLogin E s' k input) = (s' = s)"
| "touches s (CallLogout E t s') = (s' = s)"
| "touches s c = False"

text \<open>
  A run as it happens: the calls follow each other, and the identifier \<open>uuid.New\<close> gives to a
  login belongs to no live session.
\<close>

fun run_ok :: "bcrypt_lib \<Rightarrow> ('e \<Rightarrow> 'r iam_world iam_service) \<Rightarrow> ('r \<Rightarrow> time \<Rightarrow> uuid \<Rightarrow> (User \<times> Session) option)
    \<Rightarrow> time \<Rightarrow> 'e iam_call list \<Rightarrow> 'r iam_world \<Rightarrow> bool" where
  "run_ok B svc live t [] w = True"
| "run_ok B svc live t (c # cs) w =
     (t \<le> fst (call_span t c) \<and> fst (call_span t c) \<le> snd (call_span t c)
      \<and> (case c of CallLogin E s k input \<Rightarrow> live (iw_redis w) (sc_hset k) s = None | _ \<Rightarrow> True)
      \<and> run_ok B svc live (snd (call_span t c)) cs (exec_iam_call B svc c w))"

lemma on_redis_app: "on_redis a w = (fst (a (iw_redis w)), w\<lparr>iw_redis := snd (a (iw_redis w))\<rparr>)"
  by (simp add: on_redis_def split: prod.splits)

subsection \<open>The service over its stores\<close>

locale iam_backend =
  users: user_store Create GetByLogin GetByUUID table stored +
  sessions: session_store Set Get Delete live ok ends
  for Create :: "'e \<Rightarrow> User \<Rightarrow> ('r iam_world, unit, iam_error) act"
    and GetByLogin GetByUUID table stored
    and Set :: "set_clock \<Rightarrow> uuid \<Rightarrow> User \<Rightarrow> duration \<Rightarrow> ('r, unit, iam_error) act"
    and Get Delete live ok ends +
  fixes svc :: "'e \<Rightarrow> ('r iam_world) iam_service" and B :: bcrypt_lib and TTL :: duration
  assumes wiring: "is_CreateUser (svc E) = Create E" "is_GetByLogin (svc E) = GetByLogin E"
      "is_GetByUUID (svc E) = GetByUUID E" "is_Set (svc E) k s u d = on_redis (Set k s u d)"
      "is_Get (svc E) t s = on_redis (Get t s)" "is_Delete (svc E) t s = on_redis (Delete t s)"
      "is_sessionTTL (svc E) = TTL"
    and B: "bcrypt_ok B"
begin

lemma Login_cases:
  assumes "IamService_Login B (svc E) s k input w = (x, w')"
  obtains (refused) "w' = w" "x = Err (Sent ErrEmptyCredential) \<or> x = Err (Sent ErrInvalidCredentials)"
  | (accepted) user z r' where "find (\<lambda>u. us_Login u = ui_Login input) (table w) = Some user"
      "bc_CompareHashAndPassword B (us_PasswordHash user) (ui_Password input)"
      "Set k s user TTL (iw_redis w) = (z, r')" "w' = w\<lparr>iw_redis := r'\<rparr>" "x = bindR z (\<lambda>_. Ret s)"
proof (cases "ui_Login input = [] \<or> ui_Password input = []")
  case True
  with assms refused show thesis by (simp add: IamService_Login_def)
next
  case False
  obtain y w1 where g: "GetByLogin E (ui_Login input) w = (y, w1)" by fastforce
  note c = users.GetByLogin_cases [OF g]
  show thesis
  proof (cases "\<exists>user. y = Ret user \<and> bc_CompareHashAndPassword B (us_PasswordHash user) (ui_Password input)")
    case True
    then obtain user where u: "y = Ret user" "bc_CompareHashAndPassword B (us_PasswordHash user) (ui_Password input)" by blast
    with c have f: "find (\<lambda>u. us_Login u = ui_Login input) (table w) = Some user" and w1: "w1 = w"
      by (auto split: option.splits)
    obtain z r' where z: "Set k s user TTL (iw_redis w) = (z, r')" by fastforce
    with assms False g u w1 have "w' = w\<lparr>iw_redis := r'\<rparr>" "x = bindR z (\<lambda>_. Ret s)"
      by (cases z; simp add: IamService_Login_def wiring act_simps on_redis_app; fastforce)+
    with accepted f u z show thesis by blast
  next
    case no: False
    with assms False g c refused show thesis
      by (cases y) (auto simp: IamService_Login_def wiring act_simps split: option.splits)
  qed
qed

lemma Register_redis: "iw_redis (snd (IamService_Register B (svc E) salt u now input w)) = iw_redis w"
proof -
  have "iw_redis (snd (Create E user w)) = iw_redis w" for user
    using users.Create_cases [of E user w "fst (Create E user w)" "snd (Create E user w)"] by auto
  then show ?thesis
    by (auto simp: IamService_Register_def validateData_def wiring act_simps Let_def
        split: sum.splits prod.splits res.splits) (metis snd_conv)+
qed

lemma call_frame:
  assumes t: "t \<le> fst (call_span t c)" "fst (call_span t c) \<le> snd (call_span t c)"
    and s: "\<not> touches s c" and t': "snd (call_span t c) \<le> t'"
  shows "live (iw_redis (exec_iam_call B svc c w)) t' s = live (iw_redis w) t' s"
proof (cases c)
  case (CallLogin E s' k input)
  obtain x w' where l: "IamService_Login B (svc E) s' k input w = (x, w')" by fastforce
  then show ?thesis
  proof (cases rule: Login_cases)
    case (accepted user z r')
    with CallLogin t s t' show ?thesis
      using sessions.Set_frame [OF accepted(3)] l by auto
  qed (use CallLogin l in simp)
next
  case (CallLogout E t1 s')
  with s t' show ?thesis
    using sessions.Delete_frame [of t1 s' "iw_redis w" "fst (Delete t1 s' (iw_redis w))" "snd (Delete t1 s' (iw_redis w))"]
    by (simp add: IamService_Logout_def wiring on_redis_app)
next
  case (CallWhoami E t1 s')
  with t' show ?thesis
    using sessions.Get_frame [of t1 s' "iw_redis w" "fst (Get t1 s' (iw_redis w))" "snd (Get t1 s' (iw_redis w))"]
    by (simp add: IamService_Whoami_def wiring on_redis_app)
next
  case (CallGetUser E u)
  then show ?thesis
    using users.GetByUUID_cases [of E u w "fst (GetByUUID E u w)" "snd (GetByUUID E u w)"]
    by (simp add: IamService_GetUser_def wiring)
qed (simp add: Register_redis)

lemma call_ok:
  assumes t: "t \<le> fst (call_span t c)" "fst (call_span t c) \<le> snd (call_span t c)"
    and new: "case c of CallLogin E s k input \<Rightarrow> live (iw_redis w) (sc_hset k) s = None | _ \<Rightarrow> True"
    and ok: "ok (iw_redis w) t"
  shows "ok (iw_redis (exec_iam_call B svc c w)) (snd (call_span t c))"
proof (cases c)
  case (CallLogin E s' k input)
  obtain x w' where l: "IamService_Login B (svc E) s' k input w = (x, w')" by fastforce
  have ok': "ok (iw_redis w) (sc_hset k)" using ok t CallLogin by (auto intro: sessions.ok_later)
  from l show ?thesis
  proof (cases rule: Login_cases)
    case (accepted user z r')
    with CallLogin t new l show ?thesis
      using sessions.Set_ok [OF accepted(3) ok'] by auto
  next
    case refused
    with CallLogin l t ok' show ?thesis by (auto intro: sessions.ok_later)
  qed
next
  case (CallLogout E t1 s')
  with ok t have "ok (iw_redis w) t1" by (auto intro: sessions.ok_later)
  with CallLogout show ?thesis
    using sessions.Delete_ok [of t1 s' "iw_redis w" "fst (Delete t1 s' (iw_redis w))" "snd (Delete t1 s' (iw_redis w))"]
    by (simp add: IamService_Logout_def wiring on_redis_app)
next
  case (CallWhoami E t1 s')
  with ok t have "ok (iw_redis w) t1" by (auto intro: sessions.ok_later)
  with CallWhoami show ?thesis
    using sessions.Get_ok [of t1 s' "iw_redis w" "fst (Get t1 s' (iw_redis w))" "snd (Get t1 s' (iw_redis w))"]
    by (simp add: IamService_Whoami_def wiring on_redis_app)
next
  case (CallGetUser E u)
  with ok show ?thesis
    using users.GetByUUID_cases [of E u w "fst (GetByUUID E u w)" "snd (GetByUUID E u w)"]
    by (simp add: IamService_GetUser_def wiring)
qed (use ok in \<open>simp add: Register_redis\<close>)

lemma run_frame:
  assumes "run_ok B svc live t cs w" "ok (iw_redis w) t"
  shows "ok (iw_redis (exec_iam_calls B svc cs w)) (run_end t cs) \<and> t \<le> run_end t cs
    \<and> (\<forall>s t'. \<not> list_ex (touches s) cs \<longrightarrow> run_end t cs \<le> t' \<longrightarrow>
         live (iw_redis (exec_iam_calls B svc cs w)) t' s = live (iw_redis w) t' s)"
  using assms
proof (induction cs arbitrary: t w)
  case (Cons c cs)
  let ?w = "exec_iam_call B svc c w" and ?t = "snd (call_span t c)"
  have sp: "t \<le> fst (call_span t c)" "fst (call_span t c) \<le> ?t" and run: "run_ok B svc live ?t cs ?w"
    and ok: "ok (iw_redis ?w) ?t" using Cons.prems call_ok [of t c w] by simp_all
  note IH = Cons.IH [OF run ok]
  have "live (iw_redis (exec_iam_calls B svc cs ?w)) t' s = live (iw_redis w) t' s"
    if "\<not> list_ex (touches s) (c # cs)" "run_end ?t cs \<le> t'" for s t'
    using IH that call_frame [OF sp, of s t' w] by auto
  with IH sp show ?case by auto
qed simp

lemma session_life:
  assumes ok: "ok (iw_redis w) (sc_hset k)"
    and login: "IamService_Login B (svc E) s k input w = (Ret s', w1)"
    and fresh: "live (iw_redis w) (sc_hset k) s = None"
    and clock: "sc_hset k \<le> sc_expire k"
    and run: "run_ok B svc live (sc_expire k) cs w1" "\<not> list_ex (touches s) cs"
    and t: "run_end (sc_expire k) cs \<le> t"
    and answer: "IamService_Whoami (svc E') t s (exec_iam_calls B svc cs w1) = (x, w2)" "\<And>e. x \<noteq> Err (Ext e)"
  shows "\<exists>user. find (\<lambda>u. us_Login u = ui_Login input) (table w) = Some user
    \<and> bc_CompareHashAndPassword B (us_PasswordHash user) (ui_Password input) \<and> s' = s
    \<and> x = (if t < ends (sc_now k + TTL)
           then Ret (session_user user, session_of (sc_now_view k) s user (sc_now k + TTL))
           else Err (Sent ErrSessionNotFound))"
  using login
proof (cases rule: Login_cases)
  case (accepted user z r')
  then have z: "z = Ret ()" "s' = s" by (cases z; simp)+
  note set = accepted(3) [unfolded z]
  have ok1: "ok (iw_redis w1) (sc_expire k)" using sessions.Set_ok [OF set ok fresh clock] accepted(4) by simp
  note rf = run_frame [OF run(1) ok1]
  let ?w = "exec_iam_calls B svc cs w1"
  have "live (iw_redis ?w) t s = (if t < ends (sc_now k + TTL)
      then Some (session_user user, session_of (sc_now_view k) s user (sc_now k + TTL)) else None)"
    using sessions.Set_key [OF set ok fresh clock, of t] rf run(2) t accepted(4) by simp
  moreover have "ok (iw_redis ?w) t" using rf t by (auto intro: sessions.ok_later)
  moreover obtain y r2 where "Get t s (iw_redis ?w) = (y, r2)" by fastforce
  ultimately have "x = (if t < ends (sc_now k + TTL)
      then Ret (session_user user, session_of (sc_now_view k) s user (sc_now k + TTL))
      else Err (Sent ErrSessionNotFound))"
    using sessions.Get_live [of t s "iw_redis ?w" y r2] answer
    by (auto simp: IamService_Whoami_def wiring on_redis_app split: if_splits)
  with accepted(1,2) z show ?thesis by blast
qed simp

lemma logout_ends_session:
  assumes ok: "ok (iw_redis w) t0"
    and logout: "IamService_Logout (svc E) t0 s w = (Ret (), w1)"
    and run: "run_ok B svc live t0 cs w1" "\<not> list_ex (touches s) cs" and t: "run_end t0 cs \<le> t"
    and answer: "IamService_Whoami (svc E') t s (exec_iam_calls B svc cs w1) = (x, w2)" "\<And>e. x \<noteq> Err (Ext e)"
  shows "x = Err (Sent ErrSessionNotFound)"
proof -
  obtain r' where d: "Delete t0 s (iw_redis w) = (Ret (), r')" and w1: "w1 = w\<lparr>iw_redis := r'\<rparr>"
    using logout by (auto simp: IamService_Logout_def wiring on_redis_app prod_eq_iff)
  have ok1: "ok (iw_redis w1) t0" using sessions.Delete_ok [OF d ok] w1 by simp
  note rf = run_frame [OF run(1) ok1]
  let ?w = "exec_iam_calls B svc cs w1"
  have "live (iw_redis ?w) t s = None"
    using sessions.Delete_key [OF d, of t] rf run(2) t w1 by simp
  moreover have "ok (iw_redis ?w) t" using rf t by (auto intro: sessions.ok_later)
  moreover obtain y r2 where "Get t s (iw_redis ?w) = (y, r2)" by fastforce
  ultimately show ?thesis
    using sessions.Get_live [of t s "iw_redis ?w" y r2] answer
    by (auto simp: IamService_Whoami_def wiring on_redis_app)
qed

lemma Register_cases:
  assumes "IamService_Register B (svc E) salt u now input w = (x, w')"
  obtains (refused) e where "w' = w" "x = Err e"
  | (accepted) hash user where "bc_GenerateFromPassword B salt (ui_Password input) (is_bcryptCost (svc E)) = Inr hash"
      "user = \<lparr>us_UUID = u, us_Login = ui_Login input, us_PasswordHash = hash, us_CreatedAt = now, us_UpdatedAt = None\<rparr>"
      "ui_Login input \<noteq> []" "8 \<le> length (ui_Password input)" "x = Ret user"
      "Create E user w = (Ret (), w')"
proof (cases "validateData (ui_Login input) (ui_Password input) = Ret ()")
  case False
  with assms refused show thesis
    by (auto simp: IamService_Register_def validateData_def act_simps split: if_splits)
next
  case valid: True
  show thesis
  proof (cases "bc_GenerateFromPassword B salt (ui_Password input) (is_bcryptCost (svc E))")
    case (Inl e)
    with valid assms refused show thesis by (auto simp: IamService_Register_def act_simps)
  next
    case (Inr hash)
    let ?user = "\<lparr>us_UUID = u, us_Login = ui_Login input, us_PasswordHash = hash, us_CreatedAt = now, us_UpdatedAt = None\<rparr>"
    obtain y w1 where c: "Create E ?user w = (y, w1)" by fastforce
    show thesis
    proof (cases "y = Ret ()")
      case True
      with c Inr valid assms have "x = Ret ?user" "w' = w1"
        by (simp_all add: IamService_Register_def wiring act_simps Let_def)
      with True c Inr valid accepted show thesis by (auto simp: validateData_def split: if_splits)
    next
      case False
      with users.Create_cases [OF c] obtain e where "y = Err e" "w1 = w" by auto
      with c Inr valid assms refused show thesis by (auto simp: IamService_Register_def wiring act_simps Let_def)
    qed
  qed
qed

lemma call_table: "\<exists>new. table (exec_iam_call B svc c w) = table w @ new"
proof (cases c)
  case (CallRegister E salt u now input)
  obtain x w' where r: "IamService_Register B (svc E) salt u now input w = (x, w')" by fastforce
  then show ?thesis
  proof (cases rule: Register_cases)
    case (accepted hash user)
    with CallRegister r users.Create_cases [OF accepted(6)] show ?thesis by auto
  qed (use CallRegister r in simp)
next
  case (CallLogin E s' k input)
  obtain x w' where l: "IamService_Login B (svc E) s' k input w = (x, w')" by fastforce
  then show ?thesis by (cases rule: Login_cases) (use CallLogin l in \<open>simp_all add: users.table_redis\<close>)
next
  case (CallGetUser E u)
  then show ?thesis
    using users.GetByUUID_cases [of E u w "fst (GetByUUID E u w)" "snd (GetByUUID E u w)"]
    by (simp add: IamService_GetUser_def wiring)
qed (simp_all add: IamService_Logout_def IamService_Whoami_def wiring on_redis_app users.table_redis)

lemma run_table: "\<exists>new. table (exec_iam_calls B svc cs w) = table w @ new"
proof (induction cs arbitrary: w)
  case (Cons c cs)
  from call_table [of c w] Cons.IH [of "exec_iam_call B svc c w"] show ?case by auto
qed simp

end

subsection \<open>The deployed service\<close>

lemma iam_backend_deployed:
  assumes "redis_sessions R lookup deadline U" "bcrypt_ok B"
  shows "iam_backend UserRepo_Create UserRepo_GetByLogin UserRepo_GetByUUID user_table stored_model
    (SessionRepo_Set U R) (SessionRepo_Get U R) (SessionRepo_Delete U R)
    (session_live U lookup) (sessions_ok U lookup) deadline (\<lambda>E. NewIamService E U R ttl cost) B ttl"
proof -
  have "session_store (SessionRepo_Set U R) (SessionRepo_Get U R) (SessionRepo_Delete U R)
      (session_live U lookup) (sessions_ok U lookup) deadline"
    by (rule redis_sessions.is_session_store [OF assms(1)])
  then show ?thesis
    using assms(2) pg_users.user_store_axioms
    by (simp add: iam_backend_def iam_backend_axioms_def NewIamService_def)
qed

lemma find_append_new: "\<forall>x \<in> set xs. \<not> P x \<Longrightarrow> P y \<Longrightarrow> find P (xs @ y # ys) = Some y"
  by (induction xs) auto

context iam_backend
begin

lemma registered_found:
  assumes reg: "IamService_Register B (svc E) salt u now input w = (Ret user, w1)"
  shows "find (\<lambda>v. us_Login v = ui_Login input) (table (exec_iam_calls B svc cs w1)) = Some (stored E user)
    \<and> bc_CompareHashAndPassword B (us_PasswordHash (stored E user)) (ui_Password input)
    \<and> ui_Login input \<noteq> [] \<and> ui_Password input \<noteq> []"
  using reg
proof (cases rule: Register_cases)
  case (accepted hash user')
  then have user: "user' = user" by simp
  from users.Create_cases [OF accepted(6)] have
    t: "ui_Login input \<notin> us_Login ` set (table w)" "table w1 = table w @ [stored E user]"
    using accepted(2) user by auto
  obtain new where "table (exec_iam_calls B svc cs w1) = table w @ stored E user # new"
    using run_table [of cs w1] t(2) by auto
  moreover have "us_Login (stored E user) = ui_Login input" using accepted(2) user by (simp add: users.stored_keys)
  ultimately have "find (\<lambda>v. us_Login v = ui_Login input) (table (exec_iam_calls B svc cs w1)) = Some (stored E user)"
    using t(1) by (force intro!: find_append_new)
  moreover have "bc_CompareHashAndPassword B (us_PasswordHash (stored E user)) (ui_Password input)"
    using B accepted(1,2) user by (auto simp: bcrypt_ok_def users.stored_keys)
  ultimately show ?thesis using accepted(3,4) by auto
qed simp

lemma login_not_reused:
  assumes "find (\<lambda>v. us_Login v = ui_Login input) (table w) = Some v"
  shows "fst (IamService_Register B (svc E) salt u now input w) \<noteq> Ret user"
proof
  assume "fst (IamService_Register B (svc E) salt u now input w) = Ret user"
  then obtain w' where "IamService_Register B (svc E) salt u now input w = (Ret user, w')" by (metis prod.collapse)
  then show False
  proof (cases rule: Register_cases)
    case (accepted hash user')
    then have "ui_Login input \<notin> us_Login ` set (table w)" using users.Create_cases [OF accepted(6)] by auto
    moreover have "v \<in> set (table w) \<and> us_Login v = ui_Login input"
      using assms by (auto simp: find_Some_iff)
    ultimately show False by force
  qed simp
qed

end

text \<open>A password store for the witnesses, with the length limit of \<open>bcrypt\<close>.\<close>

definition plain_bcrypt :: bcrypt_lib where
  "plain_bcrypt =
     \<lparr>bc_GenerateFromPassword = (\<lambda>salt p cost.
        if 72 < length p then Inl (Foreign ''bcrypt: password length exceeds 72 bytes'') else Inr (CHR ''$'' # p)),
      bc_CompareHashAndPassword = (\<lambda>h p. h = CHR ''$'' # p)\<rparr>"

lemma plain_bcrypt_ok: "bcrypt_ok plain_bcrypt"
  by (simp add: bcrypt_ok_def plain_bcrypt_def)

interpretation mem_iam: iam_backend UserRepo_Create UserRepo_GetByLogin UserRepo_GetByUUID user_table stored_model
  "SessionRepo_Set unary_uuid_lib (mem_redis oc)" "SessionRepo_Get unary_uuid_lib (mem_redis oc)"
  "SessionRepo_Delete unary_uuid_lib (mem_redis oc)" "session_live unary_uuid_lib mem_lookup"
  "sessions_ok unary_uuid_lib mem_lookup" whole_seconds
  "\<lambda>E. NewIamService E unary_uuid_lib (mem_redis oc) ttl cost" plain_bcrypt ttl
  for oc ttl cost
  by (rule iam_backend_deployed [OF mem.redis_sessions_axioms plain_bcrypt_ok])

definition all_up :: redis_outcomes where
  "all_up = \<lparr>ro_hset = None, ro_hgetall = None, ro_expireat = None, ro_del = None\<rparr>"

definition iam_up :: iam_env where
  "iam_up = \<lparr>iu_query = None, iu_insert = (\<lambda>_. None), iu_timestamp = id\<rparr>"

definition at_time :: "time \<Rightarrow> set_clock" where
  "at_time t = \<lparr>sc_now = t, sc_now_view = t, sc_hset = t, sc_expire = t\<rparr>"

definition ann :: User where
  "ann = \<lparr>us_UUID = 1, us_Login = ''ann'', us_PasswordHash = ''$correcthorse'', us_CreatedAt = 5, us_UpdatedAt = None\<rparr>"

definition ann_world :: "mem_redis iam_world" where
  "ann_world = \<lparr>iw_users = [UserModelToRecord ann], iw_redis = Map.empty\<rparr>"

abbreviation ann_input :: UserInput where
  "ann_input \<equiv> \<lparr>ui_Login = ''ann'', ui_Password = ''correcthorse''\<rparr>"

lemma ann_sessions_ok: "sessions_ok U mem_lookup (iw_redis ann_world) t"
  by (simp add: sessions_ok_def ann_world_def mem_lookup_def)

lemmas iam_eval = IamService_Login_def IamService_Whoami_def IamService_Logout_def IamService_Register_def
  NewIamService_def UserRepo_GetByLogin_def select_user_def on_redis_app SessionRepo_Set_def SessionRepo_Get_def
  SessionRepo_Delete_def mem_redis_def outcome_act_def mem_lookup_def all_up_def iam_up_def at_time_def ann_def
  ann_world_def plain_bcrypt_def UserModelToRecord_def UserRecordToModel_def act_simps Let_def

lemma SessionViewToModels_no_Err: "SessionViewToModels U v \<noteq> Err e"
  by (simp add: SessionViewToModels_def SessionViewToUserModel_def SessionViewToSessionModel_def
      uuid_MustParse_def split: option.splits)

lemma no_fault_when_up:
  "IamService_Whoami (NewIamService E U (mem_redis all_up) ttl cost) t s w \<noteq> (Err (Ext e), w')"
  using SessionViewToModels_no_Err by (auto simp: iam_eval split: option.splits if_splits)

subsection \<open>Properties\<close>

text \<open>
  C4. The life of a session: when \<open>Login\<close> succeeds, the password matched the stored hash of that
  login, and whatever other calls follow (registrations, other logins, logouts of other sessions,
  lookups), \<open>Whoami\<close> at the instant \<open>t\<close> answers with that user and session as long as
  \<open>t\<close> is at least a second before the expiry, and with \<open>ErrSessionNotFound\<close> from the expiry
  on, unless Redis itself fails. The password hash is never part of the answer.
\<close>

theorem session_lifecycle:
  assumes "redis_sessions R lookup deadline U" "bcrypt_ok B"
    and "sessions_ok U lookup (iw_redis w) (sc_hset k)"
    and "IamService_Login B (NewIamService E U R ttl cost) s k input w = (Ret s', w1)"
    and "session_live U lookup (iw_redis w) (sc_hset k) s = None" "sc_hset k \<le> sc_expire k"
    and "run_ok B (\<lambda>E. NewIamService E U R ttl cost) (session_live U lookup) (sc_expire k) cs w1"
      "\<not> list_ex (touches s) cs" "run_end (sc_expire k) cs \<le> t"
    and "IamService_Whoami (NewIamService E' U R ttl cost) t s
           (exec_iam_calls B (\<lambda>E. NewIamService E U R ttl cost) cs w1) = (x, w2)"
      "\<And>e. x \<noteq> Err (Ext e)"
  shows "\<exists>user \<in> set (user_table w). us_Login user = ui_Login input
    \<and> bc_CompareHashAndPassword B (us_PasswordHash user) (ui_Password input)
    \<and> (t + 1000000000 \<le> sc_now k + ttl \<longrightarrow>
         x = Ret (session_user user, session_of (sc_now_view k) s user (sc_now k + ttl)))
    \<and> (sc_now k + ttl \<le> t \<longrightarrow> x = Err (Sent ErrSessionNotFound))
    \<and> us_PasswordHash (session_user user) = []"
proof -
  note backend = iam_backend_deployed [OF assms(1,2), of ttl cost]
  have d: "deadline (sc_now k + ttl) \<le> sc_now k + ttl" "sc_now k + ttl < deadline (sc_now k + ttl) + 1000000000"
    using session_store.ends_before session_store.ends_close redis_sessions.is_session_store [OF assms(1)] by blast+
  obtain user where u: "find (\<lambda>u. us_Login u = ui_Login input) (user_table w) = Some user"
      "bc_CompareHashAndPassword B (us_PasswordHash user) (ui_Password input)"
      "x = (if t < deadline (sc_now k + ttl) then Ret (session_user user, session_of (sc_now_view k) s user (sc_now k + ttl))
            else Err (Sent ErrSessionNotFound))"
    using iam_backend.session_life [OF backend assms(3-)] by blast
  then have "user \<in> set (user_table w)" "us_Login user = ui_Login input" by (auto simp: find_Some_iff)
  with u d show ?thesis by (intro bexI [of _ user]) (auto simp: session_user_def)
qed

theorem session_lifecycle_witness:
  "fst (IamService_Whoami (NewIamService iam_up unary_uuid_lib (mem_redis all_up) 3600000000000 10) 200000000000 7
     (snd (IamService_Login plain_bcrypt (NewIamService iam_up unary_uuid_lib (mem_redis all_up) 3600000000000 10)
        7 (at_time 100000000000) ann_input ann_world)))
   = Ret (session_user ann, session_of 100000000000 7 ann 3700000000000)"
proof -
  let ?s = "NewIamService iam_up unary_uuid_lib (mem_redis all_up) 3600000000000 10"
  let ?k = "at_time 100000000000"
  have "fst (IamService_Login plain_bcrypt ?s 7 ?k ann_input ann_world) = Ret 7"
    by (simp add: iam_eval)
  then obtain w1 where l: "IamService_Login plain_bcrypt ?s 7 ?k ann_input ann_world = (Ret 7, w1)"
    by (metis prod.collapse)
  obtain x w2 where x: "IamService_Whoami ?s 200000000000 7 w1 = (x, w2)" by fastforce
  then have nofault: "x \<noteq> Err (Ext e)" for e
    by (auto simp: no_fault_when_up)
  have fresh: "session_live unary_uuid_lib mem_lookup (iw_redis ann_world) (sc_hset ?k) 7 = None"
    by (simp add: session_live_def ann_world_def mem_lookup_def)
  have "x = Ret (session_user ann, session_of 100000000000 7 ann 3700000000000)"
    using session_lifecycle [OF mem.redis_sessions_axioms plain_bcrypt_ok ann_sessions_ok l fresh, where cs = "[]" and E' = iam_up and t = 200000000000]
      x nofault
    by (simp add: at_time_def user_table_def ann_world_def)
  with l x show ?thesis by simp
qed

text \<open>
  C26. Logging out ends the session: after a successful \<open>Logout\<close>, whatever calls follow that do
  not log in under the same identifier, \<open>Whoami\<close> answers \<open>ErrSessionNotFound\<close> unless Redis
  fails, even long before the session would have expired.
\<close>

theorem logout_is_final:
  assumes "redis_sessions R lookup deadline U" "bcrypt_ok B" "sessions_ok U lookup (iw_redis w) t0"
    and "IamService_Logout (NewIamService E U R ttl cost) t0 s w = (Ret (), w1)"
    and "run_ok B (\<lambda>E. NewIamService E U R ttl cost) (session_live U lookup) t0 cs w1"
      "\<not> list_ex (touches s) cs" "run_end t0 cs \<le> t"
    and "IamService_Whoami (NewIamService E' U R ttl cost) t s
           (exec_iam_calls B (\<lambda>E. NewIamService E U R ttl cost) cs w1) = (x, w2)"
      "\<And>e. x \<noteq> Err (Ext e)"
  shows "x = Err (Sent ErrSessionNotFound)"
  using iam_backend.logout_ends_session [OF iam_backend_deployed [OF assms(1,2), of ttl cost] assms(3-)] .

definition ann_logged_in :: "mem_redis iam_world" where
  "ann_logged_in = snd (IamService_Login plain_bcrypt (NewIamService iam_up unary_uuid_lib (mem_redis all_up) 3600000000000 10)
     7 (at_time 100000000000) ann_input ann_world)"

lemma ann_logged_in_ok: "sessions_ok unary_uuid_lib mem_lookup (iw_redis ann_logged_in) 100000000000"
proof -
  have new: "session_live unary_uuid_lib mem_lookup (iw_redis ann_world) 100000000000 7 = None"
    by (simp add: session_live_def ann_world_def mem_lookup_def)
  show ?thesis
    using mem_iam.call_ok [of 100000000000 "CallLogin iam_up 7 (at_time 100000000000) ann_input" ann_world all_up 3600000000000 10]
      new ann_sessions_ok
    by (simp add: ann_logged_in_def at_time_def)
qed

theorem logout_is_final_witness:
  "fst (IamService_Whoami (NewIamService iam_up unary_uuid_lib (mem_redis all_up) 3600000000000 10) 200000000000 7
     (snd (IamService_Logout (NewIamService iam_up unary_uuid_lib (mem_redis all_up) 3600000000000 10) 150000000000 7 ann_logged_in)))
   = Err (Sent ErrSessionNotFound)"
proof -
  let ?s = "NewIamService iam_up unary_uuid_lib (mem_redis all_up) 3600000000000 10"
  obtain w1 where l: "IamService_Logout ?s 150000000000 7 ann_logged_in = (Ret (), w1)"
    by (simp add: iam_eval)
  obtain x w2 where x: "IamService_Whoami ?s 200000000000 7 w1 = (x, w2)" by fastforce
  have ok: "sessions_ok unary_uuid_lib mem_lookup (iw_redis ann_logged_in) 150000000000"
    using mem.store.ok_later [OF ann_logged_in_ok] by simp
  have "x = Err (Sent ErrSessionNotFound)"
    using logout_is_final [OF mem.redis_sessions_axioms plain_bcrypt_ok ok l, where cs = "[]" and t = 200000000000 and E' = iam_up]
      x no_fault_when_up by fastforce
  with l x show ?thesis by simp
qed

text \<open>
  C27. A registered user can log in: after a successful \<open>Register\<close>, whatever calls follow, a login
  with the same credentials is never refused while the database answers; it stores a session for the
  user as registered, under a password hash and with the creation time the column keeps. And the login
  name stays taken: no later registration of it succeeds.
\<close>

theorem registered_users_can_login:
  assumes "redis_sessions R lookup deadline U" "bcrypt_ok B"
    and "IamService_Register B (NewIamService E U R ttl cost) salt u now input w = (Ret user, w1)"
    and "w2 = exec_iam_calls B (\<lambda>E. NewIamService E U R ttl cost) cs w1" and "iu_query E' = None"
  shows "IamService_Login B (NewIamService E' U R ttl cost) s k input w2 =
      (case SessionRepo_Set U R k s (stored_model E user) ttl (iw_redis w2) of
         (z, r) \<Rightarrow> (bindR z (\<lambda>_. Ret s), w2\<lparr>iw_redis := r\<rparr>))
    \<and> (ui_Login input' = ui_Login input \<longrightarrow>
         fst (IamService_Register B (NewIamService E'' U R ttl cost) salt' u' now' input' w2) \<noteq> Ret user')"
proof -
  note backend = iam_backend_deployed [OF assms(1,2), of ttl cost]
  note found = iam_backend.registered_found [OF backend assms(3), of cs, folded assms(4)]
  have "UserRepo_GetByLogin E' (ui_Login input) w2 = (Ret (stored_model E user), w2)"
    using found assms(5) by (auto simp: UserRepo_GetByLogin_def select_user_def find_user_table comp_def
        UserRecordToModel_def act_simps split: option.splits)
  moreover obtain z r where "SessionRepo_Set U R k s (stored_model E user) ttl (iw_redis w2) = (z, r)" by fastforce
  ultimately have "IamService_Login B (NewIamService E' U R ttl cost) s k input w2 = (bindR z (\<lambda>_. Ret s), w2\<lparr>iw_redis := r\<rparr>)
      \<and> SessionRepo_Set U R k s (stored_model E user) ttl (iw_redis w2) = (z, r)"
    using found by (cases z) (simp_all add: IamService_Login_def NewIamService_def act_simps on_redis_app)
  then show ?thesis
    using iam_backend.login_not_reused [OF backend, of input' w2] found by simp
qed

theorem registered_users_can_login_witness:
  "fst (IamService_Login plain_bcrypt (NewIamService iam_up unary_uuid_lib (mem_redis all_up) 3600000000000 10) 7
     (at_time 100000000000) \<lparr>ui_Login = ''bob'', ui_Password = ''12345678''\<rparr>
     (snd (IamService_Register plain_bcrypt (NewIamService iam_up unary_uuid_lib (mem_redis all_up) 3600000000000 10)
        [] 2 50 \<lparr>ui_Login = ''bob'', ui_Password = ''12345678''\<rparr> ann_world))) = Ret 7"
proof -
  let ?s = "NewIamService iam_up unary_uuid_lib (mem_redis all_up) 3600000000000 10"
  let ?bob = "\<lparr>ui_Login = ''bob'', ui_Password = ''12345678''\<rparr>"
  have "\<exists>user. fst (IamService_Register plain_bcrypt ?s [] 2 50 ?bob ann_world) = Ret user"
    by (simp add: iam_eval validateData_def UserRepo_Create_def insert_user_def)
  then obtain user w1 where r: "IamService_Register plain_bcrypt ?s [] 2 50 ?bob ann_world = (Ret user, w1)"
    by (metis prod.collapse)
  have "fst (IamService_Login plain_bcrypt ?s 7 (at_time 100000000000) ?bob w1) = Ret 7"
    using conjunct1 [OF registered_users_can_login [OF mem.redis_sessions_axioms plain_bcrypt_ok r, where cs = "[]" and E' = iam_up]]
    by (simp add: iam_up_def SessionRepo_Set_def mem_redis_def outcome_act_def all_up_def act_simps Let_def)
  with r show ?thesis by simp
qed

text \<open>
  A refused login tells nothing about why: with both fields given, an unknown login, a wrong
  password and a failing database all give \<open>ErrInvalidCredentials\<close> and leave the world as it was;
  in every other case the answer is that of storing a new session.
\<close>

lemma login_refusals_alike:
  "IamService_Login B (NewIamService E U R ttl cost) s k input w =
     (if ui_Login input = [] \<or> ui_Password input = [] then (Err (Sent ErrEmptyCredential), w)
      else case (if iu_query E = None then find (\<lambda>u. us_Login u = ui_Login input) (user_table w) else None) of
          None \<Rightarrow> (Err (Sent ErrInvalidCredentials), w)
        | Some user \<Rightarrow>
            if bc_CompareHashAndPassword B (us_PasswordHash user) (ui_Password input)
            then (case SessionRepo_Set U R k s user ttl (iw_redis w) of
                    (z, r) \<Rightarrow> (bindR z (\<lambda>_. Ret s), w\<lparr>iw_redis := r\<rparr>))
            else (Err (Sent ErrInvalidCredentials), w))"
  by (auto simp: IamService_Login_def NewIamService_def UserRepo_GetByLogin_def select_user_def fetch_error_def
      find_user_table comp_def UserRecordToModel_def act_simps on_redis_def split: option.splits prod.splits res.splits)

text \<open>
  Every error leaves the IAM service as a status decided by its innermost error, and nothing
  else leaks: a driver error, a status or an unlisted sentinel becomes \<open>Internal\<close>.
\<close>

lemma iam_error_table:
  "iam_error_code err = Status (case cause err of
      Sent ErrUserNotFound \<Rightarrow> NotFound
    | Sent ErrUserAlreadyExists \<Rightarrow> AlreadyExists
    | Sent ErrInvalidCredentials \<Rightarrow> Unauthenticated
    | Sent ErrSessionNotFound \<Rightarrow> Unauthenticated
    | Sent _ \<Rightarrow> InvalidArgument
    | _ \<Rightarrow> Internal)"
  by (simp add: iam_error_code_def errors_Is_cause split: err.splits iam_error.splits)

text \<open>
  C39. The two commands of \<open>Set\<close> are not atomic: when \<open>HSET\<close> succeeds and \<open>EXPIREAT\<close>
  fails without having run, the caller gets the failure and no identifier, but the session is stored
  without an expiry: it stays live at every later instant, however long after the session TTL.
\<close>

theorem session_without_expiry:
  assumes "redis_sessions R lookup deadline U"
    and "rc_HSet R (sc_hset k) (getSessionKey (uuid_String U s))
           (UserModelToSessionView U (sc_now_view k) s user (sc_now k + ttl)) r = (Ret (), r1)"
    and "rc_ExpireAt R (sc_expire k) (getSessionKey (uuid_String U s)) (sc_now k + ttl) r1 = (Err e, r1)"
    and "lookup r (sc_hset k) (getSessionKey (uuid_String U s)) = None" "sc_hset k \<le> t"
  shows "SessionRepo_Set U R k s user ttl r = (Err e, r1)
    \<and> session_live U lookup r1 t s = Some (session_user user, session_of (sc_now_view k) s user (sc_now k + ttl))"
proof -
  have U: "uuid_lib_ok U" using assms(1) by (rule redis_sessions.U)
  have "lookup r1 t (getSessionKey (uuid_String U s)) = Some (UserModelToSessionView U (sc_now_view k) s user (sc_now k + ttl))"
    using redis_hashes.HSet_key [OF redis_sessions.axioms(1) [OF assms(1)] assms(2,4,5)] by simp
  with assms(2,3) session_live_view [OF U] show ?thesis by (simp add: SessionRepo_Set_def act_simps Let_def)
qed

theorem session_without_expiry_witness:
  "session_live unary_uuid_lib mem_lookup
     (snd (SessionRepo_Set unary_uuid_lib (mem_redis (all_up\<lparr>ro_expireat := Some ContextDeadlineExceeded\<rparr>))
        (at_time 100000000000) 7 ann 3600000000000 Map.empty)) 99000000000000 7
   = Some (session_user ann, session_of 100000000000 7 ann 3700000000000)"
proof -
  let ?R = "mem_redis (all_up\<lparr>ro_expireat := Some ContextDeadlineExceeded\<rparr>)" and ?k = "at_time 100000000000"
  let ?key = "getSessionKey (uuid_String unary_uuid_lib 7)"
  let ?v = "UserModelToSessionView unary_uuid_lib (sc_now_view ?k) 7 ann (sc_now ?k + 3600000000000)"
  have h: "rc_HSet ?R (sc_hset ?k) ?key ?v Map.empty = (Ret (), [?key \<mapsto> (?v, None)])"
    by (simp add: mem_redis_def outcome_act_def all_up_def mem_lookup_def)
  have e: "rc_ExpireAt ?R (sc_expire ?k) ?key (sc_now ?k + 3600000000000) [?key \<mapsto> (?v, None)]
      = (Err (Ext ContextDeadlineExceeded), [?key \<mapsto> (?v, None)])"
    by (simp add: mem_redis_def outcome_act_def all_up_def)
  show ?thesis
    using session_without_expiry [OF mem.redis_sessions_axioms h e, of 99000000000000]
    by (simp add: mem_lookup_def at_time_def)
qed

end
