(* ===== verification/System_Sessions.thy ===== *)
theory System_Sessions
  imports System_Stock Iam_Properties
begin

text \<open>
  The IAM service as the other services see it: \<open>Whoami\<close> through the interceptors of the IAM
  server, the wire and the client of the order or of the inventory service, up to the middleware of
  the order service. The theorems say what a session is worth at the doors of both services.
\<close>

subsection \<open>Whoami over the wire\<close>

definition iam_stub ::
    "uuid_lib \<Rightarrow> 'w iam_service \<Rightarrow> (iam_error err \<Rightarrow> 'f err) \<Rightarrow> time \<Rightarrow> ctx \<Rightarrow> string
      \<Rightarrow> ('w, string \<times> string, 'f) act" where
  "iam_stub U s wire t c q =
     mapErrA wire (bindA (iam_chain (\<lambda>_. []) (\<lambda>_ _ w. w) (\<lambda>_. AuthApi_Whoami U s t q) (server_ctx c))
       (\<lambda>(session, user). ret (ure_Uuid user, sr_Uuid session)))"

lemma iam_stub_printed:
  assumes "uuid_lib_ok U"
  shows "iam_stub U s wire t c (uuid_String U sid) w =
    (case IamService_Whoami s t sid w of
       (Ret (user, session), w') \<Rightarrow> (Ret (uuid_String U (us_UUID user), uuid_String U (ses_UUID session)), w')
     | (Err e, w') \<Rightarrow> (Err (wire (iam_error_code e)), w')
     | (Panic p, w') \<Rightarrow> (Panic p, w'))"
  using uuid_lib_nonempty [OF assms, of sid]
  by (simp add: iam_stub_def iam_chain_def Iam_ErrorInterceptor_def TraceIDUnaryServerInterceptor_def
      AuthApi_Whoami_def uuid_lib_parse [OF assms] composeSessionRes_def composeUserRes_def act_simps
      split: prod.splits res.splits)

text \<open>The sentinels \<open>Whoami\<close> can meet and what the clients make of their codes.\<close>

definition session_refused :: "iam_error err \<Rightarrow> bool" where
  "session_refused e \<longleftrightarrow> cause e \<in> Sent ` {ErrInvalidCredentials, ErrSessionNotFound, ErrInvalidLogin,
     ErrWeakPassword, ErrEmptyCredential, ErrEmptySessionID, iam_error.ErrInvalidUUID}"

lemma wire_iam_code:
  assumes "wire_ok wire" "status_lib_ok S"
  shows "\<exists>c. S (wire (iam_error_code e)) = Some c \<and> (c = Unauthenticated \<or> c = InvalidArgument \<longleftrightarrow> session_refused e)"
proof -
  obtain c where c: "iam_error_code e = Status c" "c \<noteq> OK"
    and r: "c = Unauthenticated \<or> c = InvalidArgument \<longleftrightarrow> session_refused e"
    by (cases "cause e"; cases "case cause e of Sent x \<Rightarrow> x | _ \<Rightarrow> ErrUserNotFound")
       (auto simp: iam_error_code_def errors_Is_cause session_refused_def)
  then have "wire (iam_error_code e) = Status c" using assms(1) by (simp add: wire_ok_def)
  with c r status_lib_Status [OF assms(2)] show ?thesis by auto
qed

lemma order_whoami_remote:
  assumes "uuid_lib_ok U" "status_lib_ok S" "wire_ok wire"
  shows "OrderIAMClient_Whoami U S (iam_stub U s wire t) c sid w =
    (case IamService_Whoami s t sid w of
       (Ret (user, session), w') \<Rightarrow> (Ret (us_UUID user, ses_UUID session), w')
     | (Err e, w') \<Rightarrow> (Err (Wrap ''iam service returned an error %q''
           (Sent (if session_refused e then ErrUnauthorized else ErrInternalError))), w')
     | (Panic p, w') \<Rightarrow> (Panic p, w'))"
proof (cases "IamService_Whoami s t sid w")
  case (Pair x w')
  show ?thesis
  proof (cases x)
    case (Err e)
    with Pair show ?thesis
      using wire_iam_code [OF assms(3,2), of e]
      by (auto simp: OrderIAMClient_Whoami_def iam_stub_printed [OF assms(1)] order_iam_mapErrors_def act_simps)
  qed (use Pair in \<open>auto simp: OrderIAMClient_Whoami_def iam_stub_printed [OF assms(1)] act_simps
      uuid_lib_parse [OF assms(1)] split: prod.splits\<close>)
qed

lemma inventory_whoami_remote:
  assumes "uuid_lib_ok U" "status_lib_ok S" "wire_ok wire"
  shows "InvIAMClient_Whoami U S (iam_stub U s wire t) c sid w =
    (case IamService_Whoami s t sid w of
       (Ret (user, session), w') \<Rightarrow> (Ret (us_UUID user, ses_UUID session), w')
     | (Err e, w') \<Rightarrow> (Err (Wrap ''iam service returned an error %q''
           (Sent (if session_refused e then ErrUnauthenticated else inv_error.ErrInternalError))), w')
     | (Panic p, w') \<Rightarrow> (Panic p, w'))"
proof (cases "IamService_Whoami s t sid w")
  case (Pair x w')
  show ?thesis
  proof (cases x)
    case (Err e)
    with Pair show ?thesis
      using wire_iam_code [OF assms(3,2), of e]
      by (auto simp: InvIAMClient_Whoami_def iam_stub_printed [OF assms(1)] inv_iam_mapErrors_def)
  qed (use Pair in \<open>auto simp: InvIAMClient_Whoami_def iam_stub_printed [OF assms(1)]
      uuid_lib_parse [OF assms(1)] split: prod.splits\<close>)
qed

subsection \<open>Properties\<close>

text \<open>
  C28. Both services read the IAM service alike, through interceptors, wire and clients: a session it
  confirms gives the identifiers of its user and of itself; a refusal (unknown or expired session)
  becomes the authentication error of the service; and any other failure, such as an unreachable Redis,
  is reported as an internal error and not as a refusal.
\<close>

theorem whoami_across_services:
  assumes "uuid_lib_ok U" "status_lib_ok So" "wire_ok wo" "status_lib_ok Si" "wire_ok wi"
    and "IamService_Whoami s t sid w = (x, w')"
  shows "OrderIAMClient_Whoami U So (iam_stub U s wo t) c sid w =
      (case x of Ret (user, session) \<Rightarrow> Ret (us_UUID user, ses_UUID session)
       | Err e \<Rightarrow> Err (Wrap ''iam service returned an error %q''
           (Sent (if session_refused e then ErrUnauthorized else ErrInternalError)))
       | Panic p \<Rightarrow> Panic p, w')
    \<and> InvIAMClient_Whoami U Si (iam_stub U s wi t) c' sid w =
      (case x of Ret (user, session) \<Rightarrow> Ret (us_UUID user, ses_UUID session)
       | Err e \<Rightarrow> Err (Wrap ''iam service returned an error %q''
           (Sent (if session_refused e then ErrUnauthenticated else inv_error.ErrInternalError)))
       | Panic p \<Rightarrow> Panic p, w')"
  using order_whoami_remote [OF assms(1-3), of s t c sid w] inventory_whoami_remote [OF assms(1,4,5), of s t c' sid w] assms(6)
  by (cases x) (simp_all split: prod.splits)

theorem whoami_across_services_witness:
  "fst (OrderIAMClient_Whoami unary_uuid_lib chain_FromError
     (iam_stub unary_uuid_lib (NewIamService iam_up unary_uuid_lib (mem_redis all_up) 10 10)
       (code_wire :: iam_error err \<Rightarrow> order_error err) 5) background_ctx 9 ann_world)
   = Err (Wrap ''iam service returned an error %q'' (Sent ErrUnauthorized))"
proof -
  have "IamService_Whoami (NewIamService iam_up unary_uuid_lib (mem_redis all_up) 10 10) 5 9 ann_world
      = (Err (Sent ErrSessionNotFound), ann_world)"
    by (simp add: iam_eval empty_view_def)
  from whoami_across_services [OF unary_uuid_lib_ok chain_FromError_ok [where 'a = order_error] code_wire_ok
      chain_FromError_ok [where 'a = inv_error] code_wire_ok this, where c = background_ctx]
  show ?thesis by (simp add: session_refused_def)
qed

text \<open>
  C10. From login to the router: the token that \<open>Login\<close> returned opens the HTTP front door of the
  order service as that user until a second before the session expires, whatever other IAM calls
  happen in between, and is answered 401 from the expiry on, as long as Redis answers. The handler
  sees the identifier of the user who logged in.
\<close>

theorem bearer_token_lifetime:
  assumes R: "redis_sessions R lookup deadline U" "bcrypt_ok B" and lib: "status_lib_ok S" "wire_ok wire"
    and login: "sessions_ok U lookup (iw_redis w) (sc_hset k)"
      "IamService_Login B (NewIamService E U R ttl cost) s k input w = (Ret s', w1)"
      "session_live U lookup (iw_redis w) (sc_hset k) s = None" "sc_hset k \<le> sc_expire k"
    and run: "run_ok B (\<lambda>E. NewIamService E U R ttl cost) (session_live U lookup) (sc_expire k) cs w1"
      "\<not> list_ex (touches s) cs" "run_end (sc_expire k) cs \<le> t"
      "w2 = exec_iam_calls B (\<lambda>E. NewIamService E U R ttl cost) cs w1"
    and redis: "IamService_Whoami (NewIamService E' U R ttl cost) t s w2 = (x, w3)" "\<And>e. x \<noteq> Err (Ext e)"
    and req: "hq_authorization r = ''Bearer '' @ uuid_String U s"
  shows "\<exists>user \<in> set (user_table w). us_Login user = ui_Login input
    \<and> (t + 1000000000 \<le> sc_now k + ttl \<longrightarrow>
         AuthMiddleware U (OrderIAMClient_Whoami U S (iam_stub U (NewIamService E' U R ttl cost) wire t)) router r w2
         = router (r\<lparr>hq_ctx := WithSessionUUID (WithUserUUID (hq_ctx r) (us_UUID user)) s\<rparr>) w3)
    \<and> (sc_now k + ttl \<le> t \<longrightarrow>
         AuthMiddleware U (OrderIAMClient_Whoami U S (iam_stub U (NewIamService E' U R ttl cost) wire t)) router r w2
         = (Ret (http_Error 401 ''session is not valid''), w3))"
proof -
  have U: "uuid_lib_ok U" using R(1) by (rule redis_sessions.U)
  note backend = iam_backend_deployed [OF R, of ttl cost]
  have d: "deadline (sc_now k + ttl) \<le> sc_now k + ttl" "sc_now k + ttl < deadline (sc_now k + ttl) + 1000000000"
    using session_store.ends_before session_store.ends_close redis_sessions.is_session_store [OF R(1)] by blast+
  obtain user where u: "find (\<lambda>u. us_Login u = ui_Login input) (user_table w) = Some user"
      "x = (if t < deadline (sc_now k + ttl) then Ret (session_user user, session_of (sc_now_view k) s user (sc_now k + ttl))
            else Err (Sent ErrSessionNotFound))"
    using iam_backend.session_life [OF backend login run(1-3) redis [unfolded run(4)]] by blast
  have "bearer_session U r = Some s" by (simp add: bearer_session_def req has_prefix_def uuid_lib_parse [OF U])
  then have mw: "AuthMiddleware U whoami router r w2 = (case whoami (hq_ctx r) s w2 of
           (Err e, w') \<Rightarrow> (Ret (http_Error 401 ''session is not valid''), w')
         | (Panic p, w') \<Rightarrow> (Panic p, w')
         | (Ret (u, s'), w') \<Rightarrow> router (r\<lparr>hq_ctx := WithSessionUUID (WithUserUUID (hq_ctx r) u) s'\<rparr>) w')" for whoami
    using AuthMiddleware_session [OF U, of r whoami router w2] by simp
  have "user \<in> set (user_table w)" "us_Login user = ui_Login input" using u(1) by (auto simp: find_Some_iff)
  then show ?thesis
    using u(2) d redis(1)
    by (intro bexI [of _ user])
       (auto simp: mw order_whoami_remote [OF U lib] session_user_def session_of_def)
qed

theorem bearer_token_lifetime_witness:
  "fst (AuthMiddleware unary_uuid_lib (OrderIAMClient_Whoami unary_uuid_lib chain_FromError
       (iam_stub unary_uuid_lib (NewIamService iam_up unary_uuid_lib (mem_redis all_up) 3600000000000 10)
         (code_wire :: iam_error err \<Rightarrow> order_error err) 200000000000))
     (\<lambda>r. ret (http_Error (uint (fst (UserUUIDFromContext (hq_ctx r)))) []))
     (bearer_req (''Bearer '' @ uuid_String unary_uuid_lib 7)) ann_logged_in) = Ret (http_Error 1 [])"
proof -
  let ?s = "NewIamService iam_up unary_uuid_lib (mem_redis all_up) 3600000000000 10"
  let ?k = "at_time 100000000000"
  have "fst (IamService_Login plain_bcrypt ?s 7 ?k ann_input ann_world) = Ret 7" by (simp add: iam_eval)
  then have l: "IamService_Login plain_bcrypt ?s 7 ?k ann_input ann_world = (Ret 7, ann_logged_in)"
    by (simp add: ann_logged_in_def prod_eq_iff)
  obtain x w3 where x: "IamService_Whoami ?s 200000000000 7 ann_logged_in = (x, w3)" by fastforce
  then have nofault: "x \<noteq> Err (Ext e)" for e by (auto simp: no_fault_when_up)
  have fresh: "session_live unary_uuid_lib mem_lookup (iw_redis ann_world) (sc_hset ?k) 7 = None"
    by (simp add: session_live_def ann_world_def mem_lookup_def)
  show ?thesis
    using bearer_token_lifetime [OF mem.redis_sessions_axioms plain_bcrypt_ok
        chain_FromError_ok [where 'a = order_error] code_wire_ok ann_sessions_ok l fresh, where cs = "[]" and E' = iam_up and t = 200000000000 and x = x and ?w2.0 = ann_logged_in
        and ?w3.0 = w3 and r = "bearer_req (''Bearer '' @ uuid_String unary_uuid_lib 7)"
        and router = "\<lambda>r. ret (http_Error (uint (fst (UserUUIDFromContext (hq_ctx r)))) [])"]
      x nofault
    by (auto simp: at_time_def user_table_def ann_world_def bearer_req_def ann_def UserRecordToModel_def UserModelToRecord_def)
qed

end
