(* ===== verification/Platform_Kafka.thy ===== *)
theory Platform_Kafka
  imports Platform_Auth
begin

text \<open>
  The Kafka layer of the platform (\<open>platform/pkg/kafka\<close>, \<open>platform/pkg/middleware/kafka\<close>):
  messages, the producer, the consumer loop, the claim loop with its middleware chain, and the session
  header. The client library \<open>sarama\<close> is a parameter: sending a message, marking it, the outcome
  of a consumer group round and the order in which a \<open>select\<close> is served.
\<close>

subsection \<open>Messages and headers\<close>

record Header =
  kh_Key :: string
  kh_Value :: bytes

record Message =
  km_Headers :: "Header list"
  km_Timestamp :: time
  km_Key :: bytes
  km_Value :: bytes
  km_Topic :: string
  km_Partition :: int
  km_Offset :: int

text \<open>The records of \<open>sarama\<close>; a header pointer and a header key may be \<open>nil\<close>.\<close>

record RecordHeader =
  rh_Key :: "bytes option"
  rh_Value :: bytes

record ConsumerMessage =
  cm_Headers :: "RecordHeader option list"
  cm_Timestamp :: time
  cm_Key :: bytes
  cm_Value :: bytes
  cm_Topic :: string
  cm_Partition :: int
  cm_Offset :: int

record ProducerMessage =
  pm_Topic :: string
  pm_Key :: bytes
  pm_Value :: bytes
  pm_Headers :: "RecordHeader list"

fun extractHeaders :: "RecordHeader option list \<Rightarrow> Header list" where
  "extractHeaders [] = []"
| "extractHeaders (h # hs) = (case h of
       None \<Rightarrow> extractHeaders hs
     | Some r \<Rightarrow> (case rh_Key r of
           None \<Rightarrow> extractHeaders hs
         | Some k \<Rightarrow> \<lparr>kh_Key = string_of k, kh_Value = rh_Value r\<rparr> # extractHeaders hs))"

definition convertHeaders :: "Header list \<Rightarrow> RecordHeader list" where
  "convertHeaders headers = map (\<lambda>h. \<lparr>rh_Key = Some (bytes_of (kh_Key h)), rh_Value = kh_Value h\<rparr>) headers"

lemma headers_roundtrip: "extractHeaders (map Some (convertHeaders hs)) = hs"
  by (induction hs) (simp_all add: convertHeaders_def)

subsection \<open>Handlers and middleware\<close>

type_synonym ('w, 'e) MessageHandler = "ctx \<Rightarrow> Message \<Rightarrow> ('w, unit, 'e) act"
type_synonym ('w, 'e) Middleware = "('w, 'e) MessageHandler \<Rightarrow> ('w, 'e) MessageHandler"

text \<open>The loop of \<open>NewGroupHandler\<close> runs from the last middleware down to the first.\<close>

fun wrap_down :: "('w, 'e) Middleware list \<Rightarrow> nat \<Rightarrow> ('w, 'e) MessageHandler \<Rightarrow> ('w, 'e) MessageHandler" where
  "wrap_down mws 0 handler = handler"
| "wrap_down mws (Suc i) handler = wrap_down mws i ((mws ! i) handler)"

definition NewGroupHandler :: "('w, 'e) MessageHandler \<Rightarrow> ('w, 'e) Middleware list \<Rightarrow> ('w, 'e) MessageHandler" where
  "NewGroupHandler handler middlewares = wrap_down middlewares (length middlewares) handler"

lemma wrap_down_append: "n \<le> length xs \<Longrightarrow> wrap_down (xs @ ys) n h = wrap_down xs n h"
  by (induction n arbitrary: h) (simp_all add: nth_append)

text \<open>The first middleware of the list is the outermost.\<close>

lemma NewGroupHandler_foldr: "NewGroupHandler h mws = foldr (\<lambda>mw next. mw next) mws h"
proof (induction mws arbitrary: h rule: rev_induct)
  case (snoc mw mws)
  then show ?case by (simp add: NewGroupHandler_def wrap_down_append)
qed (simp add: NewGroupHandler_def)

text \<open>The consumer keeps its topics and middlewares; the sarama group is a parameter of \<open>Consume\<close>.\<close>

record ('w, 'e) KafkaConsumer =
  kc_topics :: "string list"
  kc_middlewares :: "('w, 'e) Middleware list"

definition WithMiddlewares :: "('w, 'e) Middleware list \<Rightarrow> ('w, 'e) KafkaConsumer \<Rightarrow> ('w, 'e) KafkaConsumer" where
  "WithMiddlewares mws c = c\<lparr>kc_middlewares := kc_middlewares c @ mws\<rparr>"

definition NewConsumer ::
    "string list \<Rightarrow> (('w, 'e) KafkaConsumer \<Rightarrow> ('w, 'e) KafkaConsumer) list \<Rightarrow> ('w, 'e) KafkaConsumer" where
  "NewConsumer topics opts = fold (\<lambda>opt c. opt c) opts \<lparr>kc_topics = topics, kc_middlewares = []\<rparr>"

text \<open>The handler that \<open>Consume\<close> gives to the claims.\<close>

definition consumer_handler :: "('w, 'e) KafkaConsumer \<Rightarrow> ('w, 'e) MessageHandler \<Rightarrow> ('w, 'e) MessageHandler" where
  "consumer_handler c handler = NewGroupHandler handler (kc_middlewares c)"

text \<open>
  Options add up: the middlewares of a later option run inside those of an earlier one, in the order they
  were given, around the handler.
\<close>

lemma WithMiddlewares_fold:
  "kc_middlewares (fold (\<lambda>opt c. opt c) (map WithMiddlewares mwss) c) = kc_middlewares c @ concat mwss"
  by (induction mwss arbitrary: c) (simp_all add: WithMiddlewares_def)

lemma consumer_middlewares:
  "consumer_handler (NewConsumer topics (map WithMiddlewares mwss)) h = foldr (\<lambda>mw next. mw next) (concat mwss) h"
  by (simp add: consumer_handler_def NewConsumer_def NewGroupHandler_foldr WithMiddlewares_fold)

abbreviation SessionHeaderKey :: string where
  "SessionHeaderKey \<equiv> ''session-uuid''"

definition ProducerSessionHeaders :: "uuid_lib \<Rightarrow> ctx \<Rightarrow> Header list" where
  "ProducerSessionHeaders U c = (case SessionUUIDFromContext c of (sessionUUID, ok) \<Rightarrow>
     if \<not> ok \<or> sessionUUID = uuid_Nil then []
     else [\<lparr>kh_Key = SessionHeaderKey, kh_Value = bytes_of (uuid_String U sessionUUID)\<rparr>])"

text \<open>The loop stops at the first non-empty header of that name, whether it parses or not.\<close>

fun session_from_headers :: "uuid_lib \<Rightarrow> ctx \<Rightarrow> Header list \<Rightarrow> ctx" where
  "session_from_headers U c [] = c"
| "session_from_headers U c (h # hs) =
     (if kh_Key h = SessionHeaderKey \<and> 0 < length (kh_Value h)
      then (case uuid_Parse U (string_of (kh_Value h)) of
              Some sessionUUID \<Rightarrow> WithSessionUUID c sessionUUID
            | None \<Rightarrow> c)
      else session_from_headers U c hs)"

definition ConsumerSession :: "uuid_lib \<Rightarrow> ('w, 'e) Middleware" where
  "ConsumerSession U next = (\<lambda>c msg. next (session_from_headers U c (km_Headers msg)) msg)"

text \<open>Log lines are not part of the world.\<close>

definition ConsumerLogging :: "('w, 'e) Middleware" where
  "ConsumerLogging next = (\<lambda>c msg. next c msg)"

text \<open>A session put into the headers of a message is found in them again.\<close>

lemma session_headers_roundtrip:
  assumes "uuid_lib_ok U" "ctx_session c = Some s" "s \<noteq> uuid_Nil"
  shows "session_from_headers U c0 (ProducerSessionHeaders U c) = WithSessionUUID c0 s"
  using assms uuid_lib_nonempty [OF assms(1), of s]
  by (simp add: ProducerSessionHeaders_def SessionUUIDFromContext_def uuid_lib_parse)

lemma no_session_headers:
  assumes "ctx_session c = None \<or> ctx_session c = Some uuid_Nil"
  shows "ProducerSessionHeaders U c = []" "session_from_headers U c0 (ProducerSessionHeaders U c) = c0"
  using assms by (auto simp: ProducerSessionHeaders_def SessionUUIDFromContext_def)

subsection \<open>The producer\<close>

record 'w KafkaProducer =
  kp_SendMessage :: "ProducerMessage \<Rightarrow> 'w \<Rightarrow> (ext_error + int \<times> int) \<times> 'w"
  kp_topic :: string

definition Producer_Send :: "'w KafkaProducer \<Rightarrow> ctx \<Rightarrow> Message \<Rightarrow> ('w, unit, 'e) act" where
  "Producer_Send p c msg = (\<lambda>w.
     case kp_SendMessage p \<lparr>pm_Topic = kp_topic p, pm_Key = km_Key msg, pm_Value = km_Value msg,
            pm_Headers = convertHeaders (km_Headers msg)\<rparr> w of
       (Inl x, w') \<Rightarrow> (Err (Ext x), w')
     | (Inr _, w') \<Rightarrow> (Ret (), w'))"

text \<open>A message literal of the producers, which leaves the other fields zero.\<close>

definition new_message :: "bytes \<Rightarrow> bytes \<Rightarrow> Header list \<Rightarrow> Message" where
  "new_message key value headers =
     \<lparr>km_Headers = headers, km_Timestamp = 0, km_Key = key, km_Value = value, km_Topic = [],
      km_Partition = 0, km_Offset = 0\<rparr>"

subsection \<open>The claim loop\<close>

text \<open>
  What the \<open>select\<close> of \<open>ConsumeClaim\<close> is served with, in order. A list that ends without
  closing the claim means that the loop is still waiting: the result is \<open>None\<close>.
\<close>

datatype claim_event = Arrived ConsumerMessage | ChannelClosed | SessionDone

definition claim_message :: "ConsumerMessage \<Rightarrow> Message" where
  "claim_message m =
     \<lparr>km_Headers = extractHeaders (cm_Headers m), km_Timestamp = cm_Timestamp m, km_Key = cm_Key m,
      km_Value = cm_Value m, km_Topic = cm_Topic m, km_Partition = cm_Partition m, km_Offset = cm_Offset m\<rparr>"

fun ConsumeClaim ::
    "('w, 'e) MessageHandler \<Rightarrow> ctx \<Rightarrow> (ConsumerMessage \<Rightarrow> 'w \<Rightarrow> 'w) \<Rightarrow> claim_event list \<Rightarrow> 'w
      \<Rightarrow> (unit, 'e) res option \<times> 'w" where
  "ConsumeClaim handler c MarkMessage [] w = (None, w)"
| "ConsumeClaim handler c MarkMessage (ChannelClosed # evs) w = (Some (Ret ()), w)"
| "ConsumeClaim handler c MarkMessage (SessionDone # evs) w = (Some (Ret ()), w)"
| "ConsumeClaim handler c MarkMessage (Arrived message # evs) w =
     (case handler c (claim_message message) w of
        (Ret _, w') \<Rightarrow> ConsumeClaim handler c MarkMessage evs (MarkMessage message w')
      | (Err err, w') \<Rightarrow>
          (if errors_Is_ext err ContextCanceled \<or> errors_Is_ext err ContextDeadlineExceeded
           then (Some (Err err), w')
           else ConsumeClaim handler c MarkMessage evs w')
      | (Panic p, w') \<Rightarrow> (Some (Panic p), w'))"

subsection \<open>The consumer loop\<close>

text \<open>
  One round of \<open>group.Consume\<close> is a parameter, as is what \<open>ctx.Err()\<close> says afterwards. The
  loop is endless unless a round fails or the context is done.
\<close>

partial_function (option) Consume ::
    "('w \<Rightarrow> ext_error option \<times> 'w) \<Rightarrow> ('w \<Rightarrow> ext_error option) \<Rightarrow> 'w \<Rightarrow> ((unit, 'e) res \<times> 'w) option" where
  "Consume round ctxErr w =
     (case round w of
        (Some x, w') \<Rightarrow> (if x = ErrClosedConsumerGroup then Some (Ret (), w') else Some (Err (Ext x), w'))
      | (None, w') \<Rightarrow> (case ctxErr w' of
            Some x \<Rightarrow> Some (Err (Ext x), w')
          | None \<Rightarrow> Consume round ctxErr w'))"

declare Consume.simps [code]

text \<open>The loop returns exactly when some round fails or finds the context done.\<close>

lemma Consume_rounds:
  fixes round :: "'w \<Rightarrow> ext_error option \<times> 'w" and ctxErr :: "'w \<Rightarrow> ext_error option"
  defines "C \<equiv> Consume round ctxErr :: 'w \<Rightarrow> ((unit, 'e) res \<times> 'w) option"
  assumes "\<And>i. i < n \<Longrightarrow> fst (round (((\<lambda>w. snd (round w)) ^^ i) w)) = None
      \<and> ctxErr (((\<lambda>w. snd (round w)) ^^ Suc i) w) = None"
  shows "C w = C (((\<lambda>w. snd (round w)) ^^ n) w)"
  using assms(2)
proof (induction n arbitrary: w)
  case (Suc n)
  have first: "fst (round w) = None" "ctxErr (snd (round w)) = None"
    using Suc.prems [of 0] by simp_all
  have "C w = C (snd (round w))"
    unfolding C_def by (subst Consume.simps) (use first in \<open>auto split: prod.splits\<close>)
  also have "\<dots> = C (((\<lambda>w. snd (round w)) ^^ n) (snd (round w)))"
  proof (rule Suc.IH)
    fix i assume "i < n"
    then show "fst (round (((\<lambda>w. snd (round w)) ^^ i) (snd (round w)))) = None
        \<and> ctxErr (((\<lambda>w. snd (round w)) ^^ Suc i) (snd (round w))) = None"
      using Suc.prems [of "Suc i"] by (simp add: funpow_Suc_right del: funpow.simps)
  qed
  finally show ?case by (simp add: funpow_Suc_right del: funpow.simps)
qed simp

definition after_rounds :: "('w \<Rightarrow> ext_error option \<times> 'w) \<Rightarrow> nat \<Rightarrow> 'w \<Rightarrow> 'w" where
  "after_rounds round n w = ((\<lambda>w. snd (round w)) ^^ n) w"

definition round_stops :: "('w \<Rightarrow> ext_error option \<times> 'w) \<Rightarrow> ('w \<Rightarrow> ext_error option) \<Rightarrow> 'w \<Rightarrow> nat \<Rightarrow> bool" where
  "round_stops round ctxErr w n \<longleftrightarrow>
     fst (round (after_rounds round n w)) \<noteq> None \<or> ctxErr (after_rounds round (Suc n) w) \<noteq> None"

lemma round_stops_next: "round_stops round ctxErr (snd (round w)) n = round_stops round ctxErr w (Suc n)"
  by (simp add: round_stops_def after_rounds_def funpow_Suc_right del: funpow.simps)

lemma Consume_Some_stops:
  assumes "Consume round ctxErr w = Some y"
  shows "\<exists>n. round_stops round ctxErr w n"
proof (rule Consume.raw_induct [OF _ assms, where P = "\<lambda>round ctxErr w y. \<exists>n. round_stops round ctxErr w n"])
  fix C round ctxErr w y
  assume IH: "\<And>round ctxErr w y. C round ctxErr w = Some y \<Longrightarrow> \<exists>n. round_stops round ctxErr w n"
    and run: "(case round w of
        (None, w') \<Rightarrow> (case ctxErr w' of None \<Rightarrow> C round ctxErr w' | Some x \<Rightarrow> Some (Err (Ext x), w'))
      | (Some x, w') \<Rightarrow> if x = ErrClosedConsumerGroup then Some (Ret (), w') else Some (Err (Ext x), w')) = Some y"
  obtain x w' where r: "round w = (x, w')" by fastforce
  show "\<exists>n. round_stops round ctxErr w n"
  proof (cases "x = None \<and> ctxErr w' = None")
    case True
    with run r have "C round ctxErr w' = Some y" by simp
    then obtain n where "round_stops round ctxErr w' n" using IH by blast
    with r round_stops_next [of round ctxErr w n] show ?thesis by auto
  next
    case False
    with r have "round_stops round ctxErr w 0" by (auto simp: round_stops_def after_rounds_def)
    then show ?thesis by blast
  qed
qed

subsection \<open>Offsets\<close>

text \<open>
  What \<open>MarkMessage\<close> does, as \<open>sarama\<close> documents it: the group's offset of the partition,
  the first message a later session reads, moves up to the message after the marked one and never
  back.
\<close>

locale offset_manager =
  fixes Mark :: "ConsumerMessage \<Rightarrow> 'w \<Rightarrow> 'w" and committed :: "'w \<Rightarrow> int"
  assumes committed_Mark: "committed (Mark m w) = max (committed w) (cm_Offset m + 1)"

text \<open>The messages of a claim that reached the handler, each with whether it succeeded.\<close>

fun claim_log ::
    "('w, 'e) MessageHandler \<Rightarrow> ctx \<Rightarrow> (ConsumerMessage \<Rightarrow> 'w \<Rightarrow> 'w) \<Rightarrow> claim_event list \<Rightarrow> 'w
      \<Rightarrow> (ConsumerMessage \<times> bool) list" where
  "claim_log h c Mark (Arrived m # evs) w = (case h c (claim_message m) w of
       (Ret _, w') \<Rightarrow> (m, True) # claim_log h c Mark evs (Mark m w')
     | (Err err, w') \<Rightarrow> (m, False) #
         (if errors_Is_ext err ContextCanceled \<or> errors_Is_ext err ContextDeadlineExceeded then []
          else claim_log h c Mark evs w')
     | (Panic p, w') \<Rightarrow> [(m, False)])"
| "claim_log h c Mark evs w = []"

context offset_manager
begin

lemma committed_after_claim:
  assumes "\<And>m w. committed (snd (h c m w)) = committed w"
  shows "committed (snd (ConsumeClaim h c Mark evs w)) =
    foldl (\<lambda>n (m, ok). if ok then max n (cm_Offset m + 1) else n) (committed w) (claim_log h c Mark evs w)"
proof (induction evs arbitrary: w)
  case (Cons ev evs)
  show ?case
  proof (cases ev)
    case (Arrived m)
    obtain r w' where h: "h c (claim_message m) w = (r, w')" by fastforce
    then have "committed w' = committed w" using assms [of "claim_message m" w] by simp
    with Arrived h Cons.IH show ?thesis by (cases r) (simp_all add: committed_Mark)
  qed simp_all
qed simp

end

lemma claim_log_prefix: "map fst (claim_log h c Mark (map Arrived ms) w) = take (length (claim_log h c Mark (map Arrived ms) w)) ms"
proof (induction ms arbitrary: w)
  case (Cons m ms)
  obtain r w' where "h c (claim_message m) w = (r, w')" by fastforce
  then show ?case using Cons.IH by (cases r) simp_all
qed simp

lemma offset_fold:
  fixes n0 :: int
  assumes "\<forall>(m, ok) \<in> set log. n0 \<le> cm_Offset m"
  shows "(m, ok) \<in> set log \<Longrightarrow>
    cm_Offset m < foldl (\<lambda>n (m, ok). if ok then max n (cm_Offset m + 1) else n) n0 log \<longleftrightarrow>
    (\<exists>m'. (m', True) \<in> set log \<and> cm_Offset m \<le> cm_Offset m')"
proof -
  have "foldl (\<lambda>n (m, ok). if ok then max n (cm_Offset m + 1) else n) n0 log =
      Max (insert n0 ((\<lambda>m. cm_Offset m + 1) ` {m. (m, True) \<in> set log}))"
  proof (induction log arbitrary: n0)
    case (Cons a log)
    obtain m ok where a: "a = (m, ok)" by (cases a)
    have fin: "finite {m. (m, True) \<in> set log}"
      by (rule finite_subset [of _ "fst ` set log"]) force+
    have set: "{x. (x, True) \<in> set ((m, True) # log)} = insert m {x. (x, True) \<in> set log}" by auto
    show ?case
    proof (cases ok)
      case True
      let ?S = "(\<lambda>m. cm_Offset m + 1) ` {m. (m, True) \<in> set log}"
      have "Max (insert (max n0 (cm_Offset m + 1)) ?S) = Max (insert n0 (insert (cm_Offset m + 1) ?S))"
        using fin by (cases "?S = {}") (simp_all add: max.assoc)
      with True a Cons.IH [of "max n0 (cm_Offset m + 1)"] set show ?thesis by simp
    qed (use a Cons.IH in simp)
  qed simp
  moreover have "finite {m. (m, True) \<in> set log}"
    by (rule finite_subset [of _ "fst ` set log"]) force+
  moreover assume "(m, ok) \<in> set log"
  ultimately show ?thesis using assms by (auto simp: Max_gr_iff)
qed

text \<open>The offset of a partition beside the state of the application.\<close>

record 'a claim_world =
  cw_committed :: int
  cw_app :: 'a

definition mark_offset :: "ConsumerMessage \<Rightarrow> 'a claim_world \<Rightarrow> 'a claim_world" where
  "mark_offset m w = w\<lparr>cw_committed := max (cw_committed w) (cm_Offset m + 1)\<rparr>"

interpretation marks: offset_manager mark_offset cw_committed
  by unfold_locales (simp add: mark_offset_def)

subsection \<open>Properties\<close>


definition offset_msg :: "int \<Rightarrow> ConsumerMessage" where
  "offset_msg n = \<lparr>cm_Headers = [], cm_Timestamp = 0, cm_Key = [], cm_Value = [], cm_Topic = [], cm_Partition = 0, cm_Offset = n\<rparr>"

definition picky_handler :: "(unit claim_world, unit) MessageHandler" where
  "picky_handler c m = (if km_Offset m = 4 then fail (Ext (Foreign ''inventory down'')) else ret ())"


text \<open>
  C34. The consumer loop ends exactly when it should: it keeps going through any number of rebalances,
  and returns after the first round that fails or leaves the context done; a closed group is no error,
  every other failure and the reason of the context are passed on. If no round ever does, it never
  returns.
\<close>

theorem consume_ends_at_first_stop:
  "(Consume round ctxErr w :: ((unit, 'e) res \<times> 'w) option) =
     (if \<exists>n. round_stops round ctxErr w n
      then Some (let n = LEAST n. round_stops round ctxErr w n
                 in (case fst (round (after_rounds round n w)) of
                       Some x \<Rightarrow> if x = ErrClosedConsumerGroup then Ret () else Err (Ext x)
                     | None \<Rightarrow> Err (Ext (the (ctxErr (after_rounds round (Suc n) w)))),
                     after_rounds round (Suc n) w))
      else None)"
proof (cases "\<exists>n. round_stops round ctxErr w n")
  case True
  define n where "n = (LEAST n. round_stops round ctxErr w n)"
  have stop: "round_stops round ctxErr w n" using True unfolding n_def by (rule LeastI_ex)
  have "\<not> round_stops round ctxErr w i" if "i < n" for i
    using that not_less_Least unfolding n_def by blast
  then have "(Consume round ctxErr w :: ((unit, 'e) res \<times> 'w) option) = Consume round ctxErr (after_rounds round n w)"
    unfolding after_rounds_def by (intro Consume_rounds) (auto simp: round_stops_def after_rounds_def)
  also have "\<dots> = Some (case fst (round (after_rounds round n w)) of
         Some x \<Rightarrow> if x = ErrClosedConsumerGroup then Ret () else Err (Ext x)
       | None \<Rightarrow> Err (Ext (the (ctxErr (after_rounds round (Suc n) w)))), after_rounds round (Suc n) w)"
    by (subst Consume.simps) (use stop in \<open>auto simp: round_stops_def after_rounds_def split: prod.splits option.splits\<close>)
  finally show ?thesis using True unfolding n_def Let_def by simp
next
  case False
  then show ?thesis
    using Consume_Some_stops [of round ctxErr w]
    by (cases "Consume round ctxErr w :: ((unit, 'e) res \<times> 'w) option") auto
qed

end
