(* ===== verification/Assembly.thy ===== *)
theory Assembly
  imports Platform_Kafka Proto
begin

text \<open>
  The assembly service (\<open>assembly/internal\<close>): it consumes \<open>OrderPaid\<close>, waits for a random
  build time and publishes \<open>ShipAssembled\<close>. The random source, the timer, the protobuf codec and
  the Kafka client are parameters.
\<close>

subsection \<open>Model\<close>

datatype asm_error =
    ErrPartNotFound | ErrInvalidUUID | ErrOutOfStock | ErrNothingToRelease | ErrIncompatibleParts
  | ErrPartTypeMismatch | ErrInvalidProperties

record AsmOrderPaidEvent =
  ape_UUID :: string
  ape_OrderUUID :: string
  ape_UserUUID :: string

record AsmShipAssembledEvent =
  ase_UUID :: string
  ase_OrderUUID :: string
  ase_UserUUID :: string
  ase_BuildTimeSec :: int
  ase_AssembledAt :: time

abbreviation Second :: duration where
  "Second \<equiv> 1000000000"

text \<open>
  \<open>int64(d.Seconds())\<close>: whole seconds, cut towards zero. \<open>Seconds\<close> is a \<open>float64\<close>, whose
  rounding cannot reach the next second for durations below \<open>2 ^ 22\<close> seconds; the build times are
  far below.
\<close>

definition whole_Seconds :: "duration \<Rightarrow> int" where
  "whole_Seconds d = (if d < 0 then - ((- d) div Second) else d div Second)"

subsection \<open>The service\<close>

record 'w assembly_service =
  as_ProduceShipAssembled :: "ctx \<Rightarrow> AsmShipAssembledEvent \<Rightarrow> ('w, unit, asm_error) act"
  as_minBuildTime :: duration
  as_maxBuildTime :: duration

text \<open>
  \<open>rand.Int(rand.Reader, max)\<close> panics unless \<open>max\<close> is positive, and otherwise returns a number
  below it or an error of the reader.
\<close>

type_synonym rand_source = "int \<Rightarrow> ext_error + int"

definition rand_ok :: "rand_source \<Rightarrow> bool" where
  "rand_ok rnd \<longleftrightarrow> (\<forall>m n. rnd m = Inr n \<longrightarrow> 0 \<le> n \<and> n < m)"

definition generateRandomSleepDuration :: "rand_source \<Rightarrow> 'w assembly_service \<Rightarrow> (duration, asm_error) res" where
  "generateRandomSleepDuration rnd s =
     (if as_maxBuildTime s > as_minBuildTime s
      then (let diff = wrap64 (as_maxBuildTime s - as_minBuildTime s)
            in if diff \<le> 0 then Panic ''crypto/rand: argument to Int is <= 0''
               else case rnd diff of
                   Inl x \<Rightarrow> Err (Wrap ''random number generation'' (Ext x))
                 | Inr n \<Rightarrow> Ret (wrap64 (n + as_minBuildTime s)))
      else if as_maxBuildTime s = as_minBuildTime s then Ret (as_minBuildTime s)
      else Ret 0)"

text \<open>
  \<open>interrupted d\<close> is the error of the context when it is done before \<open>d\<close> has elapsed;
  \<open>now\<close> is the clock afterwards.
\<close>

definition Assemble ::
    "uuid_lib \<Rightarrow> rand_source \<Rightarrow> (duration \<Rightarrow> ext_error option) \<Rightarrow> time \<Rightarrow> 'w assembly_service \<Rightarrow> ctx \<Rightarrow> uuid \<Rightarrow> uuid
      \<Rightarrow> ('w, unit, asm_error) act" where
  "Assemble U rnd interrupted now s c orderUUID userUUID =
     bindA (liftR (generateRandomSleepDuration rnd s)) (\<lambda>sleepDuration.
     case interrupted sleepDuration of
       Some x \<Rightarrow> fail (Ext x)
     | None \<Rightarrow>
         wrapA ''failed to send the ShipAssembled event'' (as_ProduceShipAssembled s c
           \<lparr>ase_UUID = uuid_String U orderUUID, ase_OrderUUID = uuid_String U orderUUID,
            ase_UserUUID = uuid_String U userUUID, ase_BuildTimeSec = whole_Seconds sleepDuration,
            ase_AssembledAt = now\<rparr>))"

subsection \<open>Producer and consumer\<close>

definition ProduceShipAssembled ::
    "uuid_lib \<Rightarrow> (ShipAssembledMsg \<Rightarrow> ext_error + bytes) \<Rightarrow> 'w KafkaProducer \<Rightarrow> ctx \<Rightarrow> AsmShipAssembledEvent
      \<Rightarrow> ('w, unit, asm_error) act" where
  "ProduceShipAssembled U marshal p c event =
     (let msg = \<lparr>sam_EventUuid = ase_UUID event, sam_OrderUuid = ase_OrderUUID event,
                 sam_UserUuid = ase_UserUUID event, sam_BuildTimeSec = ase_BuildTimeSec event,
                 sam_AssembledAt = Some (ase_AssembledAt event)\<rparr>
      in case marshal msg of
          Inl x \<Rightarrow> fail (Ext x)
        | Inr payload \<Rightarrow> Producer_Send p c (new_message (bytes_of (ase_OrderUUID event)) payload (ProducerSessionHeaders U c)))"

definition decodeOrderPaid :: "(bytes \<Rightarrow> OrderPaidMsg option) \<Rightarrow> bytes \<Rightarrow> (AsmOrderPaidEvent, asm_error) res" where
  "decodeOrderPaid unmarshal data = (case unmarshal data of
       None \<Rightarrow> Err (Wrap ''failed to unmarshal protobuf'' (Ext (Foreign ''proto'')))
     | Some pb \<Rightarrow> Ret \<lparr>ape_UUID = opm_EventUuid pb, ape_OrderUUID = opm_OrderUuid pb, ape_UserUUID = opm_UserUuid pb\<rparr>)"

definition OrderPaidHandler ::
    "uuid_lib \<Rightarrow> (bytes \<Rightarrow> OrderPaidMsg option) \<Rightarrow> (ctx \<Rightarrow> uuid \<Rightarrow> uuid \<Rightarrow> ('w, unit, asm_error) act)
      \<Rightarrow> ('w, asm_error) MessageHandler" where
  "OrderPaidHandler U unmarshal assemble c msg =
     (case decodeOrderPaid unmarshal (km_Value msg) of
        Err e \<Rightarrow> ret ()
      | Panic p \<Rightarrow> liftR (Panic p)
      | Ret event \<Rightarrow> (case uuid_Parse U (ape_OrderUUID event) of
            None \<Rightarrow> ret ()
          | Some orderUUID \<Rightarrow> (case uuid_Parse U (ape_UserUUID event) of
                None \<Rightarrow> ret ()
              | Some userUUID \<Rightarrow> wrapA ''failed to assemble the ship'' (assemble c orderUUID userUUID))))"

subsection \<open>Wiring\<close>

text \<open>The build times of the deployment (\<open>di.go\<close>) and those of the test entry point (\<open>pkg/app\<close>).\<close>

abbreviation minBuildTime :: duration where "minBuildTime \<equiv> 1 * Second"
abbreviation maxBuildTime :: duration where "maxBuildTime \<equiv> 3 * Second"

definition NewAssemblyService ::
    "(ctx \<Rightarrow> AsmShipAssembledEvent \<Rightarrow> ('w, unit, asm_error) act) \<Rightarrow> duration \<Rightarrow> duration \<Rightarrow> 'w assembly_service" where
  "NewAssemblyService produce mn mx =
     \<lparr>as_ProduceShipAssembled = produce, as_minBuildTime = mn, as_maxBuildTime = mx\<rparr>"

record AssemblyConfig =
  ac_OrderPaidTopic :: string
  ac_ShipAssembledTopic :: string
  ac_MinBuildTimeSec :: int
  ac_MaxBuildTimeSec :: int

text \<open>The handler that the consumer of \<open>OrderPaid\<close> runs for every message.\<close>

definition assembly_consumer ::
    "uuid_lib \<Rightarrow> (bytes \<Rightarrow> OrderPaidMsg option) \<Rightarrow> (ShipAssembledMsg \<Rightarrow> ext_error + bytes)
      \<Rightarrow> rand_source \<Rightarrow> (duration \<Rightarrow> ext_error option) \<Rightarrow> time
      \<Rightarrow> (ProducerMessage \<Rightarrow> 'w \<Rightarrow> (ext_error + int \<times> int) \<times> 'w) \<Rightarrow> string \<Rightarrow> duration \<Rightarrow> duration
      \<Rightarrow> ('w, asm_error) MessageHandler" where
  "assembly_consumer U unmarshal marshal rnd interrupted now SendMessage topic mn mx =
     NewGroupHandler
       (OrderPaidHandler U unmarshal (Assemble U rnd interrupted now (NewAssemblyService
         (ProduceShipAssembled U marshal \<lparr>kp_SendMessage = SendMessage, kp_topic = topic\<rparr>) mn mx)))
       [ConsumerSession U, ConsumerLogging]"

text \<open>\<open>pkg/app.New\<close>: the same pipeline with build times given in seconds.\<close>

definition assembly_New ::
    "uuid_lib \<Rightarrow> (bytes \<Rightarrow> OrderPaidMsg option) \<Rightarrow> (ShipAssembledMsg \<Rightarrow> ext_error + bytes)
      \<Rightarrow> rand_source \<Rightarrow> (duration \<Rightarrow> ext_error option) \<Rightarrow> time
      \<Rightarrow> (ProducerMessage \<Rightarrow> 'w \<Rightarrow> (ext_error + int \<times> int) \<times> 'w) \<Rightarrow> AssemblyConfig
      \<Rightarrow> ('w, asm_error) MessageHandler" where
  "assembly_New U unmarshal marshal rnd interrupted now SendMessage config =
     assembly_consumer U unmarshal marshal rnd interrupted now SendMessage (ac_ShipAssembledTopic config)
       (wrap64 (ac_MinBuildTimeSec config * Second)) (wrap64 (ac_MaxBuildTimeSec config * Second))"

subsection \<open>Build times\<close>

lemma in64_diff: "in64 a \<Longrightarrow> in64 b \<Longrightarrow> 0 \<le> a \<Longrightarrow> a \<le> b \<Longrightarrow> in64 (b - a)"
  by (simp add: in64_def)

lemma sleep_bounds:
  assumes "rand_ok rnd" "0 \<le> as_minBuildTime s" "as_minBuildTime s \<le> as_maxBuildTime s" "in64 (as_maxBuildTime s)"
    and "generateRandomSleepDuration rnd s = r"
  shows "(\<exists>d. r = Ret d \<and> as_minBuildTime s \<le> d \<and> d \<le> as_maxBuildTime s \<and> (d = as_maxBuildTime s \<longrightarrow> d = as_minBuildTime s))
    \<or> (\<exists>x. r = Err (Wrap ''random number generation'' (Ext x)))"
proof (cases "as_maxBuildTime s > as_minBuildTime s")
  case True
  have "in64 (as_maxBuildTime s - as_minBuildTime s)" using assms(2-4) by (simp add: in64_def)
  then have diff: "wrap64 (as_maxBuildTime s - as_minBuildTime s) = as_maxBuildTime s - as_minBuildTime s" by simp
  show ?thesis
  proof (cases "rnd (as_maxBuildTime s - as_minBuildTime s)")
    case (Inr n)
    with assms(1) have n: "0 \<le> n" "n < as_maxBuildTime s - as_minBuildTime s" by (auto simp: rand_ok_def)
    then have "in64 (n + as_minBuildTime s)" using assms(2,4) by (simp add: in64_def)
    with n True Inr diff assms(5) show ?thesis by (auto simp: generateRandomSleepDuration_def Let_def)
  qed (use True diff assms(5) in \<open>auto simp: generateRandomSleepDuration_def Let_def\<close>)
qed (use assms in \<open>auto simp: generateRandomSleepDuration_def\<close>)

lemma whole_Seconds_mono: "0 \<le> a \<Longrightarrow> a \<le> b \<Longrightarrow> whole_Seconds a \<le> whole_Seconds b"
  by (simp add: whole_Seconds_def zdiv_mono1)

subsection \<open>Properties\<close>

text \<open>
  C35. The build time stays in its bounds: with a working random source and sensible limits, assembling
  never panics; it fails only for the random source, the context or the broker; and a published event
  names the order twice, the user, and a build time between the limits in whole seconds. With the
  deployed limits of one and three seconds the build time is one or two seconds, never three.
\<close>

theorem assembly_build_time:
  assumes "rand_ok rnd" "0 \<le> as_minBuildTime s" "as_minBuildTime s \<le> as_maxBuildTime s" "in64 (as_maxBuildTime s)"
  shows "(\<exists>d. as_minBuildTime s \<le> d \<and> d \<le> as_maxBuildTime s
      \<and> (as_minBuildTime s = minBuildTime \<and> as_maxBuildTime s = maxBuildTime \<longrightarrow> whole_Seconds d \<in> {1, 2})
      \<and> whole_Seconds (as_minBuildTime s) \<le> whole_Seconds d \<and> whole_Seconds d \<le> whole_Seconds (as_maxBuildTime s)
      \<and> Assemble U rnd interrupted now s c orderUUID userUUID w =
        (case interrupted d of
           Some x \<Rightarrow> (Err (Ext x), w)
         | None \<Rightarrow> wrapA ''failed to send the ShipAssembled event'' (as_ProduceShipAssembled s c
             \<lparr>ase_UUID = uuid_String U orderUUID, ase_OrderUUID = uuid_String U orderUUID,
              ase_UserUUID = uuid_String U userUUID, ase_BuildTimeSec = whole_Seconds d, ase_AssembledAt = now\<rparr>) w))
    \<or> (\<exists>x. Assemble U rnd interrupted now s c orderUUID userUUID w = (Err (Wrap ''random number generation'' (Ext x)), w))"
  using sleep_bounds [OF assms refl]
proof
  assume "\<exists>x. generateRandomSleepDuration rnd s = Err (Wrap ''random number generation'' (Ext x))"
  then show ?thesis by (auto simp: Assemble_def act_simps)
next
  assume "\<exists>d. generateRandomSleepDuration rnd s = Ret d \<and> as_minBuildTime s \<le> d \<and> d \<le> as_maxBuildTime s
    \<and> (d = as_maxBuildTime s \<longrightarrow> d = as_minBuildTime s)"
  then obtain d where d: "generateRandomSleepDuration rnd s = Ret d" "as_minBuildTime s \<le> d" "d \<le> as_maxBuildTime s"
    "d = as_maxBuildTime s \<longrightarrow> d = as_minBuildTime s" by blast
  have "whole_Seconds d \<in> {1, 2}" if "as_minBuildTime s = minBuildTime \<and> as_maxBuildTime s = maxBuildTime"
  proof -
    have "1 * Second \<le> d" "d < 3 * Second" using d that by auto
    then have "0 \<le> d" "1 \<le> d div Second" "d div Second < 3" by linarith+
    then show ?thesis by (auto simp: whole_Seconds_def)
  qed
  moreover have "whole_Seconds (as_minBuildTime s) \<le> whole_Seconds d" "whole_Seconds d \<le> whole_Seconds (as_maxBuildTime s)"
    using d assms(2) whole_Seconds_mono by auto
  ultimately show ?thesis
    using d by (intro disjI1 exI [of _ d]) (simp add: Assemble_def act_simps split: option.split)
qed

definition top_rand :: rand_source where
  "top_rand m = (if 0 < m then Inr (m - 1) else Inl (Foreign ''reader''))"

lemma top_rand_ok: "rand_ok top_rand"
  by (auto simp: rand_ok_def top_rand_def split: if_splits)

definition logging_assembly :: "int list assembly_service" where
  "logging_assembly = NewAssemblyService (\<lambda>_ ev w. (Ret (), w @ [ase_BuildTimeSec ev])) minBuildTime maxBuildTime"

theorem assembly_build_time_witness:
  "\<exists>n \<in> {1, 2}. Assemble unary_uuid_lib top_rand (\<lambda>_. None) 7 logging_assembly background_ctx 1 2 [] = (Ret (), [n])"
proof -
  have s: "0 \<le> as_minBuildTime logging_assembly" "as_minBuildTime logging_assembly \<le> as_maxBuildTime logging_assembly"
      "in64 (as_maxBuildTime logging_assembly)"
    by (simp_all add: logging_assembly_def NewAssemblyService_def in64_def)
  have "\<not> (\<exists>x. Assemble unary_uuid_lib top_rand (\<lambda>_. None) 7 logging_assembly background_ctx 1 2 []
      = (Err (Wrap ''random number generation'' (Ext x)), []))"
    by (simp add: Assemble_def generateRandomSleepDuration_def top_rand_def logging_assembly_def NewAssemblyService_def
        act_simps wrap64_def)
  with assembly_build_time [OF top_rand_ok s, of unary_uuid_lib "\<lambda>_. None" 7 background_ctx 1 2 "[]"]
  show ?thesis by (auto simp: logging_assembly_def NewAssemblyService_def wrapA_app)
qed

end
