(* ===== verification/System_Assembly.thy ===== *)
theory System_Assembly
  imports Order_Properties Assembly
begin

text \<open>
  From payment to assembly: the producer of the order service
  (\<open>order/internal/producer/order_producer\<close>), the consumer of the assembly service and the consumer
  of \<open>ShipAssembled\<close> in the order service, joined by the broker. The theorem follows one order
  through both topics.
\<close>

subsection \<open>The producer and the consumer of the order service\<close>

definition ProduceOrderPaid ::
    "uuid_lib \<Rightarrow> (OrderPaidMsg \<Rightarrow> ext_error + bytes) \<Rightarrow> 'w KafkaProducer \<Rightarrow> ctx \<Rightarrow> OrderPaidEvent
      \<Rightarrow> ('w, unit, order_error) act" where
  "ProduceOrderPaid U marshal p c event =
     (let msg = \<lparr>opm_EventUuid = pe_UUID event, opm_OrderUuid = pe_OrderUUID event, opm_UserUuid = pe_UserUUID event\<rparr>
      in case marshal msg of
          Inl x \<Rightarrow> fail (Ext x)
        | Inr payload \<Rightarrow> Producer_Send p c (new_message (bytes_of (pe_UUID event)) payload (ProducerSessionHeaders U c)))"

text \<open>
  \<open>di.go\<close> gives the consumer the same middleware as in the assembly service;
  \<open>RunConsumer\<close> passes the handler to \<open>Consume\<close>.
\<close>

definition order_consumer ::
    "uuid_lib \<Rightarrow> (bytes \<Rightarrow> ShipAssembledMsg option) \<Rightarrow> 'w order_service \<Rightarrow> ('w, order_error) MessageHandler" where
  "order_consumer U unmarshal s =
     NewGroupHandler (\<lambda>c msg. ShipAssembledHandler s U unmarshal c (km_Value msg)) [ConsumerSession U, ConsumerLogging]"

subsection \<open>The broker and the codec\<close>

text \<open>
  A consumer gets the message as it was sent: topic, key, value and headers. A codec reads back what it
  wrote.
\<close>

definition delivers :: "ProducerMessage \<Rightarrow> ConsumerMessage \<Rightarrow> bool" where
  "delivers pm cm \<longleftrightarrow> cm_Topic cm = pm_Topic pm \<and> cm_Key cm = pm_Key pm \<and> cm_Value cm = pm_Value pm
     \<and> cm_Headers cm = map Some (pm_Headers pm)"

definition codec_ok :: "('m \<Rightarrow> ext_error + bytes) \<Rightarrow> (bytes \<Rightarrow> 'm option) \<Rightarrow> bool" where
  "codec_ok marshal unmarshal \<longleftrightarrow> (\<forall>m b. marshal m = Inr b \<longrightarrow> unmarshal b = Some m)"

text \<open>A broker that takes every message.\<close>

definition log_send :: "ProducerMessage \<Rightarrow> ProducerMessage list \<Rightarrow> (ext_error + int \<times> int) \<times> ProducerMessage list" where
  "log_send m sent = (Inr (0, int (length sent)), sent @ [m])"

lemma delivered_message:
  assumes "delivers \<lparr>pm_Topic = t, pm_Key = k, pm_Value = v, pm_Headers = convertHeaders hs\<rparr> cm"
  shows "km_Value (claim_message cm) = v" "km_Headers (claim_message cm) = hs"
  using assms by (simp_all add: delivers_def claim_message_def headers_roundtrip)

lemma consumer_chain:
  "NewGroupHandler h [ConsumerSession U, ConsumerLogging] c msg = h (session_from_headers U c (km_Headers msg)) msg"
  by (simp add: NewGroupHandler_foldr ConsumerSession_def ConsumerLogging_def)

lemma paid_message_sent:
  assumes "marshal \<lparr>opm_EventUuid = pe_UUID ev, opm_OrderUuid = pe_OrderUUID ev, opm_UserUuid = pe_UserUUID ev\<rparr> = Inr b"
  shows "ProduceOrderPaid U marshal \<lparr>kp_SendMessage = log_send, kp_topic = t\<rparr> c ev sent =
    (Ret (), sent @ [\<lparr>pm_Topic = t, pm_Key = bytes_of (pe_UUID ev), pm_Value = b,
       pm_Headers = convertHeaders (ProducerSessionHeaders U c)\<rparr>])"
  using assms by (simp add: ProduceOrderPaid_def Producer_Send_def log_send_def new_message_def)

lemma assembled_message_sent:
  assumes "uuid_lib_ok U" "unmarshal (km_Value msg) = Some pb" "uuid_Parse U (opm_OrderUuid pb) = Some o'"
    "uuid_Parse U (opm_UserUuid pb) = Some u"
    and "session_from_headers U c0 (km_Headers msg) = c"
    and gen: "generateRandomSleepDuration rnd (NewAssemblyService p mn mx) = Ret d" "interrupted d = None"
    and p: "p = ProduceShipAssembled U marshal \<lparr>kp_SendMessage = log_send, kp_topic = t\<rparr>"
    and b: "marshal \<lparr>sam_EventUuid = uuid_String U o', sam_OrderUuid = uuid_String U o', sam_UserUuid = uuid_String U u,
              sam_BuildTimeSec = whole_Seconds d, sam_AssembledAt = Some now\<rparr> = Inr b"
  shows "assembly_consumer U unmarshal marshal rnd interrupted now log_send t mn mx c0 msg sent =
    (Ret (), sent @ [\<lparr>pm_Topic = t, pm_Key = bytes_of (uuid_String U o'), pm_Value = b,
       pm_Headers = convertHeaders (ProducerSessionHeaders U c)\<rparr>])"
  using assms
  by (simp add: assembly_consumer_def consumer_chain OrderPaidHandler_def decodeOrderPaid_def Assemble_def
      NewAssemblyService_def ProduceShipAssembled_def Producer_Send_def log_send_def new_message_def act_simps)

subsection \<open>Properties\<close>

text \<open>
  C11. A paid order reaches its assembly transaction: the message that \<open>ProduceOrderPaid\<close> sends for
  an order makes the assembly service, when it is delivered and the build is not interrupted, send
  exactly one message; and that message, delivered to the order service, runs the assembly transaction
  of that same order, with the session of the payment restored from the headers on both hops.
\<close>

theorem paid_order_reaches_assembly:
  assumes U: "uuid_lib_ok U" and codecs: "codec_ok mP uP" "codec_ok mS uS" "\<And>m. \<exists>b. mP m = Inr b" "\<And>m. \<exists>b. mS m = Inr b"
    and c: "ctx_session c = Some s" "s \<noteq> uuid_Nil"
    and ev: "ev = \<lparr>pe_UUID = uuid_String U o', pe_OrderUUID = uuid_String U o', pe_UserUUID = uuid_String U u\<rparr>"
    and build: "rand_ok rnd" "\<And>m. 0 < m \<Longrightarrow> \<exists>n. rnd m = Inr n" "\<And>d. interrupted d = None" "0 \<le> mn" "mn \<le> mx" "in64 mx"
  shows "\<exists>pm1. ProduceOrderPaid U mP \<lparr>kp_SendMessage = log_send, kp_topic = t1\<rparr> c ev sent1 = (Ret (), sent1 @ [pm1])
    \<and> pm_Topic pm1 = t1 \<and> (\<forall>cm1. delivers pm1 cm1 \<longrightarrow>
      (\<exists>pm2. assembly_consumer U uP mS rnd interrupted now log_send t2 mn mx c0 (claim_message cm1) sent2 = (Ret (), sent2 @ [pm2])
        \<and> pm_Topic pm2 = t2 \<and> (\<forall>cm2. delivers pm2 cm2 \<longrightarrow>
          order_consumer U uS os c1 (claim_message cm2) w
            = bindA (os_txDo os (ship_closure os (WithSessionUUID c1 s) o')) (\<lambda>_. ret ()) w)))"
proof -
  obtain b1 where b1: "mP \<lparr>opm_EventUuid = pe_UUID ev, opm_OrderUuid = pe_OrderUUID ev, opm_UserUuid = pe_UserUUID ev\<rparr> = Inr b1"
    using codecs(3) by blast
  let ?p = "ProduceShipAssembled U mS \<lparr>kp_SendMessage = log_send, kp_topic = t2\<rparr>"
  have "\<exists>d. generateRandomSleepDuration rnd (NewAssemblyService ?p mn mx) = Ret d"
    using build(2) [of "mx - mn"] build(4-6)
    by (auto simp: generateRandomSleepDuration_def NewAssemblyService_def in64_diff in64_def Let_def)
  then obtain d where d: "generateRandomSleepDuration rnd (NewAssemblyService ?p mn mx) = Ret d" by blast
  obtain b2 where b2: "mS \<lparr>sam_EventUuid = uuid_String U o', sam_OrderUuid = uuid_String U o',
      sam_UserUuid = uuid_String U u, sam_BuildTimeSec = whole_Seconds d, sam_AssembledAt = Some now\<rparr> = Inr b2"
    using codecs(4) by blast
  let ?pm2 = "\<lparr>pm_Topic = t2, pm_Key = bytes_of (uuid_String U o'), pm_Value = b2,
    pm_Headers = convertHeaders (ProducerSessionHeaders U (WithSessionUUID c0 s))\<rparr>"
  have sess: "session_from_headers U x (ProducerSessionHeaders U (WithSessionUUID c0 s)) = WithSessionUUID x s" for x
    by (rule session_headers_roundtrip [OF U _ c(2)]) (simp add: WithSessionUUID_def)
  have "assembly_consumer U uP mS rnd interrupted now log_send t2 mn mx c0 (claim_message cm1) sent2 = (Ret (), sent2 @ [?pm2])"
    if "delivers \<lparr>pm_Topic = t1, pm_Key = bytes_of (pe_UUID ev), pm_Value = b1,
         pm_Headers = convertHeaders (ProducerSessionHeaders U c)\<rparr> cm1" for cm1
    by (rule assembled_message_sent [OF U _ _ _ _ d build(3) refl b2])
       (use codecs(1) b1 ev U in \<open>auto simp: delivered_message [OF that] codec_ok_def uuid_lib_parse session_headers_roundtrip [OF U c]\<close>)
  moreover have "order_consumer U uS os c1 (claim_message cm2) w
      = bindA (os_txDo os (ship_closure os (WithSessionUUID c1 s) o')) (\<lambda>_. ret ()) w"
    if "delivers ?pm2 cm2" for cm2
    using codecs(2) b2
    by (simp add: order_consumer_def consumer_chain delivered_message [OF that] sess ShipAssembledHandler_def
        decodeShipAssembled_def codec_ok_def uuid_lib_parse [OF U])
  ultimately show ?thesis
    using paid_message_sent [where marshal = mP and ev = ev and b = b1, OF b1, of U t1 c sent1] by auto
qed

text \<open>A codec for the witness: lengths and numbers in unary, each closed by a zero byte.\<close>

definition enc_nat :: "nat \<Rightarrow> bytes" where
  "enc_nat n = replicate n 1 @ [0]"

definition dec_nat :: "bytes \<Rightarrow> nat \<times> bytes" where
  "dec_nat bs = (length (takeWhile (\<lambda>b. b = 1) bs), drop 1 (dropWhile (\<lambda>b. b = 1) bs))"

definition enc_str :: "string \<Rightarrow> bytes" where
  "enc_str s = enc_nat (length s) @ bytes_of s"

definition dec_str :: "bytes \<Rightarrow> string \<times> bytes" where
  "dec_str bs = (case dec_nat bs of (n, r) \<Rightarrow> (string_of (take n r), drop n r))"

definition enc_int :: "int \<Rightarrow> bytes" where
  "enc_int i = enc_nat (if i < 0 then 1 else 0) @ enc_nat (nat \<bar>i\<bar>)"

definition dec_int :: "bytes \<Rightarrow> int \<times> bytes" where
  "dec_int bs = (case dec_nat bs of (sg, r) \<Rightarrow> (case dec_nat r of (n, r') \<Rightarrow> (if sg = 0 then int n else - int n, r')))"

lemma dec_nat_enc [simp]: "dec_nat (enc_nat n @ r) = (n, r)"
proof -
  have "takeWhile (\<lambda>b::8 word. b = 1) (replicate n 1 @ 0 # r) = replicate n 1"
    "dropWhile (\<lambda>b::8 word. b = 1) (replicate n 1 @ 0 # r) = 0 # r" for n
    by (induction n) simp_all
  then show ?thesis by (simp add: dec_nat_def enc_nat_def)
qed

lemma dec_str_enc [simp]: "dec_str (enc_str s @ r) = (s, r)"
  by (simp add: dec_str_def enc_str_def bytes_of_def) (simp add: bytes_of_def [symmetric])

lemma dec_int_enc [simp]: "dec_int (enc_int i @ r) = (i, r)"
  by (simp add: dec_int_def enc_int_def)

definition marshal_paid :: "OrderPaidMsg \<Rightarrow> ext_error + bytes" where
  "marshal_paid m = Inr (enc_str (opm_EventUuid m) @ enc_str (opm_OrderUuid m) @ enc_str (opm_UserUuid m) @ [])"

definition unmarshal_paid :: "bytes \<Rightarrow> OrderPaidMsg option" where
  "unmarshal_paid bs = (case dec_str bs of (e, r) \<Rightarrow> case dec_str r of (o', r) \<Rightarrow> case dec_str r of (u, r) \<Rightarrow>
     Some \<lparr>opm_EventUuid = e, opm_OrderUuid = o', opm_UserUuid = u\<rparr>)"

definition marshal_ship :: "ShipAssembledMsg \<Rightarrow> ext_error + bytes" where
  "marshal_ship m = Inr (enc_str (sam_EventUuid m) @ enc_str (sam_OrderUuid m) @ enc_str (sam_UserUuid m)
     @ enc_int (sam_BuildTimeSec m)
     @ (case sam_AssembledAt m of None \<Rightarrow> enc_nat 0 @ [] | Some t \<Rightarrow> enc_nat 1 @ enc_int t @ []))"

definition unmarshal_ship :: "bytes \<Rightarrow> ShipAssembledMsg option" where
  "unmarshal_ship bs = (case dec_str bs of (e, r) \<Rightarrow> case dec_str r of (o', r) \<Rightarrow> case dec_str r of (u, r) \<Rightarrow>
     case dec_int r of (n, r) \<Rightarrow> case dec_nat r of (k, r) \<Rightarrow>
     Some \<lparr>sam_EventUuid = e, sam_OrderUuid = o', sam_UserUuid = u, sam_BuildTimeSec = n,
           sam_AssembledAt = (if k = 0 then None else Some (fst (dec_int r)))\<rparr>)"

lemma codecs_ok: "codec_ok marshal_paid unmarshal_paid" "codec_ok marshal_ship unmarshal_ship"
  by (auto simp: codec_ok_def marshal_paid_def unmarshal_paid_def marshal_ship_def unmarshal_ship_def
      simp del: append_Nil2 split: option.splits)

theorem paid_order_reaches_assembly_witness:
  "\<exists>pm1. ProduceOrderPaid unary_uuid_lib marshal_paid \<lparr>kp_SendMessage = log_send, kp_topic = ''order.paid''\<rparr>
       (WithSessionUUID background_ctx 7) \<lparr>pe_UUID = uuid_String unary_uuid_lib 5, pe_OrderUUID = uuid_String unary_uuid_lib 5,
         pe_UserUUID = uuid_String unary_uuid_lib 8\<rparr> [] = (Ret (), [pm1]) \<and> pm_Topic pm1 = ''order.paid''"
proof -
  have c: "ctx_session (WithSessionUUID background_ctx 7) = Some 7" by (simp add: WithSessionUUID_def)
  have m: "\<And>m. \<exists>b. marshal_paid m = Inr b" "\<And>m. \<exists>b. marshal_ship m = Inr b"
    by (simp_all add: marshal_paid_def marshal_ship_def)
  have r: "\<And>m. 0 < m \<Longrightarrow> \<exists>n. top_rand m = Inr n" by (simp add: top_rand_def)
  have b: "0 \<le> minBuildTime" "minBuildTime \<le> maxBuildTime" "in64 maxBuildTime" by (simp_all add: in64_def)
  show ?thesis
    using paid_order_reaches_assembly [OF unary_uuid_lib_ok codecs_ok m c _ refl top_rand_ok r refl b,
        where os = "NewOrderService calm_env ord_Do ord_Do log_clients" and w = pending_order
        and now = 0 and ?t2.0 = "[]" and ?c0.0 = background_ctx and ?c1.0 = background_ctx and ?sent2.0 = "[]"
        and ?t1.0 = "''order.paid''" and ?sent1.0 = "[]" and o' = 5 and u = 8]
    by auto
qed

end
