(* ===== verification/Platform_Closer.thy ===== *)
theory Platform_Closer
  imports Prelude
begin

text \<open>
  Graceful shutdown (src/platform/pkg/closer/closer.go) and the main loop of the services that
  drives it (the Run methods of src/order/internal/app/app.go, src/inventory/internal/app/app.go
  and src/assembly/internal/app/app.go; iam and payment have the inventory text).

  A close function works on the world of open resources, a type parameter \<open>'w\<close>, and returns
  an error or nil. The mutex of the closer makes Add and the copy in CloseAll atomic, so an
  operation is one transformer of the closer; \<open>cl_once\<close> records that the sync.Once has run.
\<close>

record ('w, 'e) closeFn =
  cf_name :: string
  cf_fn :: "'w \<Rightarrow> 'w \<times> 'e err option"

record ('w, 'e) closer =
  cl_once :: bool
  cl_funcs :: "('w, 'e) closeFn list"

definition newCloser :: "('w, 'e) closer" where
  "newCloser = \<lparr>cl_once = False, cl_funcs = []\<rparr>"

definition closer_Add :: "string \<Rightarrow> ('w \<Rightarrow> 'w \<times> 'e err option) \<Rightarrow> ('w, 'e) closer \<Rightarrow> ('w, 'e) closer" where
  "closer_Add name f c = c\<lparr>cl_funcs := cl_funcs c @ [\<lparr>cf_name = name, cf_fn = f\<rparr>]\<rparr>"

text \<open>The loop of CloseAll: the index runs from the last function down to 0, an error is kept
  when it is the first one, and the loop goes on after an error.\<close>

fun close_down :: "('w, 'e) closeFn list \<Rightarrow> nat \<Rightarrow> 'w \<Rightarrow> 'e err option \<Rightarrow> 'w \<times> 'e err option" where
  "close_down funcs 0 w result = (w, result)"
| "close_down funcs (Suc i) w result =
    (case cf_fn (funcs ! i) w of
       (w', Some err) \<Rightarrow> close_down funcs i w' (if result = None then Some err else result)
     | (w', None) \<Rightarrow> close_down funcs i w' result)"

definition CloseAll :: "('w, 'e) closer \<Rightarrow> 'w \<Rightarrow> ('w, 'e) closer \<times> 'w \<times> 'e err option" where
  "CloseAll c w =
    (if cl_once c then (c, w, None)
     else let funcs = cl_funcs c; c' = c\<lparr>cl_once := True, cl_funcs := []\<rparr>
          in if length funcs = 0 then (c', w, None)
             else (case close_down funcs (length funcs) w None of (w', r) \<Rightarrow> (c', w', r)))"

subsection \<open>Run\<close>

text \<open>What the select of Run receives: the first value of the error channel, or the signal.\<close>

datatype 'e run_event = FromErrCh "'e err option" | SignalDone

text \<open>The value a consumer goroutine puts on the channel for the result of runConsumer.\<close>

definition consumer_result :: "'e err option \<Rightarrow> 'e err option" where
  "consumer_result r = (case r of Some e \<Rightarrow> Some (Wrap ''consumer failed'' e) | None \<Rightarrow> None)"

definition shutdown_after :: "'e err option \<Rightarrow> ('w, 'e) closer \<Rightarrow> 'w
    \<Rightarrow> ('w, 'e) closer \<times> 'w \<times> 'e err option" where
  "shutdown_after runErr c w =
    (case CloseAll c w of
       (c', w', Some err) \<Rightarrow> (c', w', if runErr = None then Some err else runErr)
     | (c', w', None) \<Rightarrow> (c', w', runErr))"

text \<open>errors.Is(err, http.ErrServerClosed), on an error or nil; the order service reports such an
  error as an orderly stop.\<close>

definition err_Is_closed :: "'e err option \<Rightarrow> bool" where
  "err_Is_closed err = (case err of Some e \<Rightarrow> errors_Is_ext e ErrServerClosed | None \<Rightarrow> False)"

definition order_Run :: "'e run_event \<Rightarrow> ('w, 'e) closer \<Rightarrow> 'w \<Rightarrow> ('w, 'e) closer \<times> 'w \<times> 'e err option" where
  "order_Run ev =
    shutdown_after (case ev of
       FromErrCh err \<Rightarrow> if err_Is_closed err then None else err
     | SignalDone \<Rightarrow> None)"

definition grpc_Run :: "'e run_event \<Rightarrow> ('w, 'e) closer \<Rightarrow> 'w \<Rightarrow> ('w, 'e) closer \<times> 'w \<times> 'e err option" where
  "grpc_Run ev = shutdown_after (case ev of FromErrCh err \<Rightarrow> err | SignalDone \<Rightarrow> None)"

definition assembly_Run :: "'e err option option \<Rightarrow> ('w, 'e) closer \<Rightarrow> 'w
    \<Rightarrow> ('w, 'e) closer \<times> 'w \<times> 'e err option" where
  "assembly_Run consumer = shutdown_after (case consumer of Some r \<Rightarrow> consumer_result r | None \<Rightarrow> None)"

subsection \<open>Last in, first out\<close>

text \<open>The specification: one fold over the reversed list, with every error collected in order.\<close>

fun close_seq :: "('w, 'e) closeFn list \<Rightarrow> 'w \<Rightarrow> 'w \<times> 'e err list" where
  "close_seq [] w = (w, [])"
| "close_seq (f # fs) w =
    (let (w', r) = cf_fn f w; (w'', es) = close_seq fs w'
     in (w'', (case r of Some e \<Rightarrow> [e] | None \<Rightarrow> []) @ es))"

definition first_error :: "'a list \<Rightarrow> 'a option" where
  "first_error es = (case es of [] \<Rightarrow> None | e # _ \<Rightarrow> Some e)"

lemma first_error_simps [simp]: "first_error [] = None" "first_error (e # es) = Some e"
  by (simp_all add: first_error_def)

lemma close_down_seq:
  "i \<le> length funcs \<Longrightarrow> close_down funcs i w r =
     (fst (close_seq (rev (take i funcs)) w),
      if r = None then first_error (snd (close_seq (rev (take i funcs)) w)) else r)"
proof (induction i arbitrary: w r)
  case 0
  show ?case by (cases r) simp_all
next
  case (Suc i)
  then show ?case
    by (auto simp: take_Suc_conv_app_nth case_prod_unfold Let_def split: option.splits)
qed

lemma CloseAll_fresh:
  "\<not> cl_once c \<Longrightarrow> CloseAll c w =
     (c\<lparr>cl_once := True, cl_funcs := []\<rparr>, fst (close_seq (rev (cl_funcs c)) w),
      first_error (snd (close_seq (rev (cl_funcs c)) w)))"
  using close_down_seq [of "length (cl_funcs c)" "cl_funcs c" w None]
  by (cases "cl_funcs c") (simp_all only: CloseAll_def Let_def close_seq.simps first_error_simps if_False
    case_prod_unfold fst_conv snd_conv list.size rev.simps order_refl take_all if_True refl, simp_all)

lemma CloseAll_again [simp]: "cl_once c \<Longrightarrow> CloseAll c w = (c, w, None)"
  by (simp add: CloseAll_def)

lemma closer_Add_once [simp]: "cl_once (closer_Add name f c) = cl_once c"
  by (simp add: closer_Add_def)

lemma closer_Add_funcs [simp]:
  "cl_funcs (closer_Add name f c) = cl_funcs c @ [\<lparr>cf_name = name, cf_fn = f\<rparr>]"
  by (simp add: closer_Add_def)

definition add_all :: "('w, 'e) closeFn list \<Rightarrow> ('w, 'e) closer \<Rightarrow> ('w, 'e) closer" where
  "add_all fs c = fold (\<lambda>f. closer_Add (cf_name f) (cf_fn f)) fs c"

lemma add_all_once [simp]: "cl_once (add_all fs c) = cl_once c"
  unfolding add_all_def by (induction fs arbitrary: c) simp_all

lemma add_all_funcs [simp]: "cl_funcs (add_all fs c) = cl_funcs c @ fs"
  unfolding add_all_def by (induction fs arbitrary: c) simp_all

lemma newCloser_simps [simp]: "cl_once newCloser = False" "cl_funcs newCloser = []"
  by (simp_all add: newCloser_def)

text \<open>
  C29. Graceful shutdown: whatever functions were added, CloseAll runs all of them exactly once, in
  the reverse order of their registration and past every failure, and returns the first error in
  that order; a second CloseAll, also after further Adds, touches nothing and returns nil.
\<close>

theorem close_all_lifo:
  "CloseAll (add_all fs newCloser) w =
     (\<lparr>cl_once = True, cl_funcs = []\<rparr>, fst (close_seq (rev fs) w), first_error (snd (close_seq (rev fs) w)))
   \<and> (let c = fst (CloseAll (add_all fs newCloser) w)
      in CloseAll (add_all late c) w' = (add_all late c, w', None))"
proof -
  have "CloseAll (add_all fs newCloser) w =
    (\<lparr>cl_once = True, cl_funcs = []\<rparr>, fst (close_seq (rev fs) w), first_error (snd (close_seq (rev fs) w)))"
    by (simp add: CloseAll_fresh)
  then show ?thesis by (simp add: Let_def)
qed

subsection \<open>What Run reports\<close>

text \<open>A failure of the server or of the consumer wins over a failure of the shutdown, an orderly
  stop of the HTTP server is no failure, and the shutdown runs in every case.\<close>

lemma shutdown_after_fresh:
  "\<not> cl_once c \<Longrightarrow> shutdown_after r c w =
     (c\<lparr>cl_once := True, cl_funcs := []\<rparr>, fst (close_seq (rev (cl_funcs c)) w),
      if r = None then first_error (snd (close_seq (rev (cl_funcs c)) w)) else r)"
  by (auto simp: shutdown_after_def CloseAll_fresh split: option.splits)

lemma order_Run_server_closed:
  "errors_Is_ext e ErrServerClosed \<Longrightarrow> order_Run (FromErrCh (Some e)) = order_Run SignalDone"
  by (simp add: order_Run_def err_Is_closed_def)

lemma order_Run_failure:
  "\<not> cl_once c \<Longrightarrow> \<not> errors_Is_ext e ErrServerClosed \<Longrightarrow>
     snd (snd (order_Run (FromErrCh (Some e)) c w)) = Some e"
  by (simp add: order_Run_def shutdown_after_fresh err_Is_closed_def)

lemma assembly_Run_consumer_failure:
  "\<not> cl_once c \<Longrightarrow> snd (snd (assembly_Run (Some (Some e)) c w)) = Some (Wrap ''consumer failed'' e)"
  by (simp add: assembly_Run_def consumer_result_def shutdown_after_fresh)

end
