(* ===== verification/App_Wiring.thy ===== *)
theory App_Wiring
  imports Platform_Closer
begin

text \<open>
  Start-up of the five services: the lazy dependency injection containers (di.go of
  src/order/internal/app, src/inventory/internal/app, src/iam/internal/app,
  src/payment/internal/app and src/assembly/internal/app) and the init functions of the App types
  (app.go beside them).

  A component is what a constructor returned: a resource of the environment (pool, connection,
  producer, listener, with a serial number that is its identity and the names of the settings it was
  opened with) or a value built from other components, whose constructor is named as in the source.
  Starting may end the process: os.Exit(1) after a logged message is \<open>Inl\<close> of that message. The
  outcome of every call into a library that can fail and the effect of closing a resource are
  parameters (\<open>host\<close>). The parameters of the keepalive options are in \<open>App_Transport\<close>.
\<close>

datatype component =
    Resource nat string "string list"
  | Built string "component list"

record ('w, 'e) host =
  host_ok :: "string \<Rightarrow> bool"
  host_close :: "component \<Rightarrow> 'w \<Rightarrow> 'w \<times> 'e err option"

record ('w, 'e) boot =
  boot_next :: nat
  boot_di :: "string \<rightharpoonup> component"
  boot_app :: "string \<rightharpoonup> component"
  boot_closer :: "('w, 'e) closer"

type_synonym ('w, 'e) start = "('w, 'e) boot \<Rightarrow> string + component \<times> ('w, 'e) boot"

definition process_start :: "('w, 'e) boot" where
  "process_start = \<lparr>boot_next = 0, boot_di = Map.empty, boot_app = Map.empty, boot_closer = newCloser\<rparr>"

subsection \<open>The steps of a constructor\<close>

definition andThen :: "('w, 'e) start \<Rightarrow> (component \<Rightarrow> ('w, 'e) start) \<Rightarrow> ('w, 'e) start" where
  "andThen m f s = (case m s of Inl msg \<Rightarrow> Inl msg | Inr (c, s') \<Rightarrow> f c s')"

definition give :: "component \<Rightarrow> ('w, 'e) start" where
  "give c s = Inr (c, s)"

text \<open>Open a resource by a library call, with the settings it takes; exit when the call fails.\<close>

definition open_or_exit :: "('w, 'e) host \<Rightarrow> string \<Rightarrow> string list \<Rightarrow> string \<Rightarrow> ('w, 'e) start" where
  "open_or_exit H call settings msg s =
    (if host_ok H call then Inr (Resource (boot_next s) call settings, s\<lparr>boot_next := boot_next s + 1\<rparr>)
     else Inl msg)"

text \<open>A call that only checks or converts: no new resource.\<close>

definition check_or_exit :: "('w, 'e) host \<Rightarrow> string \<Rightarrow> string \<Rightarrow> component \<Rightarrow> ('w, 'e) start" where
  "check_or_exit H call msg c s = (if host_ok H call then Inr (c, s) else Inl msg)"

text \<open>closer.Add with the Close method of a component; \<open>add_silent_closer\<close> drops its result and
  returns nil, as the closures for the pool and the gRPC server do.\<close>

definition add_closer :: "('w, 'e) host \<Rightarrow> string \<Rightarrow> component \<Rightarrow> ('w, 'e) start" where
  "add_closer H name c s = Inr (c, s\<lparr>boot_closer := closer_Add name (host_close H c) (boot_closer s)\<rparr>)"

definition add_silent_closer :: "('w, 'e) host \<Rightarrow> string \<Rightarrow> component \<Rightarrow> ('w, 'e) start" where
  "add_silent_closer H name c s =
    Inr (c, s\<lparr>boot_closer := closer_Add name (\<lambda>w. (fst (host_close H c w), None)) (boot_closer s)\<rparr>)"

text \<open>A constructor call: Go evaluates the arguments from left to right.\<close>

fun build_from :: "string \<Rightarrow> component list \<Rightarrow> ('w, 'e) start list \<Rightarrow> ('w, 'e) start" where
  "build_from name args [] s = Inr (Built name args, s)"
| "build_from name args (m # ms) s =
    (case m s of Inl msg \<Rightarrow> Inl msg | Inr (c, s') \<Rightarrow> build_from name (args @ [c]) ms s')"

abbreviation build :: "string \<Rightarrow> ('w, 'e) start list \<Rightarrow> ('w, 'e) start" where
  "build name \<equiv> build_from name []"

text \<open>The getter of a container field: create when the field is nil, store, return the field.\<close>

definition once_field :: "string \<Rightarrow> ('w, 'e) start \<Rightarrow> ('w, 'e) start" where
  "once_field field create s =
    (case boot_di s field of
       Some c \<Rightarrow> Inr (c, s)
     | None \<Rightarrow> (case create s of
                 Inl msg \<Rightarrow> Inl msg
               | Inr (c, s') \<Rightarrow> Inr (c, s'\<lparr>boot_di := (boot_di s')(field \<mapsto> c)\<rparr>)))"

definition set_app :: "string \<Rightarrow> component \<Rightarrow> ('w, 'e) start" where
  "set_app field c s = Inr (c, s\<lparr>boot_app := (boot_app s)(field \<mapsto> c)\<rparr>)"

subsection \<open>Order: di.go\<close>

text \<open>newGRPCConnection: the default options, then the ones of the caller, which exits on an error.\<close>

definition newGRPCConnection :: "('w, 'e) host \<Rightarrow> string \<Rightarrow> string list \<Rightarrow> string \<Rightarrow> ('w, 'e) start" where
  "newGRPCConnection H serviceName opts msg =
    (let defaultOpts = [''insecure credentials'', ''keepalive'']
     in open_or_exit H (''grpc.NewClient '' @ serviceName) (defaultOpts @ opts) msg)"

definition order_PGPool :: "('w, 'e) host \<Rightarrow> ('w, 'e) start" where
  "order_PGPool H = once_field ''pgPool''
    (andThen (andThen (open_or_exit H ''pgxpool.New'' [''PG.DSN''] ''failed to connect to PostgreSQL'')
                      (check_or_exit H ''pool.Ping'' ''failed to ping PostgreSQL''))
             (add_silent_closer H ''PostgreSQL pool''))"

definition order_TxManager :: "('w, 'e) host \<Rightarrow> ('w, 'e) start" where
  "order_TxManager H = once_field ''txManager''
    (andThen (build ''manager.New'' [order_PGPool H])
             (check_or_exit H ''manager.New'' ''failed to create the transaction manager''))"

definition order_RateLimiter :: "('w, 'e) host \<Rightarrow> ('w, 'e) start" where
  "order_RateLimiter H = once_field ''rateLimiter''
    (build ''redis_rate.NewLimiter''
      [andThen (open_or_exit H ''redis.NewClient'' [''RateLimit.RedisAddress''] ''failed to create the Redis client'')
               (add_closer H ''Redis'')])"

definition order_OrderRepo :: "('w, 'e) host \<Rightarrow> ('w, 'e) start" where
  "order_OrderRepo H = once_field ''orderRepo''
    (build ''orderRepository.New'' [order_PGPool H, order_TxManager H])"

definition order_InventoryClient :: "('w, 'e) host \<Rightarrow> ('w, 'e) start" where
  "order_InventoryClient H = once_field ''inventory''
    (build ''inventoryClientV1.New''
      [andThen (newGRPCConnection H ''InventoryService''
                 [''SessionForwarder'', ''insecure credentials'', ''otel client handler'']
                 ''failed to create the InventoryService client'')
               (add_closer H ''InventoryService grpc client'')])"

definition order_PaymentClient :: "('w, 'e) host \<Rightarrow> ('w, 'e) start" where
  "order_PaymentClient H = once_field ''payment''
    (build ''paymentClientV1.NewClient''
      [andThen (newGRPCConnection H ''PaymentService''
                 [''SessionForwarder'', ''insecure credentials'', ''otel client handler'']
                 ''failed to create the PaymentService client'')
               (add_closer H ''PaymentService grpc client'')])"

definition order_IAMClient :: "('w, 'e) host \<Rightarrow> ('w, 'e) start" where
  "order_IAMClient H = once_field ''iam''
    (build ''iamClientV1.NewClient''
      [andThen (newGRPCConnection H ''IAMService'' [''insecure credentials'', ''otel client handler'']
                 ''failed to create the IAMService client'')
               (add_closer H ''IAMService grpc client'')])"

definition order_SyncProducer :: "('w, 'e) host \<Rightarrow> ('w, 'e) start" where
  "order_SyncProducer H = once_field ''syncProducer''
    (andThen (open_or_exit H ''sarama.NewSyncProducer'' [''Kafka.Brokers'', ''OrderPaidProducer.SaramaConfig'']
                ''failed to create the sync producer'')
             (add_closer H ''Kafka sync producer''))"

definition order_ConsumerGroup :: "('w, 'e) host \<Rightarrow> ('w, 'e) start" where
  "order_ConsumerGroup H = once_field ''consumerGroup''
    (andThen (open_or_exit H ''sarama.NewConsumerGroup''
                [''Kafka.Brokers'', ''ShipAssembledConsumer.GroupID'', ''ShipAssembledConsumer.SaramaConfig'']
                ''failed to create the consumer group'')
             (add_closer H ''Kafka consumer group''))"

definition order_OrderPaidProducer :: "('w, 'e) host \<Rightarrow> ('w, 'e) start" where
  "order_OrderPaidProducer H = once_field ''orderPaidProducer''
    (build ''wrappedKafkaProducer.NewProducer'' [order_SyncProducer H, give (Built ''OrderPaidProducer.Topic'' [])])"

definition order_ShipAssembledConsumer :: "('w, 'e) host \<Rightarrow> ('w, 'e) start" where
  "order_ShipAssembledConsumer H = once_field ''shipAssembledConsumer''
    (build ''wrappedKafkaConsumer.NewConsumer''
      [order_ConsumerGroup H, give (Built ''ShipAssembledConsumer.Topic'' []),
       give (Built ''ConsumerSession'' []), give (Built ''ConsumerLogging'' [])])"

definition order_OrderPaidProducerSvc :: "('w, 'e) host \<Rightarrow> ('w, 'e) start" where
  "order_OrderPaidProducerSvc H = once_field ''orderPaidProducerSvc''
    (build ''orderPaidProducerService.New'' [order_OrderPaidProducer H])"

definition order_ShipAssembledConsumerSvc :: "('w, 'e) host \<Rightarrow> ('w, 'e) start" where
  "order_ShipAssembledConsumerSvc H = once_field ''shipAssembledConsumerSvc''
    (build ''orderShipAssembledConsumerService.NewService''
      [order_ShipAssembledConsumer H, order_OrderRepo H, order_InventoryClient H, order_TxManager H])"

definition order_OrderService :: "('w, 'e) host \<Rightarrow> ('w, 'e) start" where
  "order_OrderService H = once_field ''orderSvc''
    (build ''tracing.NewTracingOrderService''
      [build ''order.NewService''
         [order_OrderRepo H, order_OrderPaidProducerSvc H, order_InventoryClient H, order_PaymentClient H,
          order_TxManager H]])"

definition order_OrderV1Server :: "('w, 'e) host \<Rightarrow> ('w, 'e) start" where
  "order_OrderV1Server H = once_field ''orderv1Server''
    (andThen (build ''orderv1.NewServer'' [build ''orderApiV1.NewApi'' [order_OrderService H],
                                          give (Built ''ErrorHandler'' [])])
             (check_or_exit H ''orderv1.NewServer'' ''failed to create the OpenAPI server''))"

subsection \<open>Order: app.go\<close>

text \<open>The init functions return nothing: \<open>run_inits\<close> is the loop of initDeps.\<close>

fun run_inits :: "('w, 'e) start list \<Rightarrow> ('w, 'e) boot \<Rightarrow> string + ('w, 'e) boot" where
  "run_inits [] s = Inr s"
| "run_inits (f # fs) s = (case f s of Inl msg \<Rightarrow> Inl msg | Inr (c, s') \<Rightarrow> run_inits fs s')"

text \<open>initDI, initLogger, initMetrics, initTracer and initListener have the same text in every
  service that has them.\<close>

definition initDI :: "('w, 'e) start" where
  "initDI s = Inr (Built ''diContainer'' [], s\<lparr>boot_di := Map.empty\<rparr>)"

definition initLogger :: "('w, 'e) host \<Rightarrow> ('w, 'e) start" where
  "initLogger H = add_closer H ''Logger'' (Built ''logger'' [])"

definition initMetrics :: "('w, 'e) host \<Rightarrow> ('w, 'e) start" where
  "initMetrics H =
    andThen (check_or_exit H ''os.Hostname'' ''failed to initialize metrics'' (Built ''metrics'' []))
            (add_closer H ''Metrics'')"

definition initTracer :: "('w, 'e) host \<Rightarrow> ('w, 'e) start" where
  "initTracer H =
    andThen (open_or_exit H ''tracing.InitTracer''
               [''Otel.Endpoint'', ''Env.ServiceName'', ''Env.AppEnv'', ''Env.ServiceVersion'']
               ''failed to initialize the tracer'')
            (add_closer H ''Tracer'')"

definition initListener :: "('w, 'e) host \<Rightarrow> ('w, 'e) start" where
  "initListener H =
    andThen (open_or_exit H ''net.Listen'' [''GRPC.Address''] ''failed to create the TCP listener'')
            (set_app ''listener'')"

definition order_initHTTPServer :: "('w, 'e) host \<Rightarrow> ('w, 'e) start" where
  "order_initHTTPServer H =
    andThen (build ''NewAuthMiddleware'' [order_IAMClient H])
      (\<lambda>authMiddleware. andThen (build ''ratelimit.Middleware'' [order_RateLimiter H])
      (\<lambda>rateLimiterMiddleware. andThen (order_OrderV1Server H)
      (\<lambda>router.
        let handler = router;
            handler = Built ''AuthMiddleware'' [authMiddleware, handler];
            handler = Built ''TraceIDMiddleware'' [handler];
            handler = Built ''RateLimitMiddleware'' [rateLimiterMiddleware, handler];
            handler = Built ''otelhttp.NewHandler'' [handler]
        in andThen (set_app ''httpServer'' (Built ''http.Server'' [handler]))
                   (add_closer H ''http server''))))"

definition order_New :: "('w, 'e) host \<Rightarrow> string + ('w, 'e) boot" where
  "order_New H =
    run_inits [initDI, initLogger H, initMetrics H, initTracer H, order_initHTTPServer H] process_start"

text \<open>The dependencies runConsumer creates in Run, before the consumer loop starts.\<close>

definition order_runConsumer :: "('w, 'e) host \<Rightarrow> ('w, 'e) start" where
  "order_runConsumer H = order_ShipAssembledConsumerSvc H"

subsection \<open>Inventory\<close>

definition inventory_PGPool :: "('w, 'e) host \<Rightarrow> ('w, 'e) start" where
  "inventory_PGPool H = once_field ''pgPool''
    (andThen (andThen (open_or_exit H ''pgxpool.New'' [''PG.DSN''] ''failed to connect to PostgreSQL'')
                      (check_or_exit H ''pool.Ping'' ''failed to ping PostgreSQL''))
             (add_silent_closer H ''PostgreSQL pool''))"

definition inventory_TxManager :: "('w, 'e) host \<Rightarrow> ('w, 'e) start" where
  "inventory_TxManager H = once_field ''txManager''
    (andThen (build ''manager.New'' [inventory_PGPool H])
             (check_or_exit H ''manager.New'' ''failed to create the transaction manager''))"

definition inventory_PartRepository :: "('w, 'e) host \<Rightarrow> ('w, 'e) start" where
  "inventory_PartRepository H = once_field ''partRepo'' (build ''partRepo.NewRepository'' [inventory_PGPool H])"

definition inventory_PartCompatibilityChecker :: "('w, 'e) host \<Rightarrow> ('w, 'e) start" where
  "inventory_PartCompatibilityChecker H =
    once_field ''partCompatibilityChecker'' (build ''domain.NewCompatibilityChecker'' [])"

definition inventory_PartService :: "('w, 'e) host \<Rightarrow> ('w, 'e) start" where
  "inventory_PartService H = once_field ''partSvc''
    (build ''partService.NewService''
      [inventory_TxManager H, inventory_PartRepository H, inventory_PartCompatibilityChecker H])"

definition inventory_IAMClient :: "('w, 'e) host \<Rightarrow> ('w, 'e) start" where
  "inventory_IAMClient H = once_field ''iam''
    (build ''iamClientV1.New''
      [andThen (newGRPCConnection H ''IAMService'' [''insecure credentials'', ''otel client handler'']
                 ''failed to create the IAMService client'')
               (add_closer H ''IAMService grpc client'')])"

definition inventory_InventoryV1API :: "('w, 'e) host \<Rightarrow> ('w, 'e) start" where
  "inventory_InventoryV1API H = once_field ''inventoryv1Handler''
    (build ''inventoryApiV1.NewApi'' [inventory_PartService H])"

text \<open>
  initGRPCServer: the interceptors are built with the server, the handlers before the closer of the
  server is registered; reflection, the health service and the handlers are registered on it last.
\<close>

definition grpc_server :: "('w, 'e) host \<Rightarrow> ('w, 'e) start list \<Rightarrow> ('w, 'e) start list \<Rightarrow> ('w, 'e) start" where
  "grpc_server H interceptors handlers =
    andThen (build ''grpc.NewServer'' interceptors)
      (\<lambda>server. andThen (build ''handlers'' handlers)
      (\<lambda>api. andThen (add_silent_closer H ''gRPC server'' server)
      (\<lambda>server. set_app ''grpcServer''
         (Built ''registered'' [server, Built ''reflection'' [], Built ''health'' [], api]))))"

definition inventory_initGRPCServer :: "('w, 'e) host \<Rightarrow> ('w, 'e) start" where
  "inventory_initGRPCServer H =
    grpc_server H
      [give (Built ''ErrorInterceptor'' []), give (Built ''TraceIDUnaryServerInterceptor'' []),
       build ''Auth'' [inventory_IAMClient H]]
      [inventory_InventoryV1API H]"

definition inventory_New :: "('w, 'e) host \<Rightarrow> string + ('w, 'e) boot" where
  "inventory_New H =
    run_inits [initDI, initLogger H, initTracer H, initListener H, inventory_initGRPCServer H] process_start"

subsection \<open>IAM\<close>

definition iam_PGPool :: "('w, 'e) host \<Rightarrow> ('w, 'e) start" where
  "iam_PGPool H = once_field ''pgPool''
    (andThen (andThen (open_or_exit H ''pgxpool.New'' [''PG.DSN''] ''failed to connect to PostgreSQL'')
                      (check_or_exit H ''pool.Ping'' ''failed to ping PostgreSQL''))
             (add_silent_closer H ''PostgreSQL pool''))"

definition iam_RedisClient :: "('w, 'e) host \<Rightarrow> ('w, 'e) start" where
  "iam_RedisClient H = once_field ''redisClient''
    (andThen (open_or_exit H ''redis.NewClient''
                [''Redis.Address'', ''Redis.ConnectionTimeout'', ''Redis.MaxIdle'', ''Redis.IdleTimeout'']
                ''failed to create the Redis client'')
             (add_closer H ''Redis''))"

definition iam_UserRepo :: "('w, 'e) host \<Rightarrow> ('w, 'e) start" where
  "iam_UserRepo H = once_field ''userRepo'' (build ''userRepoDeps.NewRepository'' [iam_PGPool H])"

definition iam_SessionRepo :: "('w, 'e) host \<Rightarrow> ('w, 'e) start" where
  "iam_SessionRepo H = once_field ''sessionRepo'' (build ''sessionRepoDeps.NewRepository'' [iam_RedisClient H])"

definition iam_UserSvc :: "('w, 'e) host \<Rightarrow> ('w, 'e) start" where
  "iam_UserSvc H = once_field ''userSvc''
    (build ''iamServiceDeps.NewService''
      [iam_UserRepo H, iam_SessionRepo H, give (Built ''Session.TTL'' []), give (Built ''bcrypt.DefaultCost'' [])])"

definition iam_SessionSvc :: "('w, 'e) host \<Rightarrow> ('w, 'e) start" where
  "iam_SessionSvc H = once_field ''sessionSvc''
    (build ''iamServiceDeps.NewService''
      [iam_UserRepo H, iam_SessionRepo H, give (Built ''Session.TTL'' []), give (Built ''bcrypt.DefaultCost'' [])])"

definition iam_UserV1API :: "('w, 'e) host \<Rightarrow> ('w, 'e) start" where
  "iam_UserV1API H = once_field ''userV1Handler'' (build ''apiUserDeps.NewApi'' [iam_UserSvc H])"

definition iam_AuthV1API :: "('w, 'e) host \<Rightarrow> ('w, 'e) start" where
  "iam_AuthV1API H = once_field ''authV1Handler'' (build ''apiAuthDeps.NewApi'' [iam_SessionSvc H])"

definition iam_initGRPCServer :: "('w, 'e) host \<Rightarrow> ('w, 'e) start" where
  "iam_initGRPCServer H =
    grpc_server H
      [give (Built ''ErrorInterceptor'' []), give (Built ''TraceIDUnaryServerInterceptor'' [])]
      [iam_UserV1API H, iam_AuthV1API H]"

definition iam_New :: "('w, 'e) host \<Rightarrow> string + ('w, 'e) boot" where
  "iam_New H =
    run_inits [initDI, initLogger H, initTracer H, initListener H, iam_initGRPCServer H] process_start"

subsection \<open>Payment\<close>

definition payment_PaymentService :: "('w, 'e) host \<Rightarrow> ('w, 'e) start" where
  "payment_PaymentService H = once_field ''paymentSvc'' (build ''paymentService.NewService'' [])"

definition payment_PaymentV1API :: "('w, 'e) host \<Rightarrow> ('w, 'e) start" where
  "payment_PaymentV1API H = once_field ''paymentv1Handler'' (build ''paymentApiV1.NewApi'' [payment_PaymentService H])"

definition payment_initGRPCServer :: "('w, 'e) host \<Rightarrow> ('w, 'e) start" where
  "payment_initGRPCServer H =
    grpc_server H
      [give (Built ''ErrorInterceptor'' []), give (Built ''TraceIDUnaryServerInterceptor'' [])]
      [payment_PaymentV1API H]"

definition payment_New :: "('w, 'e) host \<Rightarrow> string + ('w, 'e) boot" where
  "payment_New H =
    run_inits [initDI, initLogger H, initTracer H, initListener H, payment_initGRPCServer H] process_start"

subsection \<open>Assembly\<close>

definition assembly_ConsumerGroup :: "('w, 'e) host \<Rightarrow> ('w, 'e) start" where
  "assembly_ConsumerGroup H = once_field ''consumerGroup''
    (andThen (open_or_exit H ''sarama.NewConsumerGroup''
                [''Kafka.Brokers'', ''OrderPaidConsumer.GroupID'', ''OrderPaidConsumer.SaramaConfig'']
                ''failed to create the consumer group'')
             (add_closer H ''Kafka consumer group''))"

definition assembly_SyncProducer :: "('w, 'e) host \<Rightarrow> ('w, 'e) start" where
  "assembly_SyncProducer H = once_field ''syncProducer''
    (andThen (open_or_exit H ''sarama.NewSyncProducer''
                [''Kafka.Brokers'', ''ShipAssembledProducer.SaramaConfig'']
                ''failed to create the sync producer'')
             (add_closer H ''Kafka sync producer''))"

definition assembly_ShipAssembledProducer :: "('w, 'e) host \<Rightarrow> ('w, 'e) start" where
  "assembly_ShipAssembledProducer H = once_field ''shipAssembledProducer''
    (build ''wrappedKafkaProducer.NewProducer''
      [assembly_SyncProducer H, give (Built ''ShipAssembledProducer.Topic'' [])])"

definition assembly_OrderPaidConsumer :: "('w, 'e) host \<Rightarrow> ('w, 'e) start" where
  "assembly_OrderPaidConsumer H = once_field ''orderPaidConsumer''
    (build ''wrappedKafkaConsumer.NewConsumer''
      [assembly_ConsumerGroup H, give (Built ''OrderPaidConsumer.Topic'' []),
       give (Built ''ConsumerSession'' []), give (Built ''ConsumerLogging'' [])])"

definition assembly_ShipAssembledProducerService :: "('w, 'e) host \<Rightarrow> ('w, 'e) start" where
  "assembly_ShipAssembledProducerService H = once_field ''shipAssembledProducerSvc''
    (build ''shipAssembledProducer.NewService'' [assembly_ShipAssembledProducer H])"

definition assembly_shipAssembleService :: "('w, 'e) host \<Rightarrow> ('w, 'e) start" where
  "assembly_shipAssembleService H = once_field ''shipAssembleSvc''
    (build ''assemblyService.NewService''
      [assembly_ShipAssembledProducerService H, give (Built ''minBuildTime'' []), give (Built ''maxBuildTime'' [])])"

definition assembly_OrderPaidConsumerService :: "('w, 'e) host \<Rightarrow> ('w, 'e) start" where
  "assembly_OrderPaidConsumerService H = once_field ''orderPaidConsumerSvc''
    (build ''assemblyConsumer.NewService'' [assembly_OrderPaidConsumer H, assembly_shipAssembleService H])"

definition assembly_New_boot :: "('w, 'e) host \<Rightarrow> string + ('w, 'e) boot" where
  "assembly_New_boot H = run_inits [initDI, initLogger H] process_start"

definition assembly_runConsumer :: "('w, 'e) host \<Rightarrow> ('w, 'e) start" where
  "assembly_runConsumer H = assembly_OrderPaidConsumerService H"

subsection \<open>Containers hold singletons\<close>

text \<open>
  A start step \<^emph>\<open>grows\<close> the process: no field of the container is overwritten, no closer is
  dropped or reordered, serial numbers only rise.
\<close>

definition extends :: "('w, 'e) boot \<Rightarrow> ('w, 'e) boot \<Rightarrow> bool" where
  "extends s s' \<longleftrightarrow> boot_di s \<subseteq>\<^sub>m boot_di s' \<and> boot_next s \<le> boot_next s'
     \<and> (\<exists>new. cl_funcs (boot_closer s') = cl_funcs (boot_closer s) @ new)"

lemma extends_refl [simp]: "extends s s"
  by (simp add: extends_def)

lemma extends_trans: "extends s s' \<Longrightarrow> extends s' s'' \<Longrightarrow> extends s s''"
  unfolding extends_def by (auto intro: map_le_trans)

definition grows :: "('w, 'e) start \<Rightarrow> bool" where
  "grows m \<longleftrightarrow> (\<forall>s c s'. m s = Inr (c, s') \<longrightarrow> extends s s')"

named_theorems grows_intros \<open>the steps that only extend the process\<close>

lemma growsI: "(\<And>s c s'. m s = Inr (c, s') \<Longrightarrow> extends s s') \<Longrightarrow> grows m"
  by (simp add: grows_def)

lemma growsD: "grows m \<Longrightarrow> m s = Inr (c, s') \<Longrightarrow> extends s s'"
  by (simp add: grows_def)

lemma grows_andThen [grows_intros]: "grows m \<Longrightarrow> (\<And>c. grows (f c)) \<Longrightarrow> grows (andThen m f)"
  by (rule growsI) (auto simp: andThen_def split: sum.splits dest: growsD intro: extends_trans)

lemma grows_give [grows_intros]: "grows (give c)"
  by (rule growsI) (auto simp: give_def)

lemma grows_open [grows_intros]: "grows (open_or_exit H call settings msg)"
  by (rule growsI) (auto simp: open_or_exit_def extends_def split: if_splits)

lemma grows_check [grows_intros]: "grows (check_or_exit H call msg c)"
  by (rule growsI) (auto simp: check_or_exit_def split: if_splits)

lemma grows_connection [grows_intros]: "grows (newGRPCConnection H name opts msg)"
  unfolding newGRPCConnection_def Let_def by (rule grows_open)

lemma grows_add_closer [grows_intros]: "grows (add_closer H name c)"
  by (rule growsI) (auto simp: add_closer_def extends_def)

lemma grows_add_silent_closer [grows_intros]: "grows (add_silent_closer H name c)"
  by (rule growsI) (auto simp: add_silent_closer_def extends_def)

lemma grows_build: "\<forall>m\<in>set ms. grows m \<Longrightarrow> build_from name args ms s = Inr (c, s') \<Longrightarrow> extends s s'"
proof (induction ms arbitrary: args s)
  case (Cons m ms)
  then show ?case by (auto split: sum.splits dest!: growsD intro: extends_trans)
qed simp

lemma grows_build_from [grows_intros]: "(\<And>m. m \<in> set ms \<Longrightarrow> grows m) \<Longrightarrow> grows (build_from name args ms)"
  by (rule growsI) (blast intro: grows_build)

lemma grows_once_field [grows_intros]: "grows m \<Longrightarrow> grows (once_field field m)"
proof (rule growsI)
  fix s c s'
  assume m: "grows m" and run: "once_field field m s = Inr (c, s')"
  show "extends s s'"
  proof (cases "boot_di s field")
    case None
    then obtain s0 where s0: "m s = Inr (c, s0)" "s' = s0\<lparr>boot_di := (boot_di s0)(field \<mapsto> c)\<rparr>"
      using run by (auto simp: once_field_def split: sum.splits)
    have "extends s s0" using m s0(1) by (rule growsD)
    then show ?thesis
      using None s0(2) by (auto simp: extends_def map_le_def dom_def)
  qed (use run in \<open>simp add: once_field_def\<close>)
qed

text \<open>
  The contract of a container, given by its getters under the names of their fields: a getter whose
  field is set returns it and changes nothing, a getter stores what it returns, and every getter
  extends the process.
\<close>

locale container =
  fixes getters :: "(string \<times> ('w, 'e) start) list"
  assumes hit: "(f, g) \<in> set getters \<Longrightarrow> boot_di s f = Some c \<Longrightarrow> g s = Inr (c, s)"
    and stored: "(f, g) \<in> set getters \<Longrightarrow> g s = Inr (c, s') \<Longrightarrow> boot_di s' f = Some c"
    and extending: "(f, g) \<in> set getters \<Longrightarrow> grows g"
begin

lemma run_extends: "set gs \<subseteq> snd ` set getters \<Longrightarrow> run_inits gs s = Inr s' \<Longrightarrow> extends s s'"
proof (induction gs arbitrary: s)
  case (Cons g gs)
  then obtain f c s1 where g: "(f, g) \<in> set getters" and s1: "g s = Inr (c, s1)" "run_inits gs s1 = Inr s'"
    by (auto split: sum.splits)
  have "extends s s1" using extending [OF g] s1(1) by (rule growsD)
  moreover have "extends s1 s'" using Cons.IH Cons.prems(1) s1(2) by simp
  ultimately show ?case by (rule extends_trans)
qed simp

lemma singleton:
  assumes "(f, g) \<in> set getters" and "g s = Inr (c, s1)"
    and "set gs \<subseteq> snd ` set getters" and "run_inits gs s1 = Inr s2"
  shows "g s2 = Inr (c, s2)"
proof -
  have "boot_di s1 f = Some c" using stored assms(1,2) .
  moreover have "extends s1 s2" using run_extends assms(3,4) .
  ultimately have "boot_di s2 f = Some c" by (auto simp: extends_def map_le_def dom_def)
  then show ?thesis using hit assms(1) by blast
qed

end

lemma once_field_hit: "boot_di s f = Some c \<Longrightarrow> once_field f m s = Inr (c, s)"
  by (simp add: once_field_def)

lemma once_field_stored: "once_field f m s = Inr (c, s') \<Longrightarrow> boot_di s' f = Some c"
  by (auto simp: once_field_def split: option.splits sum.splits)

lemma once_fields_container:
  assumes "\<And>f g. (f, g) \<in> set gs \<Longrightarrow> \<exists>m. g = once_field f m \<and> grows g"
  shows "container gs"
proof
  fix f g s c s' assume fg: "(f, g) \<in> set gs"
  then obtain m where m: "g = once_field f m" "grows g" using assms by blast
  show "g s = Inr (c, s)" if "boot_di s f = Some c" using that m(1) by (simp add: once_field_hit)
  show "boot_di s' f = Some c" if "g s = Inr (c, s')" using that m(1) by (simp add: once_field_stored)
  show "grows g" by (rule m(2))
qed

definition order_getters :: "('w, 'e) host \<Rightarrow> (string \<times> ('w, 'e) start) list" where
  "order_getters H =
    [(''pgPool'', order_PGPool H), (''txManager'', order_TxManager H), (''rateLimiter'', order_RateLimiter H),
     (''orderRepo'', order_OrderRepo H), (''inventory'', order_InventoryClient H),
     (''payment'', order_PaymentClient H), (''iam'', order_IAMClient H), (''orderSvc'', order_OrderService H),
     (''orderv1Server'', order_OrderV1Server H), (''syncProducer'', order_SyncProducer H),
     (''consumerGroup'', order_ConsumerGroup H), (''orderPaidProducer'', order_OrderPaidProducer H),
     (''shipAssembledConsumer'', order_ShipAssembledConsumer H),
     (''orderPaidProducerSvc'', order_OrderPaidProducerSvc H),
     (''shipAssembledConsumerSvc'', order_ShipAssembledConsumerSvc H)]"

definition inventory_getters :: "('w, 'e) host \<Rightarrow> (string \<times> ('w, 'e) start) list" where
  "inventory_getters H =
    [(''txManager'', inventory_TxManager H), (''pgPool'', inventory_PGPool H),
     (''partRepo'', inventory_PartRepository H),
     (''partCompatibilityChecker'', inventory_PartCompatibilityChecker H),
     (''partSvc'', inventory_PartService H), (''iam'', inventory_IAMClient H),
     (''inventoryv1Handler'', inventory_InventoryV1API H)]"

definition iam_getters :: "('w, 'e) host \<Rightarrow> (string \<times> ('w, 'e) start) list" where
  "iam_getters H =
    [(''pgPool'', iam_PGPool H), (''redisClient'', iam_RedisClient H), (''userRepo'', iam_UserRepo H),
     (''sessionRepo'', iam_SessionRepo H), (''userSvc'', iam_UserSvc H), (''sessionSvc'', iam_SessionSvc H),
     (''userV1Handler'', iam_UserV1API H), (''authV1Handler'', iam_AuthV1API H)]"

definition payment_getters :: "('w, 'e) host \<Rightarrow> (string \<times> ('w, 'e) start) list" where
  "payment_getters H =
    [(''paymentSvc'', payment_PaymentService H), (''paymentv1Handler'', payment_PaymentV1API H)]"

definition assembly_getters :: "('w, 'e) host \<Rightarrow> (string \<times> ('w, 'e) start) list" where
  "assembly_getters H =
    [(''consumerGroup'', assembly_ConsumerGroup H), (''syncProducer'', assembly_SyncProducer H),
     (''shipAssembledProducer'', assembly_ShipAssembledProducer H),
     (''orderPaidConsumer'', assembly_OrderPaidConsumer H),
     (''orderPaidConsumerSvc'', assembly_OrderPaidConsumerService H),
     (''shipAssembledProducerSvc'', assembly_ShipAssembledProducerService H),
     (''shipAssembleSvc'', assembly_shipAssembleService H)]"

named_theorems getter_defs \<open>the getters of the containers\<close>

lemmas order_getter_defs [getter_defs] =
  order_PGPool_def order_TxManager_def order_RateLimiter_def order_OrderRepo_def order_InventoryClient_def
  order_PaymentClient_def order_IAMClient_def order_OrderService_def order_OrderV1Server_def
  order_SyncProducer_def order_ConsumerGroup_def order_OrderPaidProducer_def order_ShipAssembledConsumer_def
  order_OrderPaidProducerSvc_def order_ShipAssembledConsumerSvc_def

lemmas inventory_getter_defs [getter_defs] =
  inventory_TxManager_def inventory_PGPool_def inventory_PartRepository_def
  inventory_PartCompatibilityChecker_def inventory_PartService_def inventory_IAMClient_def
  inventory_InventoryV1API_def

lemmas iam_getter_defs [getter_defs] =
  iam_PGPool_def iam_RedisClient_def iam_UserRepo_def iam_SessionRepo_def iam_UserSvc_def iam_SessionSvc_def
  iam_UserV1API_def iam_AuthV1API_def

lemmas payment_getter_defs [getter_defs] = payment_PaymentService_def payment_PaymentV1API_def

lemmas assembly_getter_defs [getter_defs] =
  assembly_ConsumerGroup_def assembly_SyncProducer_def assembly_ShipAssembledProducer_def
  assembly_OrderPaidConsumer_def assembly_OrderPaidConsumerService_def
  assembly_ShipAssembledProducerService_def assembly_shipAssembleService_def

lemma grows_order_getters:
  "grows (order_PGPool H)"
  "grows (order_TxManager H)"
  "grows (order_RateLimiter H)"
  "grows (order_OrderRepo H)"
  "grows (order_InventoryClient H)"
  "grows (order_PaymentClient H)"
  "grows (order_IAMClient H)"
  "grows (order_SyncProducer H)"
  "grows (order_ConsumerGroup H)"
  "grows (order_OrderPaidProducer H)"
  "grows (order_ShipAssembledConsumer H)"
  "grows (order_OrderPaidProducerSvc H)"
  "grows (order_ShipAssembledConsumerSvc H)"
  "grows (order_OrderService H)"
  "grows (order_OrderV1Server H)"
  by (auto simp: order_getter_defs intro!: grows_intros)

interpretation order_di: container "order_getters H" for H
  by (rule once_fields_container)
    (use grows_order_getters [of H] in \<open>auto simp: order_getters_def order_getter_defs\<close>)

lemma grows_inventory_getters:
  "grows (inventory_PGPool H)"
  "grows (inventory_TxManager H)"
  "grows (inventory_PartRepository H)"
  "grows (inventory_PartCompatibilityChecker H)"
  "grows (inventory_PartService H)"
  "grows (inventory_IAMClient H)"
  "grows (inventory_InventoryV1API H)"
  by (auto simp: inventory_getter_defs intro!: grows_intros)

interpretation inventory_di: container "inventory_getters H" for H
  by (rule once_fields_container)
    (use grows_inventory_getters [of H] in \<open>auto simp: inventory_getters_def inventory_getter_defs\<close>)

lemma grows_iam_getters:
  "grows (iam_PGPool H)"
  "grows (iam_RedisClient H)"
  "grows (iam_UserRepo H)"
  "grows (iam_SessionRepo H)"
  "grows (iam_UserSvc H)"
  "grows (iam_SessionSvc H)"
  "grows (iam_UserV1API H)"
  "grows (iam_AuthV1API H)"
  by (auto simp: iam_getter_defs intro!: grows_intros)

interpretation iam_di: container "iam_getters H" for H
  by (rule once_fields_container)
    (use grows_iam_getters [of H] in \<open>auto simp: iam_getters_def iam_getter_defs\<close>)

lemma grows_payment_getters:
  "grows (payment_PaymentService H)"
  "grows (payment_PaymentV1API H)"
  by (auto simp: payment_getter_defs intro!: grows_intros)

interpretation payment_di: container "payment_getters H" for H
  by (rule once_fields_container)
    (use grows_payment_getters [of H] in \<open>auto simp: payment_getters_def payment_getter_defs\<close>)

lemma grows_assembly_getters:
  "grows (assembly_ConsumerGroup H)"
  "grows (assembly_SyncProducer H)"
  "grows (assembly_ShipAssembledProducer H)"
  "grows (assembly_OrderPaidConsumer H)"
  "grows (assembly_ShipAssembledProducerService H)"
  "grows (assembly_shipAssembleService H)"
  "grows (assembly_OrderPaidConsumerService H)"
  by (auto simp: assembly_getter_defs intro!: grows_intros)

interpretation assembly_di: container "assembly_getters H" for H
  by (rule once_fields_container)
    (use grows_assembly_getters [of H] in \<open>auto simp: assembly_getters_def assembly_getter_defs\<close>)

text \<open>
  Every dependency of a service is a singleton: once a getter of a container has returned a
  component, the same getter returns the same component after any further getter calls, without
  creating a resource or registering a closer.
\<close>

lemma dependencies_are_singletons:
  assumes "getters \<in> {order_getters H, inventory_getters H, iam_getters H, payment_getters H, assembly_getters H}"
    and "(f, g) \<in> set getters" and "g s = Inr (c, s1)"
    and "set gs \<subseteq> snd ` set getters" and "run_inits gs s1 = Inr s2"
  shows "g s2 = Inr (c, s2)"
proof -
  have "container getters"
    using assms(1) order_di.container_axioms inventory_di.container_axioms iam_di.container_axioms
      payment_di.container_axioms assembly_di.container_axioms by blast
  then show ?thesis using assms(2-) by (rule container.singleton)
qed

definition all_fine :: "(nat, 'e) host" where
  "all_fine = \<lparr>host_ok = (\<lambda>call. True), host_close = (\<lambda>c w. (w + 1, None))\<rparr>"

lemmas start_simps =
  andThen_def give_def open_or_exit_def check_or_exit_def add_closer_def add_silent_closer_def once_field_def
  set_app_def newGRPCConnection_def Let_def

subsection \<open>Start-up and shutdown order\<close>

definition closer_names :: "('w, 'e) boot \<Rightarrow> string list" where
  "closer_names s = map cf_name (cl_funcs (boot_closer s))"

text \<open>Start-up including the consumer that Run starts in a goroutine.\<close>

definition with_consumer :: "('w, 'e) start \<Rightarrow> string + ('w, 'e) boot \<Rightarrow> string + ('w, 'e) boot" where
  "with_consumer consumer r =
    (case r of Inl msg \<Rightarrow> Inl msg
     | Inr s \<Rightarrow> (case consumer s of Inl msg \<Rightarrow> Inl msg | Inr (c, s') \<Rightarrow> Inr s'))"

definition start_closers :: "string + ('w, 'e) boot \<Rightarrow> string list option" where
  "start_closers r = (case r of Inl msg \<Rightarrow> None | Inr s \<Rightarrow> Some (closer_names s))"

text \<open>Evaluation with every library call succeeding; getters unfold only where they are run.\<close>

lemmas init_defs = initDI_def initLogger_def initMetrics_def initTracer_def initListener_def process_start_def

lemma order_New_fine:
  assumes "\<And>call. host_ok H call"
  shows "\<exists>s pool. order_New H = Inr s
     \<and> closer_names s =
       [''Logger'', ''Metrics'', ''Tracer'', ''IAMService grpc client'', ''Redis'', ''PostgreSQL pool'',
        ''Kafka sync producer'', ''InventoryService grpc client'', ''PaymentService grpc client'', ''http server'']
     \<and> boot_di s ''pgPool'' = Some pool
     \<and> boot_di s ''txManager'' = Some (Built ''manager.New'' [pool])
     \<and> boot_di s ''orderRepo'' = Some (Built ''orderRepository.New'' [pool, Built ''manager.New'' [pool]])
     \<and> boot_di s ''inventory'' \<noteq> None
     \<and> boot_di s ''shipAssembledConsumerSvc'' = None \<and> boot_di s ''shipAssembledConsumer'' = None
     \<and> boot_di s ''consumerGroup'' = None"
  by (simp add: assms order_New_def order_getter_defs [THEN fun_cong] init_defs order_initHTTPServer_def
    start_simps closer_names_def)

lemma order_consumer_fine:
  assumes "\<And>call. host_ok H call"
    and "boot_di s ''shipAssembledConsumerSvc'' = None" "boot_di s ''shipAssembledConsumer'' = None"
      "boot_di s ''consumerGroup'' = None"
    and "boot_di s ''orderRepo'' = Some repo" "boot_di s ''inventory'' = Some invc" "boot_di s ''txManager'' = Some tx"
  shows "\<exists>c s'. order_runConsumer H s = Inr (c, s') \<and> closer_names s' = closer_names s @ [''Kafka consumer group'']"
  using assms(2-) by (simp add: assms(1) order_runConsumer_def start_simps closer_names_def
    order_ShipAssembledConsumerSvc_def order_ShipAssembledConsumer_def order_ConsumerGroup_def
    order_OrderRepo_def order_InventoryClient_def order_TxManager_def)

lemma order_started:
  assumes "\<And>call. host_ok H call"
  shows "start_closers (with_consumer (order_runConsumer H) (order_New H)) = Some
       [''Logger'', ''Metrics'', ''Tracer'', ''IAMService grpc client'', ''Redis'', ''PostgreSQL pool'',
        ''Kafka sync producer'', ''InventoryService grpc client'', ''PaymentService grpc client'', ''http server'',
        ''Kafka consumer group'']"
proof -
  obtain s where s: "order_New H = Inr s"
    "closer_names s = [''Logger'', ''Metrics'', ''Tracer'', ''IAMService grpc client'', ''Redis'',
        ''PostgreSQL pool'', ''Kafka sync producer'', ''InventoryService grpc client'',
        ''PaymentService grpc client'', ''http server'']"
    "boot_di s ''txManager'' \<noteq> None" "boot_di s ''orderRepo'' \<noteq> None" "boot_di s ''inventory'' \<noteq> None"
    "boot_di s ''shipAssembledConsumerSvc'' = None" "boot_di s ''shipAssembledConsumer'' = None"
    "boot_di s ''consumerGroup'' = None"
    using order_New_fine [OF assms] by auto
  then obtain c s' where "order_runConsumer H s = Inr (c, s')"
    "closer_names s' = closer_names s @ [''Kafka consumer group'']"
    using order_consumer_fine [OF assms] by blast
  then show ?thesis using s(1,2) by (simp add: start_closers_def with_consumer_def)
qed

lemma inventory_started:
  assumes "\<And>call. host_ok H call"
  shows "\<exists>s pool. inventory_New H = Inr s
     \<and> closer_names s = [''Logger'', ''Tracer'', ''IAMService grpc client'', ''PostgreSQL pool'', ''gRPC server'']
     \<and> boot_di s ''partSvc'' = Some (Built ''partService.NewService''
         [Built ''manager.New'' [pool], Built ''partRepo.NewRepository'' [pool],
          Built ''domain.NewCompatibilityChecker'' []])"
  by (simp add: assms inventory_New_def inventory_getter_defs [THEN fun_cong] init_defs inventory_initGRPCServer_def
    grpc_server_def start_simps closer_names_def)

lemma iam_started:
  assumes "\<And>call. host_ok H call"
  shows "start_closers (iam_New H) = Some [''Logger'', ''Tracer'', ''PostgreSQL pool'', ''Redis'', ''gRPC server'']"
  by (simp add: assms iam_New_def iam_getter_defs [THEN fun_cong] init_defs iam_initGRPCServer_def
    grpc_server_def start_simps closer_names_def start_closers_def)

lemma payment_started:
  assumes "\<And>call. host_ok H call"
  shows "start_closers (payment_New H) = Some [''Logger'', ''Tracer'', ''gRPC server'']"
  by (simp add: assms payment_New_def payment_getter_defs [THEN fun_cong] init_defs payment_initGRPCServer_def
    grpc_server_def start_simps closer_names_def start_closers_def)

lemma assembly_started:
  assumes "\<And>call. host_ok H call"
  shows "start_closers (with_consumer (assembly_runConsumer H) (assembly_New_boot H))
    = Some [''Logger'', ''Kafka consumer group'', ''Kafka sync producer'']"
  by (simp add: assms assembly_New_boot_def assembly_runConsumer_def assembly_getter_defs [THEN fun_cong] init_defs
    start_simps closer_names_def start_closers_def with_consumer_def)

text \<open>
  C33. When every library call of the start-up succeeds, the services register their closers in this
  order, so that CloseAll stops the server, or the consumer, before the clients, the database and the
  tracing it uses, and the logger last; in the assembly service the producer is closed before the
  consumer group that sends through it. The repositories of the order and the inventory service and
  their transaction managers work on one and the same pool.
\<close>

theorem startup_order:
  assumes "\<And>call. host_ok H call"
  shows "start_closers (with_consumer (order_runConsumer H) (order_New H)) = Some
       [''Logger'', ''Metrics'', ''Tracer'', ''IAMService grpc client'', ''Redis'', ''PostgreSQL pool'',
        ''Kafka sync producer'', ''InventoryService grpc client'', ''PaymentService grpc client'', ''http server'',
        ''Kafka consumer group'']
    \<and> start_closers (inventory_New H) = Some
       [''Logger'', ''Tracer'', ''IAMService grpc client'', ''PostgreSQL pool'', ''gRPC server'']
    \<and> start_closers (iam_New H) = Some [''Logger'', ''Tracer'', ''PostgreSQL pool'', ''Redis'', ''gRPC server'']
    \<and> start_closers (payment_New H) = Some [''Logger'', ''Tracer'', ''gRPC server'']
    \<and> start_closers (with_consumer (assembly_runConsumer H) (assembly_New_boot H)) = Some
       [''Logger'', ''Kafka consumer group'', ''Kafka sync producer'']
    \<and> (\<exists>s pool. order_New H = Inr s \<and> boot_di s ''pgPool'' = Some pool
       \<and> boot_di s ''orderRepo'' = Some (Built ''orderRepository.New'' [pool, Built ''manager.New'' [pool]]))
    \<and> (\<exists>s pool. inventory_New H = Inr s \<and> boot_di s ''partSvc'' = Some (Built ''partService.NewService''
         [Built ''manager.New'' [pool], Built ''partRepo.NewRepository'' [pool],
          Built ''domain.NewCompatibilityChecker'' []]))"
  using order_started [OF assms] inventory_started [OF assms] iam_started [OF assms] payment_started [OF assms]
    assembly_started [OF assms] order_New_fine [OF assms]
  by (auto simp: start_closers_def)

theorem startup_order_witness:
  "start_closers (with_consumer (order_runConsumer (all_fine :: (nat, unit) host)) (order_New all_fine)) = Some
     [''Logger'', ''Metrics'', ''Tracer'', ''IAMService grpc client'', ''Redis'', ''PostgreSQL pool'',
      ''Kafka sync producer'', ''InventoryService grpc client'', ''PaymentService grpc client'', ''http server'',
      ''Kafka consumer group'']"
  using startup_order [of "all_fine :: (nat, unit) host"] by (simp add: all_fine_def)

subsection \<open>Exits\<close>

text \<open>A start-up that exits has a failing library call, and the logged message is the one of that call.\<close>

definition exits_only :: "('w, 'e) host \<Rightarrow> (string \<times> string) set \<Rightarrow> ('w, 'e) start \<Rightarrow> bool" where
  "exits_only H calls m \<longleftrightarrow> (\<forall>s msg. m s = Inl msg \<longrightarrow> (\<exists>call. (call, msg) \<in> calls \<and> \<not> host_ok H call))"

named_theorems exits_intros \<open>the steps whose exits are explained\<close>

lemma exits_andThen [exits_intros]:
  "exits_only H C m \<Longrightarrow> (\<And>c. exits_only H C (f c)) \<Longrightarrow> exits_only H C (andThen m f)"
  by (auto simp: exits_only_def andThen_def split: sum.splits)

lemma exits_open [exits_intros]: "(call, msg) \<in> C \<Longrightarrow> exits_only H C (open_or_exit H call settings msg)"
  by (auto simp: exits_only_def open_or_exit_def)

lemma exits_check [exits_intros]: "(call, msg) \<in> C \<Longrightarrow> exits_only H C (check_or_exit H call msg c)"
  by (auto simp: exits_only_def check_or_exit_def)

lemma exits_connection [exits_intros]:
  "(''grpc.NewClient '' @ name, msg) \<in> C \<Longrightarrow> exits_only H C (newGRPCConnection H name opts msg)"
  unfolding newGRPCConnection_def Let_def by (rule exits_open)

lemma exits_never [exits_intros]:
  "exits_only H C (give c)" "exits_only H C (add_closer H' name c)" "exits_only H C (add_silent_closer H' name c)"
  "exits_only H C (set_app name c)" "exits_only H C initDI"
  by (auto simp: exits_only_def give_def add_closer_def add_silent_closer_def set_app_def initDI_def)

lemma exits_build [exits_intros]:
  "(\<And>m. m \<in> set ms \<Longrightarrow> exits_only H C m) \<Longrightarrow> exits_only H C (build_from name args ms)"
proof (induction ms arbitrary: args)
  case (Cons m ms)
  then have "exits_only H C m" "\<And>args. exits_only H C (build_from name args ms)" by simp_all
  then show ?case by (auto simp: exits_only_def split: sum.splits)
qed (simp add: exits_only_def)

lemma exits_once_field [exits_intros]: "exits_only H C m \<Longrightarrow> exits_only H C (once_field field m)"
  by (auto simp: exits_only_def once_field_def split: option.splits sum.splits)

lemma exits_run_inits:
  "(\<And>m. m \<in> set ms \<Longrightarrow> exits_only H C m) \<Longrightarrow> run_inits ms s = Inl msg \<Longrightarrow> \<exists>call. (call, msg) \<in> C \<and> \<not> host_ok H call"
proof (induction ms arbitrary: s)
  case (Cons m ms)
  have m: "exits_only H C m" by (rule Cons.prems(1)) simp
  show ?case
  proof (cases "m s")
    case (Inl msg')
    then show ?thesis using m Cons.prems(2) by (auto simp: exits_only_def)
  next
    case (Inr cs)
    then show ?thesis using Cons by (cases cs) simp
  qed
qed simp

definition order_calls :: "(string \<times> string) list" where
  "order_calls =
    [(''os.Hostname'', ''failed to initialize metrics''),
     (''tracing.InitTracer'', ''failed to initialize the tracer''),
     (''grpc.NewClient IAMService'', ''failed to create the IAMService client''),
     (''redis.NewClient'', ''failed to create the Redis client''),
     (''pgxpool.New'', ''failed to connect to PostgreSQL''),
     (''pool.Ping'', ''failed to ping PostgreSQL''),
     (''manager.New'', ''failed to create the transaction manager''),
     (''sarama.NewSyncProducer'', ''failed to create the sync producer''),
     (''grpc.NewClient InventoryService'', ''failed to create the InventoryService client''),
     (''grpc.NewClient PaymentService'', ''failed to create the PaymentService client''),
     (''orderv1.NewServer'', ''failed to create the OpenAPI server''),
     (''sarama.NewConsumerGroup'', ''failed to create the consumer group'')]"

lemma order_calls_mem:
  "(''os.Hostname'', ''failed to initialize metrics'') \<in> set order_calls"
  "(''tracing.InitTracer'', ''failed to initialize the tracer'') \<in> set order_calls"
  "(''grpc.NewClient IAMService'', ''failed to create the IAMService client'') \<in> set order_calls"
  "(''redis.NewClient'', ''failed to create the Redis client'') \<in> set order_calls"
  "(''pgxpool.New'', ''failed to connect to PostgreSQL'') \<in> set order_calls"
  "(''pool.Ping'', ''failed to ping PostgreSQL'') \<in> set order_calls"
  "(''manager.New'', ''failed to create the transaction manager'') \<in> set order_calls"
  "(''sarama.NewSyncProducer'', ''failed to create the sync producer'') \<in> set order_calls"
  "(''grpc.NewClient InventoryService'', ''failed to create the InventoryService client'') \<in> set order_calls"
  "(''grpc.NewClient PaymentService'', ''failed to create the PaymentService client'') \<in> set order_calls"
  "(''orderv1.NewServer'', ''failed to create the OpenAPI server'') \<in> set order_calls"
  "(''sarama.NewConsumerGroup'', ''failed to create the consumer group'') \<in> set order_calls"
  by (simp_all add: order_calls_def)

lemma exits_order_PGPool [exits_intros]: "exits_only H (set order_calls) (order_PGPool H)"
  by (auto simp: order_PGPool_def order_calls_mem intro!: exits_intros)

lemma exits_order_TxManager [exits_intros]: "exits_only H (set order_calls) (order_TxManager H)"
  by (auto simp: order_TxManager_def order_calls_mem intro!: exits_intros)

lemma exits_order_RateLimiter [exits_intros]: "exits_only H (set order_calls) (order_RateLimiter H)"
  by (auto simp: order_RateLimiter_def order_calls_mem intro!: exits_intros)

lemma exits_order_OrderRepo [exits_intros]: "exits_only H (set order_calls) (order_OrderRepo H)"
  by (auto simp: order_OrderRepo_def order_calls_mem intro!: exits_intros)

lemma exits_order_InventoryClient [exits_intros]: "exits_only H (set order_calls) (order_InventoryClient H)"
  by (auto simp: order_InventoryClient_def order_calls_mem intro!: exits_intros)

lemma exits_order_PaymentClient [exits_intros]: "exits_only H (set order_calls) (order_PaymentClient H)"
  by (auto simp: order_PaymentClient_def order_calls_mem intro!: exits_intros)

lemma exits_order_IAMClient [exits_intros]: "exits_only H (set order_calls) (order_IAMClient H)"
  by (auto simp: order_IAMClient_def order_calls_mem intro!: exits_intros)

lemma exits_order_SyncProducer [exits_intros]: "exits_only H (set order_calls) (order_SyncProducer H)"
  by (auto simp: order_SyncProducer_def order_calls_mem intro!: exits_intros)

lemma exits_order_OrderPaidProducer [exits_intros]: "exits_only H (set order_calls) (order_OrderPaidProducer H)"
  by (auto simp: order_OrderPaidProducer_def order_calls_mem intro!: exits_intros)

lemma exits_order_OrderPaidProducerSvc [exits_intros]: "exits_only H (set order_calls) (order_OrderPaidProducerSvc H)"
  by (auto simp: order_OrderPaidProducerSvc_def order_calls_mem intro!: exits_intros)

lemma exits_order_OrderService [exits_intros]: "exits_only H (set order_calls) (order_OrderService H)"
  by (auto simp: order_OrderService_def order_calls_mem intro!: exits_intros)

lemma exits_order_OrderV1Server [exits_intros]: "exits_only H (set order_calls) (order_OrderV1Server H)"
  by (auto simp: order_OrderV1Server_def order_calls_mem intro!: exits_intros)

lemma order_New_exits:
  assumes "order_New H = Inl msg"
  shows "\<exists>call. (call, msg) \<in> set order_calls \<and> \<not> host_ok H call"
proof (rule exits_run_inits)
  show "run_inits [initDI, initLogger H, initMetrics H, initTracer H, order_initHTTPServer H] process_start = Inl msg"
    using assms by (simp add: order_New_def)
  show "exits_only H (set order_calls) m"
    if "m \<in> set [initDI, initLogger H, initMetrics H, initTracer H, order_initHTTPServer H]" for m
    using that by (auto simp: initLogger_def initMetrics_def initTracer_def order_initHTTPServer_def Let_def
      order_calls_mem intro!: exits_intros)
qed

end
