(* ===== verification/Platform_Telemetry.thy ===== *)
theory Platform_Telemetry
  imports Prelude
begin

text \<open>
  Logging, metrics and tracing of the platform (\<open>platform/pkg/logger\<close>, \<open>metrics\<close>, \<open>tracing\<close>), the Redis
  client and the health service (\<open>platform/pkg/redis\<close>, \<open>platform/pkg/grpc/health\<close>).

  The loggers and exporters of OpenTelemetry and the fanout of slog-multi are parameters; what the code
  relies on is stated in \<open>fanout_ok\<close> and \<open>otel_ok\<close>. A handler of \<open>log/slog\<close> is a value with the
  operations of the interface (\<open>handler_ops\<close>); what a handler writes is a list of outputs. The package
  variables are the fields of a state record, and \<open>sync.Once\<close> is one of them.
\<close>

subsection \<open>Levels\<close>

text \<open>\<open>slog.Level\<close> with the names and values of the standard library.\<close>

type_synonym level = int

abbreviation (input) LevelDebug :: level where "LevelDebug \<equiv> - 4"
abbreviation (input) LevelInfo :: level where "LevelInfo \<equiv> 0"
abbreviation (input) LevelWarn :: level where "LevelWarn \<equiv> 4"
abbreviation (input) LevelError :: level where "LevelError \<equiv> 8"

text \<open>\<open>strings.ToUpper\<close> on ASCII letters and \<open>strconv.Atoi\<close>.\<close>

definition upper_char :: "char \<Rightarrow> char" where
  "upper_char c = (let n = of_char c :: nat in if 97 \<le> n \<and> n \<le> 122 then char_of (n - 32) else c)"

definition ToUpper :: "string \<Rightarrow> string" where
  "ToUpper s = map upper_char s"

definition digit :: "char \<Rightarrow> int option" where
  "digit c = (let n = of_char c :: int in if 48 \<le> n \<and> n \<le> 57 then Some (n - 48) else None)"

fun digits :: "int \<Rightarrow> string \<Rightarrow> int option" where
  "digits acc [] = Some acc"
| "digits acc (c # s) = (case digit c of None \<Rightarrow> None | Some d \<Rightarrow> digits (10 * acc + d) s)"

definition Atoi :: "string \<Rightarrow> int option" where
  "Atoi s =
    (let (sign, ds) = (case s of
           [] \<Rightarrow> (1, [])
         | c # s' \<Rightarrow> if c = CHR ''-'' then (- 1, s') else if c = CHR ''+'' then (1, s') else (1, s))
     in if ds = [] then None
        else case digits 0 ds of
            None \<Rightarrow> None
          | Some n \<Rightarrow> if in64 (sign * n) then Some (sign * n) else None)"

text \<open>\<open>Level.UnmarshalText\<close>: a name, then an optional signed offset.\<close>

definition level_name :: "string \<Rightarrow> level option" where
  "level_name name =
    (if name = ''DEBUG'' then Some LevelDebug
     else if name = ''INFO'' then Some LevelInfo
     else if name = ''WARN'' then Some LevelWarn
     else if name = ''ERROR'' then Some LevelError
     else None)"

definition Level_UnmarshalText :: "string \<Rightarrow> level option" where
  "Level_UnmarshalText s =
    (let sign = (\<lambda>c. c = CHR ''+'' \<or> c = CHR ''-'');
         name = takeWhile (\<lambda>c. \<not> sign c) s;
         rest = dropWhile (\<lambda>c. \<not> sign c) s
     in case (if rest = [] then Some 0 else Atoi rest) of
          None \<Rightarrow> None
        | Some offset \<Rightarrow> map_option (\<lambda>l. wrap64 (l + offset)) (level_name (ToUpper name)))"

definition parseLevel :: "string \<Rightarrow> level" where
  "parseLevel s = (case Level_UnmarshalText s of None \<Rightarrow> LevelInfo | Some level \<Rightarrow> level)"

subsection \<open>Handlers\<close>

datatype derivation = WithAttrs "(string \<times> string) list" | WithGroup string

record log_record =
  lr_Level :: level
  lr_Message :: string

datatype log_output = ToStdout "derivation list" log_record | ToCollector "derivation list" log_record

record 'h handler_ops =
  ho_Enabled :: "'h \<Rightarrow> level \<Rightarrow> bool"
  ho_Derive :: "derivation \<Rightarrow> 'h \<Rightarrow> 'h"
  ho_Handle :: "'h \<Rightarrow> log_record \<Rightarrow> log_output list"

text \<open>The JSON handler of the standard library on stdout.\<close>

record jsonHandler =
  jh_level :: level
  jh_derived :: "derivation list"

definition json_ops :: "jsonHandler handler_ops" where
  "json_ops =
    \<lparr>ho_Enabled = (\<lambda>h l. l \<ge> jh_level h),
     ho_Derive = (\<lambda>d h. h\<lparr>jh_derived := jh_derived h @ [d]\<rparr>),
     ho_Handle = (\<lambda>h r. [ToStdout (jh_derived h) r])\<rparr>"

text \<open>\<open>minLevelHandler\<close> embeds a handler: what it does not override is that of the embedded handler.\<close>

record 'h minLevelHandler =
  mh_Handler :: 'h
  mh_level :: level

definition withMinLevel :: "'h \<Rightarrow> level \<Rightarrow> 'h minLevelHandler" where
  "withMinLevel h level = \<lparr>mh_Handler = h, mh_level = level\<rparr>"

definition minLevel_Enabled :: "'h handler_ops \<Rightarrow> 'h minLevelHandler \<Rightarrow> level \<Rightarrow> bool" where
  "minLevel_Enabled ops h level \<longleftrightarrow> level \<ge> mh_level h \<and> ho_Enabled ops (mh_Handler h) level"

text \<open>\<open>WithAttrs\<close> and \<open>WithGroup\<close>, each rebuilding the wrapper around the derived handler.\<close>

definition minLevel_Derive :: "'h handler_ops \<Rightarrow> derivation \<Rightarrow> 'h minLevelHandler \<Rightarrow> 'h minLevelHandler" where
  "minLevel_Derive ops d h = \<lparr>mh_Handler = ho_Derive ops d (mh_Handler h), mh_level = mh_level h\<rparr>"

definition minLevel_ops :: "'h handler_ops \<Rightarrow> 'h minLevelHandler handler_ops" where
  "minLevel_ops ops =
    \<lparr>ho_Enabled = minLevel_Enabled ops, ho_Derive = minLevel_Derive ops, ho_Handle = (\<lambda>h. ho_Handle ops (mh_Handler h))\<rparr>"

text \<open>\<open>Logger.log\<close>: a record below the level of the handler is dropped before it is built.\<close>

definition log_with :: "'h handler_ops \<Rightarrow> 'h \<Rightarrow> log_record \<Rightarrow> log_output list" where
  "log_with ops h r = (if ho_Enabled ops h (lr_Level r) then ho_Handle ops h r else [])"

text \<open>A logger derived by a sequence of \<open>With\<close> and \<open>WithGroup\<close>.\<close>

definition derived :: "'h handler_ops \<Rightarrow> derivation list \<Rightarrow> 'h \<Rightarrow> 'h" where
  "derived ops ds h = fold (ho_Derive ops) ds h"

subsection \<open>The logger\<close>

record logger_config =
  lc_Level :: string
  lc_ServiceName :: string
  lc_Environment :: string
  lc_EnableOTLP :: bool
  lc_CollectorEndpoint :: string

record log_provider =
  lp_endpoint :: string
  lp_service :: string
  lp_environment :: string

text \<open>
  What the libraries add: whether the exporter and the resource can be created, the bridge handler of a
  provider with its operations, the fanout of two handlers with its operations, and the result of
  shutting a provider down.
\<close>

record ('o, 'f) log_lib =
  ll_exporter :: "string \<Rightarrow> bool"
  ll_resource :: "string \<Rightarrow> string \<Rightarrow> bool"
  ll_otel :: "'o handler_ops"
  ll_NewHandler :: "log_provider \<Rightarrow> 'o"
  ll_fan :: "'f handler_ops"
  ll_Fanout :: "jsonHandler \<Rightarrow> 'o minLevelHandler \<Rightarrow> 'f"
  ll_Shutdown :: "log_provider \<Rightarrow> string option"

datatype 'f global_handler = StdoutOnly jsonHandler | Both 'f

record 'f logger_vars =
  lv_once :: bool
  lv_otelProvider :: "log_provider option"
  lv_default :: "'f global_handler option"

definition logger_start :: "'f logger_vars" where
  "logger_start = \<lparr>lv_once = False, lv_otelProvider = None, lv_default = None\<rparr>"

abbreviation defaultOTLPEndpoint :: string where "defaultOTLPEndpoint \<equiv> ''localhost:4317''"

definition newOTLPExportHandler ::
    "('o, 'f) log_lib \<Rightarrow> logger_config \<Rightarrow> 'f logger_vars \<Rightarrow> 'o option \<times> 'f logger_vars" where
  "newOTLPExportHandler L cfg v =
    (let endpoint = (if lc_CollectorEndpoint cfg \<noteq> '''' then lc_CollectorEndpoint cfg else defaultOTLPEndpoint)
     in if \<not> ll_exporter L endpoint then (None, v)
        else if \<not> ll_resource L (lc_ServiceName cfg) (lc_Environment cfg) then (None, v)
        else let provider = \<lparr>lp_endpoint = endpoint, lp_service = lc_ServiceName cfg, lp_environment = lc_Environment cfg\<rparr>
             in (Some (ll_NewHandler L provider), v\<lparr>lv_otelProvider := Some provider\<rparr>))"

definition logger_Init :: "('o, 'f) log_lib \<Rightarrow> logger_config \<Rightarrow> 'f logger_vars \<Rightarrow> 'f logger_vars" where
  "logger_Init L cfg v =
    (if lv_once v then v
     else let v = v\<lparr>lv_once := True\<rparr>;
              level = parseLevel (lc_Level cfg);
              stdoutHandler = \<lparr>jh_level = level, jh_derived = []\<rparr>
          in if lc_EnableOTLP cfg then
               (case newOTLPExportHandler L cfg v of
                  (Some otelHandler, v) \<Rightarrow>
                    v\<lparr>lv_default := Some (Both (ll_Fanout L stdoutHandler (withMinLevel otelHandler level)))\<rparr>
                | (None, v) \<Rightarrow> v\<lparr>lv_default := Some (StdoutOnly stdoutHandler)\<rparr>)
             else v\<lparr>lv_default := Some (StdoutOnly stdoutHandler)\<rparr>)"

definition logger_Close :: "('o, 'f) log_lib \<Rightarrow> 'f logger_vars \<Rightarrow> string option" where
  "logger_Close L v = (case lv_otelProvider v of None \<Rightarrow> None | Some p \<Rightarrow> ll_Shutdown L p)"

text \<open>A call of the default logger, or of a logger derived from it.\<close>

definition log_default :: "('o, 'f) log_lib \<Rightarrow> 'f logger_vars \<Rightarrow> derivation list \<Rightarrow> log_record \<Rightarrow> log_output list" where
  "log_default L v ds r =
    (case lv_default v of
       None \<Rightarrow> []
     | Some (StdoutOnly h) \<Rightarrow> log_with json_ops (derived json_ops ds h) r
     | Some (Both f) \<Rightarrow> log_with (ll_fan L) (derived (ll_fan L) ds f) r)"

subsection \<open>Handlers with a level\<close>

text \<open>
  A handler that filters by a level, and keeps the level in every handler derived from it. The JSON
  handler has its own; an unfiltered handler gets one from the wrapper.
\<close>

locale levelled_handler =
  fixes ops :: "'h handler_ops" and lev :: "'h \<Rightarrow> level"
  assumes enabled_iff: "ho_Enabled ops h l \<longleftrightarrow> lev h \<le> l"
    and derive_level: "lev (ho_Derive ops d h) = lev h"
begin

lemma derived_level: "lev (derived ops ds h) = lev h"
  by (induction ds arbitrary: h) (simp_all add: derived_def derive_level)

lemma derived_enabled: "ho_Enabled ops (derived ops ds h) l \<longleftrightarrow> lev h \<le> l"
  by (simp add: enabled_iff derived_level)

lemma log_derived:
  "log_with ops (derived ops ds h) r = (if lev h \<le> lr_Level r then ho_Handle ops (derived ops ds h) r else [])"
  by (simp add: log_with_def derived_enabled)

end

lemma levelled_minLevel:
  assumes "\<And>h l. ho_Enabled ops h l"
  shows "levelled_handler (minLevel_ops ops) mh_level"
  by unfold_locales (simp_all add: minLevel_ops_def minLevel_Enabled_def minLevel_Derive_def assms)

interpretation json: levelled_handler json_ops jh_level
  by unfold_locales (simp_all add: json_ops_def)

lemma json_derived: "derived json_ops ds h = h\<lparr>jh_derived := jh_derived h @ ds\<rparr>"
  by (induction ds arbitrary: h) (simp_all add: derived_def json_ops_def)

lemma minLevel_derived:
  "derived (minLevel_ops ops) ds h = \<lparr>mh_Handler = derived ops ds (mh_Handler h), mh_level = mh_level h\<rparr>"
  by (induction ds arbitrary: h) (simp_all add: derived_def minLevel_ops_def minLevel_Derive_def)

text \<open>
  What the libraries document: the bridge to the collector lets every level through and hands a record
  on with the attributes of its logger; a fanout is enabled when one of its handlers is, gives a
  record to those that are, and is derived by deriving both.
\<close>

definition otel_ok :: "('o, 'f) log_lib \<Rightarrow> bool" where
  "otel_ok L \<longleftrightarrow> (\<forall>h l. ho_Enabled (ll_otel L) h l)
     \<and> (\<forall>p ds r. ho_Handle (ll_otel L) (derived (ll_otel L) ds (ll_NewHandler L p)) r = [ToCollector ds r])"

definition fanout_ok :: "('o, 'f) log_lib \<Rightarrow> bool" where
  "fanout_ok L \<longleftrightarrow> (\<forall>a b.
       (\<forall>l. ho_Enabled (ll_fan L) (ll_Fanout L a b) l \<longleftrightarrow>
          ho_Enabled json_ops a l \<or> ho_Enabled (minLevel_ops (ll_otel L)) b l)
     \<and> (\<forall>d. ho_Derive (ll_fan L) d (ll_Fanout L a b)
          = ll_Fanout L (ho_Derive json_ops d a) (ho_Derive (minLevel_ops (ll_otel L)) d b))
     \<and> (\<forall>r. ho_Handle (ll_fan L) (ll_Fanout L a b) r
          = log_with json_ops a r @ log_with (minLevel_ops (ll_otel L)) b r))"

lemma fan_derived:
  assumes "fanout_ok L"
  shows "derived (ll_fan L) ds (ll_Fanout L a b)
    = ll_Fanout L (derived json_ops ds a) (derived (minLevel_ops (ll_otel L)) ds b)"
  using assms by (induction ds arbitrary: a b) (simp_all add: derived_def fanout_ok_def)

lemma fan_log:
  assumes "fanout_ok L"
  shows "log_with (ll_fan L) (derived (ll_fan L) ds (ll_Fanout L a b)) r
    = log_with json_ops (derived json_ops ds a) r @ log_with (minLevel_ops (ll_otel L)) (derived (minLevel_ops (ll_otel L)) ds b) r"
proof -
  let ?a = "derived json_ops ds a" and ?b = "derived (minLevel_ops (ll_otel L)) ds b"
  have fan: "ho_Enabled (ll_fan L) (ll_Fanout L ?a ?b) l \<longleftrightarrow>
        ho_Enabled json_ops ?a l \<or> ho_Enabled (minLevel_ops (ll_otel L)) ?b l"
    "ho_Handle (ll_fan L) (ll_Fanout L ?a ?b) r = log_with json_ops ?a r @ log_with (minLevel_ops (ll_otel L)) ?b r" for l
    using assms unfolding fanout_ok_def by blast+
  show ?thesis unfolding fan_derived [OF assms] log_with_def [of "ll_fan L"] fan
    by (auto simp: log_with_def)
qed

lemma json_log: "log_with json_ops (derived json_ops ds \<lparr>jh_level = lvl, jh_derived = []\<rparr>) r
    = (if lvl \<le> lr_Level r then [ToStdout ds r] else [])"
  unfolding json.log_derived by (simp add: json_derived) (simp add: json_ops_def)

lemma otel_log:
  assumes "otel_ok L"
  shows "log_with (minLevel_ops (ll_otel L)) (derived (minLevel_ops (ll_otel L)) ds (withMinLevel (ll_NewHandler L p) lvl)) r
    = (if lvl \<le> lr_Level r then [ToCollector ds r] else [])"
proof -
  have "levelled_handler (minLevel_ops (ll_otel L)) mh_level"
    using assms by (intro levelled_minLevel) (simp add: otel_ok_def)
  moreover have "ho_Handle (minLevel_ops (ll_otel L)) (derived (minLevel_ops (ll_otel L)) ds (withMinLevel (ll_NewHandler L p) lvl)) r
      = [ToCollector ds r]"
    unfolding minLevel_derived using assms by (simp add: minLevel_ops_def withMinLevel_def otel_ok_def)
  ultimately show ?thesis
    by (simp add: levelled_handler.log_derived withMinLevel_def)
qed


text \<open>A library for the witness.\<close>

definition demo_log_lib :: "(derivation list, jsonHandler \<times> derivation list minLevelHandler) log_lib" where
  "demo_log_lib =
    (let otel = \<lparr>ho_Enabled = (\<lambda>h l. True), ho_Derive = (\<lambda>d h. h @ [d]), ho_Handle = (\<lambda>h r. [ToCollector h r])\<rparr>
     in \<lparr>ll_exporter = (\<lambda>_. True), ll_resource = (\<lambda>_ _. True), ll_otel = otel, ll_NewHandler = (\<lambda>_. []),
      ll_fan =
       \<lparr>ho_Enabled = (\<lambda>(a, b) l. ho_Enabled json_ops a l \<or> ho_Enabled (minLevel_ops otel) b l),
        ho_Derive = (\<lambda>d (a, b). (ho_Derive json_ops d a, ho_Derive (minLevel_ops otel) d b)),
        ho_Handle = (\<lambda>(a, b) r. log_with json_ops a r @ log_with (minLevel_ops otel) b r)\<rparr>,
      ll_Fanout = Pair, ll_Shutdown = (\<lambda>_. None)\<rparr>)"

lemma demo_log_lib_ok: "otel_ok demo_log_lib" "fanout_ok demo_log_lib"
proof -
  have otel: "derived (ll_otel demo_log_lib) ds h = h @ ds" for ds h
    by (induction ds arbitrary: h) (simp_all add: derived_def demo_log_lib_def Let_def)
  show "otel_ok demo_log_lib"
    unfolding otel_ok_def otel by (simp add: demo_log_lib_def Let_def)
  show "fanout_ok demo_log_lib" by (simp add: fanout_ok_def demo_log_lib_def Let_def)
qed


end
