(* ===== verification/Platform_Setup.thy ===== *)
theory Platform_Setup
  imports Complex_Main Prelude
begin

text \<open>
  Set-up code of the platform: the meter provider (\<open>platform/pkg/metrics\<close>), the tracer provider
  (\<open>platform/pkg/tracing/provider.go\<close>), the Redis client (\<open>platform/pkg/redis\<close>) and the health service
  (\<open>platform/pkg/grpc/health\<close>).

  A provider is the record of the settings it was built with. Whether an exporter, a resource or a
  connection can be made is a parameter, as is the result of a flush, a shutdown or a ping.
\<close>

subsection \<open>Metrics\<close>

abbreviation (input) second :: duration where "second \<equiv> 1000000000"

record metric_options =
  mo_interval :: duration
  mo_views :: "string list"

type_synonym metric_option = "metric_options \<Rightarrow> metric_options"

definition WithInterval :: "duration \<Rightarrow> metric_option" where
  "WithInterval d opt = (if d > 0 then opt\<lparr>mo_interval := d\<rparr> else opt)"

definition WithView :: "string \<Rightarrow> metric_option" where
  "WithView v opt = opt\<lparr>mo_views := mo_views opt @ [v]\<rparr>"

record metrics_config =
  mc_ServiceName :: string
  mc_Environment :: string
  mc_InstanceID :: string
  mc_CollectorEndpoint :: string

record meter_provider =
  mp_endpoint :: string
  mp_resource :: "string list"
  mp_interval :: duration
  mp_views :: "string list"

record metrics_lib =
  ml_exporter :: "string \<Rightarrow> bool"
  ml_resource :: "string list \<Rightarrow> bool"
  ml_ForceFlush :: "meter_provider \<Rightarrow> ext_error option"
  ml_Shutdown :: "meter_provider \<Rightarrow> ext_error option"

text \<open>The package variables, and the provider registered with \<open>otel.SetMeterProvider\<close>.\<close>

record metrics_vars =
  mv_once :: bool
  mv_provider :: "meter_provider option"
  mv_global :: "meter_provider option"

definition metrics_start :: metrics_vars where
  "metrics_start = \<lparr>mv_once = False, mv_provider = None, mv_global = None\<rparr>"

definition metrics_Init :: "metrics_lib \<Rightarrow> metrics_config \<Rightarrow> metric_option list \<Rightarrow> metrics_vars \<Rightarrow> metrics_vars" where
  "metrics_Init L cfg opts v =
    (if mv_once v then v
     else let v = v\<lparr>mv_once := True\<rparr>;
              opt = fold (\<lambda>f opt. f opt) opts \<lparr>mo_interval = 10 * second, mo_views = []\<rparr>;
              res = [mc_ServiceName cfg, mc_Environment cfg, mc_InstanceID cfg]
          in if \<not> ml_exporter L (mc_CollectorEndpoint cfg) then v
             else if \<not> ml_resource L res then v
             else let provider = \<lparr>mp_endpoint = mc_CollectorEndpoint cfg, mp_resource = res,
                                  mp_interval = mo_interval opt, mp_views = mo_views opt\<rparr>
                  in v\<lparr>mv_provider := Some provider, mv_global := Some provider\<rparr>)"

definition metrics_Flush :: "metrics_lib \<Rightarrow> metrics_vars \<Rightarrow> ext_error option" where
  "metrics_Flush L v = (case mv_provider v of None \<Rightarrow> None | Some p \<Rightarrow> ml_ForceFlush L p)"

definition metrics_Close :: "metrics_lib \<Rightarrow> metrics_vars \<Rightarrow> ext_error option" where
  "metrics_Close L v = (case mv_provider v of None \<Rightarrow> None | Some p \<Rightarrow> ml_Shutdown L p)"

text \<open>
  Whatever options the caller passes, the export interval is positive: the last positive one, or ten
  seconds; views are kept in order. Failing to build the exporter leaves no provider, and then \<open>Flush\<close>
  and \<open>Close\<close> do nothing.
\<close>

lemma metric_options_fold:
  assumes "set opts \<subseteq> range WithInterval \<union> range WithView" "mo_interval opt > 0"
  shows "mo_interval (fold (\<lambda>f opt. f opt) opts opt) > 0"
  using assms
proof (induction opts arbitrary: opt)
  case (Cons f opts)
  then have "mo_interval (f opt) > 0" by (auto simp: WithInterval_def WithView_def)
  with Cons show ?case by simp
qed simp

lemma metrics_interval_positive:
  assumes "set opts \<subseteq> range WithInterval \<union> range WithView" "mv_provider (metrics_Init L cfg opts metrics_start) = Some p"
  shows "mp_interval p > 0"
  using assms metric_options_fold [OF assms(1), of "\<lparr>mo_interval = 10 * second, mo_views = []\<rparr>"]
  by (auto simp: metrics_Init_def metrics_start_def Let_def split: if_splits)

lemma metrics_unavailable:
  assumes "\<not> ml_exporter L (mc_CollectorEndpoint cfg)"
  shows "mv_provider (metrics_Init L cfg opts metrics_start) = None"
    and "metrics_Flush L (metrics_Init L cfg opts metrics_start) = None"
    and "metrics_Close L (metrics_Init L cfg opts metrics_start) = None"
  using assms by (simp_all add: metrics_Init_def metrics_start_def metrics_Flush_def metrics_Close_def)

subsection \<open>Tracing\<close>

text \<open>The sampling ratio is a \<open>float64\<close>; the code only compares it with 0, so a rational stands for it.\<close>

record tracer_config =
  tc_CollectorEndpoint :: string
  tc_ServiceName :: string
  tc_Environment :: string
  tc_ServiceVersion :: string
  tc_SamplingRatio :: rat

record tracer_provider =
  tp_endpoint :: string
  tp_resource :: "string list"
  tp_ratio :: rat

record tracer_lib =
  tl_exporter :: "string \<Rightarrow> ext_error option"
  tl_resource :: "string list \<Rightarrow> ext_error option"

text \<open>
  The result is the provider whose \<open>Shutdown\<close> is returned; the state is what \<open>otel.SetTracerProvider\<close>
  and \<open>otel.SetTextMapPropagator\<close> registered.
\<close>

record tracer_globals =
  tg_provider :: "tracer_provider option"
  tg_propagators :: "string list"

definition InitTracer :: "tracer_lib \<Rightarrow> tracer_config \<Rightarrow> (tracer_globals, tracer_provider, 'e) act" where
  "InitTracer L cfg g =
    (let samplingRatio = (if tc_SamplingRatio cfg = 0 then 1 else tc_SamplingRatio cfg);
         res = [tc_ServiceName cfg, tc_ServiceVersion cfg, tc_Environment cfg]
     in case tl_exporter L (tc_CollectorEndpoint cfg) of
          Some err \<Rightarrow> (Err (Wrap ''create OTLP exporter'' (Ext err)), g)
        | None \<Rightarrow>
            (case tl_resource L res of
               Some err \<Rightarrow> (Err (Wrap ''create resource'' (Ext err)), g)
             | None \<Rightarrow>
                 let tp = \<lparr>tp_endpoint = tc_CollectorEndpoint cfg, tp_resource = res, tp_ratio = samplingRatio\<rparr>
                 in (Ret tp, g\<lparr>tg_provider := Some tp, tg_propagators := [''TraceContext'', ''Baggage'']\<rparr>)))"

lemma InitTracer_ratio:
  "InitTracer L cfg g = (Ret tp, g') \<Longrightarrow> tp_ratio tp \<noteq> 0 \<and> tg_provider g' = Some tp"
  by (auto simp: InitTracer_def Let_def split: option.splits if_splits)

lemma InitTracer_failed: "InitTracer L cfg g = (Err e, g') \<Longrightarrow> g' = g"
  by (auto simp: InitTracer_def Let_def split: option.splits if_splits)

subsection \<open>Redis\<close>

record redis_options =
  ro_Addr :: string
  ro_DialTimeout :: duration
  ro_ReadTimeout :: duration
  ro_WriteTimeout :: duration
  ro_ContextTimeoutEnabled :: bool
  ro_MaxIdleConns :: int
  ro_ConnMaxIdleTime :: duration

definition applyDefaults :: "redis_options \<Rightarrow> redis_options" where
  "applyDefaults opts =
    (let opts = opts\<lparr>ro_ContextTimeoutEnabled := True\<rparr>;
         opts = (if ro_DialTimeout opts = 0 then opts\<lparr>ro_DialTimeout := 5 * second\<rparr> else opts);
         opts = (if ro_ReadTimeout opts = 0 then opts\<lparr>ro_ReadTimeout := 3 * second\<rparr> else opts)
     in if ro_WriteTimeout opts = 0 then opts\<lparr>ro_WriteTimeout := 3 * second\<rparr> else opts)"

text \<open>
  The state is the list of open clients; the client is its options. After a failed \<open>Ping\<close> the client is
  closed again.
\<close>

definition redis_NewClient ::
    "(redis_options \<Rightarrow> ext_error option) \<Rightarrow> redis_options \<Rightarrow> (redis_options list, redis_options, 'e) act" where
  "redis_NewClient ping opts opened =
    (let rdb = applyDefaults opts; opened = rdb # opened
     in case ping rdb of
          Some err \<Rightarrow> (Err (Wrap ''failed to connect to Redis'' (Ext err)), remove1 rdb opened)
        | None \<Rightarrow> (Ret rdb, opened))"

text \<open>
  A client has timeouts for dialling, reading and writing, honours deadlines and keeps what its caller
  has set; a failed attempt leaves no open client behind.
\<close>

lemma applyDefaults_timeouts:
  "ro_DialTimeout (applyDefaults opts) \<noteq> 0" "ro_ReadTimeout (applyDefaults opts) \<noteq> 0"
  "ro_WriteTimeout (applyDefaults opts) \<noteq> 0" "ro_ContextTimeoutEnabled (applyDefaults opts)"
  "ro_Addr (applyDefaults opts) = ro_Addr opts"
  "ro_DialTimeout opts \<noteq> 0 \<Longrightarrow> ro_DialTimeout (applyDefaults opts) = ro_DialTimeout opts"
  "ro_ReadTimeout opts \<noteq> 0 \<Longrightarrow> ro_ReadTimeout (applyDefaults opts) = ro_ReadTimeout opts"
  "ro_WriteTimeout opts \<noteq> 0 \<Longrightarrow> ro_WriteTimeout (applyDefaults opts) = ro_WriteTimeout opts"
  by (simp_all add: applyDefaults_def Let_def)

lemma applyDefaults_idem: "applyDefaults (applyDefaults opts) = applyDefaults opts"
  by (simp add: applyDefaults_def Let_def)

lemma redis_NewClient_failed: "redis_NewClient ping opts opened = (Err e, opened') \<Longrightarrow> opened' = opened"
  by (auto simp: redis_NewClient_def Let_def split: option.splits)

subsection \<open>Health\<close>

datatype serving_status = UNKNOWN | SERVING | NOT_SERVING

definition health_Check :: "string \<Rightarrow> ('w, serving_status, 'e) act" where
  "health_Check service = ret SERVING"

text \<open>The stream is the function that sends one response.\<close>

definition health_Watch :: "string \<Rightarrow> (serving_status \<Rightarrow> ('w, unit, 'e) act) \<Rightarrow> ('w, unit, 'e) act" where
  "health_Watch service send = send SERVING"

end
