(* ===== verification/App_Config.thy ===== *)
theory App_Config
  imports Platform_Telemetry Platform_Setup
begin

text \<open>
  Configuration of the five services (\<open>internal/config\<close> of each) and the main functions.

  The library \<open>cleanenv\<close> fills a struct from a YAML file, the environment and the tags of the fields: it
  is the parameter \<open>cleanenv\<close>, and \<open>cleanenv_ok\<close> states the priority the code relies on (environment,
  then file, then default). A tag is the path in the file, the variable and the default; the tags below
  are those of the structs. A field that nothing sets keeps its zero value. The environment is a map,
  after \<open>godotenv.Load\<close> has added the variables of the service's own file that were not set.
\<close>

subsection \<open>Sources of a value\<close>

type_synonym environment = "string \<rightharpoonup> string"

record cfg_tag =
  ct_yaml :: "string list"
  ct_env :: "string option"
  ct_default :: "string option"

text \<open>Reading a file, the value in it at a path, the value of a field, and the parsers of field types.\<close>

record 'f cleanenv =
  ce_read :: "string \<Rightarrow> 'f option"
  ce_no_file :: 'f
  ce_yaml :: "'f \<Rightarrow> string list \<Rightarrow> string option"
  ce_value :: "'f \<Rightarrow> environment \<Rightarrow> cfg_tag \<Rightarrow> string option"
  ce_int :: "string \<Rightarrow> int option"
  ce_bool :: "string \<Rightarrow> bool option"
  ce_duration :: "string \<Rightarrow> duration option"
  ce_split :: "string \<Rightarrow> string list"

text \<open>
  An entry of the file that is the empty text counts as no entry only if there is a default; the law
  says nothing about such entries.
\<close>

definition cleanenv_ok :: "'f cleanenv \<Rightarrow> bool" where
  "cleanenv_ok C \<longleftrightarrow>
     (\<forall>f E t. (\<forall>k v. ct_env t = Some k \<longrightarrow> E k = Some v \<longrightarrow> ce_value C f E t = Some v)
       \<and> ((ct_env t = None \<or> E (the (ct_env t)) = None) \<longrightarrow>
           (\<forall>v. ce_yaml C f (ct_yaml t) = Some v \<and> v \<noteq> [] \<longrightarrow> ce_value C f E t = Some v)
         \<and> (ce_yaml C f (ct_yaml t) = None \<longrightarrow> ce_value C f E t = ct_default t)))
   \<and> (\<forall>p. ce_yaml C (ce_no_file C) p = None)"

definition tag :: "string list \<Rightarrow> string option \<Rightarrow> string option \<Rightarrow> cfg_tag" where
  "tag path env def = \<lparr>ct_yaml = path, ct_env = env, ct_default = def\<rparr>"

text \<open>A field of each type: unset is the zero value, and text that does not parse is an error.\<close>

definition text_field :: "(cfg_tag \<Rightarrow> string option) \<Rightarrow> cfg_tag \<Rightarrow> string" where
  "text_field val t = (case val t of None \<Rightarrow> '''' | Some s \<Rightarrow> s)"

definition parsed_field :: "(string \<Rightarrow> 'a option) \<Rightarrow> 'a \<Rightarrow> (cfg_tag \<Rightarrow> string option) \<Rightarrow> cfg_tag \<Rightarrow> 'a option" where
  "parsed_field parse zero val t = (case val t of None \<Rightarrow> Some zero | Some s \<Rightarrow> parse s)"

subsection \<open>Sections shared by the services\<close>

record env_config =
  en_AppEnv :: string
  en_ServiceName :: string
  en_ServiceVersion :: string

definition read_env :: "(cfg_tag \<Rightarrow> string option) \<Rightarrow> env_config" where
  "read_env val =
    \<lparr>en_AppEnv = text_field val (tag [''env'', ''app_env''] (Some ''APP_ENV'') (Some ''development'')),
     en_ServiceName = text_field val (tag [''env'', ''service_name''] None None),
     en_ServiceVersion = text_field val (tag [''env'', ''service_version''] None (Some ''1.0.0''))\<rparr>"

record otel_config =
  ot_Endpoint :: string
  ot_EnableOTLP :: bool

definition read_otel :: "'f cleanenv \<Rightarrow> (cfg_tag \<Rightarrow> string option) \<Rightarrow> otel_config option" where
  "read_otel C val =
    map_option (\<lambda>b. \<lparr>ot_Endpoint = text_field val (tag [''otel'', ''endpoint''] None None), ot_EnableOTLP = b\<rparr>)
      (parsed_field (ce_bool C) False val (tag [''otel'', ''enable_otlp''] (Some ''ENABLE_OTLP'') (Some ''true'')))"

text \<open>A host and a port with \<open>Address\<close>; \<open>net.JoinHostPort\<close> brackets a host with a colon or a percent sign.\<close>

record server_config =
  sc_Host :: string
  sc_Port :: string

definition JoinHostPort :: "string \<Rightarrow> string \<Rightarrow> string" where
  "JoinHostPort host port =
    (if CHR '':'' \<in> set host \<or> CHR ''%'' \<in> set host then ''['' @ host @ '']:'' @ port else host @ '':'' @ port)"

definition Address :: "server_config \<Rightarrow> string" where
  "Address c = JoinHostPort (sc_Host c) (sc_Port c)"

definition read_server :: "string \<Rightarrow> string \<Rightarrow> string \<Rightarrow> string \<Rightarrow> (cfg_tag \<Rightarrow> string option) \<Rightarrow> server_config" where
  "read_server section host_var port_var port val =
    \<lparr>sc_Host = text_field val (tag [section, ''host''] (Some host_var) (Some ''localhost'')),
     sc_Port = text_field val (tag [section, ''port''] (Some port_var) (Some port))\<rparr>"

record pg_config =
  pg_Host :: string
  pg_Port :: string
  pg_Database :: string
  pg_User :: string
  pg_Password :: string
  pg_SSLMode :: string

definition read_pg :: "string \<Rightarrow> (cfg_tag \<Rightarrow> string option) \<Rightarrow> pg_config" where
  "read_pg port val =
    \<lparr>pg_Host = text_field val (tag [''pg'', ''host''] (Some ''POSTGRES_HOST'') (Some ''localhost'')),
     pg_Port = text_field val (tag [''pg'', ''port''] (Some ''POSTGRES_PORT'') (Some port)),
     pg_Database = text_field val (tag [''pg'', ''database''] (Some ''POSTGRES_DB'') (Some ''postgres'')),
     pg_User = text_field val (tag [''pg'', ''user''] (Some ''POSTGRES_USER'') (Some ''admin'')),
     pg_Password = text_field val (tag [''pg'', ''password''] (Some ''POSTGRES_PASSWORD'') (Some ''secret'')),
     pg_SSLMode = text_field val (tag [''pg'', ''sslmode''] (Some ''POSTGRES_SSLMODE'') (Some ''disable''))\<rparr>"

definition DSN :: "pg_config \<Rightarrow> string" where
  "DSN c = ''host='' @ pg_Host c @ '' port='' @ pg_Port c @ '' dbname='' @ pg_Database c @ '' user='' @ pg_User c
     @ '' password='' @ pg_Password c @ '' sslmode='' @ pg_SSLMode c"

text \<open>The inventory service adds the size of the pool; \<open>%d\<close> of a positive number are its digits.\<close>

fun decimal :: "nat \<Rightarrow> string" where
  "decimal n = (if n < 10 then [char_of (48 + n)] else decimal (n div 10) @ [char_of (48 + n mod 10)])"

declare decimal.simps [simp del]

record pool_config = pg_config +
  pg_MaxConns :: int

definition inventory_DSN :: "pool_config \<Rightarrow> string" where
  "inventory_DSN c =
    (let dsn = DSN (pg_config.truncate c)
     in if pg_MaxConns c > 0 then dsn @ '' pool_max_conns='' @ decimal (nat (pg_MaxConns c)) else dsn)"

subsection \<open>The five structs\<close>

definition read_level :: "string \<Rightarrow> (cfg_tag \<Rightarrow> string option) \<Rightarrow> string" where
  "read_level level val = text_field val (tag [''logger'', ''level''] (Some ''LOGGER_LEVEL'') (Some level))"

definition read_brokers :: "'f cleanenv \<Rightarrow> (cfg_tag \<Rightarrow> string option) \<Rightarrow> string list" where
  "read_brokers C val =
    (case val (tag [''kafka'', ''brokers''] (Some ''KAFKA_BROKERS'') (Some ''localhost:9092'')) of
       None \<Rightarrow> [] | Some s \<Rightarrow> ce_split C s)"

text \<open>A topic and a consumer group; the producers only have the topic.\<close>

record topic_config =
  to_TopicName :: string
  to_Group :: string

record order_client_config =
  oc_InventoryAddress :: string
  oc_PaymentAddress :: string
  oc_IAMAddress :: string

definition read_order_client :: "(cfg_tag \<Rightarrow> string option) \<Rightarrow> order_client_config" where
  "read_order_client val =
    \<lparr>oc_InventoryAddress = text_field val (tag [''client'', ''inventory_address''] (Some ''INVENTORY_ADDRESS'') (Some ''localhost:50051'')),
     oc_PaymentAddress = text_field val (tag [''client'', ''payment_address''] (Some ''PAYMENT_ADDRESS'') (Some ''localhost:50052'')),
     oc_IAMAddress = text_field val (tag [''client'', ''iam_address''] (Some ''IAM_ADDRESS'') (Some ''localhost:50053''))\<rparr>"

record rate_limit =
  rl_RedisAddress :: string
  rl_Rate :: int
  rl_Burst :: int

definition read_rate_limit :: "'f cleanenv \<Rightarrow> (cfg_tag \<Rightarrow> string option) \<Rightarrow> rate_limit option" where
  "read_rate_limit C val =
    (case (parsed_field (ce_int C) 0 val (tag [''rate_limit'', ''rate''] (Some ''REDIS_RATE_LIMIT_RATE'') None),
           parsed_field (ce_int C) 0 val (tag [''rate_limit'', ''burst''] (Some ''REDIS_RATE_LIMIT_BURST'') None)) of
       (Some rate, Some burst) \<Rightarrow> Some
         \<lparr>rl_RedisAddress = text_field val (tag [''rate_limit'', ''redis_address''] (Some ''REDIS_RATE_LIMIT_ADDRESS'') None),
          rl_Rate = rate, rl_Burst = burst\<rparr>
     | _ \<Rightarrow> None)"

definition read_ship_assembled_consumer :: "(cfg_tag \<Rightarrow> string option) \<Rightarrow> topic_config" where
  "read_ship_assembled_consumer val =
    \<lparr>to_TopicName = text_field val (tag [''ship_assembled_consumer'', ''topic_name''] (Some ''SHIP_ASSEMBLED_TOPIC_NAME'')
        (Some ''assembly.ship-assembled'')),
     to_Group = text_field val (tag [''ship_assembled_consumer'', ''group''] (Some ''SHIP_ASSEMBLED_CONSUMER_GROUP_ID'')
        (Some ''order-service-ship-assembled-consumer''))\<rparr>"

definition read_order_paid_producer :: "(cfg_tag \<Rightarrow> string option) \<Rightarrow> string" where
  "read_order_paid_producer val =
    text_field val (tag [''order_paid_producer'', ''topic_name''] (Some ''ORDER_PAID_TOPIC_NAME'') (Some ''order.paid''))"

record order_config =
  or_Env :: env_config
  or_HTTP :: server_config
  or_Client :: order_client_config
  or_LoggerLevel :: string
  or_PG :: pg_config
  or_Brokers :: "string list"
  or_ShipAssembledConsumer :: topic_config
  or_OrderPaidTopic :: string
  or_RateLimit :: rate_limit
  or_Otel :: otel_config

definition read_order_config :: "'f cleanenv \<Rightarrow> (cfg_tag \<Rightarrow> string option) \<Rightarrow> order_config option" where
  "read_order_config C val =
    (case (read_rate_limit C val, read_otel C val) of
       (Some rateLimit, Some otel) \<Rightarrow> Some
         \<lparr>or_Env = read_env val, or_HTTP = read_server ''http'' ''HTTP_HOST'' ''HTTP_PORT'' ''8080'' val,
          or_Client = read_order_client val, or_LoggerLevel = read_level ''debug'' val, or_PG = read_pg ''5432'' val,
          or_Brokers = read_brokers C val, or_ShipAssembledConsumer = read_ship_assembled_consumer val,
          or_OrderPaidTopic = read_order_paid_producer val, or_RateLimit = rateLimit, or_Otel = otel\<rparr>
     | _ \<Rightarrow> None)"

record inventory_config =
  iv_Env :: env_config
  iv_GRPC :: server_config
  iv_LoggerLevel :: string
  iv_PG :: pool_config
  iv_IAMAddress :: string
  iv_Otel :: otel_config

definition read_inventory_config :: "'f cleanenv \<Rightarrow> (cfg_tag \<Rightarrow> string option) \<Rightarrow> inventory_config option" where
  "read_inventory_config C val =
    (case (parsed_field (ce_int C) 0 val (tag [''pg'', ''max_conns''] (Some ''POSTGRES_MAX_CONNS'') (Some ''25'')),
           read_otel C val) of
       (Some maxConns, Some otel) \<Rightarrow> Some
         \<lparr>iv_Env = read_env val, iv_GRPC = read_server ''grpc'' ''GRPC_HOST'' ''GRPC_PORT'' ''50051'' val,
          iv_LoggerLevel = read_level ''info'' val,
          iv_PG = pg_config.extend (read_pg ''5432'' val) \<lparr>pg_MaxConns = maxConns\<rparr>,
          iv_IAMAddress = text_field val (tag [''client'', ''iam_address''] (Some ''IAM_ADDRESS'') (Some ''localhost:50053'')),
          iv_Otel = otel\<rparr>
     | _ \<Rightarrow> None)"

record redis_config =
  rd_Address :: server_config
  rd_ConnectionTimeout :: duration
  rd_MaxIdle :: int
  rd_IdleTimeout :: duration
  rd_CacheTTL :: duration

definition read_redis :: "'f cleanenv \<Rightarrow> (cfg_tag \<Rightarrow> string option) \<Rightarrow> redis_config option" where
  "read_redis C val =
    (case (parsed_field (ce_duration C) 0 val (tag [''redis'', ''connection_timeout''] (Some ''REDIS_CONNECTION_TIMEOUT'') (Some ''10s'')),
           parsed_field (ce_int C) 0 val (tag [''redis'', ''max_idle''] (Some ''REDIS_MAX_IDLE'') (Some ''10'')),
           parsed_field (ce_duration C) 0 val (tag [''redis'', ''idle_timeout''] (Some ''REDIS_IDLE_TIMEOUT'') (Some ''10s'')),
           parsed_field (ce_duration C) 0 val (tag [''redis'', ''cache_ttl''] (Some ''REDIS_CACHE_TTL'') (Some ''1h''))) of
       (Some timeout, Some maxIdle, Some idle, Some ttl) \<Rightarrow> Some
         \<lparr>rd_Address = read_server ''redis'' ''REDIS_HOST'' ''REDIS_PORT'' ''6379'' val, rd_ConnectionTimeout = timeout,
          rd_MaxIdle = maxIdle, rd_IdleTimeout = idle, rd_CacheTTL = ttl\<rparr>
     | _ \<Rightarrow> None)"

record iam_config =
  ia_Env :: env_config
  ia_GRPC :: server_config
  ia_LoggerLevel :: string
  ia_PG :: pg_config
  ia_Redis :: redis_config
  ia_SessionTTL :: duration
  ia_Otel :: otel_config

definition read_iam_config :: "'f cleanenv \<Rightarrow> (cfg_tag \<Rightarrow> string option) \<Rightarrow> iam_config option" where
  "read_iam_config C val =
    (case (read_redis C val,
           parsed_field (ce_duration C) 0 val (tag [''session'', ''ttl''] (Some ''SESSION_TTL'') (Some ''24h'')),
           read_otel C val) of
       (Some redis, Some ttl, Some otel) \<Rightarrow> Some
         \<lparr>ia_Env = read_env val, ia_GRPC = read_server ''grpc'' ''GRPC_HOST'' ''GRPC_PORT'' ''50053'' val,
          ia_LoggerLevel = read_level ''debug'' val, ia_PG = read_pg ''55434'' val, ia_Redis = redis,
          ia_SessionTTL = ttl, ia_Otel = otel\<rparr>
     | _ \<Rightarrow> None)"

record payment_config =
  pa_Env :: env_config
  pa_GRPC :: server_config
  pa_LoggerLevel :: string
  pa_Otel :: otel_config

definition read_payment_config :: "'f cleanenv \<Rightarrow> (cfg_tag \<Rightarrow> string option) \<Rightarrow> payment_config option" where
  "read_payment_config C val =
    (case read_otel C val of
       None \<Rightarrow> None
     | Some otel \<Rightarrow> Some
         \<lparr>pa_Env = read_env val, pa_GRPC = read_server ''grpc'' ''GRPC_HOST'' ''GRPC_PORT'' ''50052'' val,
          pa_LoggerLevel = read_level ''info'' val, pa_Otel = otel\<rparr>)"

record assembly_config =
  as_Env :: env_config
  as_Brokers :: "string list"
  as_LoggerLevel :: string
  as_OrderPaidConsumer :: topic_config
  as_ShipAssembledTopic :: string
  as_Otel :: otel_config

definition read_order_paid_consumer :: "(cfg_tag \<Rightarrow> string option) \<Rightarrow> topic_config" where
  "read_order_paid_consumer val =
    \<lparr>to_TopicName = text_field val (tag [''order_paid_consumer'', ''topic_name''] (Some ''ORDER_PAID_TOPIC_NAME'') (Some ''order.paid'')),
     to_Group = text_field val (tag [''order_paid_consumer'', ''group''] (Some ''ORDER_PAID_CONSUMER_GROUP_ID'')
        (Some ''assembly-service-order-paid-consumer''))\<rparr>"

definition read_ship_assembled_producer :: "(cfg_tag \<Rightarrow> string option) \<Rightarrow> string" where
  "read_ship_assembled_producer val =
    text_field val (tag [''ship_assembled_producer'', ''topic_name''] (Some ''SHIP_ASSEMBLED_TOPIC_NAME'') (Some ''assembly.ship-assembled''))"

definition read_assembly_config :: "'f cleanenv \<Rightarrow> (cfg_tag \<Rightarrow> string option) \<Rightarrow> assembly_config option" where
  "read_assembly_config C val =
    (case read_otel C val of
       None \<Rightarrow> None
     | Some otel \<Rightarrow> Some
         \<lparr>as_Env = read_env val, as_Brokers = read_brokers C val, as_LoggerLevel = read_level ''debug'' val,
          as_OrderPaidConsumer = read_order_paid_consumer val,
          as_ShipAssembledTopic = read_ship_assembled_producer val, as_Otel = otel\<rparr>)"

subsection \<open>Loading\<close>

definition ResolveConfigPath :: "string \<Rightarrow> environment \<Rightarrow> string" where
  "ResolveConfigPath cfgFlag E =
    (if cfgFlag \<noteq> '''' then cfgFlag
     else case E ''CONFIG_PATH'' of
         Some envPath \<Rightarrow> if envPath \<noteq> '''' then envPath else ''config.local.yaml''
       | None \<Rightarrow> ''config.local.yaml'')"

text \<open>
  The body of \<open>Load\<close> is the same in every service but for the struct. A list in the file stands for its
  entries separated by commas.
\<close>

definition load_config :: "'f cleanenv \<Rightarrow> ((cfg_tag \<Rightarrow> string option) \<Rightarrow> 'c option) \<Rightarrow> string \<Rightarrow> environment \<Rightarrow> ('c, 'e) res" where
  "load_config C read path E =
    (if path \<noteq> '''' then
       (case ce_read C path of
          None \<Rightarrow> Err (Wrap ''failed to load config from'' (Ext (Foreign path)))
        | Some f \<Rightarrow> (case read (ce_value C f E) of
            None \<Rightarrow> Err (Wrap ''failed to load config from'' (Ext (Foreign path)))
          | Some cfg \<Rightarrow> Ret cfg))
     else
       (case read (ce_value C (ce_no_file C) E) of
          None \<Rightarrow> Err (Wrap ''failed to load config from env'' (Ext (Foreign path)))
        | Some cfg \<Rightarrow> Ret cfg))"

definition order_Load :: "'f cleanenv \<Rightarrow> string \<Rightarrow> environment \<Rightarrow> (order_config, 'e) res" where
  "order_Load C path E = load_config C (read_order_config C) path E"

definition inventory_Load :: "'f cleanenv \<Rightarrow> string \<Rightarrow> environment \<Rightarrow> (inventory_config, 'e) res" where
  "inventory_Load C path E = load_config C (read_inventory_config C) path E"

definition iam_Load :: "'f cleanenv \<Rightarrow> string \<Rightarrow> environment \<Rightarrow> (iam_config, 'e) res" where
  "iam_Load C path E = load_config C (read_iam_config C) path E"

definition payment_Load :: "'f cleanenv \<Rightarrow> string \<Rightarrow> environment \<Rightarrow> (payment_config, 'e) res" where
  "payment_Load C path E = load_config C (read_payment_config C) path E"

definition assembly_Load :: "'f cleanenv \<Rightarrow> string \<Rightarrow> environment \<Rightarrow> (assembly_config, 'e) res" where
  "assembly_Load C path E = load_config C (read_assembly_config C) path E"

text \<open>\<open>MustLoad\<close> sets the package variable or panics.\<close>

definition MustLoad :: "(string \<Rightarrow> environment \<Rightarrow> ('c, 'e) res) \<Rightarrow> string \<Rightarrow> environment \<Rightarrow> ('c option, unit, 'e) act" where
  "MustLoad load cfgFlag E appConfig =
    (case load (ResolveConfigPath cfgFlag E) E of
       Ret cfg \<Rightarrow> (Ret (), Some cfg)
     | Err err \<Rightarrow> (Panic ''failed to load config'', appConfig)
     | Panic p \<Rightarrow> (Panic p, appConfig))"

subsection \<open>Settings handed to the platform\<close>

definition logger_config_of :: "string \<Rightarrow> env_config \<Rightarrow> otel_config \<Rightarrow> logger_config" where
  "logger_config_of level env otel =
    \<lparr>lc_Level = level, lc_ServiceName = en_ServiceName env, lc_Environment = en_AppEnv env,
     lc_EnableOTLP = ot_EnableOTLP otel, lc_CollectorEndpoint = ot_Endpoint otel\<rparr>"

text \<open>The sampling ratio is not set here, so it is the zero value.\<close>

definition tracer_config_of :: "env_config \<Rightarrow> otel_config \<Rightarrow> tracer_config" where
  "tracer_config_of env otel =
    \<lparr>tc_CollectorEndpoint = ot_Endpoint otel, tc_ServiceName = en_ServiceName env, tc_Environment = en_AppEnv env,
     tc_ServiceVersion = en_ServiceVersion env, tc_SamplingRatio = 0\<rparr>"

definition metrics_config_of :: "string \<Rightarrow> env_config \<Rightarrow> otel_config \<Rightarrow> metrics_config" where
  "metrics_config_of instanceID env otel =
    \<lparr>mc_ServiceName = en_ServiceName env, mc_Environment = en_AppEnv env, mc_InstanceID = instanceID,
     mc_CollectorEndpoint = ot_Endpoint otel\<rparr>"

definition iam_redis_options :: "redis_config \<Rightarrow> redis_options" where
  "iam_redis_options c =
    \<lparr>ro_Addr = Address (rd_Address c), ro_DialTimeout = rd_ConnectionTimeout c, ro_ReadTimeout = rd_ConnectionTimeout c,
     ro_WriteTimeout = rd_ConnectionTimeout c, ro_ContextTimeoutEnabled = False, ro_MaxIdleConns = rd_MaxIdle c,
     ro_ConnMaxIdleTime = rd_IdleTimeout c\<rparr>"

definition order_redis_options :: "rate_limit \<Rightarrow> redis_options" where
  "order_redis_options c =
    \<lparr>ro_Addr = rl_RedisAddress c, ro_DialTimeout = 0, ro_ReadTimeout = 0, ro_WriteTimeout = 0,
     ro_ContextTimeoutEnabled = False, ro_MaxIdleConns = 0, ro_ConnMaxIdleTime = 0\<rparr>"

text \<open>
  The tracer of every service samples all traces: no entry of a configuration reaches the ratio.
\<close>

lemma sampling_not_configurable:
  "InitTracer L (tracer_config_of env otel) g = (Ret tp, g') \<Longrightarrow> tp_ratio tp = 1"
  by (auto simp: InitTracer_def tracer_config_of_def Let_def split: option.splits)

lemma rate_limiter_timeouts:
  "ro_DialTimeout (applyDefaults (order_redis_options c)) = 5 * second"
  "ro_ReadTimeout (applyDefaults (order_redis_options c)) = 3 * second"
  "ro_WriteTimeout (applyDefaults (order_redis_options c)) = 3 * second"
  by (simp_all add: applyDefaults_def order_redis_options_def)

subsection \<open>Priorities\<close>

lemma cleanenv_env: "cleanenv_ok C \<Longrightarrow> ct_env t = Some k \<Longrightarrow> E k = Some v \<Longrightarrow> ce_value C f E t = Some v"
  by (simp add: cleanenv_ok_def)

lemma cleanenv_default:
  "cleanenv_ok C \<Longrightarrow> ct_env t = None \<or> E (the (ct_env t)) = None \<Longrightarrow> ce_yaml C f (ct_yaml t) = None \<Longrightarrow>
     ce_value C f E t = ct_default t"
  unfolding cleanenv_ok_def by blast

text \<open>A value that is not in the file depends on the variable and the default alone.\<close>

lemma text_field_env:
  assumes "cleanenv_ok C" "ce_yaml C f path = None"
  shows "text_field (ce_value C f E) (tag path (Some k) (Some d)) = (case E k of Some v \<Rightarrow> v | None \<Rightarrow> d)"
proof (cases "E k")
  case None
  then have "ce_value C f E (tag path (Some k) (Some d)) = Some d"
    using cleanenv_default [OF assms(1), of "tag path (Some k) (Some d)" E f] assms(2) by (simp add: tag_def)
  with None show ?thesis by (simp add: text_field_def)
next
  case (Some v)
  then show ?thesis
    using cleanenv_env [OF assms(1), of "tag path (Some k) (Some d)" k E v f] by (simp add: tag_def text_field_def)
qed

lemma brokers_env:
  assumes "cleanenv_ok C" "ce_yaml C f [''kafka'', ''brokers''] = None"
  shows "read_brokers C (ce_value C f E) = ce_split C (case E ''KAFKA_BROKERS'' of Some v \<Rightarrow> v | None \<Rightarrow> ''localhost:9092'')"
proof -
  let ?t = "tag [''kafka'', ''brokers''] (Some ''KAFKA_BROKERS'') (Some ''localhost:9092'')"
  have "ce_value C f E ?t = Some (case E ''KAFKA_BROKERS'' of Some v \<Rightarrow> v | None \<Rightarrow> ''localhost:9092'')"
    using cleanenv_env [OF assms(1), of ?t "''KAFKA_BROKERS''" E _ f] cleanenv_default [OF assms(1), of ?t E f] assms(2)
    by (cases "E ''KAFKA_BROKERS''") (simp_all add: tag_def)
  then show ?thesis by (simp add: read_brokers_def)
qed

lemma load_config_file:
  assumes "load_config C read path E = Ret cfg" "cleanenv_ok C"
  obtains f where "read (ce_value C f E) = Some cfg" "ce_read C path = Some f \<or> f = ce_no_file C"
  using assms(1) by (auto simp: load_config_def split: if_splits option.splits)

text \<open>A configuration file without the given entries.\<close>

definition silent_on :: "'f cleanenv \<Rightarrow> string \<Rightarrow> string list list \<Rightarrow> bool" where
  "silent_on C path entries \<longleftrightarrow> (\<forall>f. ce_read C path = Some f \<longrightarrow> list_all (\<lambda>p. ce_yaml C f p = None) entries)"

lemma load_silent:
  assumes "load_config C read path E = Ret cfg" "cleanenv_ok C" "silent_on C path entries"
  obtains f where "read (ce_value C f E) = Some cfg" "list_all (\<lambda>p. ce_yaml C f p = None) entries"
proof -
  obtain f where f: "read (ce_value C f E) = Some cfg" "ce_read C path = Some f \<or> f = ce_no_file C"
    using load_config_file [OF assms(1,2)] .
  moreover have "list_all (\<lambda>p. ce_yaml C f p = None) entries"
    using f(2) assms(2,3) by (auto simp: silent_on_def cleanenv_ok_def list_all_iff)
  ultimately show thesis using that by blast
qed

lemma read_config_Some:
  "read_order_config C val = Some oc \<Longrightarrow> or_Brokers oc = read_brokers C val \<and> or_Client oc = read_order_client val
    \<and> or_OrderPaidTopic oc = read_order_paid_producer val \<and> or_ShipAssembledConsumer oc = read_ship_assembled_consumer val"
  "read_assembly_config C val = Some ac \<Longrightarrow> as_Brokers ac = read_brokers C val
    \<and> as_OrderPaidConsumer ac = read_order_paid_consumer val \<and> as_ShipAssembledTopic ac = read_ship_assembled_producer val"
  "read_inventory_config C val = Some ic \<Longrightarrow> iv_GRPC ic = read_server ''grpc'' ''GRPC_HOST'' ''GRPC_PORT'' ''50051'' val
    \<and> iv_IAMAddress ic = text_field val (tag [''client'', ''iam_address''] (Some ''IAM_ADDRESS'') (Some ''localhost:50053''))"
  "read_payment_config C val = Some pc \<Longrightarrow> pa_GRPC pc = read_server ''grpc'' ''GRPC_HOST'' ''GRPC_PORT'' ''50052'' val"
  "read_iam_config C val = Some mc \<Longrightarrow> ia_GRPC mc = read_server ''grpc'' ''GRPC_HOST'' ''GRPC_PORT'' ''50053'' val"
  by (auto simp: read_order_config_def read_assembly_config_def read_inventory_config_def read_payment_config_def
    read_iam_config_def split: option.splits)

text \<open>What each service then reads, from the environment alone.\<close>

abbreviation var_or :: "environment \<Rightarrow> string \<Rightarrow> string \<Rightarrow> string" where
  "var_or E k d \<equiv> (case E k of Some v \<Rightarrow> v | None \<Rightarrow> d)"

lemma order_settings:
  assumes C: "cleanenv_ok C" and load: "order_Load C path E = Ret oc" and silent: "silent_on C path
      [[''kafka'', ''brokers''], [''order_paid_producer'', ''topic_name''], [''ship_assembled_consumer'', ''topic_name''],
       [''ship_assembled_consumer'', ''group''], [''client'', ''inventory_address''], [''client'', ''payment_address''],
       [''client'', ''iam_address'']]"
  shows "or_Brokers oc = ce_split C (var_or E ''KAFKA_BROKERS'' ''localhost:9092'')
    \<and> or_OrderPaidTopic oc = var_or E ''ORDER_PAID_TOPIC_NAME'' ''order.paid''
    \<and> or_ShipAssembledConsumer oc = \<lparr>to_TopicName = var_or E ''SHIP_ASSEMBLED_TOPIC_NAME'' ''assembly.ship-assembled'',
        to_Group = var_or E ''SHIP_ASSEMBLED_CONSUMER_GROUP_ID'' ''order-service-ship-assembled-consumer''\<rparr>
    \<and> or_Client oc = \<lparr>oc_InventoryAddress = var_or E ''INVENTORY_ADDRESS'' ''localhost:50051'',
        oc_PaymentAddress = var_or E ''PAYMENT_ADDRESS'' ''localhost:50052'', oc_IAMAddress = var_or E ''IAM_ADDRESS'' ''localhost:50053''\<rparr>"
proof -
  obtain f where f: "read_order_config C (ce_value C f E) = Some oc" and empty: "list_all (\<lambda>p. ce_yaml C f p = None) 
      [[''kafka'', ''brokers''], [''order_paid_producer'', ''topic_name''], [''ship_assembled_consumer'', ''topic_name''],
       [''ship_assembled_consumer'', ''group''], [''client'', ''inventory_address''], [''client'', ''payment_address''],
       [''client'', ''iam_address'']]"
    using load_silent [OF load [unfolded order_Load_def] C silent] .
  show ?thesis
    using read_config_Some(1) [OF f] empty
    by (simp add: text_field_env [OF C] brokers_env [OF C] read_order_paid_producer_def read_ship_assembled_consumer_def read_order_client_def)
qed

lemma assembly_settings:
  assumes C: "cleanenv_ok C" and load: "assembly_Load C path E = Ret ac" and silent: "silent_on C path
      [[''kafka'', ''brokers''], [''order_paid_consumer'', ''topic_name''], [''order_paid_consumer'', ''group''],
       [''ship_assembled_producer'', ''topic_name'']]"
  shows "as_Brokers ac = ce_split C (var_or E ''KAFKA_BROKERS'' ''localhost:9092'')
    \<and> as_ShipAssembledTopic ac = var_or E ''SHIP_ASSEMBLED_TOPIC_NAME'' ''assembly.ship-assembled''
    \<and> as_OrderPaidConsumer ac = \<lparr>to_TopicName = var_or E ''ORDER_PAID_TOPIC_NAME'' ''order.paid'',
        to_Group = var_or E ''ORDER_PAID_CONSUMER_GROUP_ID'' ''assembly-service-order-paid-consumer''\<rparr>"
proof -
  obtain f where f: "read_assembly_config C (ce_value C f E) = Some ac" and empty: "list_all (\<lambda>p. ce_yaml C f p = None) 
      [[''kafka'', ''brokers''], [''order_paid_consumer'', ''topic_name''], [''order_paid_consumer'', ''group''],
       [''ship_assembled_producer'', ''topic_name'']]"
    using load_silent [OF load [unfolded assembly_Load_def] C silent] .
  show ?thesis
    using read_config_Some(2) [OF f] empty
    by (simp add: text_field_env [OF C] brokers_env [OF C] read_order_paid_consumer_def read_ship_assembled_producer_def)
qed

lemma grpc_settings:
  assumes C: "cleanenv_ok C"
  shows "inventory_Load C path E = Ret ic \<Longrightarrow>
      silent_on C path [[''grpc'', ''host''], [''grpc'', ''port''], [''client'', ''iam_address'']] \<Longrightarrow>
      iv_GRPC ic = \<lparr>sc_Host = var_or E ''GRPC_HOST'' ''localhost'', sc_Port = var_or E ''GRPC_PORT'' ''50051''\<rparr>
      \<and> iv_IAMAddress ic = var_or E ''IAM_ADDRESS'' ''localhost:50053''"
    and "payment_Load C path E = Ret pc \<Longrightarrow> silent_on C path [[''grpc'', ''host''], [''grpc'', ''port'']] \<Longrightarrow>
      pa_GRPC pc = \<lparr>sc_Host = var_or E ''GRPC_HOST'' ''localhost'', sc_Port = var_or E ''GRPC_PORT'' ''50052''\<rparr>"
    and "iam_Load C path E = Ret mc \<Longrightarrow> silent_on C path [[''grpc'', ''host''], [''grpc'', ''port'']] \<Longrightarrow>
      ia_GRPC mc = \<lparr>sc_Host = var_or E ''GRPC_HOST'' ''localhost'', sc_Port = var_or E ''GRPC_PORT'' ''50053''\<rparr>"
  unfolding inventory_Load_def payment_Load_def iam_Load_def
  by (erule (1) load_silent [OF _ C], drule read_config_Some, simp add: read_server_def text_field_env [OF C])+


text \<open>A library for the witness: every file is empty.\<close>

definition demo_cleanenv :: "(string list \<rightharpoonup> string) cleanenv" where
  "demo_cleanenv =
    \<lparr>ce_read = (\<lambda>path. Some Map.empty), ce_no_file = Map.empty, ce_yaml = (\<lambda>f p. f p),
     ce_value = (\<lambda>f E t. case (case ct_env t of Some k \<Rightarrow> E k | None \<Rightarrow> None) of
        Some v \<Rightarrow> Some v
      | None \<Rightarrow> (case f (ct_yaml t) of Some v \<Rightarrow> Some v | None \<Rightarrow> ct_default t)),
     ce_int = Atoi, ce_bool = (\<lambda>s. Some (s = ''true'')), ce_duration = (\<lambda>s. Some 10), ce_split = (\<lambda>s. [s])\<rparr>"

lemma demo_cleanenv_ok: "cleanenv_ok demo_cleanenv"
  by (auto simp: cleanenv_ok_def demo_cleanenv_def split: option.splits)

lemma demo_silent: "silent_on demo_cleanenv path entries"
  by (simp add: silent_on_def demo_cleanenv_def list_all_iff)


end
