(* ===== verification/App_Main.thy ===== *)
theory App_Main
  imports App_Wiring App_Config
begin

text \<open>
  The main functions of the five services (\<open>cmd/main.go\<close>): the optional environment file, the
  configuration, \<open>New\<close> and \<open>Run\<close>.

  A process ends with a panic (the configuration did not load), with \<open>os.Exit(1)\<close> and a logged message
  (a dependency could not be created), or by returning from \<open>main\<close>, which logs the error of \<open>Run\<close>.
  \<open>godotenv.Load\<close> adds the variables of a file and does not override those that are set.
\<close>

datatype 'e process_end = Panicked string | Exited string | Returned "'e err option"

definition godotenv_Load :: "environment option \<Rightarrow> environment \<Rightarrow> environment" where
  "godotenv_Load envFile E =
    (case envFile of None \<Rightarrow> E | Some f \<Rightarrow> (\<lambda>k. case E k of Some v \<Rightarrow> Some v | None \<Rightarrow> f k))"

definition main_of ::
    "(string \<Rightarrow> environment \<Rightarrow> ('c, 'e) res) \<Rightarrow> (string + 'b) \<Rightarrow> ('b \<Rightarrow> string + 'e err option)
      \<Rightarrow> environment option \<Rightarrow> string \<Rightarrow> environment \<Rightarrow> 'e process_end" where
  "main_of load New Run envFile cfgFlag E =
    (case MustLoad load cfgFlag (godotenv_Load envFile E) None of
       (Panic p, _) \<Rightarrow> Panicked p
     | (Err err, _) \<Rightarrow> Panicked ''failed to load config''
     | (Ret _, _) \<Rightarrow>
         (case New of
            Inl msg \<Rightarrow> Exited msg
          | Inr app \<Rightarrow> (case Run app of Inl msg \<Rightarrow> Exited msg | Inr err \<Rightarrow> Returned err)))"

text \<open>\<open>Run\<close> of IAM and payment is the text of the inventory service.\<close>

definition iam_Run :: "'e run_event \<Rightarrow> ('w, 'e) closer \<Rightarrow> 'w \<Rightarrow> ('w, 'e) closer \<times> 'w \<times> 'e err option" where
  "iam_Run ev = grpc_Run ev"

definition payment_Run :: "'e run_event \<Rightarrow> ('w, 'e) closer \<Rightarrow> 'w \<Rightarrow> ('w, 'e) closer \<times> 'w \<times> 'e err option" where
  "payment_Run ev = grpc_Run ev"

text \<open>The result of \<open>Run\<close>, which first creates what its goroutine needs.\<close>

definition run_with ::
    "('w, 'e) start \<Rightarrow> (('w, 'e) closer \<Rightarrow> 'w \<Rightarrow> ('w, 'e) closer \<times> 'w \<times> 'e err option) \<Rightarrow> 'w
      \<Rightarrow> ('w, 'e) boot \<Rightarrow> string + 'e err option" where
  "run_with first run w app =
    (case first app of Inl msg \<Rightarrow> Inl msg | Inr (_, app') \<Rightarrow> Inr (snd (snd (run (boot_closer app') w))))"

definition order_main ::
    "'f cleanenv \<Rightarrow> ('w, 'e) host \<Rightarrow> 'e run_event \<Rightarrow> 'w \<Rightarrow> environment option \<Rightarrow> string \<Rightarrow> environment \<Rightarrow> 'e process_end" where
  "order_main C H ev w = main_of (order_Load C) (order_New H) (run_with (order_runConsumer H) (order_Run ev) w)"

definition inventory_main ::
    "'f cleanenv \<Rightarrow> ('w, 'e) host \<Rightarrow> 'e run_event \<Rightarrow> 'w \<Rightarrow> environment option \<Rightarrow> string \<Rightarrow> environment \<Rightarrow> 'e process_end" where
  "inventory_main C H ev w =
    main_of (inventory_Load C) (inventory_New H) (run_with (give (Built ''server'' [])) (grpc_Run ev) w)"

definition iam_main ::
    "'f cleanenv \<Rightarrow> ('w, 'e) host \<Rightarrow> 'e run_event \<Rightarrow> 'w \<Rightarrow> environment option \<Rightarrow> string \<Rightarrow> environment \<Rightarrow> 'e process_end" where
  "iam_main C H ev w = main_of (iam_Load C) (iam_New H) (run_with (give (Built ''server'' [])) (iam_Run ev) w)"

definition payment_main ::
    "'f cleanenv \<Rightarrow> ('w, 'e) host \<Rightarrow> 'e run_event \<Rightarrow> 'w \<Rightarrow> environment option \<Rightarrow> string \<Rightarrow> environment \<Rightarrow> 'e process_end" where
  "payment_main C H ev w =
    main_of (payment_Load C) (payment_New H) (run_with (give (Built ''server'' [])) (payment_Run ev) w)"

definition assembly_main ::
    "'f cleanenv \<Rightarrow> ('w, 'e) host \<Rightarrow> 'e err option option \<Rightarrow> 'w \<Rightarrow> environment option \<Rightarrow> string \<Rightarrow> environment \<Rightarrow> 'e process_end" where
  "assembly_main C H ev w =
    main_of (assembly_Load C) (assembly_New_boot H) (run_with (assembly_runConsumer H) (assembly_Run ev) w)"

text \<open>
  No dependency is created before the configuration is loaded: without one the process panics whatever
  the state of its surroundings, and an exit has a failing library call behind it.
\<close>

lemma main_needs_config:
  assumes "\<And>cfg. load (ResolveConfigPath cfgFlag (godotenv_Load envFile E)) (godotenv_Load envFile E) \<noteq> Ret cfg"
  shows "\<exists>p. main_of load New Run envFile cfgFlag E = Panicked p"
  using assms by (auto simp: main_of_def MustLoad_def split: res.splits)

lemma order_main_fine:
  assumes "\<And>call. host_ok H call"
    and "order_Load C (ResolveConfigPath cfgFlag (godotenv_Load envFile E)) (godotenv_Load envFile E) = (Ret cfg :: (_, 'e) res)"
  shows "\<exists>c. order_main C (H :: ('w, 'e) host) ev w envFile cfgFlag E = Returned (snd (snd (order_Run ev c w)))
    \<and> map cf_name (cl_funcs c) =
       [''Logger'', ''Metrics'', ''Tracer'', ''IAMService grpc client'', ''Redis'', ''PostgreSQL pool'',
        ''Kafka sync producer'', ''InventoryService grpc client'', ''PaymentService grpc client'', ''http server'',
        ''Kafka consumer group'']"
  using order_started [OF assms(1)] assms(2)
  by (auto simp: order_main_def main_of_def MustLoad_def run_with_def start_closers_def with_consumer_def closer_names_def
    split: sum.splits prod.splits)

lemma envFile_keeps_variables: "E k = Some v \<Longrightarrow> godotenv_Load envFile E k = Some v"
  by (simp add: godotenv_Load_def split: option.splits)

end
