(* ===== verification/App_Transport.thy ===== *)
theory App_Transport
  imports Platform_Setup App_Config
begin

text \<open>
  How the services set up their connections: the keepalive parameters of the gRPC servers
  (initGRPCServer of src/inventory, src/iam and src/payment, and the servers of their pkg/app) and of
  the gRPC clients (newGRPCConnection of src/order and src/inventory), and the sarama settings of the
  Kafka producers and consumer groups (order_paid_producer.go, ship_assembled_consumer.go of
  src/order/internal/config, order_paid_consumer.go, ship_assebled_producer.go of
  src/assembly/internal/config). What gRPC and sarama do with the settings is stated as their
  documentation does; the defaults of sarama are a parameter.
\<close>

subsection \<open>Keepalive of gRPC\<close>

abbreviation (input) minute :: duration where "minute \<equiv> 60 * second"

record server_keepalive =
  sk_MaxConnectionIdle :: duration
  sk_MaxConnectionAge :: duration
  sk_MaxConnectionAgeGrace :: duration
  sk_Time :: duration
  sk_Timeout :: duration
  sk_MinTime :: duration
  sk_PermitWithoutStream :: bool

record client_keepalive =
  ck_Time :: duration
  ck_Timeout :: duration
  ck_PermitWithoutStream :: bool

definition inventory_keepalive :: server_keepalive where
  "inventory_keepalive =
    \<lparr>sk_MaxConnectionIdle = 15 * minute, sk_MaxConnectionAge = 30 * minute, sk_MaxConnectionAgeGrace = 5 * second,
     sk_Time = 5 * minute, sk_Timeout = 1 * second, sk_MinTime = 5 * second, sk_PermitWithoutStream = True\<rparr>"

definition iam_keepalive :: server_keepalive where
  "iam_keepalive =
    \<lparr>sk_MaxConnectionIdle = 15 * minute, sk_MaxConnectionAge = 30 * minute, sk_MaxConnectionAgeGrace = 5 * second,
     sk_Time = 5 * minute, sk_Timeout = 1 * second, sk_MinTime = 5 * second, sk_PermitWithoutStream = True\<rparr>"

definition payment_keepalive :: server_keepalive where
  "payment_keepalive =
    \<lparr>sk_MaxConnectionIdle = 15 * minute, sk_MaxConnectionAge = 30 * minute, sk_MaxConnectionAgeGrace = 5 * second,
     sk_Time = 5 * minute, sk_Timeout = 1 * second, sk_MinTime = 5 * second, sk_PermitWithoutStream = True\<rparr>"

text \<open>The servers of pkg/app have the same constants; the two of inventory and payment are options.\<close>

definition inventory_pkg_keepalive :: server_keepalive where
  "inventory_pkg_keepalive =
    \<lparr>sk_MaxConnectionIdle = 15 * minute, sk_MaxConnectionAge = 30 * minute, sk_MaxConnectionAgeGrace = 5 * second,
     sk_Time = 5 * minute, sk_Timeout = 1 * second, sk_MinTime = 5 * second, sk_PermitWithoutStream = True\<rparr>"

definition iam_pkg_keepalive :: server_keepalive where
  "iam_pkg_keepalive =
    \<lparr>sk_MaxConnectionIdle = 15 * minute, sk_MaxConnectionAge = 30 * minute, sk_MaxConnectionAgeGrace = 5 * second,
     sk_Time = 5 * minute, sk_Timeout = 1 * second, sk_MinTime = 5 * second, sk_PermitWithoutStream = True\<rparr>"

definition payment_pkg_keepalive :: server_keepalive where
  "payment_pkg_keepalive =
    \<lparr>sk_MaxConnectionIdle = 15 * minute, sk_MaxConnectionAge = 30 * minute, sk_MaxConnectionAgeGrace = 5 * second,
     sk_Time = 5 * minute, sk_Timeout = 1 * second, sk_MinTime = 5 * second, sk_PermitWithoutStream = True\<rparr>"

definition order_client_keepalive :: client_keepalive where
  "order_client_keepalive = \<lparr>ck_Time = 10 * second, ck_Timeout = 3 * second, ck_PermitWithoutStream = True\<rparr>"

definition inventory_client_keepalive :: client_keepalive where
  "inventory_client_keepalive = \<lparr>ck_Time = 10 * second, ck_Timeout = 3 * second, ck_PermitWithoutStream = True\<rparr>"

text \<open>
  A client pings when nothing was received for \<open>Time\<close>, and without a call in flight only when it may; the
  waits beyond that are the list of delays. A server closes a connection on which pings come sooner than
  \<open>MinTime\<close> after each other, or without a call in flight when it does not permit that.
\<close>

fun ping_times :: "client_keepalive \<Rightarrow> duration \<Rightarrow> nat list \<Rightarrow> duration list" where
  "ping_times c t [] = []"
| "ping_times c t (d # ds) = (let t' = t + ck_Time c + int d in t' # ping_times c t' ds)"

definition pings_sent :: "client_keepalive \<Rightarrow> bool \<Rightarrow> duration \<Rightarrow> nat list \<Rightarrow> duration list" where
  "pings_sent c in_flight t ds = (if in_flight \<or> ck_PermitWithoutStream c then ping_times c t ds else [])"

fun too_soon :: "duration \<Rightarrow> duration list \<Rightarrow> bool" where
  "too_soon m (t # u # ts) = (u - t < m \<or> too_soon m (u # ts))"
| "too_soon m ts = False"

definition closes_connection :: "server_keepalive \<Rightarrow> bool \<Rightarrow> duration list \<Rightarrow> bool" where
  "closes_connection s in_flight pings =
    (pings \<noteq> [] \<and> (\<not> in_flight \<and> \<not> sk_PermitWithoutStream s \<or> too_soon (sk_MinTime s) pings))"

lemma ping_gaps: "m \<le> ck_Time c \<Longrightarrow> \<not> too_soon m (ping_times c t ds)"
proof (induction ds arbitrary: t)
  case (Cons d ds)
  then show ?case using Cons.IH [of "t + ck_Time c + int d"] by (cases ds) (auto simp: Let_def)
qed simp

lemma tolerated:
  assumes "sk_MinTime s \<le> ck_Time c" "sk_PermitWithoutStream s \<or> \<not> ck_PermitWithoutStream c"
  shows "\<not> closes_connection s in_flight (pings_sent c in_flight t ds)"
  using assms ping_gaps by (auto simp: closes_connection_def pings_sent_def)

lemmas keepalive_defs = inventory_keepalive_def iam_keepalive_def payment_keepalive_def inventory_pkg_keepalive_def
  iam_pkg_keepalive_def payment_pkg_keepalive_def order_client_keepalive_def inventory_client_keepalive_def

text \<open>No server of the system closes a connection for the pings of a client of the system.\<close>

lemma clients_tolerated:
  "list_all (\<lambda>s. list_all (\<lambda>c. \<not> closes_connection s in_flight (pings_sent c in_flight t ds))
      [order_client_keepalive, inventory_client_keepalive])
    [inventory_keepalive, iam_keepalive, payment_keepalive, inventory_pkg_keepalive, iam_pkg_keepalive, payment_pkg_keepalive]"
  by (simp add: tolerated keepalive_defs)

subsection \<open>Kafka\<close>

datatype offset_initial = OffsetNewest | OffsetOldest

record sarama_config =
  sa_Version :: string
  sa_ReturnSuccesses :: bool
  sa_GroupStrategies :: "string list"
  sa_OffsetsInitial :: offset_initial

definition order_paid_producer_SaramaConfig :: "sarama_config \<Rightarrow> sarama_config" where
  "order_paid_producer_SaramaConfig NewConfig = NewConfig\<lparr>sa_Version := ''4.0.0.0'', sa_ReturnSuccesses := True\<rparr>"

definition ship_assembled_producer_SaramaConfig :: "sarama_config \<Rightarrow> sarama_config" where
  "ship_assembled_producer_SaramaConfig NewConfig = NewConfig\<lparr>sa_Version := ''4.0.0.0'', sa_ReturnSuccesses := True\<rparr>"

definition ship_assembled_consumer_SaramaConfig :: "sarama_config \<Rightarrow> sarama_config" where
  "ship_assembled_consumer_SaramaConfig NewConfig =
    NewConfig\<lparr>sa_Version := ''4.0.0.0'', sa_GroupStrategies := [''roundrobin''], sa_OffsetsInitial := OffsetOldest\<rparr>"

definition order_paid_consumer_SaramaConfig :: "sarama_config \<Rightarrow> sarama_config" where
  "order_paid_consumer_SaramaConfig NewConfig =
    NewConfig\<lparr>sa_Version := ''4.0.0.0'', sa_GroupStrategies := [''roundrobin''], sa_OffsetsInitial := OffsetOldest\<rparr>"

text \<open>
  A synchronous producer needs the successes back. A group without a committed offset starts where the
  settings say: at the first message of the log or after its last.
\<close>

definition sync_producer_accepts :: "sarama_config \<Rightarrow> bool" where
  "sync_producer_accepts cfg = sa_ReturnSuccesses cfg"

definition start_offset :: "sarama_config \<Rightarrow> nat option \<Rightarrow> 'm list \<Rightarrow> nat" where
  "start_offset cfg committed msgs =
    (case committed of
       Some n \<Rightarrow> n
     | None \<Rightarrow> (case sa_OffsetsInitial cfg of OffsetOldest \<Rightarrow> 0 | OffsetNewest \<Rightarrow> length msgs))"

lemmas sarama_defs = order_paid_producer_SaramaConfig_def ship_assembled_producer_SaramaConfig_def
  ship_assembled_consumer_SaramaConfig_def order_paid_consumer_SaramaConfig_def

lemma producers_accepted:
  "sync_producer_accepts (order_paid_producer_SaramaConfig base)"
  "sync_producer_accepts (ship_assembled_producer_SaramaConfig base)"
  by (simp_all add: sync_producer_accepts_def sarama_defs)

text \<open>
  A consumer of either service that starts for the first time, after messages were sent, reads all of them;
  with the setting OffsetNewest it would read none.
\<close>

lemma first_start_reads_all:
  "drop (start_offset (order_paid_consumer_SaramaConfig base) None msgs) msgs = msgs"
  "drop (start_offset (ship_assembled_consumer_SaramaConfig base) None msgs) msgs = msgs"
  "sa_OffsetsInitial cfg = OffsetNewest \<Longrightarrow> drop (start_offset cfg None msgs) msgs = []"
  by (simp_all add: start_offset_def sarama_defs)

text \<open>Topic and group of the configuration values.\<close>

definition shipAssembledConsumer_Topic :: "order_config \<Rightarrow> string" where
  "shipAssembledConsumer_Topic c = to_TopicName (or_ShipAssembledConsumer c)"

definition shipAssembledConsumer_GroupID :: "order_config \<Rightarrow> string" where
  "shipAssembledConsumer_GroupID c = to_Group (or_ShipAssembledConsumer c)"

definition orderPaidProducer_Topic :: "order_config \<Rightarrow> string" where
  "orderPaidProducer_Topic c = or_OrderPaidTopic c"

definition orderPaidConsumer_Topic :: "assembly_config \<Rightarrow> string" where
  "orderPaidConsumer_Topic c = to_TopicName (as_OrderPaidConsumer c)"

definition orderPaidConsumer_GroupID :: "assembly_config \<Rightarrow> string" where
  "orderPaidConsumer_GroupID c = to_Group (as_OrderPaidConsumer c)"

definition shipAssembledProducer_Topic :: "assembly_config \<Rightarrow> string" where
  "shipAssembledProducer_Topic c = as_ShipAssembledTopic c"

end
