(* ===== verification/Platform_Tracing.thy ===== *)
theory Platform_Tracing
  imports Order_Api "HOL-Library.Word"
begin

text \<open>
  Where trace identifiers come from (\<open>platform/pkg/tracing/context.go\<close>, interceptor.go, middleware.go):
  the span context of a context, its validity and the text of a trace identifier as OpenTelemetry
  defines them. The span a context carries is a parameter.
\<close>

record span_context =
  spc_TraceID :: "128 word"
  spc_SpanID :: "64 word"

text \<open>The context without a span has the zero span context.\<close>

definition no_span :: span_context where
  "no_span = \<lparr>spc_TraceID = 0, spc_SpanID = 0\<rparr>"

definition spc_IsValid :: "span_context \<Rightarrow> bool" where
  "spc_IsValid sc \<longleftrightarrow> spc_TraceID sc \<noteq> 0 \<and> spc_SpanID sc \<noteq> 0"

definition hex_char :: "nat \<Rightarrow> char" where
  "hex_char n = char_of (if n < 10 then 48 + n else 87 + n)"

text \<open>Thirty-two lower-case hexadecimal digits, the highest first.\<close>

definition TraceID_String :: "128 word \<Rightarrow> string" where
  "TraceID_String t = map (\<lambda>i. hex_char (unat (drop_bit (4 * i) t) mod 16)) (rev [0..<32])"

definition TraceIDFromContext :: "(ctx \<Rightarrow> span_context) \<Rightarrow> ctx \<Rightarrow> string" where
  "TraceIDFromContext SpanContextFromContext c =
    (let sc = SpanContextFromContext c in if \<not> spc_IsValid sc then '''' else TraceID_String (spc_TraceID sc))"

text \<open>The HTTP middleware reads the identifier without asking whether it is valid.\<close>

definition middleware_traceID :: "(ctx \<Rightarrow> span_context) \<Rightarrow> ctx \<Rightarrow> string" where
  "middleware_traceID SpanContextFromContext c = TraceID_String (spc_TraceID (SpanContextFromContext c))"

lemma TraceID_String_length [simp]: "length (TraceID_String t) = 32"
  by (simp add: TraceID_String_def)

lemma TraceID_String_nonempty [simp]: "TraceID_String t \<noteq> []"
  by (metis TraceID_String_length list.size(3) zero_neq_numeral)

lemma TraceID_String_zero: "TraceID_String 0 = replicate 32 (CHR ''0'')"
proof -
  have "hex_char 0 = CHR ''0''" by (simp add: hex_char_def char_of_def bit_iff_odd)
  then show ?thesis by (simp add: TraceID_String_def map_replicate_const)
qed

lemma TraceIDFromContext_empty: "TraceIDFromContext S c = '''' \<longleftrightarrow> \<not> spc_IsValid (S c)"
  by (simp add: TraceIDFromContext_def Let_def)

text \<open>For a valid span the two sides name the same trace.\<close>

lemma same_trace: "spc_IsValid (S c) \<Longrightarrow> middleware_traceID S c = TraceIDFromContext S c"
  by (simp add: middleware_traceID_def TraceIDFromContext_def)

text \<open>Without a valid span the interceptor leaves the response headers of a call alone.\<close>

lemma interceptor_without_span:
  "\<not> spc_IsValid (S c) \<Longrightarrow> TraceIDUnaryServerInterceptor (TraceIDFromContext S) setHeader handler c = handler c"
  by (auto simp: TraceIDUnaryServerInterceptor_def TraceIDFromContext_def)

text \<open>
  The guard of the middleware never stops it: the text of an identifier is never empty, and a response to a
  request without a span carries the zero identifier.
\<close>

lemma middleware_always_tags:
  assumes "next r w = (Ret resp, w')"
  shows "TraceIDMiddleware (middleware_traceID S) next r w
    = (Ret (resp\<lparr>hp_headers := (''X-Trace-ID'', middleware_traceID S (hq_ctx r)) # hp_headers resp\<rparr>), w')"
    and "S (hq_ctx r) = no_span \<Longrightarrow> middleware_traceID S (hq_ctx r) = replicate 32 (CHR ''0'')"
  using assms by (simp_all add: TraceIDMiddleware_def middleware_traceID_def bindA_app ret_def no_span_def TraceID_String_zero)

end
