(* ===== verification/OpenApi_Server.thy ===== *)
theory OpenApi_Server
  imports Order_Api
begin

text \<open>
  The HTTP server ogen generated for the order API (\<open>shared/pkg/openapi/order/v1\<close>:
  oas_router_gen.go, oas_parameters_gen.go, oas_request_decoders_gen.go, oas_handlers_gen.go,
  oas_response_encoders_gen.go and notAllowed of oas_cfg_gen.go) in the configuration the order service
  gives it: an error handler, no middleware, no own not-found handler.

  Libraries are parameters (\<open>http_lib\<close>): media types, the reading and writing of JSON text, the
  normalization of escaped paths and the path codecs of ogen. A body is read as a whole: text that is
  not exactly one JSON value does not decode. Spans and metrics are in \<open>OpenApi_Telemetry\<close>; writes to a
  broken connection are not modelled.
\<close>

record http_lib =
  hl_ParseMediaType :: "string \<Rightarrow> string option"
  hl_ReadJson :: "string \<Rightarrow> json option"
  hl_WriteJson :: "json \<Rightarrow> string"
  hl_NormalizeEscapedPath :: "string \<Rightarrow> string option"
  hl_DecodeValue :: "string \<Rightarrow> string option"
  hl_EncodeValue :: "string \<Rightarrow> string"
  hl_AddPathParts :: "string \<times> string \<Rightarrow> string list \<Rightarrow> string \<times> string"
  hl_ToUpper :: "string \<Rightarrow> string"

record 'w oas_server =
  sv_prefix :: string
  sv_ErrorHandler :: "order_error err \<Rightarrow> http_resp"
  sv_CreateOrder :: "ctx \<Rightarrow> CreateOrderRequest \<Rightarrow> ('w, CreateOrderRes, order_error) act"
  sv_GetOrder :: "ctx \<Rightarrow> uuid \<Rightarrow> ('w, GetOrderRes, order_error) act"
  sv_PayOrder :: "ctx \<Rightarrow> PayOrderRequest \<Rightarrow> uuid \<Rightarrow> ('w, PayOrderRes, order_error) act"
  sv_CancelOrder :: "ctx \<Rightarrow> uuid \<Rightarrow> ('w, CancelOrderRes, order_error) act"

subsection \<open>Router\<close>

datatype operation = CancelOrder | CreateOrder | GetOrder | PayOrder

definition cutPrefix :: "string \<Rightarrow> string \<Rightarrow> string option" where
  "cutPrefix prefix path =
    (if prefix = '''' then Some path
     else if \<not> has_prefix path prefix then None
     else Some (drop (length prefix) path))"

text \<open>
  The search of the static router down to the leaf, before its switch over the methods. The argument of
  the path is what stands up to the next slash.
\<close>

definition find_leaf :: "string \<Rightarrow> (operation \<times> string) option" where
  "find_leaf elem =
    (if elem = [] then None
     else if hd elem = CHR ''/'' then
       (if has_prefix elem ''/api/v1/orders'' then
          (let elem = drop (length ''/api/v1/orders'') elem
           in if elem = [] then Some (CreateOrder, '''')
              else if hd elem = CHR ''/'' then
                (let elem = drop 1 elem;
                     arg = takeWhile (\<lambda>c. c \<noteq> CHR ''/'') elem;
                     elem = dropWhile (\<lambda>c. c \<noteq> CHR ''/'') elem
                 in if elem = [] then Some (GetOrder, arg)
                    else if hd elem = CHR ''/'' then
                      (let elem = drop 1 elem
                       in if elem = [] then None
                          else if hd elem = CHR ''c'' then
                            (if has_prefix elem ''cancel'' then
                               (let elem = drop (length ''cancel'') elem
                                in if elem = [] then Some (CancelOrder, arg) else None)
                             else None)
                          else if hd elem = CHR ''p'' then
                            (if has_prefix elem ''pay'' then
                               (let elem = drop (length ''pay'') elem
                                in if elem = [] then Some (PayOrder, arg) else None)
                             else None)
                          else None)
                    else None)
              else None)
        else None)
     else None)"

fun allowed_method :: "operation \<Rightarrow> string" where
  "allowed_method CreateOrder = ''POST''"
| "allowed_method GetOrder = ''GET''"
| "allowed_method CancelOrder = ''POST''"
| "allowed_method PayOrder = ''POST''"

text \<open>The operations with a request body accept JSON and the header Content-Type.\<close>

fun has_body :: "operation \<Rightarrow> bool" where
  "has_body CreateOrder = True"
| "has_body GetOrder = False"
| "has_body CancelOrder = False"
| "has_body PayOrder = True"

definition notAllowed :: "http_lib \<Rightarrow> operation \<Rightarrow> http_req \<Rightarrow> http_resp" where
  "notAllowed L opn r =
    (let isOptions = (hq_method r = ''OPTIONS'');
         allow_headers = (if has_body opn \<and> hq_requestMethod r \<noteq> '''' \<and> hl_ToUpper L (hq_requestMethod r) = ''POST''
           then [(''Access-Control-Allow-Headers'', ''Content-Type'')] else []);
         accept_post = (if has_body opn then [(''Accept-Post'', ''application/json'')] else [])
     in if isOptions
        then \<lparr>hp_code = 204,
              hp_headers = [(''Access-Control-Allow-Methods'', allowed_method opn)] @ allow_headers @ accept_post,
              hp_body = ''''\<rparr>
        else \<lparr>hp_code = 405, hp_headers = [(''Allow'', allowed_method opn)], hp_body = ''''\<rparr>)"

definition http_NotFound :: http_resp where
  "http_NotFound = http_Error 404 ''404 page not found''"

text \<open>The path to route, and whether it is still escaped.\<close>

definition routed_path :: "http_lib \<Rightarrow> http_req \<Rightarrow> string \<times> bool" where
  "routed_path L r =
    (if hq_rawPath r \<noteq> '''' then
       (case hl_NormalizeEscapedPath L (hq_rawPath r) of
          Some normalized \<Rightarrow> (normalized, CHR ''%'' \<in> set normalized)
        | None \<Rightarrow> (hq_path r, False))
     else (hq_path r, False))"

text \<open>FindPath: the same tree, with the method checked at the leaf and the argument unescaped.\<close>

definition hex_digit :: "char \<Rightarrow> nat option" where
  "hex_digit c = (let n = of_char c :: nat in
     if 48 \<le> n \<and> n \<le> 57 then Some (n - 48)
     else if 97 \<le> n \<and> n \<le> 102 then Some (n - 87)
     else if 65 \<le> n \<and> n \<le> 70 then Some (n - 55)
     else None)"

fun PathUnescape :: "string \<Rightarrow> string option" where
  "PathUnescape [] = Some []"
| "PathUnescape (c # s) =
    (if c = CHR ''%'' then
       (case s of
          a # b # s' \<Rightarrow>
            (case (hex_digit a, hex_digit b) of
               (Some x, Some y) \<Rightarrow> map_option ((#) (char_of (16 * x + y))) (PathUnescape s')
             | _ \<Rightarrow> None)
        | _ \<Rightarrow> None)
     else map_option ((#) c) (PathUnescape s))"

definition FindPath :: "http_lib \<Rightarrow> string \<Rightarrow> string \<Rightarrow> string \<Rightarrow> string \<Rightarrow> (operation \<times> string list) option" where
  "FindPath L prefix method path rawPath =
    (let elem = (if rawPath \<noteq> '''' then (case hl_NormalizeEscapedPath L rawPath of Some n \<Rightarrow> n | None \<Rightarrow> path) else path);
         unescape = (\<lambda>arg. if rawPath \<noteq> '''' then (case PathUnescape arg of Some u \<Rightarrow> u | None \<Rightarrow> arg) else arg)
     in case cutPrefix prefix elem of
          None \<Rightarrow> None
        | Some elem \<Rightarrow>
            (case find_leaf elem of
               None \<Rightarrow> None
             | Some (opn, arg) \<Rightarrow>
                 if method = allowed_method opn
                 then Some (opn, if opn = CreateOrder then [] else [unescape arg])
                 else None))"

subsection \<open>Parameters and requests\<close>

datatype param_error = UnescapePath | BadParam | FieldRequired

text \<open>The three parameter decoders are the same text.\<close>

definition decodeOrderUUIDParam :: "http_lib \<Rightarrow> uuid_lib \<Rightarrow> string \<Rightarrow> bool \<Rightarrow> param_error + uuid" where
  "decodeOrderUUIDParam L U arg argsEscaped =
    (case (if argsEscaped then PathUnescape arg else Some arg) of
       None \<Rightarrow> Inl UnescapePath
     | Some param \<Rightarrow>
         if length param > 0 then
           (case hl_DecodeValue L param of
              None \<Rightarrow> Inl BadParam
            | Some val \<Rightarrow> (case uuid_Parse U val of None \<Rightarrow> Inl BadParam | Some c \<Rightarrow> Inr c))
         else Inl FieldRequired)"

definition decodeCancelOrderParams :: "http_lib \<Rightarrow> uuid_lib \<Rightarrow> string \<Rightarrow> bool \<Rightarrow> param_error + uuid" where
  [simp]: "decodeCancelOrderParams L U arg argsEscaped = decodeOrderUUIDParam L U arg argsEscaped"

definition decodeGetOrderParams :: "http_lib \<Rightarrow> uuid_lib \<Rightarrow> string \<Rightarrow> bool \<Rightarrow> param_error + uuid" where
  [simp]: "decodeGetOrderParams L U arg argsEscaped = decodeOrderUUIDParam L U arg argsEscaped"

definition decodePayOrderParams :: "http_lib \<Rightarrow> uuid_lib \<Rightarrow> string \<Rightarrow> bool \<Rightarrow> param_error + uuid" where
  [simp]: "decodePayOrderParams L U arg argsEscaped = decodeOrderUUIDParam L U arg argsEscaped"

datatype request_error =
    MediaTypeError | BodyRequired | ReadBodyError | DecodeBodyError oas_error | InvalidContentType string
  | ValidateError oas_error

text \<open>The frame of the two request decoders: media type, length, body, JSON, then the struct.\<close>

definition decode_json_body :: "http_lib \<Rightarrow> (json \<Rightarrow> 'a oas) \<Rightarrow> http_req \<Rightarrow> request_error + 'a" where
  "decode_json_body L decode r =
    (case hl_ParseMediaType L (hq_contentType r) of
       None \<Rightarrow> Inl MediaTypeError
     | Some ct \<Rightarrow>
         if ct = ''application/json'' then
           (if hq_contentLength r = 0 then Inl BodyRequired
            else case hq_body r of
                None \<Rightarrow> Inl ReadBodyError
              | Some buf \<Rightarrow>
                  if length buf = 0 then Inl BodyRequired
                  else (case hl_ReadJson L buf of
                      None \<Rightarrow> Inl (DecodeBodyError UnexpectedValue)
                    | Some j \<Rightarrow> (case decode j of Inl e \<Rightarrow> Inl (DecodeBodyError e) | Inr request \<Rightarrow> Inr request)))
         else Inl (InvalidContentType ct))"

definition decodeCreateOrderRequest :: "http_lib \<Rightarrow> jx_lib \<Rightarrow> http_req \<Rightarrow> request_error + CreateOrderRequest" where
  "decodeCreateOrderRequest L J r = decode_json_body L (CreateOrderRequest_Decode J) r"

definition decodePayOrderRequest :: "http_lib \<Rightarrow> jx_lib \<Rightarrow> http_req \<Rightarrow> request_error + PayOrderRequest" where
  "decodePayOrderRequest L J r =
    (case decode_json_body L (PayOrderRequest_Decode J) r of
       Inl e \<Rightarrow> Inl e
     | Inr request \<Rightarrow>
         (case PayOrderRequest_Validate request of Inl e \<Rightarrow> Inl (ValidateError e) | Inr _ \<Rightarrow> Inr request))"

subsection \<open>Responses\<close>

definition json_response :: "http_lib \<Rightarrow> int \<Rightarrow> json \<Rightarrow> http_resp" where
  "json_response L code j =
    \<lparr>hp_code = code, hp_headers = [(''Content-Type'', ''application/json; charset=utf-8'')], hp_body = hl_WriteJson L j\<rparr>"

fun encodeCancelOrderResponse :: "http_lib \<Rightarrow> jx_lib \<Rightarrow> CancelOrderRes \<Rightarrow> http_resp" where
  "encodeCancelOrderResponse L J CancelOrderOK = json_response L 200 CancelOrderResponse_Encode"
| "encodeCancelOrderResponse L J (CancelOrderBadRequest e) = json_response L 400 (ApiError_Encode J e)"
| "encodeCancelOrderResponse L J (CancelOrderNotFound e) = json_response L 404 (ApiError_Encode J e)"
| "encodeCancelOrderResponse L J (CancelOrderConflict e) = json_response L 409 (ApiError_Encode J e)"
| "encodeCancelOrderResponse L J (CancelOrderInternalServerError e) = json_response L 500 (ApiError_Encode J e)"

fun encodeCreateOrderResponse :: "http_lib \<Rightarrow> jx_lib \<Rightarrow> CreateOrderRes \<Rightarrow> http_resp" where
  "encodeCreateOrderResponse L J (CreateOrderOK c) = json_response L 201 (CreateOrderResponse_Encode J c)"
| "encodeCreateOrderResponse L J (CreateOrderBadRequest e) = json_response L 400 (ApiError_Encode J e)"
| "encodeCreateOrderResponse L J (CreateOrderUnauthorized e) = json_response L 401 (ApiError_Encode J e)"
| "encodeCreateOrderResponse L J (CreateOrderNotFound e) = json_response L 404 (ApiError_Encode J e)"
| "encodeCreateOrderResponse L J (CreateOrderConflict e) = json_response L 409 (ApiError_Encode J e)"
| "encodeCreateOrderResponse L J (CreateOrderInternalServerError e) = json_response L 500 (ApiError_Encode J e)"

fun encodeGetOrderResponse :: "http_lib \<Rightarrow> jx_lib \<Rightarrow> GetOrderRes \<Rightarrow> http_resp" where
  "encodeGetOrderResponse L J (GetOrderDto d) = json_response L 200 (OrderDto_Encode J d)"
| "encodeGetOrderResponse L J (GetOrderBadRequest e) = json_response L 400 (ApiError_Encode J e)"
| "encodeGetOrderResponse L J (GetOrderNotFound e) = json_response L 404 (ApiError_Encode J e)"
| "encodeGetOrderResponse L J (GetOrderInternalServerError e) = json_response L 500 (ApiError_Encode J e)"

fun encodePayOrderResponse :: "http_lib \<Rightarrow> jx_lib \<Rightarrow> PayOrderRes \<Rightarrow> http_resp" where
  "encodePayOrderResponse L J (PayOrderOK p) = json_response L 200 (PayOrderResponse_Encode J p)"
| "encodePayOrderResponse L J (PayOrderBadRequest e) = json_response L 400 (ApiError_Encode J e)"
| "encodePayOrderResponse L J (PayOrderNotFound e) = json_response L 404 (ApiError_Encode J e)"
| "encodePayOrderResponse L J (PayOrderConflict e) = json_response L 409 (ApiError_Encode J e)"
| "encodePayOrderResponse L J (PayOrderInternalServerError e) = json_response L 500 (ApiError_Encode J e)"

subsection \<open>Handlers\<close>

text \<open>The end of every handler: an error goes to the error handler, a response is encoded.\<close>

definition respond :: "'w oas_server \<Rightarrow> ('a \<Rightarrow> http_resp) \<Rightarrow> ('w, 'a, order_error) act \<Rightarrow> ('w, http_resp, order_error) act" where
  "respond s encode handler = (\<lambda>w. case handler w of
       (Err err, w') \<Rightarrow> (Ret (sv_ErrorHandler s err), w')
     | (Panic p, w') \<Rightarrow> (Panic p, w')
     | (Ret response, w') \<Rightarrow> (Ret (encode response), w'))"

definition handleCancelOrderRequest ::
    "http_lib \<Rightarrow> jx_lib \<Rightarrow> uuid_lib \<Rightarrow> 'w oas_server \<Rightarrow> string \<Rightarrow> bool \<Rightarrow> 'w http_handler" where
  "handleCancelOrderRequest L J U s arg argsEscaped r =
    (case decodeCancelOrderParams L U arg argsEscaped of
       Inl e \<Rightarrow> ret (sv_ErrorHandler s (Ext DecodeParamsError))
     | Inr orderUUID \<Rightarrow> respond s (encodeCancelOrderResponse L J) (sv_CancelOrder s (hq_ctx r) orderUUID))"

definition handleCreateOrderRequest ::
    "http_lib \<Rightarrow> jx_lib \<Rightarrow> 'w oas_server \<Rightarrow> 'w http_handler" where
  "handleCreateOrderRequest L J s r =
    (case decodeCreateOrderRequest L J r of
       Inl e \<Rightarrow> ret (sv_ErrorHandler s (Ext DecodeRequestError))
     | Inr request \<Rightarrow> respond s (encodeCreateOrderResponse L J) (sv_CreateOrder s (hq_ctx r) request))"

definition handleGetOrderRequest ::
    "http_lib \<Rightarrow> jx_lib \<Rightarrow> uuid_lib \<Rightarrow> 'w oas_server \<Rightarrow> string \<Rightarrow> bool \<Rightarrow> 'w http_handler" where
  "handleGetOrderRequest L J U s arg argsEscaped r =
    (case decodeGetOrderParams L U arg argsEscaped of
       Inl e \<Rightarrow> ret (sv_ErrorHandler s (Ext DecodeParamsError))
     | Inr orderUUID \<Rightarrow> respond s (encodeGetOrderResponse L J) (sv_GetOrder s (hq_ctx r) orderUUID))"

definition handlePayOrderRequest ::
    "http_lib \<Rightarrow> jx_lib \<Rightarrow> uuid_lib \<Rightarrow> 'w oas_server \<Rightarrow> string \<Rightarrow> bool \<Rightarrow> 'w http_handler" where
  "handlePayOrderRequest L J U s arg argsEscaped r =
    (case decodePayOrderParams L U arg argsEscaped of
       Inl e \<Rightarrow> ret (sv_ErrorHandler s (Ext DecodeParamsError))
     | Inr orderUUID \<Rightarrow>
         (case decodePayOrderRequest L J r of
            Inl e \<Rightarrow> ret (sv_ErrorHandler s (Ext DecodeRequestError))
          | Inr request \<Rightarrow> respond s (encodePayOrderResponse L J) (sv_PayOrder s (hq_ctx r) request orderUUID)))"

definition ServeHTTP :: "http_lib \<Rightarrow> jx_lib \<Rightarrow> uuid_lib \<Rightarrow> 'w oas_server \<Rightarrow> 'w http_handler" where
  "ServeHTTP L J U s r =
    (let (elem, elemIsEscaped) = routed_path L r
     in case cutPrefix (sv_prefix s) elem of
          None \<Rightarrow> ret http_NotFound
        | Some elem \<Rightarrow>
            if length elem = 0 then ret http_NotFound
            else (case find_leaf elem of
                None \<Rightarrow> ret http_NotFound
              | Some (opn, arg) \<Rightarrow>
                  if hq_method r = allowed_method opn then
                    (case opn of
                       CreateOrder \<Rightarrow> handleCreateOrderRequest L J s r
                     | GetOrder \<Rightarrow> handleGetOrderRequest L J U s arg elemIsEscaped r
                     | CancelOrder \<Rightarrow> handleCancelOrderRequest L J U s arg elemIsEscaped r
                     | PayOrder \<Rightarrow> handlePayOrderRequest L J U s arg elemIsEscaped r)
                  else ret (notAllowed L opn r)))"

text \<open>NewServer as the order service calls it: its API as the handler, its error handler.\<close>

definition NewOrderServer ::
    "(json \<Rightarrow> string) \<Rightarrow> (order_error err \<Rightarrow> string) \<Rightarrow> uuid_lib \<Rightarrow> (uuid \<times> time) \<Rightarrow> 'w order_service \<Rightarrow> 'w oas_server" where
  "NewOrderServer enc render U fresh s =
    \<lparr>sv_prefix = '''', sv_ErrorHandler = ErrorHandler enc render,
     sv_CreateOrder = (\<lambda>c req. OrderApi_CreateOrder s c (fst fresh) (snd fresh) req),
     sv_GetOrder = (\<lambda>c u. OrderApi_GetOrder s u),
     sv_PayOrder = (\<lambda>c req u. OrderApi_PayOrder s U c req u),
     sv_CancelOrder = OrderApi_CancelOrder s\<rparr>"

subsection \<open>Routing\<close>

lemma has_prefix_iff: "has_prefix s p \<longleftrightarrow> (\<exists>t. s = p @ t)"
  by (metis append_eq_conv_conj append_take_drop_id has_prefix_def)

lemma whole_word: "has_prefix e p \<and> drop (length p) e = [] \<longleftrightarrow> e = p"
  by (auto simp: has_prefix_iff)

lemma hd_dropWhile_slash: "dropWhile (\<lambda>c. c \<noteq> CHR ''/'') s \<noteq> [] \<Longrightarrow> hd (dropWhile (\<lambda>c. c \<noteq> CHR ''/'') s) = CHR ''/''"
  using hd_dropWhile [of "\<lambda>c. c \<noteq> CHR ''/''" s] by simp

definition leaf_below :: "string \<Rightarrow> (operation \<times> string) option" where
  "leaf_below t =
    (let arg = takeWhile (\<lambda>c. c \<noteq> CHR ''/'') t; e = dropWhile (\<lambda>c. c \<noteq> CHR ''/'') t
     in if e = [] then Some (GetOrder, arg)
        else if drop 1 e = ''cancel'' then Some (CancelOrder, arg)
        else if drop 1 e = ''pay'' then Some (PayOrder, arg)
        else None)"

lemma last_segment:
  "(if e = [] then None
    else if hd e = CHR ''c'' then
      (if has_prefix e ''cancel'' then (if drop (length ''cancel'') e = [] then Some (CancelOrder, arg) else None) else None)
    else if hd e = CHR ''p'' then
      (if has_prefix e ''pay'' then (if drop (length ''pay'') e = [] then Some (PayOrder, arg) else None) else None)
    else None)
   = (if e = ''cancel'' then Some (CancelOrder, arg) else if e = ''pay'' then Some (PayOrder, arg) else None)"
proof -
  consider "e = ''cancel''" | "e = ''pay''" | "e \<noteq> ''cancel''" "e \<noteq> ''pay''" by blast
  then show ?thesis
  proof cases
    case 3
    have "\<not> (has_prefix e ''cancel'' \<and> drop (length ''cancel'') e = [])" "\<not> (has_prefix e ''pay'' \<and> drop (length ''pay'') e = [])"
      using 3 whole_word by blast+
    then show ?thesis using 3 by presburger
  qed (simp_all add: has_prefix_def)
qed

lemma find_leaf_orders:
  "find_leaf elem =
    (if has_prefix elem ''/api/v1/orders'' then
       (let t = drop (length ''/api/v1/orders'') elem
        in if t = [] then Some (CreateOrder, '''')
           else if hd t = CHR ''/'' then leaf_below (drop 1 t) else None)
     else None)"
proof (cases "has_prefix elem ''/api/v1/orders''")
  case True
  then have nonempty: "elem \<noteq> []" "hd elem = CHR ''/''" by (auto simp: has_prefix_iff)
  have "leaf_below u =
      (let arg = takeWhile (\<lambda>c. c \<noteq> CHR ''/'') u; e = dropWhile (\<lambda>c. c \<noteq> CHR ''/'') u
       in if e = [] then Some (GetOrder, arg)
          else if hd e = CHR ''/'' then
            (let e = drop 1 e in if e = ''cancel'' then Some (CancelOrder, arg) else if e = ''pay'' then Some (PayOrder, arg) else None)
          else None)" for u
    using hd_dropWhile_slash [of u] unfolding leaf_below_def Let_def
    by (cases "dropWhile (\<lambda>c. c \<noteq> CHR ''/'') u = []") (simp_all only: if_True if_False simp_thms)
  then show ?thesis
    unfolding find_leaf_def Let_def last_segment using True nonempty by (simp only: if_True if_False simp_thms)
next
  case False
  then show ?thesis by (simp add: find_leaf_def)
qed

lemma leaf_below_iff:
  "leaf_below t = Some (opn, arg) \<longleftrightarrow> CHR ''/'' \<notin> set arg \<and>
    (opn = GetOrder \<and> t = arg \<or> opn = CancelOrder \<and> t = arg @ ''/cancel'' \<or> opn = PayOrder \<and> t = arg @ ''/pay'')"
proof -
  obtain a e where ae: "takeWhile (\<lambda>c. c \<noteq> CHR ''/'') t = a" "dropWhile (\<lambda>c. c \<noteq> CHR ''/'') t = e" by blast
  have t: "t = a @ e" using ae by (metis takeWhile_dropWhile_id)
  have a: "CHR ''/'' \<notin> set a" using ae(1) set_takeWhileD by fastforce
  have e: "e = [] \<or> e = CHR ''/'' # drop 1 e" using hd_dropWhile_slash [of t] ae(2) by (cases e) auto
  have leaf: "leaf_below t = (if e = [] then Some (GetOrder, a) else if drop 1 e = ''cancel'' then Some (CancelOrder, a)
      else if drop 1 e = ''pay'' then Some (PayOrder, a) else None)"
    by (simp only: leaf_below_def Let_def ae)
  have parts: "a = arg \<and> e = w" if "t = arg @ w" "CHR ''/'' \<notin> set arg" "w = [] \<or> hd w = CHR ''/''" for w
    using that ae by (cases w) (auto simp: takeWhile_append dropWhile_append)
  have eqv: "CHR ''/'' \<notin> set arg \<and> t = arg @ w \<longleftrightarrow> a = arg \<and> e = w" if "w = [] \<or> hd w = CHR ''/''" for w
    using parts that t a by blast
  have rhs: "CHR ''/'' \<notin> set arg \<and>
      (opn = GetOrder \<and> t = arg \<or> opn = CancelOrder \<and> t = arg @ ''/cancel'' \<or> opn = PayOrder \<and> t = arg @ ''/pay'')
    \<longleftrightarrow> a = arg \<and> (opn = GetOrder \<and> e = [] \<or> opn = CancelOrder \<and> e = ''/cancel'' \<or> opn = PayOrder \<and> e = ''/pay'')"
    using eqv [of "[]", simplified] eqv [of "''/cancel''", simplified] eqv [of "''/pay''", simplified] by blast
  show ?thesis
  proof (cases "e = []")
    case True
    then show ?thesis unfolding rhs leaf by auto
  next
    case False
    then obtain w where "e = CHR ''/'' # w" using e by blast
    then show ?thesis unfolding rhs leaf by auto
  qed
qed

lemma find_leaf_iff:
  "find_leaf path = Some (opn, arg) \<longleftrightarrow>
     opn = CreateOrder \<and> arg = '''' \<and> path = ''/api/v1/orders''
   \<or> CHR ''/'' \<notin> set arg \<and>
     (opn = GetOrder \<and> path = ''/api/v1/orders/'' @ arg
      \<or> opn = CancelOrder \<and> path = ''/api/v1/orders/'' @ arg @ ''/cancel''
      \<or> opn = PayOrder \<and> path = ''/api/v1/orders/'' @ arg @ ''/pay'')"
proof (cases "has_prefix path ''/api/v1/orders''")
  case True
  then obtain t where t: "path = ''/api/v1/orders'' @ t" by (auto simp: has_prefix_iff)
  show ?thesis
  proof (cases t)
    case Nil
    then show ?thesis using t True by (auto simp: find_leaf_orders Let_def)
  next
    case (Cons c u)
    then show ?thesis using t True leaf_below_iff [of u opn arg] by (auto simp: find_leaf_orders Let_def)
  qed
next
  case False
  then show ?thesis by (auto simp: find_leaf_orders has_prefix_iff)
qed

text \<open>
  C20. The static search of the router finds exactly the paths of the API description: the collection,
  and below it one segment without a slash, alone or followed by \<open>/cancel\<close> or \<open>/pay\<close>; no other path
  has a leaf.
\<close>

theorem router_matches_patterns:
  "find_leaf path = Some (opn, arg) \<longleftrightarrow>
     opn = CreateOrder \<and> arg = '''' \<and> path = ''/api/v1/orders''
   \<or> CHR ''/'' \<notin> set arg \<and>
     (opn = GetOrder \<and> path = ''/api/v1/orders/'' @ arg
      \<or> opn = CancelOrder \<and> path = ''/api/v1/orders/'' @ arg @ ''/cancel''
      \<or> opn = PayOrder \<and> path = ''/api/v1/orders/'' @ arg @ ''/pay'')"
  by (rule find_leaf_iff)

end
