(* ===== verification/OpenApi_Client.thy ===== *)
theory OpenApi_Client
  imports OpenApi_Server "HOL-Library.Countable"
begin

text \<open>
  The client ogen generated for the order API (oas_client_gen.go, oas_request_encoders_gen.go,
  oas_response_decoders_gen.go) and its composition with the generated server: what a caller of the
  client sees of the handler of the service.

  A client is the path of its server URL and the HTTP transport \<open>oc_Do\<close>. Errors of the client are
  wrapped as in the code; the texts of library errors are not modelled.
\<close>

record 'w oas_client =
  oc_serverURL :: "string \<times> string"
  oc_Do :: "'w http_handler"

subsection \<open>Requests\<close>

text \<open>ht.NewRequest and ht.SetBody: a request without a body has length 0.\<close>

definition new_request :: "http_lib \<Rightarrow> 'w oas_client \<Rightarrow> ctx \<Rightarrow> string \<Rightarrow> string list \<Rightarrow> http_req" where
  "new_request L cl c method pathParts =
    (let (path, rawPath) = hl_AddPathParts L (oc_serverURL cl) pathParts
     in \<lparr>hq_method = method, hq_path = path, hq_rawPath = rawPath, hq_authorization = '''', hq_contentType = '''',
         hq_requestMethod = '''', hq_contentLength = 0, hq_body = Some '''', hq_ctx = c\<rparr>)"

definition set_json_body :: "http_lib \<Rightarrow> json \<Rightarrow> http_req \<Rightarrow> http_req" where
  "set_json_body L j r =
    r\<lparr>hq_contentType := ''application/json'', hq_contentLength := int (length (hl_WriteJson L j)),
      hq_body := Some (hl_WriteJson L j)\<rparr>"

definition encodeCreateOrderRequest :: "http_lib \<Rightarrow> jx_lib \<Rightarrow> CreateOrderRequest \<Rightarrow> http_req \<Rightarrow> http_req" where
  "encodeCreateOrderRequest L J req r = set_json_body L (CreateOrderRequest_Encode J req) r"

definition encodePayOrderRequest :: "http_lib \<Rightarrow> jx_lib \<Rightarrow> PayOrderRequest \<Rightarrow> http_req \<Rightarrow> http_req" where
  "encodePayOrderRequest L J req r = set_json_body L (PayOrderRequest_Encode J req) r"

subsection \<open>Responses\<close>

text \<open>One case of a response decoder: media type, body, JSON, then the struct.\<close>

definition decode_body :: "http_lib \<Rightarrow> (json \<Rightarrow> 'a oas) \<Rightarrow> http_resp \<Rightarrow> ('a, order_error) res" where
  "decode_body L decode resp =
    (case hl_ParseMediaType L (case map_of (hp_headers resp) ''Content-Type'' of Some v \<Rightarrow> v | None \<Rightarrow> '''') of
       None \<Rightarrow> Err (Wrap ''parse media type'' (Ext (Foreign ''mime'')))
     | Some ct \<Rightarrow>
         if ct = ''application/json'' then
           (case hl_ReadJson L (hp_body resp) of
              None \<Rightarrow> Err (Ext (Foreign ''DecodeBodyError''))
            | Some j \<Rightarrow> (case decode j of Inl e \<Rightarrow> Err (Ext (Foreign ''DecodeBodyError'')) | Inr v \<Rightarrow> Ret v))
         else Err (Ext (Foreign ''InvalidContentType'')))"

definition mapR1 :: "('a \<Rightarrow> 'b) \<Rightarrow> ('a, 'e) res \<Rightarrow> ('b, 'e) res" where
  "mapR1 f r = bindR r (\<lambda>x. Ret (f x))"

abbreviation unexpected_status :: "('a, order_error) res" where
  "unexpected_status \<equiv> Err (Ext (Foreign ''UnexpectedStatusCode''))"

definition decodeCancelOrderResponse :: "http_lib \<Rightarrow> jx_lib \<Rightarrow> http_resp \<Rightarrow> (CancelOrderRes, order_error) res" where
  "decodeCancelOrderResponse L J resp =
    (if hp_code resp = 200 then mapR1 (\<lambda>_. CancelOrderOK) (decode_body L CancelOrderResponse_Decode resp)
     else if hp_code resp = 400 then mapR1 CancelOrderBadRequest (decode_body L (ApiError_Decode J) resp)
     else if hp_code resp = 404 then mapR1 CancelOrderNotFound (decode_body L (ApiError_Decode J) resp)
     else if hp_code resp = 409 then mapR1 CancelOrderConflict (decode_body L (ApiError_Decode J) resp)
     else if hp_code resp = 500 then mapR1 CancelOrderInternalServerError (decode_body L (ApiError_Decode J) resp)
     else unexpected_status)"

definition decodeCreateOrderResponse :: "http_lib \<Rightarrow> jx_lib \<Rightarrow> http_resp \<Rightarrow> (CreateOrderRes, order_error) res" where
  "decodeCreateOrderResponse L J resp =
    (if hp_code resp = 201 then mapR1 CreateOrderOK (decode_body L (CreateOrderResponse_Decode J) resp)
     else if hp_code resp = 400 then mapR1 CreateOrderBadRequest (decode_body L (ApiError_Decode J) resp)
     else if hp_code resp = 401 then mapR1 CreateOrderUnauthorized (decode_body L (ApiError_Decode J) resp)
     else if hp_code resp = 404 then mapR1 CreateOrderNotFound (decode_body L (ApiError_Decode J) resp)
     else if hp_code resp = 409 then mapR1 CreateOrderConflict (decode_body L (ApiError_Decode J) resp)
     else if hp_code resp = 500 then mapR1 CreateOrderInternalServerError (decode_body L (ApiError_Decode J) resp)
     else unexpected_status)"

definition decodeGetOrderResponse :: "http_lib \<Rightarrow> jx_lib \<Rightarrow> time \<Rightarrow> http_resp \<Rightarrow> (GetOrderRes, order_error) res" where
  "decodeGetOrderResponse L J zero_time resp =
    (if hp_code resp = 200 then
       bindR (decode_body L (OrderDto_Decode J zero_time) resp) (\<lambda>response.
         case OrderDto_Validate response of
           Inl e \<Rightarrow> Err (Wrap ''validate'' (Ext (Foreign ''validate'')))
         | Inr _ \<Rightarrow> Ret (GetOrderDto response))
     else if hp_code resp = 400 then mapR1 GetOrderBadRequest (decode_body L (ApiError_Decode J) resp)
     else if hp_code resp = 404 then mapR1 GetOrderNotFound (decode_body L (ApiError_Decode J) resp)
     else if hp_code resp = 500 then mapR1 GetOrderInternalServerError (decode_body L (ApiError_Decode J) resp)
     else unexpected_status)"

definition decodePayOrderResponse :: "http_lib \<Rightarrow> jx_lib \<Rightarrow> http_resp \<Rightarrow> (PayOrderRes, order_error) res" where
  "decodePayOrderResponse L J resp =
    (if hp_code resp = 200 then mapR1 PayOrderOK (decode_body L (PayOrderResponse_Decode J) resp)
     else if hp_code resp = 400 then mapR1 PayOrderBadRequest (decode_body L (ApiError_Decode J) resp)
     else if hp_code resp = 404 then mapR1 PayOrderNotFound (decode_body L (ApiError_Decode J) resp)
     else if hp_code resp = 409 then mapR1 PayOrderConflict (decode_body L (ApiError_Decode J) resp)
     else if hp_code resp = 500 then mapR1 PayOrderInternalServerError (decode_body L (ApiError_Decode J) resp)
     else unexpected_status)"

subsection \<open>Operations\<close>

text \<open>The stages SendRequest and DecodeResponse.\<close>

definition exchange :: "'w oas_client \<Rightarrow> http_req \<Rightarrow> (http_resp \<Rightarrow> ('a, order_error) res) \<Rightarrow> ('w, 'a, order_error) act" where
  "exchange cl r decode =
    bindA (wrapA ''do request'' (oc_Do cl r)) (\<lambda>resp. wrapA ''decode response'' (liftR (decode resp)))"

definition sendCancelOrder ::
    "http_lib \<Rightarrow> jx_lib \<Rightarrow> uuid_lib \<Rightarrow> 'w oas_client \<Rightarrow> ctx \<Rightarrow> uuid \<Rightarrow> ('w, CancelOrderRes, order_error) act" where
  "sendCancelOrder L J U cl c orderUUID =
    exchange cl
      (new_request L cl c ''POST'' [''/api/v1/orders/'', hl_EncodeValue L (uuid_String U orderUUID), ''/cancel''])
      (decodeCancelOrderResponse L J)"

definition sendCreateOrder ::
    "http_lib \<Rightarrow> jx_lib \<Rightarrow> 'w oas_client \<Rightarrow> ctx \<Rightarrow> CreateOrderRequest \<Rightarrow> ('w, CreateOrderRes, order_error) act" where
  "sendCreateOrder L J cl c request =
    exchange cl (encodeCreateOrderRequest L J request (new_request L cl c ''POST'' [''/api/v1/orders'']))
      (decodeCreateOrderResponse L J)"

definition sendGetOrder ::
    "http_lib \<Rightarrow> jx_lib \<Rightarrow> uuid_lib \<Rightarrow> time \<Rightarrow> 'w oas_client \<Rightarrow> ctx \<Rightarrow> uuid \<Rightarrow> ('w, GetOrderRes, order_error) act" where
  "sendGetOrder L J U zero_time cl c orderUUID =
    exchange cl
      (new_request L cl c ''GET'' [''/api/v1/orders/'', hl_EncodeValue L (uuid_String U orderUUID)])
      (decodeGetOrderResponse L J zero_time)"

definition sendPayOrder ::
    "http_lib \<Rightarrow> jx_lib \<Rightarrow> uuid_lib \<Rightarrow> 'w oas_client \<Rightarrow> ctx \<Rightarrow> PayOrderRequest \<Rightarrow> uuid \<Rightarrow> ('w, PayOrderRes, order_error) act" where
  "sendPayOrder L J U cl c request orderUUID =
    exchange cl
      (encodePayOrderRequest L J request
        (new_request L cl c ''POST'' [''/api/v1/orders/'', hl_EncodeValue L (uuid_String U orderUUID), ''/pay'']))
      (decodePayOrderResponse L J)"

subsection \<open>What the libraries promise\<close>

text \<open>
  Unreserved characters need no escaping: a path made of them is the concatenation of its parts, and
  its escaped form, when there is one, normalizes to it. Identifiers are written in such characters.
  JSON values read back, the media type of JSON is recognized with and without a charset.
\<close>

definition plain_char :: "char \<Rightarrow> bool" where
  "plain_char c \<longleftrightarrow> (let n = of_char c :: nat in
     48 \<le> n \<and> n \<le> 57 \<or> 65 \<le> n \<and> n \<le> 90 \<or> 97 \<le> n \<and> n \<le> 122 \<or> c = CHR ''-'')"

definition http_lib_ok :: "http_lib \<Rightarrow> uuid_lib \<Rightarrow> bool" where
  "http_lib_ok L U \<longleftrightarrow>
     hl_ParseMediaType L ''application/json'' = Some ''application/json''
   \<and> hl_ParseMediaType L ''application/json; charset=utf-8'' = Some ''application/json''
   \<and> (\<forall>j. hl_ReadJson L (hl_WriteJson L j) = Some j \<and> hl_WriteJson L j \<noteq> [])
   \<and> (\<forall>u. list_all plain_char (uuid_String U u))
   \<and> (\<forall>s. list_all plain_char s \<longrightarrow> hl_EncodeValue L s = s \<and> hl_DecodeValue L s = Some s)
   \<and> (\<forall>parts. list_all (list_all (\<lambda>c. plain_char c \<or> c = CHR ''/'')) parts \<longrightarrow>
        (case hl_AddPathParts L ('''', '''') parts of (path, rawPath) \<Rightarrow>
           path = concat parts \<and> (rawPath = '''' \<or> hl_NormalizeEscapedPath L rawPath = Some path)))"

text \<open>
  The transport in front of a server: \<open>net/http\<close> recovers a panic of the handler and closes the
  connection, which the client sees as a failed request.
\<close>

definition http_transport :: "'w http_handler \<Rightarrow> 'w http_handler" where
  "http_transport handler r = (\<lambda>w. case handler r w of
       (Panic p, w') \<Rightarrow> (Err (Ext (Foreign ''EOF'')), w')
     | x \<Rightarrow> x)"

definition client_of :: "http_lib \<Rightarrow> jx_lib \<Rightarrow> uuid_lib \<Rightarrow> 'w oas_server \<Rightarrow> 'w oas_client" where
  "client_of L J U s = \<lparr>oc_serverURL = ('''', ''''), oc_Do = http_transport (ServeHTTP L J U s)\<rparr>"

lemma http_lib_rules:
  assumes "http_lib_ok L U"
  shows "hl_ParseMediaType L ''application/json'' = Some ''application/json''"
    and "hl_ParseMediaType L ''application/json; charset=utf-8'' = Some ''application/json''"
    and "hl_ReadJson L (hl_WriteJson L j) = Some j" and "hl_WriteJson L j \<noteq> []"
    and "list_all plain_char (uuid_String U u)"
    and "hl_EncodeValue L (uuid_String U u) = uuid_String U u"
    and "hl_DecodeValue L (uuid_String U u) = Some (uuid_String U u)"
  using assms by (simp_all add: http_lib_ok_def)

lemma plain_not_special: "list_all plain_char s \<Longrightarrow> CHR ''/'' \<notin> set s \<and> CHR ''%'' \<notin> set s"
  by (auto simp: list_all_iff plain_char_def Let_def)

lemma new_request_routed:
  assumes "http_lib_ok L U" "list_all (list_all (\<lambda>c. plain_char c \<or> c = CHR ''/'')) parts"
  shows "routed_path L (new_request L (client_of L J U s) c method parts) = (concat parts, False)"
proof -
  obtain path raw where pr: "hl_AddPathParts L ('''', '''') parts = (path, raw)" by fastforce
  then have path: "path = concat parts" "raw = '''' \<or> hl_NormalizeEscapedPath L raw = Some path"
    using assms by (auto simp: http_lib_ok_def)
  have "CHR ''%'' \<notin> set (concat parts)"
    using assms(2) by (fastforce simp: list_all_iff plain_char_def Let_def)
  then show ?thesis using path pr by (auto simp: routed_path_def new_request_def client_of_def)
qed

lemma new_request_simps [simp]:
  "hq_method (new_request L cl c method parts) = method" "hq_ctx (new_request L cl c method parts) = c"
  by (simp_all add: new_request_def split: prod.splits)

lemma set_json_body_simps [simp]:
  "hq_method (set_json_body L j r) = hq_method r" "hq_ctx (set_json_body L j r) = hq_ctx r"
  "routed_path L (set_json_body L j r) = routed_path L r"
  by (simp_all add: set_json_body_def routed_path_def split: option.split)

lemma decode_json_body_set:
  assumes "http_lib_ok L U"
  shows "decode_json_body L decode (set_json_body L j r) =
    (case decode j of Inl e \<Rightarrow> Inl (DecodeBodyError e) | Inr request \<Rightarrow> Inr request)"
  using http_lib_rules [OF assms] by (simp add: decode_json_body_def set_json_body_def)

lemma order_parts_plain:
  assumes "http_lib_ok L U"
  shows "list_all (list_all (\<lambda>c. plain_char c \<or> c = CHR ''/'')) [''/api/v1/orders'']"
    and "list_all (list_all (\<lambda>c. plain_char c \<or> c = CHR ''/'')) [''/api/v1/orders/'', uuid_String U u]"
    and "list_all (list_all (\<lambda>c. plain_char c \<or> c = CHR ''/'')) [''/api/v1/orders/'', uuid_String U u, ''/cancel'']"
    and "list_all (list_all (\<lambda>c. plain_char c \<or> c = CHR ''/'')) [''/api/v1/orders/'', uuid_String U u, ''/pay'']"
  using http_lib_rules(5) [OF assms, of u] by (auto simp: plain_char_def Let_def list_all_iff)

lemma decode_order_param:
  assumes "http_lib_ok L U" "uuid_lib_ok U"
  shows "decodeOrderUUIDParam L U (uuid_String U u) False = Inr u"
  using http_lib_rules [OF assms(1)] uuid_lib_nonempty [OF assms(2)] uuid_lib_parse [OF assms(2)]
  by (simp add: decodeOrderUUIDParam_def)

text \<open>What each request of the client becomes at the server.\<close>

lemma order_leaves:
  assumes "CHR ''/'' \<notin> set u"
  shows "find_leaf ''/api/v1/orders'' = Some (CreateOrder, '''')"
    and "find_leaf (''/api/v1/orders/'' @ u) = Some (GetOrder, u)"
    and "find_leaf (''/api/v1/orders/'' @ u @ ''/cancel'') = Some (CancelOrder, u)"
    and "find_leaf (''/api/v1/orders/'' @ u @ ''/pay'') = Some (PayOrder, u)"
  using assms by (simp_all only: find_leaf_iff) auto

lemma serve_requests:
  assumes L: "http_lib_ok L U" and U: "uuid_lib_ok U" and s: "sv_prefix s = ''''"
  shows "ServeHTTP L J U s (new_request L (client_of L J U s) c ''GET'' [''/api/v1/orders/'', hl_EncodeValue L (uuid_String U u)])
      = respond s (encodeGetOrderResponse L J) (sv_GetOrder s c u)"
    and "ServeHTTP L J U s (new_request L (client_of L J U s) c ''POST'' [''/api/v1/orders/'', hl_EncodeValue L (uuid_String U u), ''/cancel''])
      = respond s (encodeCancelOrderResponse L J) (sv_CancelOrder s c u)"
    and "ServeHTTP L J U s (set_json_body L j (new_request L (client_of L J U s) c ''POST'' [''/api/v1/orders'']))
      = handleCreateOrderRequest L J s (set_json_body L j (new_request L (client_of L J U s) c ''POST'' [''/api/v1/orders'']))"
    and "ServeHTTP L J U s (set_json_body L j (new_request L (client_of L J U s) c ''POST'' [''/api/v1/orders/'', hl_EncodeValue L (uuid_String U u), ''/pay'']))
      = handlePayOrderRequest L J U s (uuid_String U u) False
         (set_json_body L j (new_request L (client_of L J U s) c ''POST'' [''/api/v1/orders/'', hl_EncodeValue L (uuid_String U u), ''/pay'']))"
proof -
  note plain = order_parts_plain [OF L]
  note leaves = order_leaves
  have slash: "CHR ''/'' \<notin> set (uuid_String U u)" using plain_not_special http_lib_rules(5) [OF L] by blast
  note defs = ServeHTTP_def http_lib_rules [OF L] new_request_routed [OF L plain(1)] new_request_routed [OF L plain(2)]
    new_request_routed [OF L plain(3)] new_request_routed [OF L plain(4)] cutPrefix_def s Let_def
    handleGetOrderRequest_def handleCancelOrderRequest_def decode_order_param [OF L U]
  show "ServeHTTP L J U s (new_request L (client_of L J U s) c ''GET'' [''/api/v1/orders/'', hl_EncodeValue L (uuid_String U u)])
      = respond s (encodeGetOrderResponse L J) (sv_GetOrder s c u)"
    using leaves(2) [OF slash] by (simp add: defs)
  show "ServeHTTP L J U s (new_request L (client_of L J U s) c ''POST'' [''/api/v1/orders/'', hl_EncodeValue L (uuid_String U u), ''/cancel''])
      = respond s (encodeCancelOrderResponse L J) (sv_CancelOrder s c u)"
    using leaves(3) [OF slash] by (simp add: defs)
  show "ServeHTTP L J U s (set_json_body L j (new_request L (client_of L J U s) c ''POST'' [''/api/v1/orders'']))
      = handleCreateOrderRequest L J s (set_json_body L j (new_request L (client_of L J U s) c ''POST'' [''/api/v1/orders'']))"
    using leaves(1) [OF slash] by (simp add: defs)
  show "ServeHTTP L J U s (set_json_body L j (new_request L (client_of L J U s) c ''POST'' [''/api/v1/orders/'', hl_EncodeValue L (uuid_String U u), ''/pay'']))
      = handlePayOrderRequest L J U s (uuid_String U u) False
         (set_json_body L j (new_request L (client_of L J U s) c ''POST'' [''/api/v1/orders/'', hl_EncodeValue L (uuid_String U u), ''/pay'']))"
    using leaves(4) [OF slash] by (simp add: defs)
qed

subsection \<open>What the caller sees\<close>

lemma decode_body_response:
  assumes "http_lib_ok L U"
  shows "decode_body L decode (json_response L code j) =
    (case decode j of Inl e \<Rightarrow> Err (Ext (Foreign ''DecodeBodyError'')) | Inr v \<Rightarrow> Ret v)"
  using http_lib_rules [OF assms] by (simp add: decode_body_def json_response_def)

lemma json_response_code [simp]: "hp_code (json_response L code j) = code"
  by (simp add: json_response_def)

text \<open>The exchange with a server: the response decoded, the error of the handler through the error handler.\<close>

lemma exchange_respond:
  assumes "oc_Do cl = http_transport (ServeHTTP L J U s)" "ServeHTTP L J U s r = respond s encode handler"
  shows "exchange cl r decode w = (case handler w of
      (Ret response, w') \<Rightarrow> (wrapR ''decode response'' (decode (encode response)), w')
    | (Err err, w') \<Rightarrow> (wrapR ''decode response'' (decode (sv_ErrorHandler s err)), w')
    | (Panic p, w') \<Rightarrow> (Err (Wrap ''do request'' (Ext (Foreign ''EOF''))), w'))"
  using assms by (auto simp: exchange_def http_transport_def respond_def bindA_def wrapA_def liftR_def
    split: prod.splits res.splits)

lemma client_of_Do [simp]: "oc_Do (client_of L J U s) = http_transport (ServeHTTP L J U s)"
  by (simp add: client_of_def)

lemmas send_defs = sendGetOrder_def sendCancelOrder_def sendCreateOrder_def sendPayOrder_def
  encodeCreateOrderRequest_def encodePayOrderRequest_def

lemmas decode_response_defs = decodeGetOrderResponse_def decodeCancelOrderResponse_def
  decodeCreateOrderResponse_def decodePayOrderResponse_def mapR1_def

lemma send_create:
  assumes L: "http_lib_ok L U" and U: "uuid_lib_ok U" and J: "jx_lib_ok J" and s: "sv_prefix s = ''''"
    and wf: "opt_wf uuid_Nil (cr_ShieldUUID q)" "opt_wf uuid_Nil (cr_WeaponUUID q)"
  shows "sendCreateOrder L J (client_of L J U s) c q w = (case sv_CreateOrder s c q w of
      (Ret response, w') \<Rightarrow> (wrapR ''decode response'' (decodeCreateOrderResponse L J (encodeCreateOrderResponse L J response)), w')
    | (Err err, w') \<Rightarrow> (wrapR ''decode response'' (decodeCreateOrderResponse L J (sv_ErrorHandler s err)), w')
    | (Panic p, w') \<Rightarrow> (Err (Wrap ''do request'' (Ext (Foreign ''EOF''))), w'))"
  unfolding sendCreateOrder_def encodeCreateOrderRequest_def
  by (rule exchange_respond [where L = L and J = J and U = U])
    (simp_all add: serve_requests(3) [OF L U s] handleCreateOrderRequest_def decodeCreateOrderRequest_def
      decode_json_body_set [OF L] create_request_roundtrip [OF J wf])

lemma send_pay:
  assumes L: "http_lib_ok L U" and U: "uuid_lib_ok U" and J: "jx_lib_ok J" and s: "sv_prefix s = ''''"
  shows "sendPayOrder L J U (client_of L J U s) c q u w =
    (if PaymentMethod_Validate (pq_PaymentMethod q) = Inr () then
      (case sv_PayOrder s c q u w of
        (Ret response, w') \<Rightarrow> (wrapR ''decode response'' (decodePayOrderResponse L J (encodePayOrderResponse L J response)), w')
      | (Err err, w') \<Rightarrow> (wrapR ''decode response'' (decodePayOrderResponse L J (sv_ErrorHandler s err)), w')
      | (Panic p, w') \<Rightarrow> (Err (Wrap ''do request'' (Ext (Foreign ''EOF''))), w'))
     else (wrapR ''decode response'' (decodePayOrderResponse L J (sv_ErrorHandler s (Ext DecodeRequestError))), w))"
proof -
  have request: "decodePayOrderRequest L J (set_json_body L (PayOrderRequest_Encode J q) r) =
      (if PaymentMethod_Validate (pq_PaymentMethod q) = Inr () then Inr q
       else Inl (ValidateError (InvalidFields [''payment_method''])))" for r
    by (auto simp: decodePayOrderRequest_def decode_json_body_set [OF L] small_roundtrips [OF J]
      PayOrderRequest_Validate_def validation_def)
  show ?thesis
  proof (cases "PaymentMethod_Validate (pq_PaymentMethod q) = Inr ()")
    case True
    then show ?thesis
      unfolding sendPayOrder_def encodePayOrderRequest_def if_P [OF True]
      by (intro exchange_respond [where L = L and J = J and U = U])
        (simp_all add: serve_requests(4) [OF L U s] handlePayOrderRequest_def decode_order_param [OF L U] request)
  next
    case False
    then show ?thesis
      by (simp add: sendPayOrder_def encodePayOrderRequest_def exchange_def http_transport_def
        serve_requests(4) [OF L U s] handlePayOrderRequest_def decode_order_param [OF L U] request
        bindA_def wrapA_def liftR_def)
  qed
qed

lemma send_get:
  assumes L: "http_lib_ok L U" and U: "uuid_lib_ok U" and s: "sv_prefix s = ''''"
  shows "sendGetOrder L J U z (client_of L J U s) c u w = (case sv_GetOrder s c u w of
      (Ret response, w') \<Rightarrow> (wrapR ''decode response'' (decodeGetOrderResponse L J z (encodeGetOrderResponse L J response)), w')
    | (Err err, w') \<Rightarrow> (wrapR ''decode response'' (decodeGetOrderResponse L J z (sv_ErrorHandler s err)), w')
    | (Panic p, w') \<Rightarrow> (Err (Wrap ''do request'' (Ext (Foreign ''EOF''))), w'))"
  unfolding sendGetOrder_def
  by (rule exchange_respond [where L = L and J = J and U = U]) (simp_all only: client_of_Do serve_requests(1) [OF L U s])

lemma send_cancel:
  assumes L: "http_lib_ok L U" and U: "uuid_lib_ok U" and s: "sv_prefix s = ''''"
  shows "sendCancelOrder L J U (client_of L J U s) c u w = (case sv_CancelOrder s c u w of
      (Ret response, w') \<Rightarrow> (wrapR ''decode response'' (decodeCancelOrderResponse L J (encodeCancelOrderResponse L J response)), w')
    | (Err err, w') \<Rightarrow> (wrapR ''decode response'' (decodeCancelOrderResponse L J (sv_ErrorHandler s err)), w')
    | (Panic p, w') \<Rightarrow> (Err (Wrap ''do request'' (Ext (Foreign ''EOF''))), w'))"
  unfolding sendCancelOrder_def
  by (rule exchange_respond [where L = L and J = J and U = U]) (simp_all only: client_of_Do serve_requests(2) [OF L U s])


text \<open>Libraries and a server for the witnesses: JSON values are numbered, and a number is written in unary.\<close>

instance json :: countable
  by countable_datatype

definition plain_http :: http_lib where
  "plain_http =
    \<lparr>hl_ParseMediaType = (\<lambda>s. Some (takeWhile (\<lambda>c. c \<noteq> CHR '';'') s)),
     hl_ReadJson = (\<lambda>s. Some (from_nat (length s - 1))),
     hl_WriteJson = (\<lambda>j. CHR ''j'' # replicate (to_nat j) CHR ''x''),
     hl_NormalizeEscapedPath = Some, hl_DecodeValue = Some, hl_EncodeValue = (\<lambda>s. s),
     hl_AddPathParts = (\<lambda>(path, raw) parts. (path @ concat parts, raw)), hl_ToUpper = (\<lambda>s. s)\<rparr>"

lemma plain_http_ok: "http_lib_ok plain_http unary_uuid_lib"
  by (auto simp: http_lib_ok_def plain_http_def unary_uuid_lib_def plain_char_def Let_def list_all_iff)

definition counting_server :: "nat oas_server" where
  "counting_server =
    \<lparr>sv_prefix = '''', sv_ErrorHandler = (\<lambda>err. http_NotFound),
     sv_CreateOrder = (\<lambda>c q w. (Ret (CreateOrderOK \<lparr>co_OrderUUID = 7, co_TotalPrice = 100\<rparr>), w + 1)),
     sv_GetOrder = (\<lambda>c u w. (Ret (GetOrderNotFound \<lparr>ae_Code = 404, ae_Message = ''order not found''\<rparr>), w)),
     sv_PayOrder = (\<lambda>c p u w. (Ret (PayOrderOK \<lparr>po_TransactionUUID = u\<rparr>), w + 1)),
     sv_CancelOrder = (\<lambda>c u w. (Ret CancelOrderOK, w + 1))\<rparr>"


subsection \<open>Errors\<close>

text \<open>
  The error handler of the order service writes with \<open>encoding/json\<close>; its output is read by the JSON
  reader of the client as the same value.
\<close>

definition std_json_ok :: "http_lib \<Rightarrow> jx_lib \<Rightarrow> (json \<Rightarrow> string) \<Rightarrow> bool" where
  "std_json_ok L J enc \<longleftrightarrow> (\<forall>j. hl_ReadJson L (enc j) = Some j)
     \<and> (\<forall>n. in64 n \<longrightarrow> jx_Int64 J (JInt n) = Some n) \<and> (\<forall>s. jx_StrBytes J (JStr s) = Some s)"

lemma order_mapError_codes: "order_mapError err \<in> {400, 401, 404, 409, 500}"
  by (simp add: order_mapError_def)

lemma decode_error_body:
  assumes "http_lib_ok L U" "std_json_ok L J enc"
  shows "decode_body L (ApiError_Decode J) (ErrorHandler enc render err) =
    Ret \<lparr>ae_Code = order_mapError err, ae_Message = (if order_mapError err = 500 then ''internal error'' else render err)\<rparr>"
proof -
  have "in64 (order_mapError err)" using order_mapError_codes [of err] by (auto simp: in64_def)
  then have "ApiError_Decode J (JObj [(''code'', JInt (order_mapError err)), (''message'', JStr m)]) =
      Inr \<lparr>ae_Code = order_mapError err, ae_Message = m\<rparr>" for m
    using assms(2) by (simp add: std_json_ok_def ApiError_Decode_def decode_struct_def ObjBytes_def ApiError_field_def
      field_def need_def set_required_def)
  then show ?thesis
    using http_lib_rules(1) [OF assms(1)] assms(2)
    by (simp add: decode_body_def ErrorHandler_def Let_def std_json_ok_def)
qed

text \<open>
  C21. What a caller of the generated client sees of a failed operation of the order service: the
  typed error response of its status with the code and the message of the error handler, for an
  unknown order, a conflict, bad input and an internal error alike. A missing session is such a response
  for creating an order only: for the other operations the API description has no status 401, and the
  client reports an unexpected status.
\<close>

theorem client_error_view:
  assumes "http_lib_ok L U" "std_json_ok L J enc"
  shows "let code = order_mapError err;
             e = \<lparr>ae_Code = code, ae_Message = (if code = 500 then ''internal error'' else render err)\<rparr>;
             resp = ErrorHandler enc render err
    in decodeCreateOrderResponse L J resp =
         (if code = 400 then Ret (CreateOrderBadRequest e) else if code = 401 then Ret (CreateOrderUnauthorized e)
          else if code = 404 then Ret (CreateOrderNotFound e) else if code = 409 then Ret (CreateOrderConflict e)
          else Ret (CreateOrderInternalServerError e))
     \<and> decodePayOrderResponse L J resp =
         (if code = 400 then Ret (PayOrderBadRequest e) else if code = 401 then unexpected_status
          else if code = 404 then Ret (PayOrderNotFound e) else if code = 409 then Ret (PayOrderConflict e)
          else Ret (PayOrderInternalServerError e))
     \<and> decodeCancelOrderResponse L J resp =
         (if code = 400 then Ret (CancelOrderBadRequest e) else if code = 401 then unexpected_status
          else if code = 404 then Ret (CancelOrderNotFound e) else if code = 409 then Ret (CancelOrderConflict e)
          else Ret (CancelOrderInternalServerError e))
     \<and> decodeGetOrderResponse L J z resp =
         (if code = 400 then Ret (GetOrderBadRequest e) else if code = 404 then Ret (GetOrderNotFound e)
          else if code = 401 \<or> code = 409 then unexpected_status
          else Ret (GetOrderInternalServerError e))"
proof -
  have code: "hp_code (ErrorHandler enc render err) = order_mapError err" by (simp add: ErrorHandler_def Let_def)
  from order_mapError_codes [of err] show ?thesis
    unfolding Let_def decode_response_defs code decode_error_body [OF assms] by auto
qed

theorem client_error_view_witness:
  "decodePayOrderResponse plain_http plain_jx
     (ErrorHandler (hl_WriteJson plain_http) (\<lambda>_. ''no session'') (Sent ErrUnauthorized)) = unexpected_status"
proof -
  have "std_json_ok plain_http plain_jx (hl_WriteJson plain_http)"
    using http_lib_rules(3) [OF plain_http_ok] by (simp add: std_json_ok_def plain_jx_def)
  from client_error_view [OF plain_http_ok this, of "Sent ErrUnauthorized" "\<lambda>_. ''no session''" 0]
  show ?thesis by (simp add: order_mapError_def Let_def)
qed

end
