(* ===== verification/OpenApi_Text.thy ===== *)
theory OpenApi_Text
  imports OpenApi_Client
begin

text \<open>
  The JSON methods of every type of the generated API (oas_json_gen.go): Encode and Decode of the typed
  errors, and MarshalJSON and UnmarshalJSON, which make every type usable with \<open>encoding/json\<close>.
  The jx decoder is a parameter that reads one value and returns the rest of the text, which
  UnmarshalJSON ignores. The interface \<open>json_schema\<close> states what a type promises and what its text form
  then promises; it is interpreted for every type.
\<close>

subsection \<open>The four methods of a type\<close>

type_synonym jx_reader = "string \<Rightarrow> (json \<times> string) option"

text \<open>Encode writes at most one value: an optional value that is not set writes nothing.\<close>

record 'a json_type =
  jt_Encode :: "'a \<Rightarrow> json option"
  jt_Decode :: "json \<Rightarrow> 'a oas"
  jt_MarshalJSON :: "'a \<Rightarrow> string"
  jt_UnmarshalJSON :: "string \<Rightarrow> 'a oas"

definition json_methods :: "http_lib \<Rightarrow> jx_reader \<Rightarrow> ('a \<Rightarrow> json option) \<Rightarrow> (json \<Rightarrow> 'a oas) \<Rightarrow> 'a json_type" where
  "json_methods L read encode decode =
    \<lparr>jt_Encode = encode, jt_Decode = decode,
     jt_MarshalJSON = (\<lambda>s. case encode s of None \<Rightarrow> '''' | Some j \<Rightarrow> hl_WriteJson L j),
     jt_UnmarshalJSON = (\<lambda>data. case read data of None \<Rightarrow> Inl UnexpectedValue | Some (j, rest) \<Rightarrow> decode j)\<rparr>"

definition text_lib_ok :: "http_lib \<Rightarrow> jx_reader \<Rightarrow> jx_lib \<Rightarrow> bool" where
  "text_lib_ok L read J \<longleftrightarrow> jx_lib_ok J \<and> (\<forall>j. read (hl_WriteJson L j) = Some (j, ''''))"

subsection \<open>What a type promises\<close>

locale json_schema =
  fixes L :: http_lib and read :: jx_reader and T :: "'a json_type" and encode :: "'a \<Rightarrow> json option"
    and decode :: "json \<Rightarrow> 'a oas" and wf :: "'a \<Rightarrow> bool" and norm :: "'a \<Rightarrow> 'a"
  assumes methods: "T = json_methods L read encode decode"
    and read_written: "wf x \<Longrightarrow> encode x = Some j \<Longrightarrow> read (hl_WriteJson L j) = Some (j, '''')"
    and decode_encode: "wf x \<Longrightarrow> encode x = Some j \<Longrightarrow> decode j = Inr (norm x)"
begin

lemma text_roundtrip:
  assumes "wf x" "jt_Encode T x \<noteq> None"
  shows "jt_UnmarshalJSON T (jt_MarshalJSON T x) = Inr (norm x)"
proof -
  obtain j where "encode x = Some j" using assms(2) by (auto simp: methods json_methods_def)
  then show ?thesis using read_written [OF assms(1)] decode_encode [OF assms(1)] by (simp add: methods json_methods_def)
qed

text \<open>A value that writes nothing has no text form: what MarshalJSON returns is not JSON.\<close>

lemma unwritten_text: "jt_Encode T x = None \<Longrightarrow> jt_MarshalJSON T x = ''''"
  by (simp add: methods json_methods_def)

lemma same_text:
  assumes "wf x" "wf y" "jt_Encode T x \<noteq> None" "jt_Encode T y \<noteq> None" "jt_MarshalJSON T x = jt_MarshalJSON T y"
  shows "norm x = norm y"
proof -
  have "jt_UnmarshalJSON T (jt_MarshalJSON T x) = Inr (norm x)" by (rule text_roundtrip) (fact assms)+
  moreover have "jt_UnmarshalJSON T (jt_MarshalJSON T x) = Inr (norm y)"
    unfolding assms(5) by (rule text_roundtrip) (fact assms)+
  ultimately show ?thesis by simp
qed

end

subsection \<open>The types\<close>

text \<open>
  A typed error is an alias of \<open>Error\<close>: all its methods are those of \<open>Error\<close>. The tables hold the typed
  errors of an operation by their status, in the order of the source.
\<close>

definition typed_error :: "http_lib \<Rightarrow> jx_reader \<Rightarrow> jx_lib \<Rightarrow> ApiError json_type" where
  "typed_error L read J = json_methods L read (\<lambda>s. Some (ApiError_Encode J s)) (ApiError_Decode J)"

definition CancelOrder_errors :: "http_lib \<Rightarrow> jx_reader \<Rightarrow> jx_lib \<Rightarrow> (int \<times> ApiError json_type) list" where
  "CancelOrder_errors L read J =
    [(400, typed_error L read J), (409, typed_error L read J), (500, typed_error L read J), (404, typed_error L read J)]"

definition CreateOrder_errors :: "http_lib \<Rightarrow> jx_reader \<Rightarrow> jx_lib \<Rightarrow> (int \<times> ApiError json_type) list" where
  "CreateOrder_errors L read J =
    [(400, typed_error L read J), (409, typed_error L read J), (500, typed_error L read J), (404, typed_error L read J)]"

definition CreateOrderUnauthorized_json :: "http_lib \<Rightarrow> jx_reader \<Rightarrow> jx_lib \<Rightarrow> int \<times> ApiError json_type" where
  "CreateOrderUnauthorized_json L read J = (401, typed_error L read J)"

definition GetOrder_errors :: "http_lib \<Rightarrow> jx_reader \<Rightarrow> jx_lib \<Rightarrow> (int \<times> ApiError json_type) list" where
  "GetOrder_errors L read J = [(400, typed_error L read J), (500, typed_error L read J), (404, typed_error L read J)]"

definition PayOrder_errors :: "http_lib \<Rightarrow> jx_reader \<Rightarrow> jx_lib \<Rightarrow> (int \<times> ApiError json_type) list" where
  "PayOrder_errors L read J =
    [(400, typed_error L read J), (409, typed_error L read J), (500, typed_error L read J), (404, typed_error L read J)]"

definition Error_json :: "http_lib \<Rightarrow> jx_reader \<Rightarrow> jx_lib \<Rightarrow> ApiError json_type" where
  "Error_json L read J = json_methods L read (\<lambda>s. Some (ApiError_Encode J s)) (ApiError_Decode J)"

definition CancelOrderResponse_json :: "http_lib \<Rightarrow> jx_reader \<Rightarrow> unit json_type" where
  "CancelOrderResponse_json L read = json_methods L read (\<lambda>_. Some CancelOrderResponse_Encode) CancelOrderResponse_Decode"

definition CreateOrderRequest_json :: "http_lib \<Rightarrow> jx_reader \<Rightarrow> jx_lib \<Rightarrow> CreateOrderRequest json_type" where
  "CreateOrderRequest_json L read J = json_methods L read (\<lambda>s. Some (CreateOrderRequest_Encode J s)) (CreateOrderRequest_Decode J)"

definition CreateOrderResponse_json :: "http_lib \<Rightarrow> jx_reader \<Rightarrow> jx_lib \<Rightarrow> CreateOrderResponse json_type" where
  "CreateOrderResponse_json L read J = json_methods L read (\<lambda>s. Some (CreateOrderResponse_Encode J s)) (CreateOrderResponse_Decode J)"

definition PayOrderRequest_json :: "http_lib \<Rightarrow> jx_reader \<Rightarrow> jx_lib \<Rightarrow> PayOrderRequest json_type" where
  "PayOrderRequest_json L read J = json_methods L read (\<lambda>s. Some (PayOrderRequest_Encode J s)) (PayOrderRequest_Decode J)"

definition PayOrderResponse_json :: "http_lib \<Rightarrow> jx_reader \<Rightarrow> jx_lib \<Rightarrow> PayOrderResponse json_type" where
  "PayOrderResponse_json L read J = json_methods L read (\<lambda>s. Some (PayOrderResponse_Encode J s)) (PayOrderResponse_Decode J)"

definition OrderDto_json :: "http_lib \<Rightarrow> jx_reader \<Rightarrow> jx_lib \<Rightarrow> time \<Rightarrow> OrderDto json_type" where
  "OrderDto_json L read J zero_time = json_methods L read (\<lambda>s. Some (OrderDto_Encode J s)) (OrderDto_Decode J zero_time)"

definition OptNilUUID_json :: "http_lib \<Rightarrow> jx_reader \<Rightarrow> jx_lib \<Rightarrow> uuid OptNil json_type" where
  "OptNilUUID_json L read J = json_methods L read (OptNilUUID_Encode J) (OptNilUUID_Decode J)"

definition OptNilPaymentMethod_json :: "http_lib \<Rightarrow> jx_reader \<Rightarrow> jx_lib \<Rightarrow> string OptNil json_type" where
  "OptNilPaymentMethod_json L read J = json_methods L read (OptNilPaymentMethod_Encode J) (OptNilPaymentMethod_Decode J)"

definition OrderStatus_json :: "http_lib \<Rightarrow> jx_reader \<Rightarrow> jx_lib \<Rightarrow> string json_type" where
  "OrderStatus_json L read J = json_methods L read (\<lambda>s. Some (jx_PutStr J s)) (OrderStatus_Decode J)"

definition PaymentMethod_json :: "http_lib \<Rightarrow> jx_reader \<Rightarrow> jx_lib \<Rightarrow> string json_type" where
  "PaymentMethod_json L read J = json_methods L read (\<lambda>s. Some (jx_PutStr J s)) (PaymentMethod_Decode J)"

interpretation er: json_schema L read "typed_error L read J" "\<lambda>s. Some (ApiError_Encode J s)" "ApiError_Decode J"
  "\<lambda>e. text_lib_ok L read J \<and> in64 (ae_Code e)" "\<lambda>e. e"
  by unfold_locales (auto simp: typed_error_def text_lib_ok_def small_roundtrips)

interpretation cq: json_schema L read "CreateOrderRequest_json L read J" "\<lambda>s. Some (CreateOrderRequest_Encode J s)"
  "CreateOrderRequest_Decode J"
  "\<lambda>r. text_lib_ok L read J \<and> opt_wf uuid_Nil (cr_ShieldUUID r) \<and> opt_wf uuid_Nil (cr_WeaponUUID r)" "\<lambda>r. r"
  by unfold_locales (auto simp: CreateOrderRequest_json_def text_lib_ok_def create_request_roundtrip)

interpretation cs: json_schema L read "CreateOrderResponse_json L read J" "\<lambda>s. Some (CreateOrderResponse_Encode J s)"
  "CreateOrderResponse_Decode J" "\<lambda>r. text_lib_ok L read J \<and> in64 (co_TotalPrice r)" "\<lambda>r. r"
  by unfold_locales (auto simp: CreateOrderResponse_json_def text_lib_ok_def small_roundtrips)

interpretation pq: json_schema L read "PayOrderRequest_json L read J" "\<lambda>s. Some (PayOrderRequest_Encode J s)"
  "PayOrderRequest_Decode J" "\<lambda>r. text_lib_ok L read J" "\<lambda>r. r"
  by unfold_locales (auto simp: PayOrderRequest_json_def text_lib_ok_def small_roundtrips)

interpretation ps: json_schema L read "PayOrderResponse_json L read J" "\<lambda>s. Some (PayOrderResponse_Encode J s)"
  "PayOrderResponse_Decode J" "\<lambda>r. text_lib_ok L read J" "\<lambda>r. r"
  by unfold_locales (auto simp: PayOrderResponse_json_def text_lib_ok_def small_roundtrips)

interpretation od: json_schema L read "OrderDto_json L read J t" "\<lambda>s. Some (OrderDto_Encode J s)"
  "OrderDto_Decode J t" "\<lambda>d. text_lib_ok L read J \<and> dto_wf d" "\<lambda>d. d\<lparr>dto_CreatedAt := jx_Rounded J (dto_CreatedAt d)\<rparr>"
  by unfold_locales (auto simp: OrderDto_json_def text_lib_ok_def dto_roundtrip)

interpretation ou: json_schema L read "OptNilUUID_json L read J" "OptNilUUID_Encode J" "OptNilUUID_Decode J"
  "\<lambda>x. text_lib_ok L read J \<and> opt_wf uuid_Nil x" "\<lambda>x. x"
  by unfold_locales (auto simp: OptNilUUID_json_def text_lib_ok_def OptNilUUID_roundtrip)

interpretation om: json_schema L read "OptNilPaymentMethod_json L read J" "OptNilPaymentMethod_Encode J"
  "OptNilPaymentMethod_Decode J" "\<lambda>x. text_lib_ok L read J \<and> opt_wf '''' x" "\<lambda>x. x"
  by unfold_locales (auto simp: OptNilPaymentMethod_json_def text_lib_ok_def OptNilPaymentMethod_roundtrip)

interpretation st: json_schema L read "OrderStatus_json L read J" "\<lambda>s. Some (jx_PutStr J s)" "OrderStatus_Decode J"
  "\<lambda>s. text_lib_ok L read J" "\<lambda>s. s"
  by unfold_locales (auto simp: OrderStatus_json_def text_lib_ok_def OrderStatus_roundtrip)

interpretation pm: json_schema L read "PaymentMethod_json L read J" "\<lambda>s. Some (jx_PutStr J s)" "PaymentMethod_Decode J"
  "\<lambda>s. text_lib_ok L read J" "\<lambda>s. s"
  by unfold_locales (auto simp: PaymentMethod_json_def text_lib_ok_def PaymentMethod_Decode_def need_def jx_rules)

interpretation cc: json_schema L read "CancelOrderResponse_json L read" "\<lambda>_. Some CancelOrderResponse_Encode"
  CancelOrderResponse_Decode "\<lambda>s. \<exists>J. text_lib_ok L read J" "\<lambda>s. s"
  by unfold_locales (auto simp: CancelOrderResponse_json_def text_lib_ok_def small_roundtrips)

lemma Error_json_typed: "Error_json L read J = typed_error L read J"
  by (simp add: Error_json_def typed_error_def)

subsection \<open>The responses on the wire\<close>

text \<open>Every error response carries the text that the typed error of its status marshals to.\<close>

definition error_text :: "(int \<times> ApiError json_type) list \<Rightarrow> int \<Rightarrow> ApiError \<Rightarrow> string option" where
  "error_text table code e = map_option (\<lambda>T. jt_MarshalJSON T e) (map_of table code)"

lemmas error_tables = CancelOrder_errors_def CreateOrder_errors_def GetOrder_errors_def PayOrder_errors_def
  CreateOrderUnauthorized_json_def

lemma typed_error_text: "jt_MarshalJSON (typed_error L read J) e = hl_WriteJson L (ApiError_Encode J e)"
  by (simp add: typed_error_def json_methods_def)

lemma error_bodies:
  "error_text (CancelOrder_errors L read J) 400 e = Some (hp_body (encodeCancelOrderResponse L J (CancelOrderBadRequest e)))"
  "error_text (CancelOrder_errors L read J) 404 e = Some (hp_body (encodeCancelOrderResponse L J (CancelOrderNotFound e)))"
  "error_text (CancelOrder_errors L read J) 409 e = Some (hp_body (encodeCancelOrderResponse L J (CancelOrderConflict e)))"
  "error_text (CancelOrder_errors L read J) 500 e = Some (hp_body (encodeCancelOrderResponse L J (CancelOrderInternalServerError e)))"
  "error_text (GetOrder_errors L read J) 404 e = Some (hp_body (encodeGetOrderResponse L J (GetOrderNotFound e)))"
  "error_text (GetOrder_errors L read J) 500 e = Some (hp_body (encodeGetOrderResponse L J (GetOrderInternalServerError e)))"
  "error_text (PayOrder_errors L read J) 409 e = Some (hp_body (encodePayOrderResponse L J (PayOrderConflict e)))"
  "error_text (CreateOrderUnauthorized_json L read J # CreateOrder_errors L read J) 401 e
    = Some (hp_body (encodeCreateOrderResponse L J (CreateOrderUnauthorized e)))"
  by (simp_all add: error_text_def error_tables typed_error_text json_response_def)

text \<open>
  An optional identifier that is not set marshals to the empty text, which no JSON reader accepts: such a
  value has to be left out by the struct that holds it, as the encoders here do.
\<close>

lemma unset_has_no_text:
  assumes "read '''' = None"
  shows "jt_UnmarshalJSON (OptNilUUID_json L read J) (jt_MarshalJSON (OptNilUUID_json L read J) (OptNil_Reset uuid_Nil))
    = Inl UnexpectedValue"
  using assms by (simp add: OptNilUUID_json_def json_methods_def OptNilUUID_Encode_def OptNil_Reset_def)

text \<open>
  C19. Text written by MarshalJSON is read back by UnmarshalJSON of the same type: requests, responses, typed
  errors and set optional values unchanged, an order up to the precision of its creation time.
\<close>

theorem api_text_roundtrip:
  assumes "text_lib_ok L read J"
  shows "(opt_wf uuid_Nil (cr_ShieldUUID r) \<and> opt_wf uuid_Nil (cr_WeaponUUID r) \<longrightarrow>
      jt_UnmarshalJSON (CreateOrderRequest_json L read J) (jt_MarshalJSON (CreateOrderRequest_json L read J) r) = Inr r)
    \<and> jt_UnmarshalJSON (PayOrderRequest_json L read J) (jt_MarshalJSON (PayOrderRequest_json L read J) q) = Inr q
    \<and> (in64 (co_TotalPrice c) \<longrightarrow>
        jt_UnmarshalJSON (CreateOrderResponse_json L read J) (jt_MarshalJSON (CreateOrderResponse_json L read J) c) = Inr c)
    \<and> jt_UnmarshalJSON (PayOrderResponse_json L read J) (jt_MarshalJSON (PayOrderResponse_json L read J) p) = Inr p
    \<and> (in64 (ae_Code e) \<longrightarrow> jt_UnmarshalJSON (typed_error L read J) (jt_MarshalJSON (typed_error L read J) e) = Inr e)
    \<and> (opt_wf uuid_Nil u \<and> on_Set u \<longrightarrow>
        jt_UnmarshalJSON (OptNilUUID_json L read J) (jt_MarshalJSON (OptNilUUID_json L read J) u) = Inr u)
    \<and> (dto_wf d \<longrightarrow> jt_UnmarshalJSON (OrderDto_json L read J t) (jt_MarshalJSON (OrderDto_json L read J t) d)
          = Inr (d\<lparr>dto_CreatedAt := jx_Rounded J (dto_CreatedAt d)\<rparr>))"
proof -
  note encode = CreateOrderRequest_json_def PayOrderRequest_json_def CreateOrderResponse_json_def PayOrderResponse_json_def
    typed_error_def OrderDto_json_def OptNilUUID_json_def json_methods_def
  have "jt_Encode (OptNilUUID_json L read J) u \<noteq> None" if "on_Set u"
    using that by (simp add: encode OptNilUUID_Encode_def)
  then show ?thesis
    using assms cq.text_roundtrip [of L read J r] pq.text_roundtrip [of L read J q] cs.text_roundtrip [of L read J c]
      ps.text_roundtrip [of L read J p] er.text_roundtrip [of L read J e] ou.text_roundtrip [of L read J u]
      od.text_roundtrip [of L read J d t]
    by (simp add: encode)
qed

text \<open>A reader for the text form of \<open>plain_http\<close>.\<close>

definition plain_reader :: jx_reader where
  "plain_reader s = map_option (\<lambda>j. (j, '''')) (hl_ReadJson plain_http s)"

lemma plain_text_ok: "text_lib_ok plain_http plain_reader plain_jx"
  by (simp add: text_lib_ok_def plain_jx_ok plain_reader_def plain_http_def)

theorem api_text_roundtrip_witness:
  "jt_UnmarshalJSON (OptNilUUID_json plain_http plain_reader plain_jx)
     (jt_MarshalJSON (OptNilUUID_json plain_http plain_reader plain_jx) (NewOptNil 3)) = Inr (NewOptNil 3)
   \<and> jt_UnmarshalJSON (typed_error plain_http plain_reader plain_jx)
       (jt_MarshalJSON (typed_error plain_http plain_reader plain_jx) \<lparr>ae_Code = 404, ae_Message = ''order not found''\<rparr>)
     = Inr \<lparr>ae_Code = 404, ae_Message = ''order not found''\<rparr>"
proof -
  have wf: "opt_wf uuid_Nil (NewOptNil 3)" "on_Set (NewOptNil (3 :: uuid))" by (auto simp: opt_wf_def NewOptNil_def)
  have "in64 (ae_Code \<lparr>ae_Code = 404, ae_Message = ''order not found''\<rparr>)" by (simp add: in64_def)
  then show ?thesis
    using api_text_roundtrip [OF plain_text_ok, where u = "NewOptNil 3" and e = "\<lparr>ae_Code = 404, ae_Message = ''order not found''\<rparr>"]
      wf by blast
qed

end
