(* ===== verification/OpenApi_Config.thy ===== *)
theory OpenApi_Config
  imports OpenApi_Client
begin

text \<open>
  How the generated server and client are configured (oas_cfg_gen.go, oas_server_gen.go,
  oas_unimplemented_gen.go, the head of oas_client_gen.go). The default error handler of ogen, the parser of
  URLs, the global providers and the creation of instruments are parameters.
\<close>

subsection \<open>Telemetry settings\<close>

text \<open>A tracer or meter is named by the provider it comes from; the name and version of ogen are fixed.\<close>

type_synonym provider = string

record otelConfig =
  ot_TracerProvider :: "provider option"
  ot_Tracer :: "provider option"
  ot_MeterProvider :: "provider option"
  ot_Meter :: "provider option"
  ot_Attributes :: "(string \<times> string) list"

definition zero_otel :: otelConfig where
  "zero_otel = \<lparr>ot_TracerProvider = None, ot_Tracer = None, ot_MeterProvider = None, ot_Meter = None, ot_Attributes = []\<rparr>"

definition initOTEL :: "provider \<times> provider \<Rightarrow> otelConfig \<Rightarrow> otelConfig" where
  "initOTEL globals cfg =
    (let tracerProvider = (case ot_TracerProvider cfg of None \<Rightarrow> fst globals | Some p \<Rightarrow> p);
         meterProvider = (case ot_MeterProvider cfg of None \<Rightarrow> snd globals | Some p \<Rightarrow> p)
     in cfg\<lparr>ot_TracerProvider := Some tracerProvider, ot_MeterProvider := Some meterProvider,
            ot_Tracer := Some tracerProvider, ot_Meter := Some meterProvider\<rparr>)"

definition WithTracerProvider :: "provider option \<Rightarrow> otelConfig \<Rightarrow> otelConfig" where
  "WithTracerProvider p cfg = (case p of None \<Rightarrow> cfg | Some _ \<Rightarrow> cfg\<lparr>ot_TracerProvider := p\<rparr>)"

definition WithMeterProvider :: "provider option \<Rightarrow> otelConfig \<Rightarrow> otelConfig" where
  "WithMeterProvider p cfg = (case p of None \<Rightarrow> cfg | Some _ \<Rightarrow> cfg\<lparr>ot_MeterProvider := p\<rparr>)"

definition WithAttributes :: "(string \<times> string) list \<Rightarrow> otelConfig \<Rightarrow> otelConfig" where
  "WithAttributes attributes cfg = cfg\<lparr>ot_Attributes := attributes\<rparr>"

subsection \<open>The server\<close>

text \<open>
  A hook for refused methods writes a response on top of the headers that are already set. The services
  configure no ogen middleware, which is left out.
\<close>

record serverConfig =
  cfg_otel :: otelConfig
  cfg_NotFound :: "http_req \<Rightarrow> http_resp"
  cfg_MethodNotAllowed :: "((string \<times> string) list \<Rightarrow> http_req \<Rightarrow> string \<Rightarrow> http_resp) option"
  cfg_ErrorHandler :: "order_error err \<Rightarrow> http_resp"
  cfg_Prefix :: string
  cfg_MaxMultipartMemory :: int

type_synonym ServerOption = "serverConfig \<Rightarrow> serverConfig"

definition otel_server :: "(otelConfig \<Rightarrow> otelConfig) \<Rightarrow> ServerOption" where
  "otel_server opt c = c\<lparr>cfg_otel := opt (cfg_otel c)\<rparr>"

definition WithNotFound :: "(http_req \<Rightarrow> http_resp) option \<Rightarrow> ServerOption" where
  "WithNotFound notFound cfg = (case notFound of None \<Rightarrow> cfg | Some h \<Rightarrow> cfg\<lparr>cfg_NotFound := h\<rparr>)"

definition WithMethodNotAllowed ::
    "((string \<times> string) list \<Rightarrow> http_req \<Rightarrow> string \<Rightarrow> http_resp) option \<Rightarrow> ServerOption" where
  "WithMethodNotAllowed methodNotAllowed cfg =
    (case methodNotAllowed of None \<Rightarrow> cfg | Some h \<Rightarrow> cfg\<lparr>cfg_MethodNotAllowed := Some h\<rparr>)"

definition WithErrorHandler :: "(order_error err \<Rightarrow> http_resp) option \<Rightarrow> ServerOption" where
  "WithErrorHandler h cfg = (case h of None \<Rightarrow> cfg | Some h \<Rightarrow> cfg\<lparr>cfg_ErrorHandler := h\<rparr>)"

definition WithPathPrefix :: "string \<Rightarrow> ServerOption" where
  "WithPathPrefix prefix cfg = cfg\<lparr>cfg_Prefix := prefix\<rparr>"

definition WithMaxMultipartMemory :: "int \<Rightarrow> ServerOption" where
  "WithMaxMultipartMemory m cfg = (if m > 0 then cfg\<lparr>cfg_MaxMultipartMemory := m\<rparr> else cfg)"

definition newServerConfig ::
    "(order_error err \<Rightarrow> http_resp) \<Rightarrow> provider \<times> provider \<Rightarrow> ServerOption list \<Rightarrow> serverConfig" where
  "newServerConfig defaultErrorHandler globals opts =
    otel_server (initOTEL globals) (fold (\<lambda>opt. opt) opts
      \<lparr>cfg_otel = zero_otel, cfg_NotFound = (\<lambda>_. http_NotFound), cfg_MethodNotAllowed = None,
       cfg_ErrorHandler = defaultErrorHandler, cfg_Prefix = '''', cfg_MaxMultipartMemory = 32 * 2 ^ 20\<rparr>)"

text \<open>Creating the instruments on a meter: the first that fails ends the start.\<close>

fun instruments :: "(provider option \<Rightarrow> string \<Rightarrow> string option) \<Rightarrow> provider option \<Rightarrow> string list \<Rightarrow> string option" where
  "instruments create meter [] = None"
| "instruments create meter (i # is) = (case create meter i of Some err \<Rightarrow> Some err | None \<Rightarrow> instruments create meter is)"

definition baseServer :: "(provider option \<Rightarrow> string \<Rightarrow> string option) \<Rightarrow> serverConfig \<Rightarrow> string + serverConfig" where
  "baseServer create cfg =
    (case instruments create (ot_Meter (cfg_otel cfg)) [''ServerRequestCount'', ''ServerErrorsCount'', ''ServerDuration''] of
       Some err \<Rightarrow> Inl err | None \<Rightarrow> Inr cfg)"

text \<open>The operations of the handler are the fields of the server.\<close>

definition NewServer ::
    "(provider option \<Rightarrow> string \<Rightarrow> string option) \<Rightarrow> (order_error err \<Rightarrow> http_resp) \<Rightarrow> provider \<times> provider
      \<Rightarrow> 'w oas_server \<Rightarrow> ServerOption list \<Rightarrow> string + serverConfig \<times> 'w oas_server" where
  "NewServer create defaultErrorHandler globals h opts =
    (case baseServer create (newServerConfig defaultErrorHandler globals opts) of
       Inl err \<Rightarrow> Inl err
     | Inr cfg \<Rightarrow> Inr (cfg, h\<lparr>sv_prefix := cfg_Prefix cfg, sv_ErrorHandler := cfg_ErrorHandler cfg\<rparr>))"

definition UnimplementedHandler :: "(order_error err \<Rightarrow> http_resp) \<Rightarrow> 'w oas_server" where
  "UnimplementedHandler eh =
    (let notImplemented = Ext (Foreign ''http: method not implemented'')
     in \<lparr>sv_prefix = '''', sv_ErrorHandler = eh, sv_CreateOrder = (\<lambda>_ _. fail notImplemented), sv_GetOrder = (\<lambda>_ _. fail notImplemented),
         sv_PayOrder = (\<lambda>_ _ _. fail notImplemented), sv_CancelOrder = (\<lambda>_ _. fail notImplemented)\<rparr>)"

definition baseServer_notAllowed :: "http_lib \<Rightarrow> serverConfig \<Rightarrow> operation \<Rightarrow> http_req \<Rightarrow> http_resp" where
  "baseServer_notAllowed L cfg opn r =
    (let isOptions = (hq_method r = ''OPTIONS'');
         h = (if isOptions then
                [(''Access-Control-Allow-Methods'', allowed_method opn)]
                @ (if has_body opn \<and> hq_requestMethod r \<noteq> '''' \<and> hl_ToUpper L (hq_requestMethod r) = ''POST''
                   then [(''Access-Control-Allow-Headers'', ''Content-Type'')] else [])
                @ (if has_body opn then [(''Accept-Post'', ''application/json'')] else [])
              else [])
     in case cfg_MethodNotAllowed cfg of
          Some hook \<Rightarrow> hook h r (allowed_method opn)
        | None \<Rightarrow>
            (if isOptions then \<lparr>hp_code = 204, hp_headers = h, hp_body = ''''\<rparr>
             else \<lparr>hp_code = 405, hp_headers = h @ [(''Allow'', allowed_method opn)], hp_body = ''''\<rparr>))"

text \<open>ServeHTTP with the not-found handler and the hook of the configuration.\<close>

definition ServeHTTP_cfg :: "http_lib \<Rightarrow> jx_lib \<Rightarrow> uuid_lib \<Rightarrow> serverConfig \<times> 'w oas_server \<Rightarrow> 'w http_handler" where
  "ServeHTTP_cfg L J U cs r =
    (case cs of (cfg, s) \<Rightarrow>
      (let (elem, elemIsEscaped) = routed_path L r
       in case cutPrefix (cfg_Prefix cfg) elem of
            None \<Rightarrow> ret (cfg_NotFound cfg r)
          | Some elem \<Rightarrow>
              if length elem = 0 then ret (cfg_NotFound cfg r)
              else (case find_leaf elem of
                  None \<Rightarrow> ret (cfg_NotFound cfg r)
                | Some (opn, arg) \<Rightarrow>
                    if hq_method r = allowed_method opn then
                      (case opn of
                         CreateOrder \<Rightarrow> handleCreateOrderRequest L J s r
                       | GetOrder \<Rightarrow> handleGetOrderRequest L J U s arg elemIsEscaped r
                       | CancelOrder \<Rightarrow> handleCancelOrderRequest L J U s arg elemIsEscaped r
                       | PayOrder \<Rightarrow> handlePayOrderRequest L J U s arg elemIsEscaped r)
                    else ret (baseServer_notAllowed L cfg opn r))))"

lemmas server_option_defs = otel_server_def WithNotFound_def WithMethodNotAllowed_def WithErrorHandler_def
  WithPathPrefix_def WithMaxMultipartMemory_def

lemma notAllowed_default: "cfg_MethodNotAllowed cfg = None \<Longrightarrow> baseServer_notAllowed L cfg opn r = notAllowed L opn r"
  by (simp add: baseServer_notAllowed_def notAllowed_def Let_def)

text \<open>Without own not-found handler and hook the configured server is the one of \<open>OpenApi_Server\<close>.\<close>

lemma ServeHTTP_cfg_default:
  assumes "cfg_NotFound cfg = (\<lambda>_. http_NotFound)" "cfg_MethodNotAllowed cfg = None" "cfg_Prefix cfg = sv_prefix s"
  shows "ServeHTTP_cfg L J U (cfg, s) r = ServeHTTP L J U s r"
  unfolding ServeHTTP_cfg_def ServeHTTP_def prod.case assms(1) assms(3) notAllowed_default [OF assms(2)] by (rule refl)

text \<open>Options that carry nothing change nothing.\<close>

lemma nil_options [simp]:
  "WithNotFound None cfg = cfg" "WithMethodNotAllowed None cfg = cfg" "WithErrorHandler None cfg = cfg"
  "WithTracerProvider None ot = ot" "WithMeterProvider None ot = ot" "WithMaxMultipartMemory 0 cfg = cfg"
  by (simp_all add: server_option_defs WithTracerProvider_def WithMeterProvider_def)

lemma initOTEL_filled:
  "ot_Tracer (initOTEL g c) = ot_TracerProvider (initOTEL g c)" "ot_Meter (initOTEL g c) = ot_MeterProvider (initOTEL g c)"
  "ot_TracerProvider (initOTEL g c) = Some (case ot_TracerProvider c of None \<Rightarrow> fst g | Some p \<Rightarrow> p)"
  "initOTEL g (initOTEL g c) = initOTEL g c"
  by (simp_all add: initOTEL_def Let_def)

lemma instruments_None: "instruments create meter is = None \<longleftrightarrow> (\<forall>i\<in>set is. create meter i = None)"
  by (induction "is") (auto split: option.splits)

text \<open>
  The call in the order service passes the error handler only: if the three instruments can be made, the
  server answers every request as the model of \<open>OpenApi_Server\<close> does.
\<close>

lemma NewServer_order:
  assumes "NewServer create deh globals (NewOrderServer enc render U fresh os) [WithErrorHandler (Some (ErrorHandler enc render))]
    = Inr (cfg, s)"
  shows "ServeHTTP_cfg L J V (cfg, s) r = ServeHTTP L J V (NewOrderServer enc render U fresh os) r"
proof -
  have s: "s = NewOrderServer enc render U fresh os" "cfg_Prefix cfg = sv_prefix s"
    "cfg_NotFound cfg = (\<lambda>_. http_NotFound)" "cfg_MethodNotAllowed cfg = None"
    using assms by (auto simp: NewServer_def baseServer_def newServerConfig_def server_option_defs NewOrderServer_def
      split: option.splits)
  show ?thesis using ServeHTTP_cfg_default [OF s(3,4,2)] s(1) by simp
qed

lemma NewServer_fails:
  "(\<exists>err. NewServer create deh globals h opts = Inl err) \<longleftrightarrow>
    (\<exists>i\<in>{''ServerRequestCount'', ''ServerErrorsCount'', ''ServerDuration''}.
       create (ot_Meter (cfg_otel (newServerConfig deh globals opts))) i \<noteq> None)"
proof -
  let ?m = "ot_Meter (cfg_otel (newServerConfig deh globals opts))"
  let ?is = "[''ServerRequestCount'', ''ServerErrorsCount'', ''ServerDuration'']"
  have "(\<exists>err. NewServer create deh globals h opts = Inl err) \<longleftrightarrow> instruments create ?m ?is \<noteq> None"
    by (simp add: NewServer_def baseServer_def del: instruments.simps split: option.splits)
  then show ?thesis unfolding instruments_None by simp
qed

text \<open>A server with a prefix answers 404 outside of it and what the plain server answers below it.\<close>

lemma prefix_outside:
  assumes "cfg_Prefix cfg \<noteq> ''''" "\<not> has_prefix (fst (routed_path L r)) (cfg_Prefix cfg)"
  shows "ServeHTTP_cfg L J U (cfg, s) r = ret (cfg_NotFound cfg r)"
  using assms by (cases "routed_path L r") (simp add: ServeHTTP_cfg_def cutPrefix_def)

subsection \<open>The client\<close>

text \<open>A URL is its path and its escaped path, as in \<open>OpenApi_Client\<close>.\<close>

type_synonym url = "string \<times> string"

record 'w clientConfig =
  cc_otel :: otelConfig
  cc_Client :: "'w http_handler"

definition otel_client :: "(otelConfig \<Rightarrow> otelConfig) \<Rightarrow> 'w clientConfig \<Rightarrow> 'w clientConfig" where
  "otel_client opt c = c\<lparr>cc_otel := opt (cc_otel c)\<rparr>"

definition WithClient :: "'w http_handler option \<Rightarrow> 'w clientConfig \<Rightarrow> 'w clientConfig" where
  "WithClient client cfg = (case client of None \<Rightarrow> cfg | Some c \<Rightarrow> cfg\<lparr>cc_Client := c\<rparr>)"

definition newClientConfig ::
    "'w http_handler \<Rightarrow> provider \<times> provider \<Rightarrow> ('w clientConfig \<Rightarrow> 'w clientConfig) list \<Rightarrow> 'w clientConfig" where
  "newClientConfig defaultClient globals opts =
    otel_client (initOTEL globals) (fold (\<lambda>opt. opt) opts \<lparr>cc_otel = zero_otel, cc_Client = defaultClient\<rparr>)"

definition baseClient ::
    "(provider option \<Rightarrow> string \<Rightarrow> string option) \<Rightarrow> 'w clientConfig \<Rightarrow> string + 'w clientConfig" where
  "baseClient create cfg =
    (case instruments create (ot_Meter (cc_otel cfg)) [''ClientRequestCount'', ''ClientErrorsCount'', ''ClientDuration''] of
       Some err \<Rightarrow> Inl err | None \<Rightarrow> Inr cfg)"

definition TrimRight_slash :: "string \<Rightarrow> string" where
  "TrimRight_slash s = rev (dropWhile (\<lambda>c. c = CHR ''/'') (rev s))"

definition trimTrailingSlashes :: "url \<Rightarrow> url" where
  "trimTrailingSlashes u = (TrimRight_slash (fst u), TrimRight_slash (snd u))"

definition NewClient ::
    "(string \<Rightarrow> string + url) \<Rightarrow> (provider option \<Rightarrow> string \<Rightarrow> string option) \<Rightarrow> 'w http_handler \<Rightarrow> provider \<times> provider
      \<Rightarrow> string \<Rightarrow> ('w clientConfig \<Rightarrow> 'w clientConfig) list \<Rightarrow> string + 'w clientConfig \<times> 'w oas_client" where
  "NewClient url_Parse create defaultClient globals serverURL opts =
    (case url_Parse serverURL of
       Inl err \<Rightarrow> Inl err
     | Inr u \<Rightarrow>
         (case baseClient create (newClientConfig defaultClient globals opts) of
            Inl err \<Rightarrow> Inl err
          | Inr c \<Rightarrow> Inr (c, \<lparr>oc_serverURL = trimTrailingSlashes u, oc_Do = cc_Client c\<rparr>)))"

text \<open>The URL of a call: the one set in its context, if there is one.\<close>

definition requestURL :: "'w oas_client \<Rightarrow> url option \<Rightarrow> url" where
  "requestURL c ctx_url = (case ctx_url of None \<Rightarrow> oc_serverURL c | Some u \<Rightarrow> u)"

lemma TrimRight_slash_last: "TrimRight_slash s \<noteq> [] \<Longrightarrow> last (TrimRight_slash s) \<noteq> CHR ''/''"
  using hd_dropWhile [of "\<lambda>c. c = CHR ''/''" "rev s"] by (simp add: TrimRight_slash_def last_rev)

lemma TrimRight_slash_slashes: "TrimRight_slash (s @ replicate n (CHR ''/'')) = TrimRight_slash s"
  by (simp add: TrimRight_slash_def dropWhile_append)

lemma TrimRight_slash_id: "s = [] \<or> last s \<noteq> CHR ''/'' \<Longrightarrow> TrimRight_slash s = s"
  by (cases s rule: rev_cases) (simp_all add: TrimRight_slash_def)

lemma trim_idempotent: "trimTrailingSlashes (trimTrailingSlashes u) = trimTrailingSlashes u"
  using TrimRight_slash_last TrimRight_slash_id by (auto simp: trimTrailingSlashes_def intro!: TrimRight_slash_id)

text \<open>
  A client made for the root of a server, written with any number of slashes, and with the transport to it
  is the client of \<open>OpenApi_Client\<close>: what is shown of that one holds of it.
\<close>

lemma NewClient_root:
  assumes "url_Parse addr = Inr (replicate n (CHR ''/''), '''')"
    and "NewClient url_Parse create defaultClient globals addr [WithClient (Some (http_transport (ServeHTTP L J U s)))] = Inr (cfg, cl)"
  shows "cl = client_of L J U s"
  using assms TrimRight_slash_slashes [of "[]" n]
  by (auto simp: NewClient_def baseClient_def newClientConfig_def otel_client_def WithClient_def client_of_def
    trimTrailingSlashes_def TrimRight_slash_def split: option.splits)

end
