(* ===== verification/OpenApi_Telemetry.thy ===== *)
theory OpenApi_Telemetry
  imports OpenApi_Config
begin

text \<open>
  What the generated handlers (oas_handlers_gen.go, oas_labeler_gen.go) and the generated client
  (oas_client_gen.go) report about a request: spans, counters and durations, in the order of the calls
  and of the deferred calls. The instruments are a list of events; times and the making of an attribute
  set (\<open>attribute.NewSet\<close>) are not modelled, the latter is a parameter. A body that fails to close and a
  response that fails to be written are not modelled.
\<close>

subsection \<open>Attributes and events\<close>

datatype attr =
    OperationID string
  | HTTPRequestMethod string
  | HTTPRoute string
  | URLTemplate string
  | Configured string string
  | HTTPResponseStatusCode int

datatype span_code = SpanOk | SpanError

datatype tel_event =
    Span_Start string "attr list"
  | Span_SetStatus span_code string
  | Span_RecordError
  | Span_SetAttributes attr
  | Span_End
  | Requests_Add "attr list"
  | Errors_Add "attr list"
  | Duration_Record "attr list"

fun OperationName :: "operation \<Rightarrow> string" where
  "OperationName CancelOrder = ''CancelOrder''"
| "OperationName CreateOrder = ''CreateOrder''"
| "OperationName GetOrder = ''GetOrder''"
| "OperationName PayOrder = ''PayOrder''"

fun operation_id :: "operation \<Rightarrow> string" where
  "operation_id CancelOrder = ''cancelOrder''"
| "operation_id CreateOrder = ''createOrder''"
| "operation_id GetOrder = ''getOrder''"
| "operation_id PayOrder = ''payOrder''"

fun operation_route :: "operation \<Rightarrow> string" where
  "operation_route CancelOrder = ''/api/v1/orders/{order_uuid}/cancel''"
| "operation_route CreateOrder = ''/api/v1/orders''"
| "operation_route GetOrder = ''/api/v1/orders/{order_uuid}''"
| "operation_route PayOrder = ''/api/v1/orders/{order_uuid}/pay''"

definition configured :: "otelConfig \<Rightarrow> attr list" where
  "configured cfg = map (\<lambda>(k, v). Configured k v) (ot_Attributes cfg)"

definition server_attrs :: "otelConfig \<Rightarrow> operation \<Rightarrow> attr list" where
  "server_attrs cfg opn =
    [OperationID (operation_id opn), HTTPRequestMethod (allowed_method opn), HTTPRoute (operation_route opn)] @ configured cfg"

definition client_attrs :: "otelConfig \<Rightarrow> operation \<Rightarrow> attr list" where
  "client_attrs cfg opn =
    [OperationID (operation_id opn), HTTPRequestMethod (allowed_method opn), URLTemplate (operation_route opn)] @ configured cfg"

subsection \<open>Labeler\<close>

record Labeler =
  lb_attrs :: "attr list"

definition Labeler_Add :: "Labeler \<Rightarrow> attr list \<Rightarrow> Labeler" where
  "Labeler_Add l attrs = l\<lparr>lb_attrs := lb_attrs l @ attrs\<rparr>"

definition Labeler_AttributeSet :: "(attr list \<Rightarrow> attr list) \<Rightarrow> Labeler \<Rightarrow> attr list" where
  "Labeler_AttributeSet NewSet l = NewSet (lb_attrs l)"

text \<open>The labeler in a context, if there is one; a fresh one is of no use to the request.\<close>

definition LabelerFromContext :: "Labeler option \<Rightarrow> Labeler \<times> bool" where
  "LabelerFromContext c = (case c of Some l \<Rightarrow> (l, True) | None \<Rightarrow> (\<lparr>lb_attrs = []\<rparr>, False))"

definition contextWithLabeler :: "Labeler option \<Rightarrow> Labeler \<Rightarrow> Labeler option" where
  "contextWithLabeler c l = Some l"

lemma labeler_of_request [simp]: "LabelerFromContext (contextWithLabeler c l) = (l, True)"
  by (simp add: LabelerFromContext_def contextWithLabeler_def)

subsection \<open>The server side\<close>

text \<open>The recorded status is 0 until a header is written.\<close>

definition with_code :: "attr list \<Rightarrow> int \<Rightarrow> attr list" where
  "with_code attrs code = (if code \<noteq> 0 then attrs @ [HTTPResponseStatusCode code] else attrs)"

definition recordError :: "attr list \<Rightarrow> int \<Rightarrow> string \<Rightarrow> tel_event list" where
  "recordError attrs code stage =
    [Span_RecordError]
    @ (if code < 100 \<or> code \<ge> 500 then [Span_SetStatus SpanError stage] else [])
    @ [Errors_Add (with_code attrs code)]"

text \<open>The deferred calls at the end of every handler.\<close>

definition finish_request :: "attr list \<Rightarrow> int \<Rightarrow> tel_event list" where
  "finish_request attrs code =
    (if code \<noteq> 0 then [Span_SetAttributes (HTTPResponseStatusCode code)] else [])
    @ [Requests_Add (with_code attrs code), Duration_Record (with_code attrs code), Span_End]"

text \<open>The status an encoder of responses gives the span.\<close>

definition encoder_status :: "(int \<Rightarrow> string) \<Rightarrow> int \<Rightarrow> tel_event" where
  "encoder_status StatusText code = Span_SetStatus (if code = 200 \<or> code = 201 then SpanOk else SpanError) (StatusText code)"

text \<open>A handler with the stage at which it failed, if it did, beside the response.\<close>

type_synonym 'w staged = "('w, string option \<times> http_resp, order_error) act"

definition respond_staged ::
    "'w oas_server \<Rightarrow> ('a \<Rightarrow> http_resp) \<Rightarrow> ('w, 'a, order_error) act \<Rightarrow> 'w staged" where
  "respond_staged s encode handler = (\<lambda>w. case handler w of
       (Err err, w') \<Rightarrow> (Ret (Some ''Internal'', sv_ErrorHandler s err), w')
     | (Panic p, w') \<Rightarrow> (Panic p, w')
     | (Ret response, w') \<Rightarrow> (Ret (None, encode response), w'))"

definition refuse :: "'w oas_server \<Rightarrow> string \<Rightarrow> ext_error \<Rightarrow> 'w staged" where
  "refuse s stage e = ret (Some stage, sv_ErrorHandler s (Ext e))"

definition staged_CancelOrder ::
    "http_lib \<Rightarrow> jx_lib \<Rightarrow> uuid_lib \<Rightarrow> 'w oas_server \<Rightarrow> string \<Rightarrow> bool \<Rightarrow> http_req \<Rightarrow> 'w staged" where
  "staged_CancelOrder L J U s arg argsEscaped r =
    (case decodeCancelOrderParams L U arg argsEscaped of
       Inl e \<Rightarrow> refuse s ''DecodeParams'' DecodeParamsError
     | Inr orderUUID \<Rightarrow> respond_staged s (encodeCancelOrderResponse L J) (sv_CancelOrder s (hq_ctx r) orderUUID))"

definition staged_CreateOrder :: "http_lib \<Rightarrow> jx_lib \<Rightarrow> 'w oas_server \<Rightarrow> http_req \<Rightarrow> 'w staged" where
  "staged_CreateOrder L J s r =
    (case decodeCreateOrderRequest L J r of
       Inl e \<Rightarrow> refuse s ''DecodeRequest'' DecodeRequestError
     | Inr request \<Rightarrow> respond_staged s (encodeCreateOrderResponse L J) (sv_CreateOrder s (hq_ctx r) request))"

definition staged_GetOrder ::
    "http_lib \<Rightarrow> jx_lib \<Rightarrow> uuid_lib \<Rightarrow> 'w oas_server \<Rightarrow> string \<Rightarrow> bool \<Rightarrow> http_req \<Rightarrow> 'w staged" where
  "staged_GetOrder L J U s arg argsEscaped r =
    (case decodeGetOrderParams L U arg argsEscaped of
       Inl e \<Rightarrow> refuse s ''DecodeParams'' DecodeParamsError
     | Inr orderUUID \<Rightarrow> respond_staged s (encodeGetOrderResponse L J) (sv_GetOrder s (hq_ctx r) orderUUID))"

definition staged_PayOrder ::
    "http_lib \<Rightarrow> jx_lib \<Rightarrow> uuid_lib \<Rightarrow> 'w oas_server \<Rightarrow> string \<Rightarrow> bool \<Rightarrow> http_req \<Rightarrow> 'w staged" where
  "staged_PayOrder L J U s arg argsEscaped r =
    (case decodePayOrderParams L U arg argsEscaped of
       Inl e \<Rightarrow> refuse s ''DecodeParams'' DecodeParamsError
     | Inr orderUUID \<Rightarrow>
         (case decodePayOrderRequest L J r of
            Inl e \<Rightarrow> refuse s ''DecodeRequest'' DecodeRequestError
          | Inr request \<Rightarrow> respond_staged s (encodePayOrderResponse L J) (sv_PayOrder s (hq_ctx r) request orderUUID)))"

definition staged_handler :: "http_lib \<Rightarrow> jx_lib \<Rightarrow> uuid_lib \<Rightarrow> 'w oas_server \<Rightarrow> operation \<Rightarrow> string \<Rightarrow> bool \<Rightarrow> http_req \<Rightarrow> 'w staged" where
  "staged_handler L J U s opn arg argsEscaped r =
    (case opn of
       CreateOrder \<Rightarrow> staged_CreateOrder L J s r
     | GetOrder \<Rightarrow> staged_GetOrder L J U s arg argsEscaped r
     | CancelOrder \<Rightarrow> staged_CancelOrder L J U s arg argsEscaped r
     | PayOrder \<Rightarrow> staged_PayOrder L J U s arg argsEscaped r)"

text \<open>
  The frame of a handler: the span starts first and ends last. The deferred \<open>recordError\<close> runs before the
  deferred counting of the request; after a panic no header is written and nothing is recorded as error.
\<close>

definition observe ::
    "(attr list \<Rightarrow> attr list) \<Rightarrow> (int \<Rightarrow> string) \<Rightarrow> otelConfig \<Rightarrow> operation \<Rightarrow> 'w staged
      \<Rightarrow> ('w \<times> tel_event list, http_resp, order_error) act" where
  "observe NewSet StatusText cfg opn a = (\<lambda>(w, ev).
    (let otelAttrs = server_attrs cfg opn;
         ev = ev @ [Span_Start (OperationName opn) otelAttrs];
         attrs = Labeler_AttributeSet NewSet (fst (LabelerFromContext (contextWithLabeler None \<lparr>lb_attrs = otelAttrs\<rparr>)))
     in case a w of
          (Ret (None, resp), w') \<Rightarrow>
            (Ret resp, w', ev @ [encoder_status StatusText (hp_code resp)] @ finish_request attrs (hp_code resp))
        | (Ret (Some stage, resp), w') \<Rightarrow>
            (Ret resp, w', ev @ recordError attrs (hp_code resp) stage @ finish_request attrs (hp_code resp))
        | (Err e, w') \<Rightarrow> (Err e, w', ev @ finish_request attrs 0)
        | (Panic p, w') \<Rightarrow> (Panic p, w', ev @ finish_request attrs 0)))"

text \<open>The four handlers and the router with what they report.\<close>

definition observed_CancelOrder ::
    "(attr list \<Rightarrow> attr list) \<Rightarrow> (int \<Rightarrow> string) \<Rightarrow> otelConfig \<Rightarrow> http_lib \<Rightarrow> jx_lib \<Rightarrow> uuid_lib \<Rightarrow> 'w oas_server
      \<Rightarrow> string \<Rightarrow> bool \<Rightarrow> ('w \<times> tel_event list) http_handler" where
  "observed_CancelOrder NewSet StatusText cfg L J U s arg argsEscaped r =
    observe NewSet StatusText cfg CancelOrder (staged_CancelOrder L J U s arg argsEscaped r)"

definition observed_CreateOrder ::
    "(attr list \<Rightarrow> attr list) \<Rightarrow> (int \<Rightarrow> string) \<Rightarrow> otelConfig \<Rightarrow> http_lib \<Rightarrow> jx_lib \<Rightarrow> 'w oas_server
      \<Rightarrow> ('w \<times> tel_event list) http_handler" where
  "observed_CreateOrder NewSet StatusText cfg L J s r =
    observe NewSet StatusText cfg CreateOrder (staged_CreateOrder L J s r)"

definition observed_GetOrder ::
    "(attr list \<Rightarrow> attr list) \<Rightarrow> (int \<Rightarrow> string) \<Rightarrow> otelConfig \<Rightarrow> http_lib \<Rightarrow> jx_lib \<Rightarrow> uuid_lib \<Rightarrow> 'w oas_server
      \<Rightarrow> string \<Rightarrow> bool \<Rightarrow> ('w \<times> tel_event list) http_handler" where
  "observed_GetOrder NewSet StatusText cfg L J U s arg argsEscaped r =
    observe NewSet StatusText cfg GetOrder (staged_GetOrder L J U s arg argsEscaped r)"

definition observed_PayOrder ::
    "(attr list \<Rightarrow> attr list) \<Rightarrow> (int \<Rightarrow> string) \<Rightarrow> otelConfig \<Rightarrow> http_lib \<Rightarrow> jx_lib \<Rightarrow> uuid_lib \<Rightarrow> 'w oas_server
      \<Rightarrow> string \<Rightarrow> bool \<Rightarrow> ('w \<times> tel_event list) http_handler" where
  "observed_PayOrder NewSet StatusText cfg L J U s arg argsEscaped r =
    observe NewSet StatusText cfg PayOrder (staged_PayOrder L J U s arg argsEscaped r)"

definition observed_handler ::
    "(attr list \<Rightarrow> attr list) \<Rightarrow> (int \<Rightarrow> string) \<Rightarrow> otelConfig \<Rightarrow> http_lib \<Rightarrow> jx_lib \<Rightarrow> uuid_lib \<Rightarrow> 'w oas_server
      \<Rightarrow> operation \<Rightarrow> string \<Rightarrow> bool \<Rightarrow> ('w \<times> tel_event list) http_handler" where
  "observed_handler NewSet StatusText cfg L J U s opn arg argsEscaped r =
    (case opn of
       CreateOrder \<Rightarrow> observed_CreateOrder NewSet StatusText cfg L J s r
     | GetOrder \<Rightarrow> observed_GetOrder NewSet StatusText cfg L J U s arg argsEscaped r
     | CancelOrder \<Rightarrow> observed_CancelOrder NewSet StatusText cfg L J U s arg argsEscaped r
     | PayOrder \<Rightarrow> observed_PayOrder NewSet StatusText cfg L J U s arg argsEscaped r)"

lemma observed_handler_staged:
  "observed_handler NewSet StatusText cfg L J U s opn arg argsEscaped r =
    observe NewSet StatusText cfg opn (staged_handler L J U s opn arg argsEscaped r)"
  by (cases opn) (simp_all add: observed_handler_def staged_handler_def observed_CancelOrder_def observed_CreateOrder_def
    observed_GetOrder_def observed_PayOrder_def)

definition routed_operation :: "http_lib \<Rightarrow> 'w oas_server \<Rightarrow> http_req \<Rightarrow> (operation \<times> string) option" where
  "routed_operation L s r =
    (case cutPrefix (sv_prefix s) (fst (routed_path L r)) of
       None \<Rightarrow> None
     | Some elem \<Rightarrow>
         (case find_leaf elem of
            None \<Rightarrow> None
          | Some (opn, arg) \<Rightarrow> if hq_method r = allowed_method opn then Some (opn, arg) else None))"

definition ServeHTTP_observed ::
    "(attr list \<Rightarrow> attr list) \<Rightarrow> (int \<Rightarrow> string) \<Rightarrow> otelConfig \<Rightarrow> http_lib \<Rightarrow> jx_lib \<Rightarrow> uuid_lib \<Rightarrow> 'w oas_server
      \<Rightarrow> ('w \<times> tel_event list) http_handler" where
  "ServeHTTP_observed NewSet StatusText cfg L J U s r =
    (let (elem, elemIsEscaped) = routed_path L r
     in case cutPrefix (sv_prefix s) elem of
          None \<Rightarrow> ret http_NotFound
        | Some elem \<Rightarrow>
            if length elem = 0 then ret http_NotFound
            else (case find_leaf elem of
                None \<Rightarrow> ret http_NotFound
              | Some (opn, arg) \<Rightarrow>
                  if hq_method r = allowed_method opn
                  then observed_handler NewSet StatusText cfg L J U s opn arg elemIsEscaped r
                  else ret (notAllowed L opn r)))"

text \<open>Forgetting the stage gives the handlers of \<open>OpenApi_Server\<close>.\<close>

definition forget_stage :: "'w staged \<Rightarrow> ('w, http_resp, order_error) act" where
  "forget_stage a = bindA a (\<lambda>(stage, resp). ret resp)"

lemma forget_stage_simps [simp]:
  "forget_stage (respond_staged s encode handler) = respond s encode handler"
  "forget_stage (refuse s stage e) = ret (sv_ErrorHandler s (Ext e))"
  by (auto simp: forget_stage_def respond_staged_def respond_def refuse_def bindA_def ret_def fun_eq_iff
    split: res.split prod.split)

lemmas staged_defs = staged_CancelOrder_def staged_CreateOrder_def staged_GetOrder_def staged_PayOrder_def

lemma staged_handlers:
  "forget_stage (staged_CancelOrder L J U s arg e r) = handleCancelOrderRequest L J U s arg e r"
  "forget_stage (staged_CreateOrder L J s r) = handleCreateOrderRequest L J s r"
  "forget_stage (staged_GetOrder L J U s arg e r) = handleGetOrderRequest L J U s arg e r"
  "forget_stage (staged_PayOrder L J U s arg e r) = handlePayOrderRequest L J U s arg e r"
  by (simp_all add: staged_defs handleCancelOrderRequest_def handleCreateOrderRequest_def handleGetOrderRequest_def
    handlePayOrderRequest_def del: decodeCancelOrderParams_def decodeGetOrderParams_def decodePayOrderParams_def split: sum.split)

text \<open>Telemetry does not change what a handler answers or does.\<close>

definition drop_events :: "'a \<times> 'w \<times> tel_event list \<Rightarrow> 'a \<times> 'w" where
  "drop_events t = (fst t, fst (snd t))"

lemma observe_transparent: "drop_events (observe NewSet StatusText cfg opn a (w, ev)) = forget_stage a w"
  by (auto simp: drop_events_def observe_def forget_stage_def bindA_def ret_def Let_def split: res.split prod.split option.split)

lemma drop_events_triple [simp]: "drop_events (x, w, ev) = (x, w)"
  by (simp add: drop_events_def)

lemma ServeHTTP_observed_transparent:
  "drop_events (ServeHTTP_observed NewSet StatusText cfg L J U s r (w, ev)) = ServeHTTP L J U s r w"
  by (cases "routed_path L r")
    (auto simp: ServeHTTP_observed_def ServeHTTP_def observed_handler_staged observe_transparent staged_handler_def staged_handlers
      split: option.split operation.split)

subsection \<open>What is counted\<close>

definition is_request :: "tel_event \<Rightarrow> bool" where
  "is_request e = (case e of Requests_Add _ \<Rightarrow> True | _ \<Rightarrow> False)"

definition is_error :: "tel_event \<Rightarrow> bool" where
  "is_error e = (case e of Errors_Add _ \<Rightarrow> True | _ \<Rightarrow> False)"

definition is_failed_span :: "tel_event \<Rightarrow> bool" where
  "is_failed_span e = (case e of Span_SetStatus SpanError _ \<Rightarrow> True | _ \<Rightarrow> False)"

abbreviation counted :: "(tel_event \<Rightarrow> bool) \<Rightarrow> tel_event list \<Rightarrow> nat" where
  "counted P ev \<equiv> length (filter P ev)"

lemmas telemetry_defs = is_request_def is_error_def is_failed_span_def recordError_def finish_request_def
  encoder_status_def with_code_def

text \<open>
  The answers of a handler: those of the error handler are failures, those it encodes are successes. The API
  answers the failures of GetOrder itself: its handler encodes 404 and 500 and refuses with 400 only.
\<close>

definition staged_code :: "operation \<Rightarrow> string option \<times> http_resp \<Rightarrow> bool" where
  "staged_code opn p \<longleftrightarrow>
    (case p of (None, resp) \<Rightarrow> hp_code resp \<in> {200, 201} \<or> opn = GetOrder \<and> hp_code resp \<in> {404, 500}
     | (Some _, resp) \<Rightarrow> hp_code resp = 400 \<or> opn \<noteq> GetOrder \<and> hp_code resp \<in> {401, 404, 409, 500})"

definition staged_codes :: "operation \<Rightarrow> 'w staged \<Rightarrow> bool" where
  "staged_codes opn a \<longleftrightarrow> (\<forall>w p w'. a w = (Ret p, w') \<longrightarrow> staged_code opn p)"

lemma ErrorHandler_code: "hp_code (ErrorHandler enc render err) \<in> {400, 401, 404, 409, 500}"
  by (simp add: ErrorHandler_def order_mapError_def Let_def)

lemma staged_codes_respond:
  assumes "sv_ErrorHandler s = ErrorHandler enc render"
    and "\<And>w x w'. handler w = (Ret x, w') \<Longrightarrow> staged_code opn (None, encode x)"
    and "\<And>w e w'. opn = GetOrder \<Longrightarrow> handler w \<noteq> (Err e, w')"
  shows "staged_codes opn (respond_staged s encode handler)"
  unfolding staged_codes_def
proof (intro allI impI)
  fix w p w'
  assume p: "respond_staged s encode handler w = (Ret p, w')"
  then consider x where "handler w = (Ret x, w')" "p = (None, encode x)"
    | e where "handler w = (Err e, w')" "p = (Some ''Internal'', ErrorHandler enc render e)"
    using assms(1) by (auto simp: respond_staged_def split: prod.splits res.splits)
  then show "staged_code opn p"
  proof cases
    case (2 e)
    then show ?thesis using assms(3) ErrorHandler_code [of enc render e] by (auto simp: staged_code_def)
  qed (use assms(2) in simp)
qed

lemma staged_codes_refuse:
  assumes "sv_ErrorHandler s = ErrorHandler enc render" "e = DecodeParamsError \<or> e = DecodeRequestError"
  shows "staged_codes opn (refuse s stage e)"
  using assms by (auto simp: staged_codes_def staged_code_def refuse_def ret_def ErrorHandler_def order_mapError_def Let_def)

lemma order_api_outcomes:
  "OrderApi_CreateOrder os c u now q w = (Ret x, w') \<Longrightarrow> \<exists>y. x = CreateOrderOK y"
  "OrderApi_PayOrder os V c pq u w = (Ret z, w') \<Longrightarrow> \<exists>y. z = PayOrderOK y"
  "OrderApi_CancelOrder os c u w = (Ret v, w') \<Longrightarrow> v = CancelOrderOK"
  "OrderApi_GetOrder os u w = (Ret g, w') \<Longrightarrow>
     (\<exists>y. g = GetOrderDto y) \<or> (\<exists>y. g = GetOrderNotFound y) \<or> (\<exists>y. g = GetOrderInternalServerError y)"
  "OrderApi_GetOrder os u w \<noteq> (Err e, w')"
  by (auto simp: OrderApi_CreateOrder_def OrderApi_PayOrder_def OrderApi_CancelOrder_def OrderApi_GetOrder_def
    bindA_def ret_def Let_def split: prod.splits res.splits if_splits)

lemma order_handlers_codes:
  "staged_codes opn (staged_handler L J U (NewOrderServer enc render V fresh os) opn arg argsEscaped r)"
proof -
  let ?s = "NewOrderServer enc render V fresh os"
  have eh: "sv_ErrorHandler ?s = ErrorHandler enc render" by (simp add: NewOrderServer_def)
  have sv: "sv_CreateOrder ?s = (\<lambda>c req. OrderApi_CreateOrder os c (fst fresh) (snd fresh) req)"
    "sv_GetOrder ?s = (\<lambda>c. OrderApi_GetOrder os)" "sv_PayOrder ?s = OrderApi_PayOrder os V" "sv_CancelOrder ?s = OrderApi_CancelOrder os"
    by (simp_all add: NewOrderServer_def)
  note refused = staged_codes_refuse [OF eh]
  have "staged_codes CreateOrder (staged_CreateOrder L J ?s r)"
    unfolding staged_CreateOrder_def sv using order_api_outcomes(1)
    by (fastforce intro!: staged_codes_respond [OF eh] refused simp: staged_code_def split: sum.split)
  moreover have "staged_codes PayOrder (staged_PayOrder L J U ?s arg argsEscaped r)"
    unfolding staged_PayOrder_def sv using order_api_outcomes(2)
    by (fastforce intro!: staged_codes_respond [OF eh] refused simp: staged_code_def split: sum.split)
  moreover have "staged_codes CancelOrder (staged_CancelOrder L J U ?s arg argsEscaped r)"
    unfolding staged_CancelOrder_def sv using order_api_outcomes(3)
    by (fastforce intro!: staged_codes_respond [OF eh] refused simp: staged_code_def split: sum.split)
  moreover have "staged_codes GetOrder (staged_GetOrder L J U ?s arg argsEscaped r)"
    unfolding staged_GetOrder_def sv using order_api_outcomes(4,5)
    by (fastforce intro!: staged_codes_respond [OF eh] refused simp: staged_code_def split: sum.split)
  ultimately show ?thesis by (cases opn) (simp_all add: staged_handler_def)
qed

text \<open>What is reported of a request, by operation and outcome.\<close>

definition reported :: "operation \<Rightarrow> (http_resp, order_error) res \<Rightarrow> tel_event list \<Rightarrow> bool" where
  "reported opn x new \<longleftrightarrow> counted is_request new = 1 \<and>
    (case x of
       Ret resp \<Rightarrow>
         counted is_failed_span new = (if hp_code resp = 500 \<or> opn = GetOrder \<and> hp_code resp = 404 then 1 else 0)
       \<and> counted is_error new = (if hp_code resp < 400 \<or> opn = GetOrder \<and> hp_code resp \<noteq> 400 then 0 else 1)
     | _ \<Rightarrow> counted is_failed_span new = 0 \<and> counted is_error new = 0)"

lemma observe_reported:
  assumes "staged_codes opn a"
  shows "\<exists>new. snd (snd (observe NewSet StatusText cfg opn a (w, ev))) = ev @ new
    \<and> reported opn (fst (observe NewSet StatusText cfg opn a (w, ev))) new"
proof -
  obtain x w' where a: "a w = (x, w')" by fastforce
  show ?thesis
  proof (cases x)
    case (Ret p)
    obtain stage resp where p: "p = (stage, resp)" by fastforce
    have code: "staged_code opn (stage, resp)" using assms a Ret p by (auto simp: staged_codes_def)
    show ?thesis
    proof (cases stage)
      case None
      show ?thesis using code a Ret p None by (auto simp: observe_def reported_def Let_def telemetry_defs staged_code_def)
    next
      case (Some st)
      show ?thesis using code a Ret p Some by (auto simp: observe_def reported_def Let_def telemetry_defs staged_code_def)
    qed
  qed (use a in \<open>simp_all add: observe_def reported_def Let_def telemetry_defs\<close>)
qed

lemma find_leaf_empty [simp]: "find_leaf [] = None"
  by (simp add: find_leaf_def)

lemma ServeHTTP_observed_routed:
  "ServeHTTP_observed NewSet StatusText cfg L J U s r (w, ev) =
    (case routed_operation L s r of
       None \<Rightarrow> (case ServeHTTP L J U s r w of (x, w') \<Rightarrow> (x, w', ev))
     | Some (opn, arg) \<Rightarrow> observed_handler NewSet StatusText cfg L J U s opn arg (snd (routed_path L r)) r (w, ev))"
  by (cases "routed_path L r")
    (auto simp: ServeHTTP_observed_def ServeHTTP_def routed_operation_def ret_def split: option.split)

text \<open>
  C31. Telemetry is transparent and counts what happens: the answer and the effects are those of the server
  without it; a request that reaches no operation reports nothing; every other one is counted once, the span
  is marked as failed for a 500, and the error counter moves for every failure but those GetOrder answers
  itself (404 and 500), which it never sees. A panic is counted as a request only.
\<close>

theorem requests_reported:
  "case ServeHTTP_observed NewSet StatusText cfg L J U (NewOrderServer enc render V fresh os) r (w, ev) of (x, w', ev') \<Rightarrow>
     ServeHTTP L J U (NewOrderServer enc render V fresh os) r w = (x, w')
   \<and> (case routed_operation L (NewOrderServer enc render V fresh os) r of
        None \<Rightarrow> ev' = ev
      | Some (opn, _) \<Rightarrow> \<exists>new. ev' = ev @ new \<and> reported opn x new)"
proof -
  let ?s = "NewOrderServer enc render V fresh os"
  obtain x w' ev' where res: "ServeHTTP_observed NewSet StatusText cfg L J U ?s r (w, ev) = (x, w', ev')"
    by (metis prod.exhaust)
  have "ServeHTTP L J U ?s r w = (x, w')"
    using ServeHTTP_observed_transparent [of NewSet StatusText cfg L J U ?s r w ev] res by simp
  moreover have "\<exists>new. ev' = ev @ new \<and> reported opn x new" if "routed_operation L ?s r = Some (opn, arg)" for opn arg
    using observe_reported [OF order_handlers_codes, of NewSet StatusText cfg opn L J U enc render V fresh os arg
        "snd (routed_path L r)" r w ev] that res
    by (simp add: ServeHTTP_observed_routed observed_handler_staged)
  ultimately show ?thesis using res
    by (auto simp: ServeHTTP_observed_routed split: option.splits prod.splits)
qed

subsection \<open>The client side\<close>

text \<open>
  The deferred calls of a client operation, last registered first: the span with the stage of the failure,
  then the duration.
\<close>

definition finish_call :: "attr list \<Rightarrow> string option \<Rightarrow> tel_event list" where
  "finish_call attrs failed =
    (case failed of
       Some stage \<Rightarrow> [Span_RecordError, Span_SetStatus SpanError stage, Errors_Add attrs]
     | None \<Rightarrow> [])
    @ [Span_End, Duration_Record attrs]"

definition observed_exchange ::
    "otelConfig \<Rightarrow> operation \<Rightarrow> 'w oas_client \<Rightarrow> http_req \<Rightarrow> (http_resp \<Rightarrow> ('a, order_error) res)
      \<Rightarrow> ('w \<times> tel_event list, 'a, order_error) act" where
  "observed_exchange cfg opn cl r decode = (\<lambda>(w, ev).
    (let otelAttrs = client_attrs cfg opn;
         ev = ev @ [Requests_Add otelAttrs, Span_Start (OperationName opn) otelAttrs]
     in case oc_Do cl r w of
          (Err err, w') \<Rightarrow> (Err (Wrap ''do request'' err), w', ev @ finish_call otelAttrs (Some ''SendRequest''))
        | (Panic p, w') \<Rightarrow> (Panic p, w', ev @ finish_call otelAttrs None)
        | (Ret resp, w') \<Rightarrow>
            (case decode resp of
               Err err \<Rightarrow> (Err (Wrap ''decode response'' err), w', ev @ finish_call otelAttrs (Some ''DecodeResponse''))
             | Panic p \<Rightarrow> (Panic p, w', ev @ finish_call otelAttrs None)
             | Ret result \<Rightarrow> (Ret result, w', ev @ finish_call otelAttrs None))))"

text \<open>The client at the URL of the call.\<close>

definition at_requestURL :: "'w oas_client \<Rightarrow> url option \<Rightarrow> 'w oas_client" where
  "at_requestURL cl ctx_url = cl\<lparr>oc_serverURL := requestURL cl ctx_url\<rparr>"

definition Client_CancelOrder ::
    "http_lib \<Rightarrow> jx_lib \<Rightarrow> uuid_lib \<Rightarrow> otelConfig \<Rightarrow> 'w oas_client \<Rightarrow> url option \<Rightarrow> ctx \<Rightarrow> uuid
      \<Rightarrow> ('w \<times> tel_event list, CancelOrderRes, order_error) act" where
  "Client_CancelOrder L J U cfg cl ctx_url c orderUUID =
    observed_exchange cfg CancelOrder cl
      (new_request L (at_requestURL cl ctx_url) c ''POST''
        [''/api/v1/orders/'', hl_EncodeValue L (uuid_String U orderUUID), ''/cancel''])
      (decodeCancelOrderResponse L J)"

definition Client_CreateOrder ::
    "http_lib \<Rightarrow> jx_lib \<Rightarrow> otelConfig \<Rightarrow> 'w oas_client \<Rightarrow> url option \<Rightarrow> ctx \<Rightarrow> CreateOrderRequest
      \<Rightarrow> ('w \<times> tel_event list, CreateOrderRes, order_error) act" where
  "Client_CreateOrder L J cfg cl ctx_url c request =
    observed_exchange cfg CreateOrder cl
      (encodeCreateOrderRequest L J request (new_request L (at_requestURL cl ctx_url) c ''POST'' [''/api/v1/orders'']))
      (decodeCreateOrderResponse L J)"

definition Client_GetOrder ::
    "http_lib \<Rightarrow> jx_lib \<Rightarrow> uuid_lib \<Rightarrow> time \<Rightarrow> otelConfig \<Rightarrow> 'w oas_client \<Rightarrow> url option \<Rightarrow> ctx \<Rightarrow> uuid
      \<Rightarrow> ('w \<times> tel_event list, GetOrderRes, order_error) act" where
  "Client_GetOrder L J U zero_time cfg cl ctx_url c orderUUID =
    observed_exchange cfg GetOrder cl
      (new_request L (at_requestURL cl ctx_url) c ''GET'' [''/api/v1/orders/'', hl_EncodeValue L (uuid_String U orderUUID)])
      (decodeGetOrderResponse L J zero_time)"

definition Client_PayOrder ::
    "http_lib \<Rightarrow> jx_lib \<Rightarrow> uuid_lib \<Rightarrow> otelConfig \<Rightarrow> 'w oas_client \<Rightarrow> url option \<Rightarrow> ctx \<Rightarrow> PayOrderRequest \<Rightarrow> uuid
      \<Rightarrow> ('w \<times> tel_event list, PayOrderRes, order_error) act" where
  "Client_PayOrder L J U cfg cl ctx_url c request orderUUID =
    observed_exchange cfg PayOrder cl
      (encodePayOrderRequest L J request
        (new_request L (at_requestURL cl ctx_url) c ''POST''
          [''/api/v1/orders/'', hl_EncodeValue L (uuid_String U orderUUID), ''/pay'']))
      (decodePayOrderResponse L J)"

lemma observed_exchange_transparent:
  "drop_events (observed_exchange cfg opn cl r decode (w, ev)) = exchange cl r decode w"
  by (auto simp: observed_exchange_def exchange_def bindA_def wrapA_def liftR_def Let_def split: res.split prod.split)

lemma observed_exchange_events:
  "\<exists>new. snd (snd (observed_exchange cfg opn cl r decode (w, ev))) = ev @ new \<and> counted is_request new = 1
    \<and> counted is_error new = (case fst (observed_exchange cfg opn cl r decode (w, ev)) of Err _ \<Rightarrow> 1 | _ \<Rightarrow> 0)
    \<and> counted is_failed_span new = (case fst (observed_exchange cfg opn cl r decode (w, ev)) of Err _ \<Rightarrow> 1 | _ \<Rightarrow> 0)"
  by (auto simp: observed_exchange_def finish_call_def Let_def telemetry_defs split: res.split prod.split)

text \<open>Without a URL in the context the calls are those of \<open>OpenApi_Client\<close>, reported.\<close>

lemma client_calls_transparent:
  "drop_events (Client_CancelOrder L J U cfg cl None c u (w, ev)) = sendCancelOrder L J U cl c u w"
  "drop_events (Client_CreateOrder L J cfg cl None c q (w, ev)) = sendCreateOrder L J cl c q w"
  "drop_events (Client_GetOrder L J U zero_time cfg cl None c u (w, ev)) = sendGetOrder L J U zero_time cl c u w"
  "drop_events (Client_PayOrder L J U cfg cl None c pq u (w, ev)) = sendPayOrder L J U cl c pq u w"
  by (simp_all add: Client_CancelOrder_def Client_CreateOrder_def Client_GetOrder_def Client_PayOrder_def
    observed_exchange_transparent send_defs at_requestURL_def requestURL_def)

subsection \<open>Routes\<close>

text \<open>What FindPath returns, with its accessors as the fields; unused places of the arguments stay empty.\<close>

record Route =
  rt_name :: string
  rt_summary :: string
  rt_operationID :: string
  rt_operationGroup :: string
  rt_pathPattern :: string
  rt_count :: nat
  rt_args :: "string list"

fun operation_summary :: "operation \<Rightarrow> string" where
  "operation_summary CreateOrder = ''Create an order''"
| "operation_summary GetOrder = ''Get an order by UUID''"
| "operation_summary CancelOrder = ''Cancel an order''"
| "operation_summary PayOrder = ''Pay for an order''"

definition route_of :: "operation \<Rightarrow> string list \<Rightarrow> Route" where
  "route_of opn args =
    \<lparr>rt_name = OperationName opn, rt_summary = operation_summary opn, rt_operationID = operation_id opn,
     rt_operationGroup = '''', rt_pathPattern = operation_route opn, rt_count = length args,
     rt_args = args @ replicate (1 - length args) ''''\<rparr>"

definition Route_Args :: "Route \<Rightarrow> string list" where
  "Route_Args r = take (rt_count r) (rt_args r)"

definition FindPath_Route :: "http_lib \<Rightarrow> string \<Rightarrow> string \<Rightarrow> string \<Rightarrow> string \<Rightarrow> Route option" where
  "FindPath_Route L prefix method path rawPath =
    map_option (\<lambda>(opn, args). route_of opn args) (FindPath L prefix method path rawPath)"

definition FindRoute :: "http_lib \<Rightarrow> string \<Rightarrow> string \<Rightarrow> string \<Rightarrow> Route option" where
  "FindRoute L prefix method path = FindPath_Route L prefix method path ''''"

lemma route_args [simp]: "Route_Args (route_of opn args) = args"
  by (simp add: Route_Args_def route_of_def)

text \<open>
  Without a prefix FindRoute and the server agree on which requests with an unescaped path reach an
  operation, and on which one.
\<close>

lemma FindRoute_serves:
  assumes "hq_rawPath r = ''''" "sv_prefix s = ''''"
  shows "map_option rt_name (FindRoute L '''' (hq_method r) (hq_path r))
    = map_option (\<lambda>(opn, arg). OperationName opn) (routed_operation L s r)"
  using assms
  by (simp add: FindRoute_def FindPath_Route_def FindPath_def routed_operation_def routed_path_def cutPrefix_def route_of_def Let_def
    split: option.split)

end
