(* ===== verification/Proto_Grpc.thy ===== *)
theory Proto_Grpc
  imports Proto Platform_Auth
begin

text \<open>
  The gRPC code protoc generated (\<open>shared/pkg/proto\<close>, the files \<open>*_grpc.pb.go\<close>): clients, method handlers,
  service descriptions and the unimplemented servers of the inventory, payment, auth and user service.

  The binary codec of a message is a parameter (\<open>codec\<close>), as is the connection: \<open>cc.Invoke\<close> takes the
  full name of a method and the marshalled request. A message with one field stands for that field, and
  a message without fields is the unit. What a method handler returns as \<open>interface{}\<close> is a datatype with
  a constructor per response type, so that interceptors treat it as one type, as in the code.
\<close>

subsection \<open>Calls\<close>

record 'm codec =
  cd_Marshal :: "'m \<Rightarrow> bytes"
  cd_Unmarshal :: "bytes \<Rightarrow> 'm option"

definition codec_ok :: "'m codec \<Rightarrow> bool" where
  "codec_ok d \<longleftrightarrow> (\<forall>m. cd_Unmarshal d (cd_Marshal d m) = Some m)"

type_synonym ('w, 'e) conn = "ctx \<Rightarrow> string \<Rightarrow> bytes \<Rightarrow> ('w, bytes, 'e) act"

text \<open>The body of every client method: \<open>Invoke\<close> with the request and a fresh response.\<close>

definition unary_call :: "('w, 'e) conn \<Rightarrow> 'q codec \<Rightarrow> 'r codec \<Rightarrow> string \<Rightarrow> ctx \<Rightarrow> 'q \<Rightarrow> ('w, 'r, 'e) act" where
  "unary_call cc d d' fullMethod c q =
    bindA (cc c fullMethod (cd_Marshal d q)) (\<lambda>buf.
      case cd_Unmarshal d' buf of None \<Rightarrow> fail (Status Internal) | Some out \<Rightarrow> ret out)"

type_synonym ('s, 'r, 'f) interceptor = "string \<Rightarrow> (ctx \<Rightarrow> ('s, 'r, 'f) act) \<Rightarrow> ctx \<Rightarrow> ('s, 'r, 'f) act"

type_synonym ('s, 'r, 'f) method_handler = "('s, 'r, 'f) interceptor option \<Rightarrow> ctx \<Rightarrow> bytes \<Rightarrow> ('s, 'r, 'f) act"

text \<open>The body of every method handler: decode, then the method, through the interceptor if there is one.\<close>

definition unary_handler :: "string \<Rightarrow> 'q codec \<Rightarrow> (ctx \<Rightarrow> 'q \<Rightarrow> ('s, 'r, 'f) act) \<Rightarrow> ('s, 'r, 'f) method_handler" where
  "unary_handler fullMethod d srv_method interceptor c buf =
    (case cd_Unmarshal d buf of
       None \<Rightarrow> fail (Status Internal)
     | Some req \<Rightarrow>
         (case interceptor of
            None \<Rightarrow> srv_method c req
          | Some intercept \<Rightarrow> intercept fullMethod (\<lambda>c. srv_method c req) c))"

record ('s, 'r, 'f) service_desc =
  sd_ServiceName :: string
  sd_Methods :: "(string \<times> ('s, 'r, 'f) method_handler) list"

abbreviation full_name :: "string \<Rightarrow> string \<Rightarrow> string" where
  "full_name service name \<equiv> ''/'' @ service @ ''/'' @ name"

subsection \<open>Inventory\<close>

record inventory_codecs =
  ik_GetPartRequest :: "string codec"
  ik_GetPartResponse :: "PartProto codec"
  ik_ListPartsRequest :: "(PartTypeProto \<times> string list) codec"
  ik_ListPartsResponse :: "PartProto list codec"
  ik_ValidateCompatibilityRequest :: "ValidateCompatibilityRequest codec"
  ik_UuidsRequest :: "string list codec"
  ik_Empty :: "unit codec"

record ('s, 'f) InventoryServiceServer =
  is_GetPart :: "ctx \<Rightarrow> string \<Rightarrow> ('s, PartProto, 'f) act"
  is_ListParts :: "ctx \<Rightarrow> PartTypeProto \<times> string list \<Rightarrow> ('s, PartProto list, 'f) act"
  is_ValidateCompatibility :: "ctx \<Rightarrow> ValidateCompatibilityRequest \<Rightarrow> ('s, unit, 'f) act"
  is_ReserveParts :: "ctx \<Rightarrow> string list \<Rightarrow> ('s, unit, 'f) act"
  is_ReleaseParts :: "ctx \<Rightarrow> string list \<Rightarrow> ('s, unit, 'f) act"
  is_CommitParts :: "ctx \<Rightarrow> string list \<Rightarrow> ('s, unit, 'f) act"

datatype inventory_reply = PartReply PartProto | PartsReply "PartProto list" | EmptyReply unit

definition marshal_inventory :: "inventory_codecs \<Rightarrow> inventory_reply \<Rightarrow> bytes" where
  "marshal_inventory K r = (case r of
       PartReply p \<Rightarrow> cd_Marshal (ik_GetPartResponse K) p
     | PartsReply ps \<Rightarrow> cd_Marshal (ik_ListPartsResponse K) ps
     | EmptyReply u \<Rightarrow> cd_Marshal (ik_Empty K) u)"

definition mapA :: "('a \<Rightarrow> 'b) \<Rightarrow> ('w, 'a, 'e) act \<Rightarrow> ('w, 'b, 'e) act" where
  "mapA f a = bindA a (\<lambda>x. ret (f x))"

definition inventoryServiceClient_GetPart where
  "inventoryServiceClient_GetPart K cc c q =
    unary_call cc (ik_GetPartRequest K) (ik_GetPartResponse K) ''/inventory.v1.InventoryService/GetPart'' c q"

definition inventoryServiceClient_ListParts where
  "inventoryServiceClient_ListParts K cc c q =
    unary_call cc (ik_ListPartsRequest K) (ik_ListPartsResponse K) ''/inventory.v1.InventoryService/ListParts'' c q"

definition inventoryServiceClient_ValidateCompatibility where
  "inventoryServiceClient_ValidateCompatibility K cc c q =
    unary_call cc (ik_ValidateCompatibilityRequest K) (ik_Empty K) ''/inventory.v1.InventoryService/ValidateCompatibility'' c q"

definition inventoryServiceClient_ReserveParts where
  "inventoryServiceClient_ReserveParts K cc c q =
    unary_call cc (ik_UuidsRequest K) (ik_Empty K) ''/inventory.v1.InventoryService/ReserveParts'' c q"

definition inventoryServiceClient_ReleaseParts where
  "inventoryServiceClient_ReleaseParts K cc c q =
    unary_call cc (ik_UuidsRequest K) (ik_Empty K) ''/inventory.v1.InventoryService/ReleaseParts'' c q"

definition inventoryServiceClient_CommitParts where
  "inventoryServiceClient_CommitParts K cc c q =
    unary_call cc (ik_UuidsRequest K) (ik_Empty K) ''/inventory.v1.InventoryService/CommitParts'' c q"

definition InventoryService_GetPart_Handler ::
    "inventory_codecs \<Rightarrow> ('s, 'f) InventoryServiceServer \<Rightarrow> ('s, inventory_reply, 'f) method_handler" where
  "InventoryService_GetPart_Handler K srv =
    unary_handler ''/inventory.v1.InventoryService/GetPart'' (ik_GetPartRequest K) (\<lambda>c q. mapA PartReply (is_GetPart srv c q))"

definition InventoryService_ListParts_Handler ::
    "inventory_codecs \<Rightarrow> ('s, 'f) InventoryServiceServer \<Rightarrow> ('s, inventory_reply, 'f) method_handler" where
  "InventoryService_ListParts_Handler K srv =
    unary_handler ''/inventory.v1.InventoryService/ListParts'' (ik_ListPartsRequest K)
      (\<lambda>c q. mapA PartsReply (is_ListParts srv c q))"

definition InventoryService_ValidateCompatibility_Handler ::
    "inventory_codecs \<Rightarrow> ('s, 'f) InventoryServiceServer \<Rightarrow> ('s, inventory_reply, 'f) method_handler" where
  "InventoryService_ValidateCompatibility_Handler K srv =
    unary_handler ''/inventory.v1.InventoryService/ValidateCompatibility'' (ik_ValidateCompatibilityRequest K)
      (\<lambda>c q. mapA EmptyReply (is_ValidateCompatibility srv c q))"

definition InventoryService_ReserveParts_Handler ::
    "inventory_codecs \<Rightarrow> ('s, 'f) InventoryServiceServer \<Rightarrow> ('s, inventory_reply, 'f) method_handler" where
  "InventoryService_ReserveParts_Handler K srv =
    unary_handler ''/inventory.v1.InventoryService/ReserveParts'' (ik_UuidsRequest K)
      (\<lambda>c q. mapA EmptyReply (is_ReserveParts srv c q))"

definition InventoryService_ReleaseParts_Handler ::
    "inventory_codecs \<Rightarrow> ('s, 'f) InventoryServiceServer \<Rightarrow> ('s, inventory_reply, 'f) method_handler" where
  "InventoryService_ReleaseParts_Handler K srv =
    unary_handler ''/inventory.v1.InventoryService/ReleaseParts'' (ik_UuidsRequest K)
      (\<lambda>c q. mapA EmptyReply (is_ReleaseParts srv c q))"

definition InventoryService_CommitParts_Handler ::
    "inventory_codecs \<Rightarrow> ('s, 'f) InventoryServiceServer \<Rightarrow> ('s, inventory_reply, 'f) method_handler" where
  "InventoryService_CommitParts_Handler K srv =
    unary_handler ''/inventory.v1.InventoryService/CommitParts'' (ik_UuidsRequest K)
      (\<lambda>c q. mapA EmptyReply (is_CommitParts srv c q))"

definition InventoryService_ServiceDesc ::
    "inventory_codecs \<Rightarrow> ('s, 'f) InventoryServiceServer \<Rightarrow> ('s, inventory_reply, 'f) service_desc" where
  "InventoryService_ServiceDesc K srv =
    \<lparr>sd_ServiceName = ''inventory.v1.InventoryService'',
     sd_Methods =
      [(''GetPart'', InventoryService_GetPart_Handler K srv),
       (''ListParts'', InventoryService_ListParts_Handler K srv),
       (''ValidateCompatibility'', InventoryService_ValidateCompatibility_Handler K srv),
       (''ReserveParts'', InventoryService_ReserveParts_Handler K srv),
       (''ReleaseParts'', InventoryService_ReleaseParts_Handler K srv),
       (''CommitParts'', InventoryService_CommitParts_Handler K srv)]\<rparr>"

definition UnimplementedInventoryServiceServer :: "('s, 'f) InventoryServiceServer" where
  "UnimplementedInventoryServiceServer =
    \<lparr>is_GetPart = (\<lambda>_ _. fail (Status Unimplemented)), is_ListParts = (\<lambda>_ _. fail (Status Unimplemented)),
     is_ValidateCompatibility = (\<lambda>_ _. fail (Status Unimplemented)), is_ReserveParts = (\<lambda>_ _. fail (Status Unimplemented)),
     is_ReleaseParts = (\<lambda>_ _. fail (Status Unimplemented)), is_CommitParts = (\<lambda>_ _. fail (Status Unimplemented))\<rparr>"

subsection \<open>Payment\<close>

record payment_codecs =
  pk_PayOrderRequest :: "(string \<times> PaymentMethodProto) codec"
  pk_PayOrderResponse :: "string codec"

record ('s, 'f) PaymentServiceServer =
  ps_PayOrder :: "ctx \<Rightarrow> string \<times> PaymentMethodProto \<Rightarrow> ('s, string, 'f) act"

definition paymentServiceClient_PayOrder where
  "paymentServiceClient_PayOrder K cc c q =
    unary_call cc (pk_PayOrderRequest K) (pk_PayOrderResponse K) ''/payment.v1.PaymentService/PayOrder'' c q"

definition PaymentService_PayOrder_Handler ::
    "payment_codecs \<Rightarrow> ('s, 'f) PaymentServiceServer \<Rightarrow> ('s, string, 'f) method_handler" where
  "PaymentService_PayOrder_Handler K srv =
    unary_handler ''/payment.v1.PaymentService/PayOrder'' (pk_PayOrderRequest K) (ps_PayOrder srv)"

definition PaymentService_ServiceDesc ::
    "payment_codecs \<Rightarrow> ('s, 'f) PaymentServiceServer \<Rightarrow> ('s, string, 'f) service_desc" where
  "PaymentService_ServiceDesc K srv =
    \<lparr>sd_ServiceName = ''payment.v1.PaymentService'',
     sd_Methods = [(''PayOrder'', PaymentService_PayOrder_Handler K srv)]\<rparr>"

definition UnimplementedPaymentServiceServer :: "('s, 'f) PaymentServiceServer" where
  "UnimplementedPaymentServiceServer = \<lparr>ps_PayOrder = (\<lambda>_ _. fail (Status Unimplemented))\<rparr>"

subsection \<open>Auth and user\<close>

text \<open>The request and response messages of these services are those of the IAM theories, here type parameters.\<close>

record ('login, 'who) auth_codecs =
  ak_LoginRequest :: "'login codec"
  ak_LoginResponse :: "string codec"
  ak_WhoamiRequest :: "string codec"
  ak_WhoamiResponse :: "'who codec"
  ak_LogoutRequest :: "string codec"
  ak_LogoutResponse :: "unit codec"

record ('s, 'f, 'login, 'who) AuthServiceServer =
  as_Login :: "ctx \<Rightarrow> 'login \<Rightarrow> ('s, string, 'f) act"
  as_Whoami :: "ctx \<Rightarrow> string \<Rightarrow> ('s, 'who, 'f) act"
  as_Logout :: "ctx \<Rightarrow> string \<Rightarrow> ('s, unit, 'f) act"

datatype 'who auth_reply = LoginReply string | WhoamiReply 'who | LogoutReply unit

definition marshal_auth :: "('login, 'who) auth_codecs \<Rightarrow> 'who auth_reply \<Rightarrow> bytes" where
  "marshal_auth K r = (case r of
       LoginReply s \<Rightarrow> cd_Marshal (ak_LoginResponse K) s
     | WhoamiReply m \<Rightarrow> cd_Marshal (ak_WhoamiResponse K) m
     | LogoutReply u \<Rightarrow> cd_Marshal (ak_LogoutResponse K) u)"

definition authServiceClient_Login where
  "authServiceClient_Login K cc c q =
    unary_call cc (ak_LoginRequest K) (ak_LoginResponse K) ''/auth.v1.AuthService/Login'' c q"

definition authServiceClient_Whoami where
  "authServiceClient_Whoami K cc c q =
    unary_call cc (ak_WhoamiRequest K) (ak_WhoamiResponse K) ''/auth.v1.AuthService/Whoami'' c q"

definition authServiceClient_Logout where
  "authServiceClient_Logout K cc c q =
    unary_call cc (ak_LogoutRequest K) (ak_LogoutResponse K) ''/auth.v1.AuthService/Logout'' c q"

definition AuthService_Login_Handler ::
    "('login, 'who) auth_codecs \<Rightarrow> ('s, 'f, 'login, 'who) AuthServiceServer \<Rightarrow> ('s, 'who auth_reply, 'f) method_handler" where
  "AuthService_Login_Handler K srv =
    unary_handler ''/auth.v1.AuthService/Login'' (ak_LoginRequest K) (\<lambda>c q. mapA LoginReply (as_Login srv c q))"

definition AuthService_Whoami_Handler ::
    "('login, 'who) auth_codecs \<Rightarrow> ('s, 'f, 'login, 'who) AuthServiceServer \<Rightarrow> ('s, 'who auth_reply, 'f) method_handler" where
  "AuthService_Whoami_Handler K srv =
    unary_handler ''/auth.v1.AuthService/Whoami'' (ak_WhoamiRequest K) (\<lambda>c q. mapA WhoamiReply (as_Whoami srv c q))"

definition AuthService_Logout_Handler ::
    "('login, 'who) auth_codecs \<Rightarrow> ('s, 'f, 'login, 'who) AuthServiceServer \<Rightarrow> ('s, 'who auth_reply, 'f) method_handler" where
  "AuthService_Logout_Handler K srv =
    unary_handler ''/auth.v1.AuthService/Logout'' (ak_LogoutRequest K) (\<lambda>c q. mapA LogoutReply (as_Logout srv c q))"

definition AuthService_ServiceDesc ::
    "('login, 'who) auth_codecs \<Rightarrow> ('s, 'f, 'login, 'who) AuthServiceServer \<Rightarrow> ('s, 'who auth_reply, 'f) service_desc" where
  "AuthService_ServiceDesc K srv =
    \<lparr>sd_ServiceName = ''auth.v1.AuthService'',
     sd_Methods =
      [(''Login'', AuthService_Login_Handler K srv),
       (''Whoami'', AuthService_Whoami_Handler K srv),
       (''Logout'', AuthService_Logout_Handler K srv)]\<rparr>"

definition UnimplementedAuthServiceServer :: "('s, 'f, 'login, 'who) AuthServiceServer" where
  "UnimplementedAuthServiceServer =
    \<lparr>as_Login = (\<lambda>_ _. fail (Status Unimplemented)), as_Whoami = (\<lambda>_ _. fail (Status Unimplemented)),
     as_Logout = (\<lambda>_ _. fail (Status Unimplemented))\<rparr>"

record ('reg, 'usr) user_codecs =
  uk_RegisterRequest :: "'reg codec"
  uk_RegisterResponse :: "string codec"
  uk_GetUserRequest :: "string codec"
  uk_GetUserResponse :: "'usr codec"

record ('s, 'f, 'reg, 'usr) UserServiceServer =
  usv_Register :: "ctx \<Rightarrow> 'reg \<Rightarrow> ('s, string, 'f) act"
  usv_GetUser :: "ctx \<Rightarrow> string \<Rightarrow> ('s, 'usr, 'f) act"

datatype 'usr user_reply = RegisterReply string | GetUserReply 'usr

definition marshal_user :: "('reg, 'usr) user_codecs \<Rightarrow> 'usr user_reply \<Rightarrow> bytes" where
  "marshal_user K r = (case r of
       RegisterReply s \<Rightarrow> cd_Marshal (uk_RegisterResponse K) s
     | GetUserReply m \<Rightarrow> cd_Marshal (uk_GetUserResponse K) m)"

definition userServiceClient_Register where
  "userServiceClient_Register K cc c q =
    unary_call cc (uk_RegisterRequest K) (uk_RegisterResponse K) ''/user.v1.UserService/Register'' c q"

definition userServiceClient_GetUser where
  "userServiceClient_GetUser K cc c q =
    unary_call cc (uk_GetUserRequest K) (uk_GetUserResponse K) ''/user.v1.UserService/GetUser'' c q"

definition UserService_Register_Handler ::
    "('reg, 'usr) user_codecs \<Rightarrow> ('s, 'f, 'reg, 'usr) UserServiceServer \<Rightarrow> ('s, 'usr user_reply, 'f) method_handler" where
  "UserService_Register_Handler K srv =
    unary_handler ''/user.v1.UserService/Register'' (uk_RegisterRequest K) (\<lambda>c q. mapA RegisterReply (usv_Register srv c q))"

definition UserService_GetUser_Handler ::
    "('reg, 'usr) user_codecs \<Rightarrow> ('s, 'f, 'reg, 'usr) UserServiceServer \<Rightarrow> ('s, 'usr user_reply, 'f) method_handler" where
  "UserService_GetUser_Handler K srv =
    unary_handler ''/user.v1.UserService/GetUser'' (uk_GetUserRequest K) (\<lambda>c q. mapA GetUserReply (usv_GetUser srv c q))"

definition UserService_ServiceDesc ::
    "('reg, 'usr) user_codecs \<Rightarrow> ('s, 'f, 'reg, 'usr) UserServiceServer \<Rightarrow> ('s, 'usr user_reply, 'f) service_desc" where
  "UserService_ServiceDesc K srv =
    \<lparr>sd_ServiceName = ''user.v1.UserService'',
     sd_Methods = [(''Register'', UserService_Register_Handler K srv), (''GetUser'', UserService_GetUser_Handler K srv)]\<rparr>"

definition UnimplementedUserServiceServer :: "('s, 'f, 'reg, 'usr) UserServiceServer" where
  "UnimplementedUserServiceServer =
    \<lparr>usv_Register = (\<lambda>_ _. fail (Status Unimplemented)), usv_GetUser = (\<lambda>_ _. fail (Status Unimplemented))\<rparr>"

subsection \<open>A connection to a server\<close>

text \<open>
  What gRPC documents: a call of a registered method runs its handler on the server, with the incoming
  context and the interceptor of the server, and carries the marshalled response, or the status of the
  error, back. The world of the server is a part of the world of the client (\<open>get\<close>, \<open>put\<close>).
\<close>

definition over_wire ::
    "('w \<Rightarrow> 's) \<Rightarrow> ('s \<Rightarrow> 'w \<Rightarrow> 'w) \<Rightarrow> ('f err \<Rightarrow> 'e err) \<Rightarrow> ('s, 'r, 'f) act \<Rightarrow> ('w, 'r, 'e) act" where
  "over_wire get put wire a = (\<lambda>w. case a (get w) of (r, s) \<Rightarrow> (mapErr wire r, put s w))"

definition serves ::
    "('w, 'e) conn \<Rightarrow> ('w \<Rightarrow> 's) \<Rightarrow> ('s \<Rightarrow> 'w \<Rightarrow> 'w) \<Rightarrow> ('f err \<Rightarrow> 'e err) \<Rightarrow> (ctx \<Rightarrow> ctx)
      \<Rightarrow> ('s, 'r, 'f) service_desc \<Rightarrow> ('s, 'r, 'f) interceptor option \<Rightarrow> ('r \<Rightarrow> bytes) \<Rightarrow> bool" where
  "serves cc get put wire incoming desc interceptor marshal \<longleftrightarrow>
    list_all (\<lambda>(name, handler). \<forall>c buf. cc c (full_name (sd_ServiceName desc) name) buf
      = over_wire get put wire (mapA marshal (handler interceptor (incoming c) buf))) (sd_Methods desc)"

lemma mapA_app [act_simps]: "mapA f a w = (bindR (fst (a w)) (\<lambda>x. Ret (f x)), snd (a w))"
  by (simp add: mapA_def bindA_def ret_def split: prod.splits res.splits)

text \<open>
  An interceptor that does not look into the response: on replies it does what \<open>typed\<close> does on the
  responses of one method.
\<close>

definition passes ::
    "('s, 'r, 'f) interceptor \<Rightarrow> ('s, 'a, 'f) interceptor \<Rightarrow> ('a \<Rightarrow> 'r) \<Rightarrow> bool" where
  "passes intercept typed F \<longleftrightarrow> (\<forall>m h c. intercept m (\<lambda>c. mapA F (h c)) c = mapA F (typed m h c))"

lemma call_reaches_method:
  assumes "codec_ok d" "codec_ok d'" "\<And>y. marshal (F y) = cd_Marshal d' y"
    and conn: "cc c m (cd_Marshal d q)
      = over_wire get put wire (mapA marshal (unary_handler m d (\<lambda>c q. mapA F (srv_method c q)) (Some intercept) (incoming c) (cd_Marshal d q)))"
    and "passes intercept typed F"
  shows "unary_call cc d d' m c q = over_wire get put wire (typed m (\<lambda>c. srv_method c q) (incoming c))"
proof
  fix w
  have "unary_handler m d (\<lambda>c q. mapA F (srv_method c q)) (Some intercept) (incoming c) (cd_Marshal d q)
      = mapA F (typed m (\<lambda>c. srv_method c q) (incoming c))"
    using assms(1,5) by (simp add: unary_handler_def codec_ok_def passes_def)
  moreover obtain r s where "typed m (\<lambda>c. srv_method c q) (incoming c) (get w) = (r, s)" by fastforce
  ultimately show "unary_call cc d d' m c q w = over_wire get put wire (typed m (\<lambda>c. srv_method c q) (incoming c)) w"
    using assms(2,3) by (cases r) (simp_all add: unary_call_def conn over_wire_def act_simps codec_ok_def)
qed

end
