(* ===== verification/System_Grpc.thy ===== *)
theory System_Grpc
  imports System_Sessions Proto_Grpc "HOL-Library.Countable"
begin

text \<open>
  The generated gRPC code between the services: the clients of the order and the inventory service are
  the generated ones, the servers dispatch through the generated descriptions, and the composition is
  what the system theories use as stubs.
\<close>

subsection \<open>The servers\<close>

definition inventory_server :: "deployment \<Rightarrow> pg_env \<Rightarrow> (inv_db, inv_error) InventoryServiceServer" where
  "inventory_server D E =
    (let s = NewPartService E (dp_invDo D); U = dp_uuid D
     in \<lparr>is_GetPart = (\<lambda>_. InventoryApi_GetPart U s),
         is_ListParts = (\<lambda>_ (partType, uuids). InventoryApi_ListParts U s uuids partType),
         is_ValidateCompatibility = (\<lambda>_. InventoryApi_ValidateCompatibility U s),
         is_ReserveParts = (\<lambda>_. InventoryApi_ReserveParts U s),
         is_ReleaseParts = (\<lambda>_. InventoryApi_ReleaseParts U s),
         is_CommitParts = (\<lambda>_. InventoryApi_CommitParts U s)\<rparr>)"

definition inventory_interceptor :: "deployment \<Rightarrow> (inv_db, 'r, inv_error) interceptor" where
  "inventory_interceptor D fullMethod handler =
    inventory_chain (dp_uuid D) (dp_inv_status D) (\<lambda>_. []) (\<lambda>_ _ d. d) (dp_whoami D) handler"

definition payment_server :: "uuid_lib \<Rightarrow> uuid \<Rightarrow> (unit, pay_error) PaymentServiceServer" where
  "payment_server U txu = \<lparr>ps_PayOrder = (\<lambda>_ (orderUuid, paymentMethod). liftR (PaymentApi_PayOrder U txu orderUuid paymentMethod))\<rparr>"

definition payment_interceptor :: "(unit, 'r, pay_error) interceptor" where
  "payment_interceptor fullMethod handler c s = (case handler c s of (r, s') \<Rightarrow> (Payment_ErrorInterceptor r, s'))"

definition auth_server ::
    "uuid_lib \<Rightarrow> bcrypt_lib \<Rightarrow> 'w iam_service \<Rightarrow> uuid \<Rightarrow> set_clock \<Rightarrow> time
      \<Rightarrow> ('w, iam_error, LoginRequest, SessionRes \<times> UserRes) AuthServiceServer" where
  "auth_server U B s newUUID k t =
    \<lparr>as_Login = (\<lambda>_. AuthApi_Login U B s newUUID k), as_Whoami = (\<lambda>_. AuthApi_Whoami U s t),
     as_Logout = (\<lambda>_. AuthApi_Logout U s t)\<rparr>"

definition iam_interceptor :: "('w, 'r, iam_error) interceptor" where
  "iam_interceptor fullMethod handler = iam_chain (\<lambda>_. []) (\<lambda>_ _ w. w) handler"

text \<open>No interceptor looks into a response.\<close>

lemma inventory_passes: "passes (inventory_interceptor D) (inventory_interceptor D) F"
  unfolding passes_def
proof (intro allI ext)
  fix m h c w
  show "inventory_interceptor D m (\<lambda>c. mapA F (h c)) c w = mapA F (inventory_interceptor D m h c) w"
    by (simp add: inventory_interceptor_def inventory_chain_def Inventory_ErrorInterceptor_def
      TraceIDUnaryServerInterceptor_def Inventory_Auth_def act_simps split: prod.splits res.splits list.splits option.splits)
qed

lemma payment_passes: "passes payment_interceptor payment_interceptor (F :: 'a \<Rightarrow> 'b)"
  unfolding passes_def
proof (intro allI ext)
  fix m c w and h :: "ctx \<Rightarrow> (unit, 'a, pay_error) act"
  obtain r s where "h c w = (r, s)" by (cases "h c w")
  then show "payment_interceptor m (\<lambda>c. mapA F (h c)) c w = mapA F (payment_interceptor m h c) w"
    by (cases r) (simp_all add: payment_interceptor_def Payment_ErrorInterceptor_def act_simps)
qed

lemma iam_passes: "passes (iam_interceptor :: ('w, 'b, iam_error) interceptor) iam_interceptor (F :: 'a \<Rightarrow> 'b)"
  unfolding passes_def
proof (intro allI ext)
  fix m c w and h :: "ctx \<Rightarrow> ('w, 'a, iam_error) act"
  obtain r s where "h c w = (r, s)" by (cases "h c w")
  then show "iam_interceptor m (\<lambda>c. mapA F (h c)) c w = mapA F (iam_interceptor m h c) w"
    by (cases r) (simp_all add: iam_interceptor_def iam_chain_def Iam_ErrorInterceptor_def
      TraceIDUnaryServerInterceptor_def act_simps)
qed

subsection \<open>The clients\<close>

text \<open>The connection of a client with the session interceptor in front of it.\<close>

definition forwarding :: "uuid_lib \<Rightarrow> ('w, 'e) conn \<Rightarrow> ('w, 'e) conn" where
  "forwarding U cc c fullMethod buf = SessionForwarder U (\<lambda>c buf. cc c fullMethod buf) c buf"

definition generated_inventory_stub ::
    "inventory_codecs \<Rightarrow> ('w, 'e) conn \<Rightarrow> ('w, 'e) inventory_stub" where
  "generated_inventory_stub K cc =
    \<lparr>ist_ListParts = (\<lambda>c uuids. inventoryServiceClient_ListParts K cc c (PART_TYPE_UNSPECIFIED, uuids)),
     ist_ReserveParts = inventoryServiceClient_ReserveParts K cc,
     ist_ReleaseParts = inventoryServiceClient_ReleaseParts K cc,
     ist_CommitParts = inventoryServiceClient_CommitParts K cc,
     ist_ValidateCompatibility = inventoryServiceClient_ValidateCompatibility K cc\<rparr>"

definition inventory_codecs_ok :: "inventory_codecs \<Rightarrow> bool" where
  "inventory_codecs_ok K \<longleftrightarrow> codec_ok (ik_GetPartRequest K) \<and> codec_ok (ik_GetPartResponse K)
     \<and> codec_ok (ik_ListPartsRequest K) \<and> codec_ok (ik_ListPartsResponse K)
     \<and> codec_ok (ik_ValidateCompatibilityRequest K) \<and> codec_ok (ik_UuidsRequest K) \<and> codec_ok (ik_Empty K)"

lemma forwarding_call:
  "unary_call (forwarding U cc) d d' m c q = SessionForwarder U (\<lambda>c q. unary_call cc d d' m c q) c q"
  by (simp add: unary_call_def forwarding_def SessionForwarder_def split: prod.splits)

lemma remote_over_wire: "remote wire = over_wire sys_inv (\<lambda>d w. w\<lparr>sys_inv := d\<rparr>) wire"
  by (auto simp: fun_eq_iff remote_def over_wire_def)

lemma inventory_call:
  assumes K: "inventory_codecs_ok K"
    and cc: "serves cc get put wire incoming (InventoryService_ServiceDesc K srv) (Some (inventory_interceptor D)) (marshal_inventory K)"
  shows "inventoryServiceClient_ListParts K cc c q1
      = over_wire get put wire (inventory_interceptor D ''/inventory.v1.InventoryService/ListParts'' (\<lambda>c. is_ListParts srv c q1) (incoming c))"
    and "inventoryServiceClient_ValidateCompatibility K cc c q2
      = over_wire get put wire (inventory_interceptor D ''/inventory.v1.InventoryService/ValidateCompatibility'' (\<lambda>c. is_ValidateCompatibility srv c q2) (incoming c))"
    and "inventoryServiceClient_ReserveParts K cc c q3
      = over_wire get put wire (inventory_interceptor D ''/inventory.v1.InventoryService/ReserveParts'' (\<lambda>c. is_ReserveParts srv c q3) (incoming c))"
    and "inventoryServiceClient_ReleaseParts K cc c q3
      = over_wire get put wire (inventory_interceptor D ''/inventory.v1.InventoryService/ReleaseParts'' (\<lambda>c. is_ReleaseParts srv c q3) (incoming c))"
    and "inventoryServiceClient_CommitParts K cc c q3
      = over_wire get put wire (inventory_interceptor D ''/inventory.v1.InventoryService/CommitParts'' (\<lambda>c. is_CommitParts srv c q3) (incoming c))"
    and "inventoryServiceClient_GetPart K cc c q4
      = over_wire get put wire (inventory_interceptor D ''/inventory.v1.InventoryService/GetPart'' (\<lambda>c. is_GetPart srv c q4) (incoming c))"
  using K cc
  by (simp_all add: inventoryServiceClient_ListParts_def inventoryServiceClient_ValidateCompatibility_def
      inventoryServiceClient_ReserveParts_def inventoryServiceClient_ReleaseParts_def inventoryServiceClient_CommitParts_def
      inventoryServiceClient_GetPart_def)
    (rule call_reaches_method [OF _ _ _ _ inventory_passes],
     simp_all add: inventory_codecs_ok_def marshal_inventory_def serves_def InventoryService_ServiceDesc_def
      InventoryService_ListParts_Handler_def InventoryService_ValidateCompatibility_Handler_def
      InventoryService_ReserveParts_Handler_def InventoryService_ReleaseParts_Handler_def
      InventoryService_CommitParts_Handler_def InventoryService_GetPart_Handler_def)+

definition payment_codecs_ok :: "payment_codecs \<Rightarrow> bool" where
  "payment_codecs_ok K \<longleftrightarrow> codec_ok (pk_PayOrderRequest K) \<and> codec_ok (pk_PayOrderResponse K)"

definition auth_codecs_ok :: "('login, 'who) auth_codecs \<Rightarrow> bool" where
  "auth_codecs_ok K \<longleftrightarrow> codec_ok (ak_LoginRequest K) \<and> codec_ok (ak_LoginResponse K) \<and> codec_ok (ak_WhoamiRequest K)
     \<and> codec_ok (ak_WhoamiResponse K) \<and> codec_ok (ak_LogoutRequest K) \<and> codec_ok (ak_LogoutResponse K)"

lemma mapA_id: "mapA (\<lambda>x. x) a = a"
  by (auto simp: fun_eq_iff mapA_def bindA_def ret_def split: prod.splits res.splits)

lemma payment_call:
  assumes "payment_codecs_ok K"
    and "serves cc (\<lambda>w. ()) put wire incoming (PaymentService_ServiceDesc K srv) (Some payment_interceptor) (cd_Marshal (pk_PayOrderResponse K))"
  shows "paymentServiceClient_PayOrder K cc c q
    = over_wire (\<lambda>w. ()) put wire (payment_interceptor ''/payment.v1.PaymentService/PayOrder'' (\<lambda>c. ps_PayOrder srv c q) (incoming c))"
  unfolding paymentServiceClient_PayOrder_def
  by (rule call_reaches_method [OF _ _ _ _ payment_passes [of "\<lambda>x. x"]])
    (use assms in \<open>simp_all add: payment_codecs_ok_def serves_def PaymentService_ServiceDesc_def
      PaymentService_PayOrder_Handler_def mapA_id\<close>)

lemma auth_call:
  assumes "auth_codecs_ok K"
    and "serves cc get put wire incoming (AuthService_ServiceDesc K srv) (Some iam_interceptor) (marshal_auth K)"
  shows "authServiceClient_Whoami K cc c q
    = over_wire get put wire (iam_interceptor ''/auth.v1.AuthService/Whoami'' (\<lambda>c. as_Whoami srv c q) (incoming c))"
    and "authServiceClient_Login K cc c q'
    = over_wire get put wire (iam_interceptor ''/auth.v1.AuthService/Login'' (\<lambda>c. as_Login srv c q') (incoming c))"
    and "authServiceClient_Logout K cc c q
    = over_wire get put wire (iam_interceptor ''/auth.v1.AuthService/Logout'' (\<lambda>c. as_Logout srv c q) (incoming c))"
  unfolding authServiceClient_Whoami_def authServiceClient_Login_def authServiceClient_Logout_def
  by (rule call_reaches_method [OF _ _ _ _ iam_passes],
      use assms in \<open>simp_all add: auth_codecs_ok_def marshal_auth_def serves_def AuthService_ServiceDesc_def
      AuthService_Login_Handler_def AuthService_Whoami_Handler_def AuthService_Logout_Handler_def\<close>)+

subsection \<open>The stubs of the system\<close>


text \<open>
  Connections and codecs for the witness: a connection that looks the method up in the description, and
  codecs that number the messages.
\<close>

definition direct_conn ::
    "('w \<Rightarrow> 's) \<Rightarrow> ('s \<Rightarrow> 'w \<Rightarrow> 'w) \<Rightarrow> ('f err \<Rightarrow> 'e err) \<Rightarrow> ('s, 'r, 'f) service_desc \<Rightarrow> ('s, 'r, 'f) interceptor
      \<Rightarrow> ('r \<Rightarrow> bytes) \<Rightarrow> ('w, 'e) conn" where
  "direct_conn get put wire desc intercept marshal c fullMethod buf =
    (case find (\<lambda>(name, handler). full_name (sd_ServiceName desc) name = fullMethod) (sd_Methods desc) of
       None \<Rightarrow> fail (Status Unimplemented)
     | Some (name, handler) \<Rightarrow> over_wire get put wire (mapA marshal (handler (Some intercept) (server_ctx c) buf)))"

lemma find_key: "distinct (map fst xs) \<Longrightarrow> (a, b) \<in> set xs \<Longrightarrow> find (\<lambda>(n, h). n = a) xs = Some (a, b)"
  by (induction xs) force+

lemma direct_conn_serves:
  assumes "distinct (map fst (sd_Methods desc))"
  shows "serves (direct_conn get put wire desc intercept marshal) get put wire server_ctx desc (Some intercept) marshal"
  using find_key [OF assms] by (auto simp: serves_def list_all_iff direct_conn_def)

definition number_codec :: "('m \<Rightarrow> 'c::countable) \<Rightarrow> ('c \<Rightarrow> 'm) \<Rightarrow> 'm codec" where
  "number_codec f g = \<lparr>cd_Marshal = (\<lambda>m. replicate (to_nat (f m)) 0), cd_Unmarshal = (\<lambda>b. Some (g (from_nat (length b))))\<rparr>"

lemma number_codec_ok: "(\<And>m. g (f m) = m) \<Longrightarrow> codec_ok (number_codec f g)"
  by (simp add: number_codec_def codec_ok_def)

definition part_tuple :: "PartProto \<Rightarrow> string \<times> string \<times> string \<times> int \<times> int \<times> int \<times> int" where
  "part_tuple p = (pp_Uuid p, pp_Name p, pp_Description p, pp_Price p, pp_PartType p, pp_StockQuantity p, pp_CreatedAt p)"

definition tuple_part :: "string \<times> string \<times> string \<times> int \<times> int \<times> int \<times> int \<Rightarrow> PartProto" where
  "tuple_part = (\<lambda>(u, n, d, pr, pt, q, t). \<lparr>pp_Uuid = u, pp_Name = n, pp_Description = d, pp_Price = pr, pp_PartType = pt,
     pp_StockQuantity = q, pp_CreatedAt = t\<rparr>)"

definition plain_inventory_codecs :: inventory_codecs where
  "plain_inventory_codecs =
    \<lparr>ik_GetPartRequest = number_codec id id, ik_GetPartResponse = number_codec part_tuple tuple_part,
     ik_ListPartsRequest = number_codec id id,
     ik_ListPartsResponse = number_codec (map part_tuple) (map tuple_part),
     ik_ValidateCompatibilityRequest =
       number_codec (\<lambda>r. (vr_HullUuid r, vr_EngineUuid r, vr_ShieldUuid r, vr_WeaponUuid r))
         (\<lambda>(h, e, s, w). \<lparr>vr_HullUuid = h, vr_EngineUuid = e, vr_ShieldUuid = s, vr_WeaponUuid = w\<rparr>),
     ik_UuidsRequest = number_codec id id, ik_Empty = number_codec id id\<rparr>"

definition plain_payment_codecs :: payment_codecs where
  "plain_payment_codecs = \<lparr>pk_PayOrderRequest = number_codec id id, pk_PayOrderResponse = number_codec id id\<rparr>"

definition plain_auth_codecs :: "(LoginRequest, SessionRes \<times> UserRes) auth_codecs" where
  "plain_auth_codecs =
    \<lparr>ak_LoginRequest = number_codec (\<lambda>r. (lr_Login r, lr_Password r)) (\<lambda>(l, p). \<lparr>lr_Login = l, lr_Password = p\<rparr>),
     ak_LoginResponse = number_codec id id, ak_WhoamiRequest = number_codec id id,
     ak_WhoamiResponse =
       number_codec (\<lambda>(s, u). ((sr_Uuid s, sr_CreatedAt s, sr_UpdatedAt s, sr_ExpiresAt s), (ure_Uuid u, ure_Login u, ure_CreatedAt u, ure_UpdatedAt u)))
         (\<lambda>((a, b, c, d), (e, f, g, h)). (\<lparr>sr_Uuid = a, sr_CreatedAt = b, sr_UpdatedAt = c, sr_ExpiresAt = d\<rparr>,
            \<lparr>ure_Uuid = e, ure_Login = f, ure_CreatedAt = g, ure_UpdatedAt = h\<rparr>)),
     ak_LogoutRequest = number_codec id id, ak_LogoutResponse = number_codec id id\<rparr>"

lemma tuple_part_inverse: "tuple_part (part_tuple p) = p"
  by (simp add: tuple_part_def part_tuple_def)

lemma plain_codecs_ok:
  "inventory_codecs_ok plain_inventory_codecs" "payment_codecs_ok plain_payment_codecs" "auth_codecs_ok plain_auth_codecs"
  by (auto simp: inventory_codecs_ok_def plain_inventory_codecs_def payment_codecs_ok_def plain_payment_codecs_def
    auth_codecs_ok_def plain_auth_codecs_def tuple_part_inverse comp_def intro!: number_codec_ok map_idI)

definition wired :: deployment where
  "wired = \<lparr>dp_uuid = unary_uuid_lib, dp_inv_status = chain_FromError, dp_ord_status = chain_FromError,
     dp_wire = code_wire, dp_pay_wire = code_wire, dp_whoami = (\<lambda>c s. ret (8, s)),
     dp_invDo = pg_commit, dp_repoDo = ord_Do, dp_Do = ord_Do\<rparr>"


end
