(* ===== verification/Order_Typing.thy ===== *)
theory Order_Typing
  imports OpenApi_Client
begin

text \<open>
  The type of the documents of the order API: the rows the order service writes always give documents
  that the generated client accepts, so that reading an order through the API is total.
\<close>

subsection \<open>Typed rows\<close>

text \<open>The statuses the converter knows; any other text of the column would become the empty status.\<close>

definition rows_typed :: "'a order_db_scheme \<Rightarrow> bool" where
  "rows_typed w \<longleftrightarrow> (\<forall>u. case status_of w u of None \<Rightarrow> True
     | Some st \<Rightarrow> st \<in> {OrderStatusPendingPayment, OrderStatusPaid, OrderStatusCancelled, OrderStatusAssembled})"

lemma status_step_typed:
  assumes "status_step\<^sup>*\<^sup>* a b"
    "case a of None \<Rightarrow> True | Some st \<Rightarrow> st \<in> {OrderStatusPendingPayment, OrderStatusPaid, OrderStatusCancelled, OrderStatusAssembled}"
  shows "case b of None \<Rightarrow> True | Some st \<Rightarrow> st \<in> {OrderStatusPendingPayment, OrderStatusPaid, OrderStatusCancelled, OrderStatusAssembled}"
  using assms by (induction rule: rtranclp_induct) (auto elim: status_step.cases)

lemma exec_rows_typed:
  assumes "tx_manager repoDo order_rollback" "tx_manager Do order_rollback" "clients_frame cl" "rows_typed w"
  shows "rows_typed (exec_order_calls repoDo Do cl U unm calls w)"
  using status_step_typed exec_order_calls_change [OF assms(1-3), THEN conjunct1] assms(4)
  unfolding rows_typed_def by blast

subsection \<open>Typed documents\<close>

lemma opt_wf_from_ptr: "opt_wf uuid_Nil (OptNilUUIDFromPtr p)" "opt_wf '''' (OptNilPaymentMethodFromPtr m)"
  by (auto simp: opt_wf_def OptNilUUIDFromPtr_def OptNilPaymentMethodFromPtr_def split: option.splits)

lemma order_dto_wf: "dto_wf (order_dto order)"
  by (simp add: dto_wf_def order_dto_def Let_def opt_wf_from_ptr TotalPrice_wrapped_sum)

lemma method_from_ptr_valid:
  "OptNil_Get (OptNilPaymentMethodFromPtr m) = Some pm \<Longrightarrow> PaymentMethod_Validate pm = Inr ()"
  by (auto simp: OptNilPaymentMethodFromPtr_def PaymentMethodFromModelToApi_def OptNil_Get_def opt_defs
    PaymentMethod_Validate_def split: option.splits if_splits)

lemma order_dto_valid:
  assumes "o_Status order \<in> {OrderStatusPendingPayment, OrderStatusPaid, OrderStatusCancelled, OrderStatusAssembled}"
  shows "OrderDto_Validate (order_dto order) = Inr ()"
proof -
  have "OrderStatus_Validate (OrderStatusFromModelToApi (o_Status order)) = Inr ()"
    using assms by (auto simp: OrderStatus_Validate_def OrderStatusFromModelToApi_def)
  then show ?thesis
    using method_from_ptr_valid
    by (auto simp: OrderDto_Validate_def order_dto_def Let_def validation_def split: option.splits)
qed

subsection \<open>Reading an order\<close>

lemma api_get_cases:
  assumes "rows_typed w"
  obtains (found) d where "OrderApi_GetOrder (NewOrderService E repoDo Do cl) u w = (Ret (GetOrderDto d), w)"
      "dto_wf d" "OrderDto_Validate d = Inr ()" "dto_OrderUUID d = u" "order_row w u \<noteq> None"
    | (not_found) "OrderApi_GetOrder (NewOrderService E repoDo Do cl) u w
        = (Ret (GetOrderNotFound \<lparr>ae_Code = 404, ae_Message = ''order not found''\<rparr>), w)" "\<not> (order_up E \<and> order_row w u \<noteq> None)"
    | (failed) "OrderApi_GetOrder (NewOrderService E repoDo Do cl) u w
        = (Ret (GetOrderInternalServerError \<lparr>ae_Code = 500, ae_Message = ''something went wrong''\<rparr>), w)" "\<not> order_up E"
proof -
  have row: "ord_UUID r = u \<and> ord_Status r \<in> {OrderStatusPendingPayment, OrderStatusPaid, OrderStatusCancelled, OrderStatusAssembled}"
    if "order_row w u = Some r" for r
  proof
    show "ord_UUID r = u" using that by (auto simp: order_row_def find_Some_iff)
    show "ord_Status r \<in> {OrderStatusPendingPayment, OrderStatusPaid, OrderStatusCancelled, OrderStatusAssembled}"
      using that assms [unfolded rows_typed_def, THEN spec [of _ u]] by (simp add: status_of_def)
  qed
  obtain r where run: "OrderRepo_Get E u w = (r, w)" by (simp add: OrderRepo_Get_app)
  have get: "OrderService_Get (NewOrderService E repoDo Do cl) u = OrderRepo_Get E u"
    by (simp add: OrderService_Get_def NewOrderService_def)
  show ?thesis
  proof (cases r)
    case (Ret order)
    then obtain row' where r': "order_row w u = Some row'" "o_UUID order = ord_UUID row'" "o_Status order = ord_Status row'"
      using run by (auto simp: OrderRepo_Get_app OrderRecordToModel_def split: option.splits if_splits)
    show ?thesis
      by (rule found [of "order_dto order"])
        (use Ret run r' row [OF r'(1)] in \<open>simp_all add: OrderApi_GetOrder_def get order_dto_wf order_dto_valid\<close>,
         simp add: order_dto_def Let_def)
  next
    case (Err e)
    with run have "errors_Is e ErrOrderNotFound \<and> \<not> (order_up E \<and> order_row w u \<noteq> None) \<or> \<not> order_up E"
      by (auto simp: OrderRepo_Get_app split: option.splits if_splits)
    then show ?thesis
      using Err run not_found failed
      by (cases "errors_Is e ErrOrderNotFound") (auto simp: OrderApi_GetOrder_def get)
  next
    case (Panic p)
    with run show ?thesis by (simp add: OrderRepo_Get_app split: option.splits if_splits)
  qed
qed

text \<open>
  C16. Reading an order is well typed and total. Whatever calls the order service has executed, with any
  failures of database, transactions and other services, every row keeps a status of the status
  machine, and the generated client, connected to the service, never reports a failure for \<open>GetOrder\<close>:
  it returns a document that passes the validation of the API, or the response 404 or 500; while the
  database answers it returns the document exactly for the orders that exist.
\<close>

theorem get_order_well_typed:
  fixes w0 :: "'a order_db_scheme"
  assumes libs: "http_lib_ok L U" "uuid_lib_ok U" "jx_lib_ok J"
    and backend: "tx_manager repoDo order_rollback" "tx_manager Do order_rollback" "clients_frame cl"
    and typed: "rows_typed w0"
    and w: "w = exec_order_calls repoDo Do cl V unm calls w0"
    and s: "s = NewOrderServer enc render U fresh (NewOrderService E repoDo Do cl)"
  shows "rows_typed w \<and>
    (\<exists>res. sendGetOrder L J U z (client_of L J U s) c u w = (Ret res, w)
      \<and> (case res of
           GetOrderDto d \<Rightarrow> OrderDto_Validate d = Inr () \<and> dto_wf d \<and> dto_OrderUUID d = u \<and> order_row w u \<noteq> None
         | GetOrderNotFound e \<Rightarrow> ae_Code e = 404 \<and> \<not> (order_up E \<and> order_row w u \<noteq> None)
         | GetOrderInternalServerError e \<Rightarrow> ae_Code e = 500 \<and> \<not> order_up E
         | GetOrderBadRequest e \<Rightarrow> False))"
proof
  show typed': "rows_typed w" unfolding w by (rule exec_rows_typed [OF backend typed])
  note send = send_get [OF libs(1,2), of s J z c u w] and body = decode_body_response [OF libs(1)]
  have s': "sv_prefix s = ''''" "sv_GetOrder s c u = OrderApi_GetOrder (NewOrderService E repoDo Do cl) u"
    by (simp_all add: s NewOrderServer_def)
  from typed' show "\<exists>res. sendGetOrder L J U z (client_of L J U s) c u w = (Ret res, w)
      \<and> (case res of
           GetOrderDto d \<Rightarrow> OrderDto_Validate d = Inr () \<and> dto_wf d \<and> dto_OrderUUID d = u \<and> order_row w u \<noteq> None
         | GetOrderNotFound e \<Rightarrow> ae_Code e = 404 \<and> \<not> (order_up E \<and> order_row w u \<noteq> None)
         | GetOrderInternalServerError e \<Rightarrow> ae_Code e = 500 \<and> \<not> order_up E
         | GetOrderBadRequest e \<Rightarrow> False)"
  proof (cases rule: api_get_cases [where E = E and repoDo = repoDo and Do = Do and cl = cl and u = u])
    case (found d)
    then show ?thesis
      using send s' dto_roundtrip [OF libs(3) found(2)]
      by (simp add: body decode_response_defs OrderDto_Validate_def dto_wf_def)
  qed (use send s' in \<open>simp_all add: body decode_response_defs small_roundtrips [OF libs(3)] in64_def\<close>)
qed

theorem get_order_well_typed_witness:
  "\<exists>d. sendGetOrder plain_http plain_jx unary_uuid_lib 0
      (client_of plain_http plain_jx unary_uuid_lib
        (NewOrderServer (hl_WriteJson plain_http) (\<lambda>_. ''failed'') unary_uuid_lib (9, 0)
          (NewOrderService calm_env ord_Do ord_Do log_clients)))
      background_ctx 5
      (exec_order_calls ord_Do ord_Do log_clients unary_uuid_lib ship_msg
        [(calm_env, DoPay background_ctx 5 PaymentMethodCard)] pending_order)
    = (Ret (GetOrderDto d), exec_order_calls ord_Do ord_Do log_clients unary_uuid_lib ship_msg
        [(calm_env, DoPay background_ctx 5 PaymentMethodCard)] pending_order)
    \<and> OrderDto_Validate d = Inr ()"
proof -
  let ?w = "exec_order_calls ord_Do ord_Do log_clients unary_uuid_lib ship_msg
        [(calm_env, DoPay background_ctx 5 PaymentMethodCard)] pending_order"
  have typed: "rows_typed pending_order"
    by (simp add: rows_typed_def status_of_def order_row_def pending_order_def)
  have "status_of ?w 5 \<noteq> None" by code_simp
  then have row: "order_row ?w 5 \<noteq> None" by (simp add: status_of_def)
  obtain res where "sendGetOrder plain_http plain_jx unary_uuid_lib 0
      (client_of plain_http plain_jx unary_uuid_lib
        (NewOrderServer (hl_WriteJson plain_http) (\<lambda>_. ''failed'') unary_uuid_lib (9, 0)
          (NewOrderService calm_env ord_Do ord_Do log_clients))) background_ctx 5 ?w = (Ret res, ?w)"
    "case res of
         GetOrderDto d \<Rightarrow> OrderDto_Validate d = Inr () \<and> dto_wf d \<and> dto_OrderUUID d = 5 \<and> order_row ?w 5 \<noteq> None
       | GetOrderNotFound e \<Rightarrow> ae_Code e = 404 \<and> \<not> (order_up calm_env \<and> order_row ?w 5 \<noteq> None)
       | GetOrderInternalServerError e \<Rightarrow> ae_Code e = 500 \<and> \<not> order_up calm_env
       | GetOrderBadRequest e \<Rightarrow> False"
    using get_order_well_typed [OF plain_http_ok unary_uuid_lib_ok plain_jx_ok ord_Do_tx ord_Do_tx log_clients_frame
      typed refl refl] by blast
  then show ?thesis using row calm_env_ok(1) by (cases res) simp_all
qed

end
