(* ===== verification/System_Http.thy ===== *)
theory System_Http
  imports System_Conservation System_Grpc Order_Typing
begin

text \<open>
  The order service as a whole behind its HTTP API. The packages \<open>pkg/app\<close> of the services assemble
  the handlers for tests: this theory translates them, relates them to the chains of the production
  servers, and follows a request of an authenticated API client through the middleware, the generated
  server, the service, both generated gRPC hops and both databases.
\<close>

subsection \<open>Assembling the order service\<close>

text \<open>
  What the handler of one request depends on besides its arguments: the libraries, the identifier and
  the clock reading of the request, and whether the telemetry library refuses to create the instruments
  of the generated server, which is the only way \<open>NewServer\<close> can fail.
\<close>

record http_env =
  he_http :: http_lib
  he_jx :: jx_lib
  he_uuid :: uuid_lib
  he_status :: "order_error status_lib"
  he_json :: "json \<Rightarrow> string"
  he_render :: "order_error err \<Rightarrow> string"
  he_instruments :: "order_error err option"
  he_fresh :: "uuid \<times> time"

record 'w order_counters =
  ct_created :: "'w \<Rightarrow> 'w"
  ct_paid :: "'w \<Rightarrow> 'w"
  ct_revenue :: "int \<Rightarrow> 'w \<Rightarrow> 'w"

type_synonym 'w pay_stub = "ctx \<Rightarrow> string \<times> PaymentMethodProto \<Rightarrow> ('w, string, order_error) act"
type_synonym 'w whoami_stub = "ctx \<Rightarrow> string \<Rightarrow> ('w, string \<times> string, order_error) act"
type_synonym 'w producer = "ctx \<Rightarrow> OrderPaidEvent \<Rightarrow> ('w, unit, order_error) act"

definition harness_clients ::
    "http_env \<Rightarrow> 'w order_counters \<Rightarrow> ('w, order_error) inventory_stub \<Rightarrow> 'w pay_stub \<Rightarrow> 'w producer \<Rightarrow> 'w order_clients" where
  "harness_clients e ct inventoryServiceClient paymentServiceClient orderProducer =
    (let U = he_uuid e; S = he_status e
     in \<lparr>cl_ListParts = InventoryClient_ListParts U S inventoryServiceClient,
         cl_ReserveParts = InventoryClient_ReserveParts U S inventoryServiceClient,
         cl_ReleaseParts = InventoryClient_ReleaseParts U S inventoryServiceClient,
         cl_CommitParts = InventoryClient_CommitParts U S inventoryServiceClient,
         cl_ValidateCompatibility = InventoryClient_ValidateCompatibility U S inventoryServiceClient,
         cl_PayOrder = PaymentClient_PayOrder U S paymentServiceClient,
         cl_ProduceOrderPaid = orderProducer,
         cl_createdTotal = ct_created ct, cl_paidTotal = ct_paid ct, cl_revenueTotal = ct_revenue ct\<rparr>)"

definition NewHTTPHandlerWithProducer ::
    "http_env \<Rightarrow> 'a order_db_scheme order_counters \<Rightarrow> order_env
      \<Rightarrow> (('a order_db_scheme, unit, order_error) act \<Rightarrow> ('a order_db_scheme, unit, order_error) act)
      \<Rightarrow> (('a order_db_scheme, captured, order_error) act \<Rightarrow> ('a order_db_scheme, captured, order_error) act)
      \<Rightarrow> ('a order_db_scheme, order_error) inventory_stub \<Rightarrow> 'a order_db_scheme pay_stub
      \<Rightarrow> 'a order_db_scheme whoami_stub \<Rightarrow> 'a order_db_scheme producer
      \<Rightarrow> order_error err + 'a order_db_scheme http_handler" where
  "NewHTTPHandlerWithProducer e ct pool repoDo Do inventoryServiceClient paymentServiceClient authServiceClient orderProducer =
    (let service = NewOrderService pool repoDo Do
           (harness_clients e ct inventoryServiceClient paymentServiceClient orderProducer);
         orderServer = NewOrderServer (he_json e) (he_render e) (he_uuid e) (he_fresh e) service
     in case he_instruments e of
          Some err \<Rightarrow> Inl (Wrap ''failed to create the OpenAPI server'' err)
        | None \<Rightarrow> Inr (AuthMiddleware (he_uuid e) (OrderIAMClient_Whoami (he_uuid e) (he_status e) authServiceClient)
            (ServeHTTP (he_http e) (he_jx e) (he_uuid e) orderServer)))"

text \<open>The producer of the tests that have no broker drops every event.\<close>

definition OrderPaidProducerServiceStub_ProduceOrderPaid :: "'w producer" where
  "OrderPaidProducerServiceStub_ProduceOrderPaid c event = ret ()"

definition NewHTTPHandler ::
    "http_env \<Rightarrow> 'a order_db_scheme order_counters \<Rightarrow> order_env
      \<Rightarrow> (('a order_db_scheme, unit, order_error) act \<Rightarrow> ('a order_db_scheme, unit, order_error) act)
      \<Rightarrow> (('a order_db_scheme, captured, order_error) act \<Rightarrow> ('a order_db_scheme, captured, order_error) act)
      \<Rightarrow> ('a order_db_scheme, order_error) inventory_stub \<Rightarrow> 'a order_db_scheme pay_stub
      \<Rightarrow> 'a order_db_scheme whoami_stub \<Rightarrow> order_error err + 'a order_db_scheme http_handler" where
  "NewHTTPHandler e ct pool repoDo Do inventoryServiceClient paymentServiceClient authServiceClient =
    NewHTTPHandlerWithProducer e ct pool repoDo Do inventoryServiceClient paymentServiceClient authServiceClient
      OrderPaidProducerServiceStub_ProduceOrderPaid"

subsection \<open>Assembling the gRPC services\<close>

text \<open>
  The server options of a harness that change what a call does are its interceptors; keepalive
  parameters concern the connection. \<open>RegisterServices\<close> puts the API into the generated description.
\<close>

definition inventory_Interceptors ::
    "deployment \<Rightarrow> inv_error status_lib \<Rightarrow> (ctx \<Rightarrow> string \<Rightarrow> (inv_db, string \<times> string, inv_error) act)
      \<Rightarrow> (inv_db, 'r, inv_error) interceptor" where
  "inventory_Interceptors D S authClient fullMethod handler =
    Inventory_ErrorInterceptor (dp_inv_status D)
      (Inventory_Auth (dp_uuid D) (InvIAMClient_Whoami (dp_uuid D) S authClient) handler)"

definition inventory_RegisterServices ::
    "inventory_codecs \<Rightarrow> deployment \<Rightarrow> pg_env \<Rightarrow> (inv_db, inventory_reply, inv_error) service_desc" where
  "inventory_RegisterServices K D pool = InventoryService_ServiceDesc K (inventory_server D pool)"

definition payment_Interceptors :: "(unit, 'r, pay_error) interceptor" where
  "payment_Interceptors fullMethod handler c s = (case handler c s of (r, s') \<Rightarrow> (Payment_ErrorInterceptor r, s'))"

definition payment_RegisterServices ::
    "payment_codecs \<Rightarrow> uuid_lib \<Rightarrow> uuid \<Rightarrow> (unit, string, pay_error) service_desc" where
  "payment_RegisterServices K U newUUID = PaymentService_ServiceDesc K (payment_server U newUUID)"

text \<open>The IAM server registers the two APIs on services that share the repositories.\<close>

definition iam_Interceptors :: "('w, 'r, iam_error) interceptor" where
  "iam_Interceptors fullMethod handler = Iam_ErrorInterceptor handler"

definition iam_NewGRPCServer ::
    "(RegisterRequest, UserRes) user_codecs \<Rightarrow> (LoginRequest, SessionRes \<times> UserRes) auth_codecs \<Rightarrow> uuid_lib \<Rightarrow> bcrypt_lib
      \<Rightarrow> iam_env \<Rightarrow> 'r redis_client \<Rightarrow> duration \<Rightarrow> int \<Rightarrow> string \<Rightarrow> uuid \<Rightarrow> set_clock \<Rightarrow> time
      \<Rightarrow> ('r iam_world, UserRes user_reply, iam_error) service_desc
        \<times> ('r iam_world, (SessionRes \<times> UserRes) auth_reply, iam_error) service_desc" where
  "iam_NewGRPCServer Ku Ka U B pool rdb sessionTTL bcryptCost salt newUUID k now =
    (let userSvc = NewIamService pool U rdb sessionTTL bcryptCost;
         authSvc = NewIamService pool U rdb sessionTTL bcryptCost
     in (UserService_ServiceDesc Ku
           \<lparr>usv_Register = (\<lambda>_. UserApi_Register U B userSvc salt newUUID now), usv_GetUser = (\<lambda>_. UserApi_GetUser U userSvc)\<rparr>,
         AuthService_ServiceDesc Ka (auth_server U B authSvc newUUID k now)))"

text \<open>
  The servers of the harness run a call as the production servers do when the request carries no trace:
  the interceptor that is missing only writes a header.
\<close>

lemma harness_interceptors:
  assumes "dp_whoami D = InvIAMClient_Whoami (dp_uuid D) S authClient"
  shows "inventory_Interceptors D S authClient = inventory_interceptor D"
    and "payment_Interceptors = payment_interceptor" and "iam_Interceptors = iam_interceptor"
  by (auto simp: fun_eq_iff assms inventory_Interceptors_def inventory_interceptor_def inventory_chain_def
      Inventory_ErrorInterceptor_def TraceIDUnaryServerInterceptor_def payment_Interceptors_def payment_interceptor_def
      iam_Interceptors_def iam_interceptor_def iam_chain_def Iam_ErrorInterceptor_def)

subsection \<open>The handler is the system\<close>

text \<open>With the stubs, the producer and the transactions of a deployment the handler serves its order service.\<close>

definition deployed_env :: "deployment \<Rightarrow> http_env \<Rightarrow> bool" where
  "deployed_env D e \<longleftrightarrow> he_uuid e = dp_uuid D \<and> he_status e = dp_ord_status D \<and> he_instruments e = None"

definition silent_counters :: "'w order_counters" where
  "silent_counters = \<lparr>ct_created = (\<lambda>w. w), ct_paid = (\<lambda>w. w), ct_revenue = (\<lambda>n w. w)\<rparr>"

definition deployed_handler ::
    "deployment \<Rightarrow> http_env \<Rightarrow> order_env \<Rightarrow> pg_env \<Rightarrow> uuid \<Rightarrow> ext_error option \<Rightarrow> system whoami_stub
      \<Rightarrow> order_error err + system http_handler" where
  "deployed_handler D e Eo Ei txu broker auth =
    NewHTTPHandlerWithProducer e silent_counters Eo (dp_repoDo D) (dp_Do D) (inventory_stub_of D Ei)
      (\<lambda>c (o', m). liftR (mapErr (dp_pay_wire D) (Payment_ErrorInterceptor (PaymentApi_PayOrder (dp_uuid D) txu o' m))))
      auth
      (\<lambda>c ev. case broker of None \<Rightarrow> (\<lambda>w. (Ret (), w\<lparr>sys_paid := sys_paid w @ [ev]\<rparr>)) | Some x \<Rightarrow> fail (Ext x))"

definition system_server ::
    "deployment \<Rightarrow> http_env \<Rightarrow> order_env \<Rightarrow> pg_env \<Rightarrow> uuid \<Rightarrow> ext_error option \<Rightarrow> system oas_server" where
  "system_server D e Eo Ei txu broker =
    NewOrderServer (he_json e) (he_render e) (dp_uuid D) (he_fresh e) (system_service D Eo Ei txu broker)"

lemma deployed_handler_is_system:
  assumes "deployed_env D e"
  shows "deployed_handler D e Eo Ei txu broker auth =
    Inr (AuthMiddleware (dp_uuid D) (OrderIAMClient_Whoami (dp_uuid D) (dp_ord_status D) auth)
      (ServeHTTP (he_http e) (he_jx e) (dp_uuid D) (system_server D e Eo Ei txu broker)))"
proof -
  have "harness_clients e silent_counters (inventory_stub_of D Ei)
      (\<lambda>c (o', m). liftR (mapErr (dp_pay_wire D) (Payment_ErrorInterceptor (PaymentApi_PayOrder (dp_uuid D) txu o' m))))
      (\<lambda>c ev. case broker of None \<Rightarrow> (\<lambda>w. (Ret (), w\<lparr>sys_paid := sys_paid w @ [ev]\<rparr>)) | Some x \<Rightarrow> fail (Ext x))
    = system_clients D Ei txu broker"
    using assms by (simp add: harness_clients_def system_clients_def Let_def silent_counters_def deployed_env_def)
  then show ?thesis
    using assms
    by (simp add: deployed_handler_def NewHTTPHandlerWithProducer_def deployed_env_def system_server_def
      system_service_def Let_def)
qed

text \<open>The production chain with a limiter that allows the request and no trace is the same handler.\<close>

lemma production_chain_is_handler:
  assumes "allow (hq_path r) w = (Ret n, w)" "n \<noteq> 0" "traceID (hq_ctx r) = []"
  shows "order_http_chain U allow traceID whoami router r w = AuthMiddleware U whoami router r w"
  using assms by (simp add: order_http_chain_def RateLimitMiddleware_def TraceIDMiddleware_def)

subsection \<open>The client with a bearer token\<close>

text \<open>
  A caller of the generated client hands it an HTTP client that sets the header \<open>Authorization\<close> on every
  request, as the tests do.
\<close>

definition with_header :: "string \<Rightarrow> 'w http_handler \<Rightarrow> 'w http_handler" where
  "with_header header handler r = handler (r\<lparr>hq_authorization := header\<rparr>)"

definition bearer_client :: "string \<Rightarrow> 'w http_handler \<Rightarrow> 'w oas_client" where
  "bearer_client header handler = \<lparr>oc_serverURL = ('''', ''''), oc_Do = http_transport (with_header header handler)\<rparr>"

lemma header_sel:
  fixes r :: http_req and a :: string and c :: ctx
  defines "r' \<equiv> r\<lparr>hq_authorization := a, hq_ctx := c\<rparr>"
  shows "hq_method r' = hq_method (r\<lparr>hq_ctx := c\<rparr>)" "hq_path r' = hq_path (r\<lparr>hq_ctx := c\<rparr>)"
    "hq_rawPath r' = hq_rawPath (r\<lparr>hq_ctx := c\<rparr>)" "hq_contentType r' = hq_contentType (r\<lparr>hq_ctx := c\<rparr>)"
    "hq_requestMethod r' = hq_requestMethod (r\<lparr>hq_ctx := c\<rparr>)" "hq_contentLength r' = hq_contentLength (r\<lparr>hq_ctx := c\<rparr>)"
    "hq_body r' = hq_body (r\<lparr>hq_ctx := c\<rparr>)" "hq_ctx r' = hq_ctx (r\<lparr>hq_ctx := c\<rparr>)"
  by (simp_all add: r'_def)

lemma serve_ignores_authorization:
  "ServeHTTP L J U s (r\<lparr>hq_authorization := a, hq_ctx := c\<rparr>) = ServeHTTP L J U s (r\<lparr>hq_ctx := c\<rparr>)"
  unfolding ServeHTTP_def routed_path_def handleCreateOrderRequest_def handleGetOrderRequest_def
    handleCancelOrderRequest_def handlePayOrderRequest_def decodeCreateOrderRequest_def decodePayOrderRequest_def
    decode_json_body_def notAllowed_def header_sel
  by (rule refl)

lemma new_request_bearer:
  "new_request L (bearer_client header h) c m ps = new_request L (client_of L J U s) c m ps"
  by (simp add: new_request_def bearer_client_def client_of_def)

lemma request_ctx:
  "(new_request L cl c m ps)\<lparr>hq_ctx := c'\<rparr> = new_request L cl c' m ps"
  "(set_json_body L j r)\<lparr>hq_ctx := c'\<rparr> = set_json_body L j (r\<lparr>hq_ctx := c'\<rparr>)"
  by (simp_all add: new_request_def set_json_body_def split: prod.splits)

text \<open>An exchange behind the middleware, by what the IAM service says of the token.\<close>

lemma exchange_confirmed:
  assumes "uuid_lib_ok U" "whoami (hq_ctx r) sid w = (Ret (u, sid'), w')"
  shows "exchange (bearer_client (''Bearer '' @ uuid_String U sid) (AuthMiddleware U whoami (ServeHTTP L J U s))) r decode w
    = exchange (client_of L J U s) (r\<lparr>hq_ctx := WithSessionUUID (WithUserUUID (hq_ctx r) u) sid'\<rparr>) decode w'"
proof -
  let ?r = "r\<lparr>hq_authorization := ''Bearer '' @ uuid_String U sid\<rparr>"
  have "bearer_session U ?r = Some sid" by (simp add: bearer_session_def has_prefix_def uuid_lib_parse [OF assms(1)])
  then have "AuthMiddleware U whoami (ServeHTTP L J U s) ?r w
      = ServeHTTP L J U s (r\<lparr>hq_ctx := WithSessionUUID (WithUserUUID (hq_ctx r) u) sid'\<rparr>) w'"
    using AuthMiddleware_session [OF assms(1), of ?r whoami "ServeHTTP L J U s" w] assms(2)
    by (simp add: serve_ignores_authorization)
  then show ?thesis
    by (simp add: exchange_def bearer_client_def with_header_def client_of_def http_transport_def bindA_def wrapA_def)
qed

lemma exchange_refused:
  assumes "uuid_lib_ok U"
    and "case bearer_session U (r\<lparr>hq_authorization := header\<rparr>) of
           None \<Rightarrow> w' = w | Some sid \<Rightarrow> (\<exists>e. whoami (hq_ctx r) sid w = (Err e, w'))"
  shows "\<exists>msg. exchange (bearer_client header (AuthMiddleware U whoami router)) r decode w
    = (wrapR ''decode response'' (decode (http_Error 401 msg)), w')"
proof -
  let ?r = "r\<lparr>hq_authorization := header\<rparr>"
  have "\<exists>msg. AuthMiddleware U whoami router ?r w = (Ret (http_Error 401 msg), w')"
    using AuthMiddleware_session [OF assms(1), of ?r whoami router w] assms(2)
    by (cases "bearer_session U ?r") auto
  then obtain msg where "AuthMiddleware U whoami router ?r w = (Ret (http_Error 401 msg), w')" by blast
  then show ?thesis
    by (intro exI [of _ msg])
      (simp add: exchange_def bearer_client_def with_header_def http_transport_def bindA_def wrapA_def liftR_def)
qed

lemma send_confirmed:
  fixes s :: "'w oas_server"
  assumes U: "uuid_lib_ok U" and who: "whoami c sid w = (Ret (u, sid'), w')"
    and c': "c' = WithSessionUUID (WithUserUUID c u) sid'"
    and cl: "cl = bearer_client (''Bearer '' @ uuid_String U sid) (AuthMiddleware U whoami (ServeHTTP L J U s))"
  shows "sendCreateOrder L J cl c q w = sendCreateOrder L J (client_of L J U s) c' q w'"
    and "sendGetOrder L J U z cl c o' w = sendGetOrder L J U z (client_of L J U s) c' o' w'"
    and "sendPayOrder L J U cl c p o' w = sendPayOrder L J U (client_of L J U s) c' p o' w'"
    and "sendCancelOrder L J U cl c o' w = sendCancelOrder L J U (client_of L J U s) c' o' w'"
  unfolding cl sendCreateOrder_def sendGetOrder_def sendPayOrder_def sendCancelOrder_def
    encodeCreateOrderRequest_def encodePayOrderRequest_def new_request_bearer [where L = L and J = J and U = U and s = s]
  by (subst exchange_confirmed [OF U], simp add: who, simp add: c' request_ctx)+

subsection \<open>The items of a created order\<close>

text \<open>The parts of a request with the types their slots ask for.\<close>

definition slot_entries :: "OrderParts \<Rightarrow> (OrderPartType \<times> uuid) list" where
  "slot_entries ps =
    [(''HULL'', in_HullUUID ps), (''ENGINE'', in_EngineUUID ps)]
    @ (case in_ShieldUUID ps of None \<Rightarrow> [] | Some u \<Rightarrow> [(''SHIELD'', u)])
    @ (case in_WeaponUUID ps of None \<Rightarrow> [] | Some u \<Rightarrow> [(''WEAPON'', u)])"

lemma slot_entries_uuids: "map snd (slot_entries ps) = parts_uuids ps"
  by (simp add: slot_entries_def parts_uuids_def split: option.split)

lemma slot_entries_distinct: "distinct (map fst (slot_entries ps))"
  by (simp add: slot_entries_def split: option.split)

lemma items_by_slot:
  assumes "map item_entry items = slot_entries ps"
  shows "getOrderItemByType items = ps"
  by (simp add: getOrderItemByType_map_of assms Let_def slot_entries_def split: option.split)

lemma order_items_of_parts:
  "mapR order_item prts = Ret items \<Longrightarrow>
    items = map (\<lambda>p. \<lparr>oi_UUID = op_UUID p, oi_PartType = op_PartType p, oi_Price = op_Price p\<rparr>) prts"
  by (induction prts arbitrary: items) (auto simp: bindR_Ret_iff order_item_def split: if_splits)

lemma compatible_slots_typed:
  assumes "ship_spec v (requested_slots ps) = Success" "v uuid_Nil = None" "\<forall>u \<in> set (parts_uuids ps). v u \<noteq> None"
  shows "\<forall>(t, u) \<in> set (slot_entries ps). p_partType (the (v u)) = t \<and> t \<in> {''HULL'', ''ENGINE'', ''SHIELD'', ''WEAPON''}"
proof -
  have typed: "\<forall>(t, u) \<in> set (slot_list (requested_slots ps)). p_partType (the (v u)) = t"
    using assms(1) by (auto simp: ship_spec_def split: if_splits)
  have "u \<noteq> uuid_Nil" if "u \<in> set (parts_uuids ps)" for u using assms(2,3) that by auto
  then have "set (slot_entries ps) \<subseteq> set (slot_list (requested_slots ps))"
    by (auto simp: slot_entries_def slot_list_def requested_slots_def parts_uuids_def split: option.splits)
  with typed show ?thesis by (auto simp: slot_entries_def split: option.splits)
qed

lemma listed_entry:
  assumes "p_partType (the (part_of db u)) = t" "t \<in> {''HULL'', ''ENGINE'', ''SHIELD'', ''WEAPON''}"
  shows "op_PartType (listed_part U db u) = t"
  using assms by (auto simp: listed_part_def PartFromProto_def PartModelToPartProto_def PartTypeModelToProto_def PartTypeFromProto_def)

text \<open>
  What \<open>Create\<close> stores: one item for each requested part, of the type of its slot and with the price of
  the table.
\<close>

lemma created_items:
  assumes D: "deployment_ok D" "valid_session D c" and up: "pg_up Ei" "db_ok (sys_inv w)"
    and nil: "part_of (sys_inv w) uuid_Nil = None"
    and create: "OrderService_Create (system_service D Eo Ei txu b) c n now ps w = (Ret order, w')"
  shows "map item_entry (o_Items order) = slot_entries ps"
    and "map oi_Price (o_Items order) = map (\<lambda>u. p_price (the (part_of (sys_inv w) u))) (parts_uuids ps)"
proof -
  let ?db = "sys_inv w" and ?l = "listed_part (dp_uuid D) (sys_inv w)"
  from create [unfolded system_service_def] obtain prts items w1 w2 where
    calls: "cl_ListParts (system_clients D Ei txu b) c (parts_uuids ps) w = (Ret prts, w1)"
      "mapR order_item prts = Ret items"
      "cl_ValidateCompatibility (system_clients D Ei txu b) c ps w1 = (Ret (), w2)"
    and items: "o_Items order = items"
    by (rule order_backend.create_Ret [OF system_backend [OF D(1)]]) (metis Order.select_convs(3))
  note l = list_rpc [OF D up parts_uuids_nonempty calls(1)]
  have known: "\<forall>u \<in> set (parts_uuids ps). part_of ?db u \<noteq> None" using l(2) by blast
  have ship: "ship_spec (part_of ?db) (requested_slots ps) = Success"
    using validate_rpc(2) [OF D up calls(3) [unfolded l(1)]] by simp
  have stored: "o_Items order = map (\<lambda>u. \<lparr>oi_UUID = u, oi_PartType = op_PartType (?l u), oi_Price = op_Price (?l u)\<rparr>) (parts_uuids ps)"
    unfolding items order_items_of_parts [OF calls(2)] l(3) [OF refl] by (simp add: listed_part_def PartFromProto_def)
  then show "map oi_Price (o_Items order) = map (\<lambda>u. p_price (the (part_of ?db u))) (parts_uuids ps)"
    by (simp add: listed_part_def PartFromProto_def PartModelToPartProto_def)
  have "map item_entry (o_Items order) = map (\<lambda>(t, u). (op_PartType (?l u), u)) (slot_entries ps)"
    unfolding stored slot_entries_uuids [symmetric] by (simp add: item_entry_def case_prod_beta comp_def)
  also have "\<dots> = slot_entries ps"
    using compatible_slots_typed [OF ship nil known] listed_entry by (intro map_idI) (auto split: prod.splits)
  finally show "map item_entry (o_Items order) = slot_entries ps" .
qed

subsection \<open>An order over HTTP\<close>

text \<open>What a successful create of the client means for the service behind the API.\<close>

lemma client_created:
  assumes L: "http_lib_ok L U" and U: "uuid_lib_ok U" and J: "jx_lib_ok J"
    and q: "opt_wf uuid_Nil (cr_ShieldUUID q)" "opt_wf uuid_Nil (cr_WeaponUUID q)"
    and s: "s = NewOrderServer enc render U fresh service"
    and create: "sendCreateOrder L J (client_of L J U s) c q w = (Ret (CreateOrderOK r), w')"
  obtains order where
    "OrderService_Create service c (fst fresh) (snd fresh)
       \<lparr>in_HullUUID = cr_HullUUID q, in_EngineUUID = cr_EngineUUID q,
        in_ShieldUUID = OptNil_Get (cr_ShieldUUID q), in_WeaponUUID = OptNil_Get (cr_WeaponUUID q)\<rparr> w = (Ret order, w')"
    "r = \<lparr>co_OrderUUID = o_UUID order, co_TotalPrice = Order_TotalPrice order\<rparr>"
proof -
  let ?ps = "\<lparr>in_HullUUID = cr_HullUUID q, in_EngineUUID = cr_EngineUUID q,
        in_ShieldUUID = OptNil_Get (cr_ShieldUUID q), in_WeaponUUID = OptNil_Get (cr_WeaponUUID q)\<rparr>"
  have sv: "sv_prefix s = ''''" "sv_CreateOrder s c q = OrderApi_CreateOrder service c (fst fresh) (snd fresh) q"
    "sv_ErrorHandler s = ErrorHandler enc render" by (simp_all add: s NewOrderServer_def)
  have failed: "wrapR m (decodeCreateOrderResponse L J (ErrorHandler enc render err)) \<noteq> Ret (CreateOrderOK r)" for m err
  proof -
    have "hp_code (ErrorHandler enc render err) \<noteq> 201"
      using order_mapError_codes [of err] by (auto simp: ErrorHandler_def Let_def)
    then show ?thesis
      by (cases "decode_body L (ApiError_Decode J) (ErrorHandler enc render err)")
        (simp_all add: decodeCreateOrderResponse_def mapR1_def)
  qed
  note run = create [unfolded send_create [OF L U J sv(1) q] sv(2,3)]
  obtain x w1 where x: "OrderService_Create service c (fst fresh) (snd fresh) ?ps w = (x, w1)" by fastforce
  show ?thesis
  proof (cases x)
    case (Ret order)
    have "in64 (Order_TotalPrice order)" by (simp add: TotalPrice_wrapped_sum)
    with run x Ret that [of order] show ?thesis
      by (auto simp: OrderApi_CreateOrder_def act_simps decode_response_defs decode_body_response [OF L] small_roundtrips [OF J])
  next
    case (Err err)
    with run x failed show ?thesis by (simp add: OrderApi_CreateOrder_def act_simps)
  next
    case (Panic p)
    with run x show ?thesis by (simp add: OrderApi_CreateOrder_def act_simps)
  qed
qed

text \<open>The document of an order that was just created.\<close>

definition pending_document :: "jx_lib \<Rightarrow> uuid \<Rightarrow> CreateOrderRequest \<Rightarrow> CreateOrderResponse \<Rightarrow> time \<Rightarrow> OrderDto" where
  "pending_document J user q r createdAt =
    \<lparr>dto_OrderUUID = co_OrderUUID r, dto_UserUUID = user,
     dto_HullUUID = cr_HullUUID q, dto_EngineUUID = cr_EngineUUID q,
     dto_ShieldUUID = OptNilUUIDFromPtr (OptNil_Get (cr_ShieldUUID q)),
     dto_WeaponUUID = OptNilUUIDFromPtr (OptNil_Get (cr_WeaponUUID q)),
     dto_TotalPrice = co_TotalPrice r, dto_TransactionUUID = OptNilUUIDFromPtr None,
     dto_PaymentMethod = OptNilPaymentMethodFromPtr None, dto_Status = ''PENDING_PAYMENT'',
     dto_CreatedAt = jx_Rounded J createdAt\<rparr>"

lemma session_ctx:
  assumes "ctx_md_out c = []" "\<And>c d. dp_whoami D c sid d = (Ret (user, sid), d)"
  shows "valid_session D (WithSessionUUID (WithUserUUID c user) sid)"
    "UserUUIDFromContext (WithSessionUUID (WithUserUUID c user) sid) = (user, True)"
  using assms by (auto simp: valid_session_def WithSessionUUID_def WithUserUUID_def UserUUIDFromContext_def)

lemma created_document:
  assumes D: "deployment_ok D" "valid_session D c" "UserUUIDFromContext c = (user, True)"
    and up: "pg_up Ei" "order_up Eo'" "scan_ok Eo'"
    and w: "odb_ok w" "db_ok (sys_inv w)" "part_of (sys_inv w) uuid_Nil = None"
    and create: "OrderService_Create (system_service D Eo Ei txu b) c n now ps w = (Ret order, w')"
  shows "OrderApi_GetOrder (system_service D Eo' Ei' txu' b') n w'
      = (Ret (GetOrderDto (order_dto (order\<lparr>o_CreatedAt := oe_timestamp Eo now\<rparr>))), w')"
    and "getOrderItemByType (o_Items order) = ps"
    and "Order_TotalPrice order = wrap64 (\<Sum>u\<leftarrow>parts_uuids ps. p_price (the (part_of (sys_inv w) u)))"
    and "o_UUID order = n" "o_UserUUID order = user" "o_TransactionUUID order = None"
    and "o_PaymentMethod order = None" "o_Status order = OrderStatusPendingPayment"
proof -
  note created = created_items [OF D(1,2) up(1) w(2,3) create]
  note B = system_backend [OF D(1)]
  have tx: "tx_manager (dp_repoDo D) order_rollback" "tx_manager (dp_Do D) order_rollback"
    using D(1) by (simp_all add: deployment_ok_def)
  show "getOrderItemByType (o_Items order) = ps" by (rule items_by_slot [OF created(1)])
  show "Order_TotalPrice order = wrap64 (\<Sum>u\<leftarrow>parts_uuids ps. p_price (the (part_of (sys_inv w) u)))"
    by (simp add: TotalPrice_wrapped_sum created(2))
  show "o_UUID order = n" "o_UserUUID order = user" "o_TransactionUUID order = None"
    "o_PaymentMethod order = None" "o_Status order = OrderStatusPendingPayment"
    by (rule order_backend.create_Ret [OF B create [unfolded system_service_def]],
        metis Order.select_convs D(3) prod.inject)+
  have get_cl: "OrderService_Get (system_service D Eo' Ei' txu' b') n w' =
      OrderService_Get (NewOrderService Eo' (dp_repoDo D) (dp_Do D) (system_clients D Ei txu b)) n w'"
    by (simp add: OrderService_Get_def system_service_def NewOrderService_def)
  obtain items where items: "OrderService_Get (system_service D Eo' Ei' txu' b') n w'
        = (Ret (order\<lparr>o_Items := items, o_CreatedAt := oe_timestamp Eo now\<rparr>), w')"
      "mset items = mset (o_Items order)"
    unfolding get_cl
    using create_then_get [OF tx system_clients_frame w(1) up(2,3) create [unfolded system_service_def]] by blast
  have "map oi_PartType (o_Items order) = map fst (map item_entry (o_Items order))"
    by (simp add: item_entry_def comp_def)
  then have "distinct (map oi_PartType items)"
    using created(1) slot_entries_distinct items(2) by (metis mset_eq_imp_distinct_iff mset_map)
  then have "order_dto ((order\<lparr>o_CreatedAt := oe_timestamp Eo now\<rparr>)\<lparr>o_Items := items\<rparr>)
      = order_dto (order\<lparr>o_CreatedAt := oe_timestamp Eo now\<rparr>)"
    using order_dto_scan_independent [OF items(2), of "order\<lparr>o_CreatedAt := oe_timestamp Eo now\<rparr>"] by simp
  moreover have "order\<lparr>o_Items := items, o_CreatedAt := t\<rparr> = (order\<lparr>o_CreatedAt := t\<rparr>)\<lparr>o_Items := items\<rparr>" for t
    by (cases order) simp
  ultimately have "order_dto (order\<lparr>o_Items := items, o_CreatedAt := oe_timestamp Eo now\<rparr>)
      = order_dto (order\<lparr>o_CreatedAt := oe_timestamp Eo now\<rparr>)" by (simp only:)
  with items(1)
  show "OrderApi_GetOrder (system_service D Eo' Ei' txu' b') n w'
      = (Ret (GetOrderDto (order_dto (order\<lparr>o_CreatedAt := oe_timestamp Eo now\<rparr>))), w')"
    by (simp add: OrderApi_GetOrder_def)
qed

text \<open>
  C23. An order over HTTP, end to end. In a deployment whose services are connected by their own
  clients, servers and interceptors: when the API client, with a session that both services confirm,
  has created an order, its next \<open>GetOrder\<close> returns the document of exactly this order: the identifier
  and the price that were returned, the user of the session, the parts of the request each in its slot,
  pending and unpaid; and the price is the sum of the prices of these parts in the inventory. Of the
  databases it is assumed that the tables are well-formed, that no part has the nil identifier, that the
  inventory answers while the order is created and the order database while it is read.
\<close>

theorem http_order_roundtrip:
  assumes libs: "http_lib_ok (he_http e) (dp_uuid D)" "jx_lib_ok (he_jx e)" "he_http e' = he_http e" "he_jx e' = he_jx e"
    and D: "deployment_ok D" "deployed_env D e" "deployed_env D e'"
    and up: "pg_up Ei" "order_up Eo'" "scan_ok Eo'"
    and w: "odb_ok w" "db_ok (sys_inv w)" "part_of (sys_inv w) uuid_Nil = None"
    and session: "\<And>c w. OrderIAMClient_Whoami (dp_uuid D) (dp_ord_status D) auth c sid w = (Ret (user, sid), w)"
      "\<And>c d. dp_whoami D c sid d = (Ret (user, sid), d)" "ctx_md_out c = []"
    and H: "deployed_handler D e Eo Ei txu b auth = Inr H" "deployed_handler D e' Eo' Ei' txu' b' auth = Inr H'"
    and q: "opt_wf uuid_Nil (cr_ShieldUUID q)" "opt_wf uuid_Nil (cr_WeaponUUID q)"
    and create: "sendCreateOrder (he_http e) (he_jx e) (bearer_client (''Bearer '' @ uuid_String (dp_uuid D) sid) H) c q w
      = (Ret (CreateOrderOK r), w')"
    and ps: "ps = \<lparr>in_HullUUID = cr_HullUUID q, in_EngineUUID = cr_EngineUUID q,
        in_ShieldUUID = OptNil_Get (cr_ShieldUUID q), in_WeaponUUID = OptNil_Get (cr_WeaponUUID q)\<rparr>"
  shows "sendGetOrder (he_http e') (he_jx e') (dp_uuid D) z (bearer_client (''Bearer '' @ uuid_String (dp_uuid D) sid) H')
        c' (co_OrderUUID r) w'
      = (Ret (GetOrderDto (pending_document (he_jx e) user q r (oe_timestamp Eo (snd (he_fresh e))))), w')
    \<and> co_TotalPrice r = wrap64 (\<Sum>u\<leftarrow>parts_uuids ps. p_price (the (part_of (sys_inv w) u)))"
proof -
  let ?L = "he_http e" and ?J = "he_jx e" and ?U = "dp_uuid D" and ?t = "oe_timestamp Eo (snd (he_fresh e))"
  let ?who = "OrderIAMClient_Whoami (dp_uuid D) (dp_ord_status D) auth"
  let ?id = "\<lambda>c. WithSessionUUID (WithUserUUID c user) sid"
  let ?s = "system_server D e Eo Ei txu b" and ?s' = "system_server D e' Eo' Ei' txu' b'"
  have U: "uuid_lib_ok ?U" using D(1) by (simp add: deployment_ok_def)
  note handler = H [unfolded deployed_handler_is_system [OF D(2)] deployed_handler_is_system [OF D(3)] sum.inject, symmetric]
  have "sendCreateOrder ?L ?J (client_of ?L ?J ?U ?s) (?id c) q w = (Ret (CreateOrderOK r), w')"
    using create unfolding handler(1) send_confirmed(1) [where whoami = ?who, OF U session(1) refl refl] .
  from client_created [OF libs(1) U libs(2) q system_server_def this]
  obtain order where order: "OrderService_Create (system_service D Eo Ei txu b) (?id c) (fst (he_fresh e)) (snd (he_fresh e)) ps w
      = (Ret order, w')"
    and r: "r = \<lparr>co_OrderUUID = o_UUID order, co_TotalPrice = Order_TotalPrice order\<rparr>"
    unfolding ps by blast
  note doc = created_document [OF D(1) session_ctx [OF session(3,2)] up w order]
  let ?order = "order\<lparr>o_CreatedAt := ?t\<rparr>"
  have "sv_GetOrder ?s' (?id c') (o_UUID order) w' = (Ret (GetOrderDto (order_dto ?order)), w')" "sv_prefix ?s' = ''''"
    using doc(1) doc(4) by (simp_all add: system_server_def NewOrderServer_def)
  moreover have "OrderDto_Validate (order_dto ?order) = Inr ()" by (rule order_dto_valid) (simp add: doc(8))
  ultimately have "sendGetOrder ?L ?J ?U z (client_of ?L ?J ?U ?s') (?id c') (o_UUID order) w'
      = (Ret (GetOrderDto ((order_dto ?order)\<lparr>dto_CreatedAt := jx_Rounded ?J (dto_CreatedAt (order_dto ?order))\<rparr>)), w')"
    using send_get [OF libs(1) U, of ?s' ?J z "?id c'" "o_UUID order" w'] dto_roundtrip [OF libs(2) order_dto_wf]
    by (simp add: decode_body_response [OF libs(1)] decode_response_defs OrderDto_Validate_def)
  moreover have "(order_dto ?order)\<lparr>dto_CreatedAt := jx_Rounded ?J (dto_CreatedAt (order_dto ?order))\<rparr>
      = pending_document ?J user q r ?t"
    using doc(2,4-8)
    by (simp add: order_dto_def pending_document_def Let_def r ps Order_TotalPrice_def OrderStatusFromModelToApi_def)
  ultimately show ?thesis
    unfolding handler(2) libs(3,4) send_confirmed(2) [where whoami = ?who, OF U session(1) refl refl] r using doc(3) by simp
qed

text \<open>A deployment, a caller and a request for the witness.\<close>

definition demo_env :: http_env where
  "demo_env = \<lparr>he_http = plain_http, he_jx = plain_jx, he_uuid = unary_uuid_lib, he_status = chain_FromError,
     he_json = hl_WriteJson plain_http, he_render = (\<lambda>_. ''failed''), he_instruments = None, he_fresh = (5, 1234)\<rparr>"

definition demo_auth :: "system whoami_stub" where
  "demo_auth c s = ret (uuid_String unary_uuid_lib 8, s)"

definition demo_request :: CreateOrderRequest where
  "demo_request = \<lparr>cr_HullUUID = 1, cr_EngineUUID = 2, cr_ShieldUUID = OptNil_Reset uuid_Nil, cr_WeaponUUID = OptNil_Reset uuid_Nil\<rparr>"

abbreviation demo_handler :: "order_error err + system http_handler" where
  "demo_handler \<equiv> deployed_handler demo demo_env calm_env (healthy (\<lambda>_. 0)) 99 None demo_auth"

lemma demo_whoami: "OrderIAMClient_Whoami (dp_uuid demo) (dp_ord_status demo) demo_auth c 77 w = (Ret (8, 77), w)"
  by (simp add: OrderIAMClient_Whoami_def demo_auth_def demo_def act_simps uuid_lib_parse [OF unary_uuid_lib_ok])

lemma demo_created:
  assumes "demo_handler = Inr H"
  obtains r where "sendCreateOrder plain_http plain_jx (bearer_client (''Bearer '' @ uuid_String unary_uuid_lib 77) H)
      background_ctx demo_request demo_start = (Ret (CreateOrderOK r), demo_create)"
proof -
  let ?s = "system_server demo demo_env calm_env (healthy (\<lambda>_. 0)) 99 None"
  let ?run = "OrderService_Create (system_service demo calm_env (healthy (\<lambda>_. 0)) 99 None) demo_ctx 5 1234 two_parts demo_start"
  have dep: "deployed_env demo demo_env" by (simp add: deployed_env_def demo_env_def demo_def)
  have U: "dp_uuid demo = unary_uuid_lib" and e: "he_http demo_env = plain_http" "he_jx demo_env = plain_jx" "he_fresh demo_env = (5, 1234)"
    by (simp_all add: demo_def demo_env_def)
  have H: "H = AuthMiddleware unary_uuid_lib (OrderIAMClient_Whoami unary_uuid_lib (dp_ord_status demo) demo_auth)
      (ServeHTTP plain_http plain_jx unary_uuid_lib ?s)"
    using assms deployed_handler_is_system [OF dep] by (simp add: U e)
  have "case fst ?run of Ret order \<Rightarrow> True | _ \<Rightarrow> False" by code_simp
  then obtain order where "fst ?run = Ret order" by (auto split: res.splits)
  then have run: "?run = (Ret order, demo_create)" by (simp add: demo_create_def prod_eq_iff)
  have "in64 (Order_TotalPrice order)" by (simp add: TotalPrice_wrapped_sum)
  moreover have "sv_CreateOrder ?s demo_ctx demo_request demo_start
      = (Ret (CreateOrderOK \<lparr>co_OrderUUID = o_UUID order, co_TotalPrice = Order_TotalPrice order\<rparr>), demo_create)"
    using run by (simp add: system_server_def NewOrderServer_def e OrderApi_CreateOrder_def demo_request_def OptNil_Get_def
      OptNil_Reset_def act_simps flip: two_parts_def)
  moreover have "sv_prefix ?s = ''''" "opt_wf uuid_Nil (cr_ShieldUUID demo_request)" "opt_wf uuid_Nil (cr_WeaponUUID demo_request)"
    by (simp_all add: system_server_def NewOrderServer_def demo_request_def OptNil_Reset_def opt_wf_def)
  ultimately have "sendCreateOrder plain_http plain_jx (client_of plain_http plain_jx unary_uuid_lib ?s) demo_ctx demo_request demo_start
      = (Ret (CreateOrderOK \<lparr>co_OrderUUID = o_UUID order, co_TotalPrice = Order_TotalPrice order\<rparr>), demo_create)"
    using send_create [OF plain_http_ok unary_uuid_lib_ok plain_jx_ok, of ?s demo_request demo_ctx demo_start]
    by (simp add: decode_response_defs decode_body_response [OF plain_http_ok] small_roundtrips [OF plain_jx_ok])
  with that show ?thesis
    unfolding H send_confirmed(1) [where whoami = "OrderIAMClient_Whoami unary_uuid_lib (dp_ord_status demo) demo_auth",
        OF unary_uuid_lib_ok demo_whoami [unfolded U] refl refl] demo_ctx_def by blast
qed

theorem http_order_roundtrip_witness:
  "\<exists>H r. demo_handler = Inr H
    \<and> sendGetOrder plain_http plain_jx unary_uuid_lib 0 (bearer_client (''Bearer '' @ uuid_String unary_uuid_lib 77) H)
        background_ctx (co_OrderUUID r) demo_create
      = (Ret (GetOrderDto (pending_document plain_jx 8 demo_request r (oe_timestamp calm_env 1234))), demo_create)
    \<and> co_TotalPrice r = 2000"
proof -
  have dep: "deployed_env demo demo_env" by (simp add: deployed_env_def demo_env_def demo_def)
  then obtain H where H: "demo_handler = Inr H" using deployed_handler_is_system by blast
  obtain r where r: "sendCreateOrder plain_http plain_jx (bearer_client (''Bearer '' @ uuid_String unary_uuid_lib 77) H)
      background_ctx demo_request demo_start = (Ret (CreateOrderOK r), demo_create)"
    by (rule demo_created [OF H])
  have U: "dp_uuid demo = unary_uuid_lib" and e: "he_http demo_env = plain_http" "he_jx demo_env = plain_jx" "he_fresh demo_env = (5, 1234)"
    by (simp_all add: demo_def demo_env_def)
  have w: "odb_ok demo_start" "db_ok (sys_inv demo_start)" "part_of (sys_inv demo_start) uuid_Nil = None"
    by (simp add: odb_ok_def demo_start_def) code_simp+
  have who: "dp_whoami demo c 77 d = (Ret (8, 77), d)" for c d by (simp add: demo_def ret_def)
  have q: "opt_wf uuid_Nil (cr_ShieldUUID demo_request)" "opt_wf uuid_Nil (cr_WeaponUUID demo_request)"
    by (simp_all add: demo_request_def OptNil_Reset_def opt_wf_def)
  have md: "ctx_md_out background_ctx = []" by (simp add: background_ctx_def)
  have price: "wrap64 (\<Sum>u\<leftarrow>parts_uuids two_parts. p_price (the (part_of (sys_inv demo_start) u))) = 2000" by code_simp
  have ps: "two_parts = \<lparr>in_HullUUID = cr_HullUUID demo_request, in_EngineUUID = cr_EngineUUID demo_request,
      in_ShieldUUID = OptNil_Get (cr_ShieldUUID demo_request), in_WeaponUUID = OptNil_Get (cr_WeaponUUID demo_request)\<rparr>"
    by (simp add: two_parts_def demo_request_def OptNil_Get_def OptNil_Reset_def)
  from http_order_roundtrip [where e = demo_env and e' = demo_env and z = 0 and c' = background_ctx,
      unfolded e, OF _ _ refl refl demo_ok(1) dep dep healthy_up calm_env_ok w demo_whoami who md H H q _ ps,
      unfolded U, OF plain_http_ok plain_jx_ok r] price H
  show ?thesis by auto
qed

subsection \<open>Without a session\<close>

definition token_session :: "uuid_lib \<Rightarrow> string \<Rightarrow> uuid option" where
  "token_session U header = (if has_prefix header ''Bearer '' then uuid_Parse U (drop 7 header) else None)"

lemma http_Error_code: "hp_code (http_Error code msg) = code"
  by (simp add: http_Error_def)

lemma decode_plain_text:
  assumes "hl_ParseMediaType L ''text/plain; charset=utf-8'' = Some ''text/plain''"
  shows "decode_body L decode (http_Error code msg) = Err (Ext (Foreign ''InvalidContentType''))"
  using assms by (simp add: decode_body_def http_Error_def)

text \<open>
  C37. What the API client sees without a session that the IAM service confirms, whatever header it
  sends: no operation reaches the service, and none has a readable answer. The middleware answers 401 in
  plain text. Creating an order declares a 401 response, in JSON, so the client fails on the
  content type and never returns it; for the other operations the status itself is unexpected.
\<close>

theorem refused_session_unreadable:
  assumes U: "uuid_lib_ok (he_uuid e)"
    and plain: "hl_ParseMediaType (he_http e) ''text/plain; charset=utf-8'' = Some ''text/plain''"
    and H: "NewHTTPHandlerWithProducer e ct pool repoDo Do inventory payment auth producer = Inr H"
    and refused: "case token_session (he_uuid e) header of None \<Rightarrow> w' = w
      | Some sid \<Rightarrow> \<exists>err. OrderIAMClient_Whoami (he_uuid e) (he_status e) auth c sid w = (Err err, w')"
  shows "sendCreateOrder (he_http e) (he_jx e) (bearer_client header H) c q w
      = (Err (Wrap ''decode response'' (Ext (Foreign ''InvalidContentType''))), w')
    \<and> sendGetOrder (he_http e) (he_jx e) (he_uuid e) z (bearer_client header H) c u w
      = (Err (Wrap ''decode response'' (Ext (Foreign ''UnexpectedStatusCode''))), w')
    \<and> sendPayOrder (he_http e) (he_jx e) (he_uuid e) (bearer_client header H) c p u w
      = (Err (Wrap ''decode response'' (Ext (Foreign ''UnexpectedStatusCode''))), w')
    \<and> sendCancelOrder (he_http e) (he_jx e) (he_uuid e) (bearer_client header H) c u w
      = (Err (Wrap ''decode response'' (Ext (Foreign ''UnexpectedStatusCode''))), w')"
proof -
  let ?who = "OrderIAMClient_Whoami (he_uuid e) (he_status e) auth"
  obtain router where h: "H = AuthMiddleware (he_uuid e) ?who router"
    using H by (auto simp: NewHTTPHandlerWithProducer_def Let_def split: option.splits)
  have ex: "exchange (bearer_client header H) r decode w = (Err (Wrap ''decode response'' err), w')"
    if "hq_ctx r = c" "\<And>msg. decode (http_Error 401 msg) = Err err" for r err and decode :: "http_resp \<Rightarrow> ('b, order_error) res"
  proof -
    have "bearer_session (he_uuid e) (r\<lparr>hq_authorization := header\<rparr>) = token_session (he_uuid e) header"
      by (simp add: bearer_session_def token_session_def)
    then have "\<exists>msg. exchange (bearer_client header H) r decode w = (wrapR ''decode response'' (decode (http_Error 401 msg)), w')"
      unfolding h using refused [folded that(1)] by (intro exchange_refused [OF U]) (simp only:)
    then show ?thesis by (auto simp: that(2))
  qed
  show ?thesis
    unfolding sendCreateOrder_def sendGetOrder_def sendPayOrder_def sendCancelOrder_def
      encodeCreateOrderRequest_def encodePayOrderRequest_def
    by (intro conjI ex) (simp_all add: decode_response_defs decode_plain_text [OF plain] http_Error_code)
qed

definition refusing_auth :: "system whoami_stub" where
  "refusing_auth c s = fail (Status Unauthenticated)"

theorem refused_session_unreadable_witness:
  "\<exists>H. deployed_handler demo demo_env calm_env (healthy (\<lambda>_. 0)) 99 None refusing_auth = Inr H
    \<and> sendCreateOrder plain_http plain_jx (bearer_client (''Bearer '' @ uuid_String unary_uuid_lib 77) H) background_ctx demo_request demo_start
      = (Err (Wrap ''decode response'' (Ext (Foreign ''InvalidContentType''))), demo_start)"
proof -
  have e: "he_uuid demo_env = unary_uuid_lib" "he_http demo_env = plain_http" "he_jx demo_env = plain_jx" by (simp_all add: demo_env_def)
  obtain H where H: "deployed_handler demo demo_env calm_env (healthy (\<lambda>_. 0)) 99 None refusing_auth = Inr H"
    using deployed_handler_is_system [of demo demo_env] by (simp add: deployed_env_def demo_env_def demo_def)
  have "token_session unary_uuid_lib (''Bearer '' @ uuid_String unary_uuid_lib 77) = Some 77"
    by (simp add: token_session_def has_prefix_def uuid_lib_parse [OF unary_uuid_lib_ok])
  moreover have "\<exists>err. OrderIAMClient_Whoami unary_uuid_lib (he_status demo_env) refusing_auth background_ctx 77 demo_start = (Err err, demo_start)"
    by (simp add: OrderIAMClient_Whoami_def refusing_auth_def act_simps)
  ultimately have refused: "case token_session unary_uuid_lib (''Bearer '' @ uuid_String unary_uuid_lib 77) of None \<Rightarrow> demo_start = demo_start
      | Some sid \<Rightarrow> \<exists>err. OrderIAMClient_Whoami unary_uuid_lib (he_status demo_env) refusing_auth background_ctx sid demo_start = (Err err, demo_start)"
    by simp
  have plain: "hl_ParseMediaType plain_http ''text/plain; charset=utf-8'' = Some ''text/plain''" by (simp add: plain_http_def)
  from refused_session_unreadable [where e = demo_env, unfolded e, OF unary_uuid_lib_ok plain H [unfolded deployed_handler_def] refused] H
  show ?thesis by auto
qed

end
