(* ===== verification/Spec2Isabelle.thy ===== *)
theory Spec2Isabelle
  imports Inventory_Locks Inventory_Compatibility System_Conservation Order_Interleaving System_Sessions
    System_Assembly App_Main App_Transport Platform_Tracing OpenApi_Text OpenApi_Telemetry System_Http
begin

text \<open>
  Rocket Factory (\<open>src/\<close>): five Go services that sell, pay for and assemble spaceships.

  \<^bold>\<open>The program.\<close> The order service takes HTTP requests (create, get, pay, cancel), keeps orders in
  PostgreSQL, calls the inventory and the payment service over gRPC and publishes \<open>OrderPaid\<close> on Kafka.
  The inventory service keeps parts with a stock and a reserved counter and checks whether the parts of
  a ship fit. The assembly service consumes \<open>OrderPaid\<close>, builds for a random time and publishes
  \<open>ShipAssembled\<close>, which the order service consumes to commit the parts and finish the order. The IAM
  service keeps users in PostgreSQL and sessions in Redis; order and inventory service ask it who a
  session belongs to. A session travels as an HTTP header, as gRPC metadata and as a Kafka header.

  \<^bold>\<open>Theories and sources.\<close>
  \<^item> \<open>Prelude\<close>: Go errors with \<open>errors.Is\<close>, results with panics, actions on a world, 64-bit integers with
    their wrap-around, the uuid library, and the contract of the transaction manager (locale
    \<open>tx_manager\<close>) that both services with a database receive.
  \<^item> \<open>Platform_Auth\<close>: \<open>platform/pkg/auth\<close>, \<open>tracing\<close> and \<open>util\<close>: context values and metadata.
    \<open>Platform_Kafka\<close>: \<open>platform/pkg/kafka\<close> and \<open>middleware/kafka\<close>: messages, middlewares, the claim
    loop, the consume loop, the producer. \<open>Platform_Closer\<close>: \<open>platform/pkg/closer\<close> and the \<open>Run\<close> methods.
    \<open>Proto\<close>: the protobuf messages.
  \<^item> \<open>Inventory_Domain\<close>, \<open>Inventory_Repository\<close>, \<open>Inventory_Service\<close>, \<open>Inventory_Api\<close>: the layers of
    \<open>inventory/internal\<close> (\<open>model\<close> and \<open>service/domain\<close>, \<open>repository\<close>, \<open>service/application\<close>,
    \<open>api\<close> with interceptors and the IAM client). \<open>Inventory_Stock\<close> has the abstract specification of
    the stock and the refinement, \<open>Inventory_Compatibility\<close> that of the slot check,
    \<open>Inventory_Locks\<close> the row locks of concurrent transactions as a step relation.
  \<^item> \<open>Order_Model\<close>, \<open>Order_Repository\<close>, \<open>Order_Service\<close>, \<open>Order_Clients\<close>, \<open>Order_Api\<close>: the layers of
    \<open>order/internal\<close>. \<open>Order_Lifecycle\<close> has the locale of what the service needs from its
    surroundings and the status machine, \<open>Order_Properties\<close> the effects of the operations,
    \<open>Order_Interleaving\<close> the transactions of concurrent requests statement by statement.
  \<^item> \<open>Payment\<close>: \<open>payment/internal\<close>. \<open>Assembly\<close>: \<open>assembly/internal\<close> and \<open>assembly/pkg/app\<close>.
  \<^item> \<open>Iam_Repository\<close>, \<open>Iam_Sessions\<close>, \<open>Iam_Service\<close>, \<open>Iam_Properties\<close>: \<open>iam/internal\<close>; the session store
    is a locale that the Redis repository implements.
  \<^item> \<open>App_Wiring\<close>: the dependency injection containers and init functions of the five services
    (\<open>di.go\<close> and \<open>app.go\<close> of every \<open>internal/app\<close>).
  \<^item> \<open>Platform_Telemetry\<close>: \<open>platform/pkg/logger\<close>. \<open>Platform_Setup\<close>: metric and trace providers, the
    Redis client and the health service of \<open>platform/pkg\<close>. \<open>App_Config\<close>: the configuration structs of
    the five services with the defaults in their tags. \<open>App_Main\<close>: the \<open>main\<close> functions.
    \<open>App_Transport\<close>: keepalive settings of gRPC servers and clients, sarama settings, topics and groups.
    \<open>Platform_Tracing\<close>: trace identifiers (\<open>platform/pkg/tracing/context.go\<close>).
  \<^item> \<open>Json\<close>, \<open>OpenApi_Json\<close>, \<open>OpenApi_Server\<close>, \<open>OpenApi_Client\<close>: the code ogen generated in
    \<open>shared/pkg/openapi/order/v1\<close>: JSON values, schemas with their encoders, decoders and validators;
    router, request decoders, handlers and response encoders; the client. \<open>OpenApi_Text\<close> has the text
    methods of every type (locale \<open>json_schema\<close>), \<open>OpenApi_Config\<close> the options and the construction of
    server and client, \<open>OpenApi_Telemetry\<close> what handlers and client report and the routes.
    \<open>Order_Typing\<close> puts the order API behind them.
  \<^item> \<open>Proto_Grpc\<close>: the generated gRPC clients, handlers and service descriptions of
    \<open>shared/pkg/proto\<close>; \<open>System_Grpc\<close> connects them with the interceptors of the servers.
  \<^item> \<open>System_Http\<close>: the \<open>pkg/app\<close> packages, and the order service end to end behind its HTTP API.
  \<^item> \<open>System_Stock\<close> and \<open>System_Conservation\<close> compose order, inventory and payment service with the
    interceptors of both sides; \<open>System_Sessions\<close> composes IAM with its two clients; \<open>System_Assembly\<close>
    composes order and assembly service over Kafka.

  \<^bold>\<open>How code is modelled.\<close> A method is a definition of the same name, prefixed by its type where names
  clash. A struct is a record, a sentinel error a constructor, \<open>fmt.Errorf\<close> with \<open>%w\<close> is \<open>Wrap\<close>. An
  operation is an action, a function from the world to a result (value, error or panic) and the new
  world; a world is the record of the tables, caches and logs it can reach. SQL statements are functions
  on lists of rows, in the clauses of the query text. Whatever is not in the repository is a parameter:
  the outcome of each statement of the driver, the order in which the database scans rows, clocks and
  fresh identifiers, the random source, bcrypt, Redis, gRPC transport and status library, Kafka client
  and broker, protobuf codec. Laws about them are named hypotheses or locale assumptions, each with an
  instance on which the witnesses run.

  \<^bold>\<open>What is shown.\<close>
  \<^item> Inventory: the counters stay within the stock under any sequence of bulk calls and failures, bulk
    calls are atomic and refine their specification, \<open>Release\<close> undoes \<open>Reserve\<close>, calls with identifiers
    cannot deadlock, the compatibility answer is the specified one, every call needs a session.
  \<^item> Order: statuses only move along the arrows of the status machine, a payment happens once and has
    exactly its effects, a redelivered assembly message does nothing, the front door, the error tables;
    of concurrent payments and cancellations of one order at most one succeeds, and the row lock never
    leaves all of them stuck.
  \<^item> IAM: a session answers until its expiry and never after it or after a logout; a registered user can
    log in; refusals are indistinguishable; nothing but a status leaves the service.
  \<^item> Assembly and Kafka: build times in their bounds, which failed messages come back, when the consume
    loop ends, and that a paid order reaches the assembly transaction of the same order.
  \<^item> HTTP API: the router is the four patterns of the API description, the decoders accept exactly the
    objects with the required fields and report the others, documents survive encoding and decoding,
    the client behind the server is the handler itself, failures have their typed answers, no order
    the service can store makes the answer of \<open>GetOrder\<close> unreadable, and the 401 of the middleware always is;
    the telemetry of the server changes no answer and counts every request once.
  \<^item> gRPC: the generated clients over the generated servers are the stubs the system theories use.
  \<^item> Telemetry and configuration: stdout and collector agree on which records they take; services in
    one environment agree on brokers, topics and addresses, consumers that start late miss nothing, and no
    server closes a connection for the pings of a client.
  \<^item> Lifecycle: closers run last in first out past failures, containers hold singletons, the order of
    start-up and shutdown of each service, and that an exit of the order service has a failing call.
  \<^item> System: the reserved counter of a part equals the number of open orders that contain it, in every
    reachable state of a deployment without infrastructure failures; an order that the API client
    created is read back with its user, parts, price and status through both services; and what happens to this
    invariant when an insert or a commit fails at the wrong moment.

  \<^bold>\<open>Bounds and fuel.\<close> No fuel is used: loops are structural recursion on lists, \<open>Consume\<close> is a
  partial function whose value \<open>None\<close> means that it never returns, and its theorem says when it returns.
  Integers of Go are \<^typ>\<open>int\<close> with \<open>wrap64\<close> at every addition and subtraction of the code.

  \<^bold>\<open>Not modelled.\<close> Of the generated HTTP code: the middleware hook, which no service installs. Of
  the protobuf code: reflection, raw descriptors and the field accessors; messages are records. Timeouts,
  retries and batch sizes handed to libraries are not interpreted. The tests, mocks and migrations, which
  are data or generated for tests. Log texts and the values of durations, which no code reads back.
\<close>

end
